(* ===== verification/Prelude.thy ===== *)
theory Prelude imports "HOL-Library.Word" begin

text \<open>
  What the components share: the machine types of the C and Go sources, the collections of
  facts the component theories extend, little-endian byte encodings, and the alignment
  arithmetic of the layout rules.

  The C programs and the Go code use unsigned integers of 8, 16, 32 and 64 bits; they are
  words of those widths, so that their arithmetic wraps around as it does in the code.
\<close>

section \<open>Machine types\<close>

type_synonym u8 = "8 word"
type_synonym u16 = "16 word"
type_synonym u32 = "32 word"
type_synonym u64 = "64 word"
type_synonym byte = "8 word"

section \<open>Collections\<close>

text \<open>
  \<open>layout\<close> holds the size and the alignment of every C type that has been laid out,
  \<open>offsets\<close> the member offsets derived from them, \<open>bytes\<close> the equations that
  evaluate byte encodings of concrete numbers.
\<close>

named_theorems layout
named_theorems offsets
named_theorems bytes

section \<open>Alignment arithmetic\<close>

definition align_up :: "nat \<Rightarrow> nat \<Rightarrow> nat" where
  "align_up a n = (n + a - 1) div a * a"

lemma align_up_dvd [simp, intro]: "a dvd align_up a n"
  by (simp add: align_up_def)

lemma align_up_ge: "0 < a \<Longrightarrow> n \<le> align_up a n"
proof -
  assume a: "0 < a"
  have "(n + a - 1) mod a < a" using a by simp
  moreover have "(n + a - 1) div a * a + (n + a - 1) mod a = n + a - 1" by simp
  ultimately show ?thesis unfolding align_up_def using a by linarith
qed

lemma align_up_less: "0 < a \<Longrightarrow> align_up a n < n + a"
proof -
  assume a: "0 < a"
  have "(n + a - 1) div a * a \<le> n + a - 1" by (metis div_mod_decomp le_add1)
  with a show ?thesis unfolding align_up_def by linarith
qed

section \<open>Little-endian encodings\<close>

fun le_bytes :: "nat \<Rightarrow> nat \<Rightarrow> byte list" where
  "le_bytes 0 x = []"
| "le_bytes (Suc n) x = of_nat (x mod 256) # le_bytes n (x div 256)"

fun le_nat :: "byte list \<Rightarrow> nat" where
  "le_nat [] = 0"
| "le_nat (b # bs) = unat b + 256 * le_nat bs"

lemma length_le_bytes [simp]: "length (le_bytes n x) = n"
  by (induction n arbitrary: x) auto

lemma le_nat_le_bytes [simp]: "le_nat (le_bytes n x) = x mod 256 ^ n"
proof (induction n arbitrary: x)
  case (Suc n)
  have "unat (of_nat (x mod 256) :: byte) = x mod 256"
    by (simp add: unat_of_nat)
  moreover have "x mod (256 * 256 ^ n) = x mod 256 + 256 * (x div 256 mod 256 ^ n)"
    by (rule mod_mult2_eq [of x 256 "256 ^ n", simplified mult.commute add.commute])
  ultimately show ?case using Suc by simp
qed simp

lemma le_nat_less: "le_nat bs < 256 ^ length bs"
proof (induction bs)
  case (Cons b bs)
  have "unat b < 256" using unsigned_less [of b] by simp
  with Cons show ?case by simp
qed simp

definition le_u32 :: "byte list \<Rightarrow> u32" where
  "le_u32 bs = of_nat (le_nat bs)"

definition le_u64 :: "byte list \<Rightarrow> u64" where
  "le_u64 bs = of_nat (le_nat bs)"

definition u32_bytes :: "u32 \<Rightarrow> byte list" where
  "u32_bytes w = le_bytes 4 (unat w)"

definition u64_bytes :: "u64 \<Rightarrow> byte list" where
  "u64_bytes w = le_bytes 8 (unat w)"

lemma length_u32_bytes [simp]: "length (u32_bytes w) = 4"
  by (simp add: u32_bytes_def)

lemma length_u64_bytes [simp]: "length (u64_bytes w) = 8"
  by (simp add: u64_bytes_def)

lemma le_u32_u32_bytes [simp]: "le_u32 (u32_bytes w) = w"
  using unsigned_less [of w, where ?'a = nat] by (simp add: le_u32_def u32_bytes_def)

lemma le_u64_u64_bytes [simp]: "le_u64 (u64_bytes w) = w"
  using unsigned_less [of w, where ?'a = nat] by (simp add: le_u64_def u64_bytes_def)

section \<open>Strings and their bytes\<close>

definition string_bytes :: "string \<Rightarrow> byte list" where
  "string_bytes s = map (\<lambda>c. of_nat (of_char c)) s"

definition bytes_string :: "byte list \<Rightarrow> string" where
  "bytes_string bs = map (\<lambda>b. char_of (unat b)) bs"

lemma length_string_bytes [simp]: "length (string_bytes s) = length s"
  by (simp add: string_bytes_def)

lemma length_bytes_string [simp]: "length (bytes_string bs) = length bs"
  by (simp add: bytes_string_def)

lemma unat_of_char: "unat (of_nat (of_char c) :: byte) = of_char c"
proof -
  have "(of_char c :: nat) < 256" by (rule nat_of_char_less_256)
  then show ?thesis by (simp add: unat_of_nat)
qed

lemma bytes_string_string_bytes [simp]: "bytes_string (string_bytes s) = s"
  by (simp add: string_bytes_def bytes_string_def unat_of_char comp_def)

lemma bytes_string_append [simp]: "bytes_string (xs @ ys) = bytes_string xs @ bytes_string ys"
  by (simp add: bytes_string_def)

section \<open>Counting in an updated list\<close>

lemma length_filter_update:
  "i < length xs \<Longrightarrow>
   length (filter P (xs[i := y])) + of_bool (P (xs ! i)) = length (filter P xs) + of_bool (P y)"
proof (induction xs arbitrary: i)
  case (Cons x xs)
  then show ?case by (cases i) auto
qed simp

end
