(* ===== verification/C_Layout.thy ===== *)
theory C_Layout imports Prelude begin

text \<open>
  The C types of the kernel header
  (\<^verbatim>\<open>src/autoscaler/conc_req_monitoring/bpf/vmlinux.h\<close>) and the x86-64 System V
  rules that give every aggregate its size, its alignment and the offsets of its members.
  The eBPF probe reads kernel objects by address, so which bytes it reads is decided by these
  rules and by the declarations of the theories \<^verbatim>\<open>Kernel_*\<close>.

  The first part declares the types and the layout functions, with bit fields, packed
  aggregates, unions and anonymous members. The second part proves what every layout
  satisfies: alignments are powers of two, a member lies inside its aggregate, and a member of
  an unpacked aggregate is aligned.
\<close>

section \<open>C types\<close>

datatype cbase = CBool | CChar | CUChar | CSChar | CShort | CUShort | CInt | CUInt
  | CLong | CULong | CLLong | CULLong

text \<open>
  An aggregate carries the flag of \<^verbatim>\<open>__attribute__((packed))\<close> and its members in
  declaration order; an anonymous member has the empty name. \<open>Bits\<close> is a bit field
  (\<^verbatim>\<open>T name: w\<close>), unnamed where the header pads with \<^verbatim>\<open>long: 64\<close>. A pointer
  keeps the name of the type it points to, which is what makes the types well founded. Every
  enumeration translated from the header has its values in 32 bits, so it takes 4 bytes.
\<close>

datatype ctype =
    CBase cbase
  | CPtr string
  | CFunPtr
  | CEnum "(string \<times> int) list"
  | CArray ctype nat
  | CStruct bool "cfield list"
  | CUnion bool "cfield list"
and cfield =
    Fld string ctype
  | Bits string ctype nat

fun base_size :: "cbase \<Rightarrow> nat" where
  "base_size CBool = 1"
| "base_size CChar = 1"
| "base_size CUChar = 1"
| "base_size CSChar = 1"
| "base_size CShort = 2"
| "base_size CUShort = 2"
| "base_size CInt = 4"
| "base_size CUInt = 4"
| "base_size CLong = 8"
| "base_size CULong = 8"
| "base_size CLLong = 8"
| "base_size CULLong = 8"

section \<open>Sizes and alignments\<close>

fun calign :: "ctype \<Rightarrow> nat" and fields_align :: "cfield list \<Rightarrow> nat" where
  "calign (CBase b) = base_size b"
| "calign (CPtr _) = 8"
| "calign CFunPtr = 8"
| "calign (CEnum _) = 4"
| "calign (CArray t _) = calign t"
| "calign (CStruct p fs) = (if p then 1 else fields_align fs)"
| "calign (CUnion p fs) = (if p then 1 else fields_align fs)"
| "fields_align [] = 1"
| "fields_align (Fld _ t # fs) = max (calign t) (fields_align fs)"
| "fields_align (Bits n t _ # fs) = (if n = [] then fields_align fs else max (calign t) (fields_align fs))"

text \<open>
  Positions inside an aggregate are counted in bits. A plain member starts at the next
  multiple of its alignment; a bit field continues in its storage unit when it fits there and
  opens a new unit otherwise; a bit field of width 0 closes the current unit. The unit of a
  bit field is its declared integer type, whose size is its alignment.
\<close>

definition place :: "bool \<Rightarrow> nat \<Rightarrow> nat \<Rightarrow> nat" where
  "place p a pos = align_up (8 * (if p then 1 else a)) pos"

definition bit_place :: "bool \<Rightarrow> nat \<Rightarrow> nat \<Rightarrow> nat \<Rightarrow> nat" where
  "bit_place p u w pos =
     (if w = 0 then align_up u pos
      else if p \<or> pos div u = (pos + w - 1) div u then pos
      else align_up u pos)"

fun csize :: "ctype \<Rightarrow> nat"
  and fields_end :: "bool \<Rightarrow> cfield list \<Rightarrow> nat \<Rightarrow> nat"
  and fields_max :: "cfield list \<Rightarrow> nat" where
  "csize (CBase b) = base_size b"
| "csize (CPtr _) = 8"
| "csize CFunPtr = 8"
| "csize (CEnum _) = 4"
| "csize (CArray t n) = csize t * n"
| "csize (CStruct p fs) = align_up (8 * calign (CStruct p fs)) (fields_end p fs 0) div 8"
| "csize (CUnion p fs) = align_up (8 * calign (CUnion p fs)) (fields_max fs) div 8"
| "fields_end p [] pos = pos"
| "fields_end p (Fld n t # fs) pos = fields_end p fs (place p (calign t) pos + 8 * csize t)"
| "fields_end p (Bits n t w # fs) pos = fields_end p fs (bit_place p (8 * calign t) w pos + w)"
| "fields_max [] = 0"
| "fields_max (Fld n t # fs) = max (8 * csize t) (fields_max fs)"
| "fields_max (Bits n t w # fs) = max w (fields_max fs)"

section \<open>Offsets\<close>

text \<open>
  The byte offset and the type of a member, looking through anonymous members as C does.
\<close>

fun field_off :: "ctype \<Rightarrow> string \<Rightarrow> (nat \<times> ctype) option"
  and struct_off :: "bool \<Rightarrow> cfield list \<Rightarrow> nat \<Rightarrow> string \<Rightarrow> (nat \<times> ctype) option"
  and union_off :: "cfield list \<Rightarrow> string \<Rightarrow> (nat \<times> ctype) option" where
  "field_off (CStruct p fs) nm = struct_off p fs 0 nm"
| "field_off (CUnion p fs) nm = union_off fs nm"
| "field_off (CBase b) nm = None"
| "field_off (CPtr s) nm = None"
| "field_off CFunPtr nm = None"
| "field_off (CEnum es) nm = None"
| "field_off (CArray t n) nm = None"
| "struct_off p [] pos nm = None"
| "struct_off p (Fld n t # fs) pos nm =
     (if n = nm then Some (place p (calign t) pos div 8, t)
      else case (if n = [] then field_off t nm else None) of
          Some (d, t') \<Rightarrow> Some (place p (calign t) pos div 8 + d, t')
        | None \<Rightarrow> struct_off p fs (place p (calign t) pos + 8 * csize t) nm)"
| "struct_off p (Bits n t w # fs) pos nm =
     struct_off p fs (bit_place p (8 * calign t) w pos + w) nm"
| "union_off [] nm = None"
| "union_off (Fld n t # fs) nm =
     (if n = nm then Some (0, t)
      else case (if n = [] then field_off t nm else None) of
          Some (d, t') \<Rightarrow> Some (d, t')
        | None \<Rightarrow> union_off fs nm)"
| "union_off (Bits n t w # fs) nm = union_off fs nm"

text \<open>
  A congruence for evaluating offsets: only the position is rewritten, not the members that are
  still to be searched.
\<close>

lemma struct_off_cong: "pos = pos' \<Longrightarrow> struct_off p fs pos nm = struct_off p fs pos' nm"
  by simp

text \<open>\<^verbatim>\<open>offsetof(T, a.b.c)\<close>: the offsets along a path of member names add up.\<close>

fun offset_of :: "ctype \<Rightarrow> string list \<Rightarrow> (nat \<times> ctype) option" where
  "offset_of t [] = Some (0, t)"
| "offset_of t (n # ns) =
     (case field_off t n of
        None \<Rightarrow> None
      | Some (d, t') \<Rightarrow>
          (case offset_of t' ns of None \<Rightarrow> None | Some (e, t'') \<Rightarrow> Some (d + e, t'')))"

lemmas [layout] = align_up_def place_def bit_place_def

section \<open>What every layout satisfies\<close>

lemma base_size_cases: "base_size b \<in> {1, 2, 4, 8}"
  by (cases b) auto

text \<open>Alignments are powers of two up to 8, so the smaller of two divides the larger.\<close>

lemma align_cases:
  "calign t \<in> {1, 2, 4, 8}"
  "fields_align fs \<in> {1, 2, 4, 8}"
  by (induction t and fs rule: calign_fields_align.induct)
    (use base_size_cases in \<open>auto simp: max_def\<close>)

lemma align_pos [simp, intro]: "0 < calign t" "0 < fields_align fs"
  using align_cases(1) [of t] align_cases(2) [of fs] by auto

lemma align_dvd_mono:
  "\<lbrakk>a \<in> {1, 2, 4, 8}; b \<in> {1, 2, 4, 8 :: nat}; a \<le> b\<rbrakk> \<Longrightarrow> a dvd b"
  by auto

lemma place_ge: "0 < a \<Longrightarrow> pos \<le> place p a pos"
  by (simp add: place_def align_up_ge)

lemma place_dvd8 [simp]: "8 dvd place p a pos"
  unfolding place_def by (meson align_up_dvd dvd_mult_left)

lemma place_dvd: "a dvd place False a pos div 8"
proof -
  have "place False a pos = (pos + 8 * a - 1) div (8 * a) * a * 8"
    by (simp add: place_def align_up_def)
  then show ?thesis by (metis dvd_triv_right nonzero_mult_div_cancel_right zero_neq_numeral)
qed

lemma bit_place_ge: "0 < u \<Longrightarrow> pos \<le> bit_place p u w pos"
  by (simp add: bit_place_def align_up_ge)

lemma csize_struct_ge: "fields_end p fs 0 \<le> 8 * csize (CStruct p fs)"
proof -
  have "8 dvd align_up (8 * calign (CStruct p fs)) (fields_end p fs 0)"
    by (meson align_up_dvd dvd_mult_left)
  then show ?thesis
    using align_up_ge [of "8 * calign (CStruct p fs)"] by (simp del: calign.simps)
qed

lemma csize_union_ge: "fields_max fs \<le> 8 * csize (CUnion p fs)"
proof -
  have "8 dvd align_up (8 * calign (CUnion p fs)) (fields_max fs)"
    by (meson align_up_dvd dvd_mult_left)
  then show ?thesis
    using align_up_ge [of "8 * calign (CUnion p fs)"] by (simp del: calign.simps)
qed

lemma fields_end_mono: "pos \<le> fields_end p fs pos"
proof (induction fs arbitrary: pos)
  case (Cons f fs)
  have place: "pos \<le> place p (calign t) pos" for t by (rule place_ge) simp
  have bits: "pos \<le> bit_place p (8 * calign t) w pos" for t w by (rule bit_place_ge) simp
  show ?case
  proof (cases f)
    case (Fld n t)
    then show ?thesis
      using place [of t] Cons.IH [of "place p (calign t) pos + 8 * csize t"] by simp
  next
    case (Bits n t w)
    then show ?thesis
      using bits [of t w] Cons.IH [of "bit_place p (8 * calign t) w pos + w"] by simp
  qed
qed simp

subsection \<open>A member lies inside its aggregate\<close>

lemma member_inside:
  "field_off t nm = Some (d, t') \<Longrightarrow> d + csize t' \<le> csize t"
  "struct_off p fs pos nm = Some (d, t') \<Longrightarrow>
     pos \<le> 8 * d \<and> 8 * (d + csize t') \<le> fields_end p fs pos"
  "union_off fs nm = Some (d, t') \<Longrightarrow> 8 * (d + csize t') \<le> fields_max fs"
proof (induction t nm and p fs pos nm and fs nm arbitrary: d t' and d t' and d t'
    rule: field_off_struct_off_union_off.induct)
  case (1 p fs nm)
  then show ?case using csize_struct_ge [of p fs] by fastforce
next
  case (2 p fs nm)
  then show ?case using csize_union_ge [of fs p] by fastforce
next
  case (9 p n t fs pos nm)
  let ?s = "place p (calign t) pos"
  have start: "pos \<le> ?s" "8 * (?s div 8) = ?s" by (simp_all add: place_ge)
  have rest: "?s + 8 * csize t \<le> fields_end p fs (?s + 8 * csize t)" by (rule fields_end_mono)
  show ?case
  proof (cases "n = nm")
    case True
    with 9 start rest show ?thesis by auto
  next
    case False
    show ?thesis
    proof (cases "if n = [] then field_off t nm else None")
      case None
      with False 9 show ?thesis using start by fastforce
    next
      case (Some r)
      then obtain e t'' where r: "n = []" "field_off t nm = Some (e, t'')"
        by (cases r) (auto split: if_splits)
      with False "9.IH"(1) have "e + csize t'' \<le> csize t" by auto
      moreover from r False "9.prems" have "d = ?s div 8 + e" "t' = t''" by auto
      ultimately show ?thesis using start rest by auto
    qed
  qed
next
  case (10 p n t w fs pos nm)
  have "pos \<le> bit_place p (8 * calign t) w pos" by (rule bit_place_ge) simp
  with 10 show ?case by fastforce
next
  case (12 n t fs nm)
  show ?case
  proof (cases "n = nm")
    case True
    with 12 show ?thesis by auto
  next
    case False
    with 12 show ?thesis by (auto split: option.splits if_splits)
  qed
qed auto

lemma path_inside: "offset_of t ns = Some (d, t') \<Longrightarrow> d + csize t' \<le> csize t"
proof (induction ns arbitrary: t d)
  case (Cons n ns)
  then obtain a u b where "field_off t n = Some (a, u)" "offset_of u ns = Some (b, t')" "d = a + b"
    by (auto split: option.splits)
  with Cons.IH [of u b] member_inside(1) [of t n a u] show ?case by linarith
qed simp

subsection \<open>Members of an unpacked aggregate are aligned\<close>

fun unpacked :: "ctype \<Rightarrow> bool" and fields_unpacked :: "cfield list \<Rightarrow> bool" where
  "unpacked (CStruct p fs) = (\<not> p \<and> fields_unpacked fs)"
| "unpacked (CUnion p fs) = (\<not> p \<and> fields_unpacked fs)"
| "unpacked (CArray t n) = unpacked t"
| "unpacked (CBase b) = True"
| "unpacked (CPtr s) = True"
| "unpacked CFunPtr = True"
| "unpacked (CEnum es) = True"
| "fields_unpacked [] = True"
| "fields_unpacked (Fld n t # fs) = (unpacked t \<and> fields_unpacked fs)"
| "fields_unpacked (Bits n t w # fs) = (unpacked t \<and> fields_unpacked fs)"

lemma member_aligned:
  "field_off t nm = Some (d, t') \<Longrightarrow> unpacked t \<Longrightarrow>
     calign t' dvd d \<and> calign t' \<le> calign t \<and> unpacked t'"
  "struct_off p fs pos nm = Some (d, t') \<Longrightarrow> \<not> p \<Longrightarrow> fields_unpacked fs \<Longrightarrow>
     calign t' dvd d \<and> calign t' \<le> fields_align fs \<and> unpacked t'"
  "union_off fs nm = Some (d, t') \<Longrightarrow> fields_unpacked fs \<Longrightarrow>
     calign t' dvd d \<and> calign t' \<le> fields_align fs \<and> unpacked t'"
proof (induction t nm and p fs pos nm and fs nm arbitrary: d t' and d t' and d t'
    rule: field_off_struct_off_union_off.induct)
  case (9 p n t fs pos nm)
  let ?s = "place p (calign t) pos"
  have s: "calign t dvd ?s div 8" using 9 by (simp add: place_dvd)
  show ?case
  proof (cases "n = nm")
    case True
    with 9 s show ?thesis by auto
  next
    case False
    show ?thesis
    proof (cases "if n = [] then field_off t nm else None")
      case None
      with False 9 show ?thesis by (auto simp: le_max_iff_disj)
    next
      case (Some r)
      then obtain e t'' where r: "n = []" "field_off t nm = Some (e, t'')"
        by (cases r) (auto split: if_splits)
      with False 9 have e: "calign t'' dvd e" "calign t'' \<le> calign t" "unpacked t''" by auto
      from e(2) have "calign t'' dvd calign t" using align_cases(1) align_dvd_mono by metis
      with s have "calign t'' dvd ?s div 8" using dvd_trans by blast
      moreover from r False "9.prems" have "d = ?s div 8 + e" "t' = t''" by auto
      ultimately show ?thesis using e by (simp add: le_max_iff_disj)
    qed
  qed
qed (auto simp: le_max_iff_disj split: option.splits if_splits)

lemma path_aligned:
  "\<lbrakk>offset_of t ns = Some (d, t'); unpacked t\<rbrakk> \<Longrightarrow>
     calign t' dvd d \<and> calign t' \<le> calign t"
proof (induction ns arbitrary: t d)
  case (Cons n ns)
  then obtain a u b where st: "field_off t n = Some (a, u)" "offset_of u ns = Some (b, t')" "d = a + b"
    by (auto split: option.splits)
  from member_aligned(1) [OF st(1) Cons.prems(2)]
  have u: "calign u dvd a" "calign u \<le> calign t" "unpacked u" by auto
  from Cons.IH [OF st(2) u(3)] have b: "calign t' dvd b" "calign t' \<le> calign u" by auto
  from b(2) have "calign t' dvd calign u" using align_cases(1) align_dvd_mono by metis
  with u b st(3) show ?case using dvd_trans by auto
qed simp

end
