(* ===== verification/Kernel_Types_Task.thy ===== *)
theory Kernel_Types_Task imports C_Layout begin

text \<open>
  The objects a kprobe starts from: \<^verbatim>\<open>struct pt_regs\<close>, the register frame that holds
  the probed function's arguments, and \<^verbatim>\<open>struct task_struct\<close>, the current task, with every
  type they contain by value.

  Transcribed line by line from
  \<^verbatim>\<open>src/autoscaler/conc_req_monitoring/bpf/vmlinux.h\<close>: one definition per
  \<^verbatim>\<open>struct\<close>, \<^verbatim>\<open>union\<close>, \<^verbatim>\<open>enum\<close> and \<^verbatim>\<open>typedef\<close>, named
  after the declaration with its kind as a prefix, members in the header's order, and one line
  per member; an aggregate of more than 150 lines is cut into parts. Qualifiers are dropped. For
  each type its size and alignment are computed and added to \<open>layout\<close>, so that the types
  that contain it are laid out from these facts and not from its members again.
\<close>

section \<open>Declarations\<close>

definition typedef___u16 :: ctype where
  "typedef___u16 = CBase CUShort"

definition typedef_u16 :: ctype where
  "typedef_u16 = typedef___u16"

definition typedef___u64 :: ctype where
  "typedef___u64 = CBase CULLong"

definition typedef_u64 :: ctype where
  "typedef_u64 = typedef___u64"

definition struct_fred_cs :: ctype where
  "struct_fred_cs = CStruct False [
    Bits ''cs'' typedef_u64 16,
    Bits ''sl'' typedef_u64 2,
    Bits ''wfe'' typedef_u64 1]"

definition struct_fred_ss :: ctype where
  "struct_fred_ss = CStruct False [
    Bits ''ss'' typedef_u64 16,
    Bits ''sti'' typedef_u64 1,
    Bits ''swevent'' typedef_u64 1,
    Bits ''nmi'' typedef_u64 1,
    Bits [] (CBase CInt) 13,
    Bits ''vector'' typedef_u64 8,
    Bits [] (CBase CShort) 8,
    Bits ''type'' typedef_u64 4,
    Bits [] (CBase CChar) 4,
    Bits ''enclave'' typedef_u64 1,
    Bits ''lm'' typedef_u64 1,
    Bits ''nested'' typedef_u64 1,
    Bits [] (CBase CChar) 1,
    Bits ''insnlen'' typedef_u64 4]"

definition struct_pt_regs :: ctype where
  "struct_pt_regs = CStruct False [
    Fld ''r15'' (CBase CULong),
    Fld ''r14'' (CBase CULong),
    Fld ''r13'' (CBase CULong),
    Fld ''r12'' (CBase CULong),
    Fld ''bp'' (CBase CULong),
    Fld ''bx'' (CBase CULong),
    Fld ''r11'' (CBase CULong),
    Fld ''r10'' (CBase CULong),
    Fld ''r9'' (CBase CULong),
    Fld ''r8'' (CBase CULong),
    Fld ''ax'' (CBase CULong),
    Fld ''cx'' (CBase CULong),
    Fld ''dx'' (CBase CULong),
    Fld ''si'' (CBase CULong),
    Fld ''di'' (CBase CULong),
    Fld ''orig_ax'' (CBase CULong),
    Fld ''ip'' (CBase CULong),
    Fld [] (CUnion False [
      Fld ''cs'' typedef_u16,
      Fld ''csx'' typedef_u64,
      Fld ''fred_cs'' struct_fred_cs]),
    Fld ''flags'' (CBase CULong),
    Fld ''sp'' (CBase CULong),
    Fld [] (CUnion False [
      Fld ''ss'' typedef_u16,
      Fld ''ssx'' typedef_u64,
      Fld ''fred_ss'' struct_fred_ss])]"

definition typedef___u32 :: ctype where
  "typedef___u32 = CBase CUInt"

definition typedef_u32 :: ctype where
  "typedef_u32 = typedef___u32"

definition struct_thread_info :: ctype where
  "struct_thread_info = CStruct False [
    Fld ''flags'' (CBase CULong),
    Fld ''syscall_work'' (CBase CULong),
    Fld ''status'' typedef_u32,
    Fld ''cpu'' typedef_u32]"

definition typedef_atomic_t :: ctype where
  "typedef_atomic_t = CStruct False [
    Fld ''counter'' (CBase CInt)]"

definition struct_refcount_struct :: ctype where
  "struct_refcount_struct = CStruct False [
    Fld ''refs'' typedef_atomic_t]"

definition typedef_refcount_t :: ctype where
  "typedef_refcount_t = struct_refcount_struct"

definition struct_llist_node :: ctype where
  "struct_llist_node = CStruct False [
    Fld ''next'' (CPtr ''struct llist_node'')]"

definition struct___call_single_node :: ctype where
  "struct___call_single_node = CStruct False [
    Fld ''llist'' struct_llist_node,
    Fld [] (CUnion False [
      Fld ''u_flags'' (CBase CUInt),
      Fld ''a_flags'' typedef_atomic_t]),
    Fld ''src'' typedef_u16,
    Fld ''dst'' typedef_u16]"

definition struct_load_weight :: ctype where
  "struct_load_weight = CStruct False [
    Fld ''weight'' (CBase CULong),
    Fld ''inv_weight'' typedef_u32]"

definition struct_rb_node :: ctype where
  "struct_rb_node = CStruct False [
    Fld ''__rb_parent_color'' (CBase CULong),
    Fld ''rb_right'' (CPtr ''struct rb_node''),
    Fld ''rb_left'' (CPtr ''struct rb_node'')]"

definition struct_list_head :: ctype where
  "struct_list_head = CStruct False [
    Fld ''next'' (CPtr ''struct list_head''),
    Fld ''prev'' (CPtr ''struct list_head'')]"

definition typedef___s64 :: ctype where
  "typedef___s64 = CBase CLLong"

definition typedef_s64 :: ctype where
  "typedef_s64 = typedef___s64"

definition struct_sched_avg :: ctype where
  "struct_sched_avg = CStruct False [
    Fld ''last_update_time'' typedef_u64,
    Fld ''load_sum'' typedef_u64,
    Fld ''runnable_sum'' typedef_u64,
    Fld ''util_sum'' typedef_u32,
    Fld ''period_contrib'' typedef_u32,
    Fld ''load_avg'' (CBase CULong),
    Fld ''runnable_avg'' (CBase CULong),
    Fld ''util_avg'' (CBase CULong),
    Fld ''util_est'' (CBase CUInt)]"

definition struct_sched_entity :: ctype where
  "struct_sched_entity = CStruct False [
    Fld ''load'' struct_load_weight,
    Fld ''run_node'' struct_rb_node,
    Fld ''deadline'' typedef_u64,
    Fld ''min_vruntime'' typedef_u64,
    Fld ''group_node'' struct_list_head,
    Fld ''on_rq'' (CBase CUInt),
    Fld ''exec_start'' typedef_u64,
    Fld ''sum_exec_runtime'' typedef_u64,
    Fld ''prev_sum_exec_runtime'' typedef_u64,
    Fld ''vruntime'' typedef_u64,
    Fld ''vlag'' typedef_s64,
    Fld ''slice'' typedef_u64,
    Fld ''nr_migrations'' typedef_u64,
    Fld ''depth'' (CBase CInt),
    Fld ''parent'' (CPtr ''struct sched_entity''),
    Fld ''cfs_rq'' (CPtr ''struct cfs_rq''),
    Fld ''my_q'' (CPtr ''struct cfs_rq''),
    Fld ''runnable_weight'' (CBase CULong),
    Bits [] (CBase CLong) 64,
    Bits [] (CBase CLong) 64,
    Fld ''avg'' struct_sched_avg]"

definition struct_sched_rt_entity :: ctype where
  "struct_sched_rt_entity = CStruct False [
    Fld ''run_list'' struct_list_head,
    Fld ''timeout'' (CBase CULong),
    Fld ''watchdog_stamp'' (CBase CULong),
    Fld ''time_slice'' (CBase CUInt),
    Fld ''on_rq'' (CBase CUShort),
    Fld ''on_list'' (CBase CUShort),
    Fld ''back'' (CPtr ''struct sched_rt_entity'')]"

definition typedef_ktime_t :: ctype where
  "typedef_ktime_t = typedef_s64"

definition struct_timerqueue_node :: ctype where
  "struct_timerqueue_node = CStruct False [
    Fld ''node'' struct_rb_node,
    Fld ''expires'' typedef_ktime_t]"

definition typedef___u8 :: ctype where
  "typedef___u8 = CBase CUChar"

definition typedef_u8 :: ctype where
  "typedef_u8 = typedef___u8"

definition struct_hrtimer :: ctype where
  "struct_hrtimer = CStruct False [
    Fld ''node'' struct_timerqueue_node,
    Fld ''_softexpires'' typedef_ktime_t,
    Fld ''function'' CFunPtr,
    Fld ''base'' (CPtr ''struct hrtimer_clock_base''),
    Fld ''state'' typedef_u8,
    Fld ''is_rel'' typedef_u8,
    Fld ''is_soft'' typedef_u8,
    Fld ''is_hard'' typedef_u8]"

definition typedef_dl_server_has_tasks_f :: ctype where
  "typedef_dl_server_has_tasks_f = CFunPtr"

definition typedef_dl_server_pick_f :: ctype where
  "typedef_dl_server_pick_f = CFunPtr"

definition struct_sched_dl_entity :: ctype where
  "struct_sched_dl_entity = CStruct False [
    Fld ''rb_node'' struct_rb_node,
    Fld ''dl_runtime'' typedef_u64,
    Fld ''dl_deadline'' typedef_u64,
    Fld ''dl_period'' typedef_u64,
    Fld ''dl_bw'' typedef_u64,
    Fld ''dl_density'' typedef_u64,
    Fld ''runtime'' typedef_s64,
    Fld ''deadline'' typedef_u64,
    Fld ''flags'' (CBase CUInt),
    Bits ''dl_throttled'' (CBase CUInt) 1,
    Bits ''dl_yielded'' (CBase CUInt) 1,
    Bits ''dl_non_contending'' (CBase CUInt) 1,
    Bits ''dl_overrun'' (CBase CUInt) 1,
    Bits ''dl_server'' (CBase CUInt) 1,
    Fld ''dl_timer'' struct_hrtimer,
    Fld ''inactive_timer'' struct_hrtimer,
    Fld ''rq'' (CPtr ''struct rq''),
    Fld ''server_has_tasks'' typedef_dl_server_has_tasks_f,
    Fld ''server_pick'' typedef_dl_server_pick_f,
    Fld ''pi_se'' (CPtr ''struct sched_dl_entity'')]"

definition struct_sched_statistics :: ctype where
  "struct_sched_statistics = CStruct False [
    Fld ''wait_start'' typedef_u64,
    Fld ''wait_max'' typedef_u64,
    Fld ''wait_count'' typedef_u64,
    Fld ''wait_sum'' typedef_u64,
    Fld ''iowait_count'' typedef_u64,
    Fld ''iowait_sum'' typedef_u64,
    Fld ''sleep_start'' typedef_u64,
    Fld ''sleep_max'' typedef_u64,
    Fld ''sum_sleep_runtime'' typedef_s64,
    Fld ''block_start'' typedef_u64,
    Fld ''block_max'' typedef_u64,
    Fld ''sum_block_runtime'' typedef_s64,
    Fld ''exec_max'' typedef_s64,
    Fld ''slice_max'' typedef_u64,
    Fld ''nr_migrations_cold'' typedef_u64,
    Fld ''nr_failed_migrations_affine'' typedef_u64,
    Fld ''nr_failed_migrations_running'' typedef_u64,
    Fld ''nr_failed_migrations_hot'' typedef_u64,
    Fld ''nr_forced_migrations'' typedef_u64,
    Fld ''nr_wakeups'' typedef_u64,
    Fld ''nr_wakeups_sync'' typedef_u64,
    Fld ''nr_wakeups_migrate'' typedef_u64,
    Fld ''nr_wakeups_local'' typedef_u64,
    Fld ''nr_wakeups_remote'' typedef_u64,
    Fld ''nr_wakeups_affine'' typedef_u64,
    Fld ''nr_wakeups_affine_attempts'' typedef_u64,
    Fld ''nr_wakeups_passive'' typedef_u64,
    Fld ''nr_wakeups_idle'' typedef_u64,
    Fld ''core_forceidle_sum'' typedef_u64,
    Bits [] (CBase CLong) 64,
    Bits [] (CBase CLong) 64,
    Bits [] (CBase CLong) 64]"

definition struct_hlist_head :: ctype where
  "struct_hlist_head = CStruct False [
    Fld ''first'' (CPtr ''struct hlist_node'')]"

definition struct_cpumask :: ctype where
  "struct_cpumask = CStruct False [
    Fld ''bits'' (CArray (CBase CULong) 128)]"

definition typedef_cpumask_t :: ctype where
  "typedef_cpumask_t = struct_cpumask"

definition union_rcu_special :: ctype where
  "union_rcu_special = CUnion False [
    Fld ''b'' (CStruct False [
      Fld ''blocked'' typedef_u8,
      Fld ''need_qs'' typedef_u8,
      Fld ''exp_hint'' typedef_u8,
      Fld ''need_mb'' typedef_u8]),
    Fld ''s'' typedef_u32]"

definition struct_sched_info :: ctype where
  "struct_sched_info = CStruct False [
    Fld ''pcount'' (CBase CULong),
    Fld ''run_delay'' (CBase CULLong),
    Fld ''last_arrival'' (CBase CULLong),
    Fld ''last_queued'' (CBase CULLong)]"

definition struct_plist_node :: ctype where
  "struct_plist_node = CStruct False [
    Fld ''prio'' (CBase CInt),
    Fld ''prio_list'' struct_list_head,
    Fld ''node_list'' struct_list_head]"

definition typedef___kernel_clockid_t :: ctype where
  "typedef___kernel_clockid_t = CBase CInt"

definition typedef_clockid_t :: ctype where
  "typedef_clockid_t = typedef___kernel_clockid_t"

definition enum_timespec_type :: ctype where
  "enum_timespec_type = CEnum [
    (''TT_NONE'', 0),
    (''TT_NATIVE'', 1),
    (''TT_COMPAT'', 2)]"

definition struct_restart_block :: ctype where
  "struct_restart_block = CStruct False [
    Fld ''arch_data'' (CBase CULong),
    Fld ''fn'' CFunPtr,
    Fld [] (CUnion False [
      Fld ''futex'' (CStruct False [
        Fld ''uaddr'' (CPtr ''u32''),
        Fld ''val'' typedef_u32,
        Fld ''flags'' typedef_u32,
        Fld ''bitset'' typedef_u32,
        Fld ''time'' typedef_u64,
        Fld ''uaddr2'' (CPtr ''u32'')]),
      Fld ''nanosleep'' (CStruct False [
        Fld ''clockid'' typedef_clockid_t,
        Fld ''type'' enum_timespec_type,
        Fld [] (CUnion False [
          Fld ''rmtp'' (CPtr ''struct __kernel_timespec''),
          Fld ''compat_rmtp'' (CPtr ''struct old_timespec32'')]),
        Fld ''expires'' typedef_u64]),
      Fld ''poll'' (CStruct False [
        Fld ''ufds'' (CPtr ''struct pollfd''),
        Fld ''nfds'' (CBase CInt),
        Fld ''has_timeout'' (CBase CInt),
        Fld ''tv_sec'' (CBase CULong),
        Fld ''tv_nsec'' (CBase CULong)])])]"

definition typedef___kernel_pid_t :: ctype where
  "typedef___kernel_pid_t = CBase CInt"

definition typedef_pid_t :: ctype where
  "typedef_pid_t = typedef___kernel_pid_t"

definition struct_hlist_node :: ctype where
  "struct_hlist_node = CStruct False [
    Fld ''next'' (CPtr ''struct hlist_node''),
    Fld ''pprev'' (CPtr ''struct hlist_node*'')]"

definition struct_qspinlock :: ctype where
  "struct_qspinlock = CStruct False [
    Fld [] (CUnion False [
      Fld ''val'' typedef_atomic_t,
      Fld [] (CStruct False [
        Fld ''locked'' typedef_u8,
        Fld ''pending'' typedef_u8]),
      Fld [] (CStruct False [
        Fld ''locked_pending'' typedef_u16,
        Fld ''tail'' typedef_u16])])]"

definition typedef_arch_spinlock_t :: ctype where
  "typedef_arch_spinlock_t = struct_qspinlock"

definition struct_raw_spinlock :: ctype where
  "struct_raw_spinlock = CStruct False [
    Fld ''raw_lock'' typedef_arch_spinlock_t]"

definition typedef_raw_spinlock_t :: ctype where
  "typedef_raw_spinlock_t = struct_raw_spinlock"

definition struct_prev_cputime :: ctype where
  "struct_prev_cputime = CStruct False [
    Fld ''utime'' typedef_u64,
    Fld ''stime'' typedef_u64,
    Fld ''lock'' typedef_raw_spinlock_t]"

definition struct_seqcount :: ctype where
  "struct_seqcount = CStruct False [
    Fld ''sequence'' (CBase CUInt)]"

definition typedef_seqcount_t :: ctype where
  "typedef_seqcount_t = struct_seqcount"

definition enum_vtime_state :: ctype where
  "enum_vtime_state = CEnum [
    (''VTIME_INACTIVE'', 0),
    (''VTIME_IDLE'', 1),
    (''VTIME_SYS'', 2),
    (''VTIME_USER'', 3),
    (''VTIME_GUEST'', 4)]"

definition struct_vtime :: ctype where
  "struct_vtime = CStruct False [
    Fld ''seqcount'' typedef_seqcount_t,
    Fld ''starttime'' (CBase CULLong),
    Fld ''state'' enum_vtime_state,
    Fld ''cpu'' (CBase CUInt),
    Fld ''utime'' typedef_u64,
    Fld ''stime'' typedef_u64,
    Fld ''gtime'' typedef_u64]"

definition struct_rb_root :: ctype where
  "struct_rb_root = CStruct False [
    Fld ''rb_node'' (CPtr ''struct rb_node'')]"

definition struct_rb_root_cached :: ctype where
  "struct_rb_root_cached = CStruct False [
    Fld ''rb_root'' struct_rb_root,
    Fld ''rb_leftmost'' (CPtr ''struct rb_node'')]"

definition struct_timerqueue_head :: ctype where
  "struct_timerqueue_head = CStruct False [
    Fld ''rb_root'' struct_rb_root_cached]"

definition struct_posix_cputimer_base :: ctype where
  "struct_posix_cputimer_base = CStruct False [
    Fld ''nextevt'' typedef_u64,
    Fld ''tqhead'' struct_timerqueue_head]"

definition struct_posix_cputimers :: ctype where
  "struct_posix_cputimers = CStruct False [
    Fld ''bases'' (CArray struct_posix_cputimer_base 3),
    Fld ''timers_active'' (CBase CUInt),
    Fld ''expiry_active'' (CBase CUInt)]"

definition struct_callback_head :: ctype where
  "struct_callback_head = CStruct False [
    Fld ''next'' (CPtr ''struct callback_head''),
    Fld ''func'' CFunPtr]"

definition typedef_atomic64_t :: ctype where
  "typedef_atomic64_t = CStruct False [
    Fld ''counter'' typedef_s64]"

definition typedef_atomic_long_t :: ctype where
  "typedef_atomic_long_t = typedef_atomic64_t"

definition struct_optimistic_spin_queue :: ctype where
  "struct_optimistic_spin_queue = CStruct False [
    Fld ''tail'' typedef_atomic_t]"

definition struct_mutex :: ctype where
  "struct_mutex = CStruct False [
    Fld ''owner'' typedef_atomic_long_t,
    Fld ''wait_lock'' typedef_raw_spinlock_t,
    Fld ''osq'' struct_optimistic_spin_queue,
    Fld ''wait_list'' struct_list_head]"

definition struct_posix_cputimers_work :: ctype where
  "struct_posix_cputimers_work = CStruct False [
    Fld ''work'' struct_callback_head,
    Fld ''mutex'' struct_mutex,
    Fld ''scheduled'' (CBase CUInt)]"

definition struct_sysv_sem :: ctype where
  "struct_sysv_sem = CStruct False [
    Fld ''undo_list'' (CPtr ''struct sem_undo_list'')]"

definition struct_sysv_shm :: ctype where
  "struct_sysv_shm = CStruct False [
    Fld ''shm_clist'' struct_list_head]"

definition typedef_sigset_t :: ctype where
  "typedef_sigset_t = CStruct False [
    Fld ''sig'' (CArray (CBase CULong) 1)]"

definition struct_sigpending :: ctype where
  "struct_sigpending = CStruct False [
    Fld ''list'' struct_list_head,
    Fld ''signal'' typedef_sigset_t]"

definition typedef___kernel_ulong_t :: ctype where
  "typedef___kernel_ulong_t = CBase CULong"

definition typedef___kernel_size_t :: ctype where
  "typedef___kernel_size_t = typedef___kernel_ulong_t"

definition typedef_size_t :: ctype where
  "typedef_size_t = typedef___kernel_size_t"

definition typedef___kernel_uid32_t :: ctype where
  "typedef___kernel_uid32_t = CBase CUInt"

definition typedef_uid_t :: ctype where
  "typedef_uid_t = typedef___kernel_uid32_t"

definition typedef_kuid_t :: ctype where
  "typedef_kuid_t = CStruct False [
    Fld ''val'' typedef_uid_t]"

definition struct_seccomp :: ctype where
  "struct_seccomp = CStruct False [
    Fld ''mode'' (CBase CInt),
    Fld ''filter_count'' typedef_atomic_t,
    Fld ''filter'' (CPtr ''struct seccomp_filter'')]"

definition typedef_bool :: ctype where
  "typedef_bool = CBase CBool"

definition struct_syscall_user_dispatch :: ctype where
  "struct_syscall_user_dispatch = CStruct False [
    Fld ''selector'' (CPtr ''char''),
    Fld ''offset'' (CBase CULong),
    Fld ''len'' (CBase CULong),
    Fld ''on_dispatch'' typedef_bool]"

definition struct_spinlock :: ctype where
  "struct_spinlock = CStruct False [
    Fld [] (CUnion False [
      Fld ''rlock'' struct_raw_spinlock])]"

definition typedef_spinlock_t :: ctype where
  "typedef_spinlock_t = struct_spinlock"

definition struct_wake_q_node :: ctype where
  "struct_wake_q_node = CStruct False [
    Fld ''next'' (CPtr ''struct wake_q_node'')]"

definition struct_task_io_accounting :: ctype where
  "struct_task_io_accounting = CStruct False [
    Fld ''rchar'' typedef_u64,
    Fld ''wchar'' typedef_u64,
    Fld ''syscr'' typedef_u64,
    Fld ''syscw'' typedef_u64,
    Fld ''read_bytes'' typedef_u64,
    Fld ''write_bytes'' typedef_u64,
    Fld ''cancelled_write_bytes'' typedef_u64]"

definition typedef_nodemask_t :: ctype where
  "typedef_nodemask_t = CStruct False [
    Fld ''bits'' (CArray (CBase CULong) 16)]"

definition struct_seqcount_spinlock :: ctype where
  "struct_seqcount_spinlock = CStruct False [
    Fld ''seqcount'' typedef_seqcount_t]"

definition typedef_seqcount_spinlock_t :: ctype where
  "typedef_seqcount_spinlock_t = struct_seqcount_spinlock"

definition struct_arch_tlbflush_unmap_batch :: ctype where
  "struct_arch_tlbflush_unmap_batch = CStruct False [
    Fld ''cpumask'' struct_cpumask]"

definition struct_tlbflush_unmap_batch :: ctype where
  "struct_tlbflush_unmap_batch = CStruct False [
    Fld ''arch'' struct_arch_tlbflush_unmap_batch,
    Fld ''flush_required'' typedef_bool,
    Fld ''writable'' typedef_bool]"

definition struct_page_frag :: ctype where
  "struct_page_frag = CStruct False [
    Fld ''page'' (CPtr ''struct page''),
    Fld ''offset'' typedef___u32,
    Fld ''size'' typedef___u32]"

definition struct_latency_record :: ctype where
  "struct_latency_record = CStruct False [
    Fld ''backtrace'' (CArray (CBase CULong) 12),
    Fld ''count'' (CBase CUInt),
    Fld ''time'' (CBase CULong),
    Fld ''max'' (CBase CULong)]"

definition typedef_gfp_t :: ctype where
  "typedef_gfp_t = CBase CUInt"

definition struct_kmap_ctrl :: ctype where
  "struct_kmap_ctrl = CStruct False []"

definition struct_timer_list :: ctype where
  "struct_timer_list = CStruct False [
    Fld ''entry'' struct_hlist_node,
    Fld ''expires'' (CBase CULong),
    Fld ''function'' CFunPtr,
    Fld ''flags'' typedef_u32]"

definition struct_llist_head :: ctype where
  "struct_llist_head = CStruct False [
    Fld ''first'' (CPtr ''struct llist_node'')]"

definition struct_desc_struct :: ctype where
  "struct_desc_struct = CStruct False [
    Fld ''limit0'' typedef_u16,
    Fld ''base0'' typedef_u16,
    Bits ''base1'' typedef_u16 8,
    Bits ''type'' typedef_u16 4,
    Bits ''s'' typedef_u16 1,
    Bits ''dpl'' typedef_u16 2,
    Bits ''p'' typedef_u16 1,
    Bits ''limit1'' typedef_u16 4,
    Bits ''avl'' typedef_u16 1,
    Bits ''l'' typedef_u16 1,
    Bits ''d'' typedef_u16 1,
    Bits ''g'' typedef_u16 1,
    Bits ''base2'' typedef_u16 8]"

definition struct_fpu_state_perm :: ctype where
  "struct_fpu_state_perm = CStruct False [
    Fld ''__state_perm'' typedef_u64,
    Fld ''__state_size'' (CBase CUInt),
    Fld ''__user_state_size'' (CBase CUInt)]"

definition struct_fregs_state :: ctype where
  "struct_fregs_state = CStruct False [
    Fld ''cwd'' typedef_u32,
    Fld ''swd'' typedef_u32,
    Fld ''twd'' typedef_u32,
    Fld ''fip'' typedef_u32,
    Fld ''fcs'' typedef_u32,
    Fld ''foo'' typedef_u32,
    Fld ''fos'' typedef_u32,
    Fld ''st_space'' (CArray typedef_u32 20),
    Fld ''status'' typedef_u32]"

definition struct_fxregs_state :: ctype where
  "struct_fxregs_state = CStruct False [
    Fld ''cwd'' typedef_u16,
    Fld ''swd'' typedef_u16,
    Fld ''twd'' typedef_u16,
    Fld ''fop'' typedef_u16,
    Fld [] (CUnion False [
      Fld [] (CStruct False [
        Fld ''rip'' typedef_u64,
        Fld ''rdp'' typedef_u64]),
      Fld [] (CStruct False [
        Fld ''fip'' typedef_u32,
        Fld ''fcs'' typedef_u32,
        Fld ''foo'' typedef_u32,
        Fld ''fos'' typedef_u32])]),
    Fld ''mxcsr'' typedef_u32,
    Fld ''mxcsr_mask'' typedef_u32,
    Fld ''st_space'' (CArray typedef_u32 32),
    Fld ''xmm_space'' (CArray typedef_u32 64),
    Fld ''padding'' (CArray typedef_u32 12),
    Fld [] (CUnion False [
      Fld ''padding1'' (CArray typedef_u32 12),
      Fld ''sw_reserved'' (CArray typedef_u32 12)])]"

definition struct_swregs_state :: ctype where
  "struct_swregs_state = CStruct False [
    Fld ''cwd'' typedef_u32,
    Fld ''swd'' typedef_u32,
    Fld ''twd'' typedef_u32,
    Fld ''fip'' typedef_u32,
    Fld ''fcs'' typedef_u32,
    Fld ''foo'' typedef_u32,
    Fld ''fos'' typedef_u32,
    Fld ''st_space'' (CArray typedef_u32 20),
    Fld ''ftop'' typedef_u8,
    Fld ''changed'' typedef_u8,
    Fld ''lookahead'' typedef_u8,
    Fld ''no_update'' typedef_u8,
    Fld ''rm'' typedef_u8,
    Fld ''alimit'' typedef_u8,
    Fld ''info'' (CPtr ''struct math_emu_info''),
    Fld ''entry_eip'' typedef_u32]"

definition struct_xstate_header :: ctype where
  "struct_xstate_header = CStruct False [
    Fld ''xfeatures'' typedef_u64,
    Fld ''xcomp_bv'' typedef_u64,
    Fld ''reserved'' (CArray typedef_u64 6)]"

definition struct_xregs_state :: ctype where
  "struct_xregs_state = CStruct False [
    Fld ''i387'' struct_fxregs_state,
    Fld ''header'' struct_xstate_header,
    Fld ''extended_state_area'' (CArray typedef_u8 0)]"

definition union_fpregs_state :: ctype where
  "union_fpregs_state = CUnion False [
    Fld ''fsave'' struct_fregs_state,
    Fld ''fxsave'' struct_fxregs_state,
    Fld ''soft'' struct_swregs_state,
    Fld ''xsave'' struct_xregs_state,
    Fld ''__padding'' (CArray typedef_u8 4096)]"

definition struct_fpstate :: ctype where
  "struct_fpstate = CStruct False [
    Fld ''size'' (CBase CUInt),
    Fld ''user_size'' (CBase CUInt),
    Fld ''xfeatures'' typedef_u64,
    Fld ''user_xfeatures'' typedef_u64,
    Fld ''xfd'' typedef_u64,
    Bits ''is_valloc'' (CBase CUInt) 1,
    Bits ''is_guest'' (CBase CUInt) 1,
    Bits ''is_confidential'' (CBase CUInt) 1,
    Bits ''in_use'' (CBase CUInt) 1,
    Bits [] (CBase CLong) 64,
    Bits [] (CBase CLong) 64,
    Bits [] (CBase CLong) 64,
    Fld ''regs'' union_fpregs_state]"

definition struct_fpu :: ctype where
  "struct_fpu = CStruct False [
    Fld ''last_cpu'' (CBase CUInt),
    Fld ''avx512_timestamp'' (CBase CULong),
    Fld ''fpstate'' (CPtr ''struct fpstate''),
    Fld ''__task_fpstate'' (CPtr ''struct fpstate''),
    Fld ''perm'' struct_fpu_state_perm,
    Fld ''guest_perm'' struct_fpu_state_perm,
    Fld ''__fpstate'' struct_fpstate]"

definition struct_thread_struct :: ctype where
  "struct_thread_struct = CStruct False [
    Fld ''tls_array'' (CArray struct_desc_struct 3),
    Fld ''sp'' (CBase CULong),
    Fld ''es'' (CBase CUShort),
    Fld ''ds'' (CBase CUShort),
    Fld ''fsindex'' (CBase CUShort),
    Fld ''gsindex'' (CBase CUShort),
    Fld ''fsbase'' (CBase CULong),
    Fld ''gsbase'' (CBase CULong),
    Fld ''ptrace_bps'' (CArray (CPtr ''struct perf_event'') 4),
    Fld ''virtual_dr6'' (CBase CULong),
    Fld ''ptrace_dr7'' (CBase CULong),
    Fld ''cr2'' (CBase CULong),
    Fld ''trap_nr'' (CBase CULong),
    Fld ''error_code'' (CBase CULong),
    Fld ''io_bitmap'' (CPtr ''struct io_bitmap''),
    Fld ''iopl_emul'' (CBase CULong),
    Bits ''iopl_warn'' (CBase CUInt) 1,
    Fld ''pkru'' typedef_u32,
    Bits [] (CBase CLong) 64,
    Bits [] (CBase CLong) 64,
    Bits [] (CBase CLong) 64,
    Bits [] (CBase CLong) 64,
    Bits [] (CBase CLong) 64,
    Fld ''fpu'' struct_fpu]"

definition struct_task_struct_part1 :: "cfield list" where
  "struct_task_struct_part1 = [
    Fld ''thread_info'' struct_thread_info,
    Fld ''__state'' (CBase CUInt),
    Fld ''saved_state'' (CBase CUInt),
    Fld ''stack'' (CPtr ''void''),
    Fld ''usage'' typedef_refcount_t,
    Fld ''flags'' (CBase CUInt),
    Fld ''ptrace'' (CBase CUInt),
    Fld ''on_cpu'' (CBase CInt),
    Fld ''wake_entry'' struct___call_single_node,
    Fld ''wakee_flips'' (CBase CUInt),
    Fld ''wakee_flip_decay_ts'' (CBase CULong),
    Fld ''last_wakee'' (CPtr ''struct task_struct''),
    Fld ''recent_used_cpu'' (CBase CInt),
    Fld ''wake_cpu'' (CBase CInt),
    Fld ''on_rq'' (CBase CInt),
    Fld ''prio'' (CBase CInt),
    Fld ''static_prio'' (CBase CInt),
    Fld ''normal_prio'' (CBase CInt),
    Fld ''rt_priority'' (CBase CUInt),
    Fld ''se'' struct_sched_entity,
    Fld ''rt'' struct_sched_rt_entity,
    Fld ''dl'' struct_sched_dl_entity,
    Fld ''dl_server'' (CPtr ''struct sched_dl_entity''),
    Fld ''sched_class'' (CPtr ''struct sched_class''),
    Fld ''core_node'' struct_rb_node,
    Fld ''core_cookie'' (CBase CULong),
    Fld ''core_occupation'' (CBase CUInt),
    Fld ''sched_task_group'' (CPtr ''struct task_group''),
    Bits [] (CBase CLong) 64,
    Bits [] (CBase CLong) 64,
    Bits [] (CBase CLong) 64,
    Fld ''stats'' struct_sched_statistics,
    Fld ''preempt_notifiers'' struct_hlist_head,
    Fld ''btrace_seq'' (CBase CUInt),
    Fld ''policy'' (CBase CUInt),
    Fld ''nr_cpus_allowed'' (CBase CInt),
    Fld ''cpus_ptr'' (CPtr ''cpumask_t''),
    Fld ''user_cpus_ptr'' (CPtr ''cpumask_t''),
    Fld ''cpus_mask'' typedef_cpumask_t,
    Fld ''migration_pending'' (CPtr ''void''),
    Fld ''migration_disabled'' (CBase CUShort),
    Fld ''migration_flags'' (CBase CUShort),
    Fld ''rcu_read_lock_nesting'' (CBase CInt),
    Fld ''rcu_read_unlock_special'' union_rcu_special,
    Fld ''rcu_node_entry'' struct_list_head,
    Fld ''rcu_blocked_node'' (CPtr ''struct rcu_node''),
    Fld ''rcu_tasks_nvcsw'' (CBase CULong),
    Fld ''rcu_tasks_holdout'' typedef_u8,
    Fld ''rcu_tasks_idx'' typedef_u8,
    Fld ''rcu_tasks_idle_cpu'' (CBase CInt),
    Fld ''rcu_tasks_holdout_list'' struct_list_head,
    Fld ''rcu_tasks_exit_cpu'' (CBase CInt),
    Fld ''rcu_tasks_exit_list'' struct_list_head,
    Fld ''trc_reader_nesting'' (CBase CInt),
    Fld ''trc_ipi_to_cpu'' (CBase CInt),
    Fld ''trc_reader_special'' union_rcu_special,
    Fld ''trc_holdout_list'' struct_list_head,
    Fld ''trc_blkd_node'' struct_list_head,
    Fld ''trc_blkd_cpu'' (CBase CInt),
    Fld ''sched_info'' struct_sched_info,
    Fld ''tasks'' struct_list_head,
    Fld ''pushable_tasks'' struct_plist_node,
    Fld ''pushable_dl_tasks'' struct_rb_node,
    Fld ''mm'' (CPtr ''struct mm_struct''),
    Fld ''active_mm'' (CPtr ''struct mm_struct''),
    Fld ''faults_disabled_mapping'' (CPtr ''struct address_space''),
    Fld ''exit_state'' (CBase CInt),
    Fld ''exit_code'' (CBase CInt),
    Fld ''exit_signal'' (CBase CInt),
    Fld ''pdeath_signal'' (CBase CInt),
    Fld ''jobctl'' (CBase CULong),
    Fld ''personality'' (CBase CUInt),
    Bits ''sched_reset_on_fork'' (CBase CUInt) 1,
    Bits ''sched_contributes_to_load'' (CBase CUInt) 1,
    Bits ''sched_migrated'' (CBase CUInt) 1,
    Bits [] (CBase CLong) 29,
    Bits ''sched_remote_wakeup'' (CBase CUInt) 1,
    Bits ''sched_rt_mutex'' (CBase CUInt) 1,
    Bits ''in_execve'' (CBase CUInt) 1,
    Bits ''in_iowait'' (CBase CUInt) 1,
    Bits ''restore_sigmask'' (CBase CUInt) 1,
    Bits ''in_user_fault'' (CBase CUInt) 1,
    Bits ''in_lru_fault'' (CBase CUInt) 1,
    Bits ''no_cgroup_migration'' (CBase CUInt) 1,
    Bits ''frozen'' (CBase CUInt) 1,
    Bits ''use_memdelay'' (CBase CUInt) 1,
    Bits ''in_memstall'' (CBase CUInt) 1,
    Bits ''in_page_owner'' (CBase CUInt) 1,
    Bits ''in_eventfd'' (CBase CUInt) 1,
    Bits ''pasid_activated'' (CBase CUInt) 1,
    Bits ''reported_split_lock'' (CBase CUInt) 1,
    Bits ''in_thrashing'' (CBase CUInt) 1,
    Fld ''atomic_flags'' (CBase CULong),
    Fld ''restart_block'' struct_restart_block,
    Fld ''pid'' typedef_pid_t,
    Fld ''tgid'' typedef_pid_t,
    Fld ''stack_canary'' (CBase CULong),
    Fld ''real_parent'' (CPtr ''struct task_struct''),
    Fld ''parent'' (CPtr ''struct task_struct''),
    Fld ''children'' struct_list_head,
    Fld ''sibling'' struct_list_head,
    Fld ''group_leader'' (CPtr ''struct task_struct''),
    Fld ''ptraced'' struct_list_head,
    Fld ''ptrace_entry'' struct_list_head,
    Fld ''thread_pid'' (CPtr ''struct pid''),
    Fld ''pid_links'' (CArray struct_hlist_node 4),
    Fld ''thread_node'' struct_list_head,
    Fld ''vfork_done'' (CPtr ''struct completion''),
    Fld ''set_child_tid'' (CPtr ''int''),
    Fld ''clear_child_tid'' (CPtr ''int''),
    Fld ''worker_private'' (CPtr ''void''),
    Fld ''utime'' typedef_u64,
    Fld ''stime'' typedef_u64,
    Fld ''gtime'' typedef_u64,
    Fld ''prev_cputime'' struct_prev_cputime,
    Fld ''vtime'' struct_vtime,
    Fld ''tick_dep_mask'' typedef_atomic_t,
    Fld ''nvcsw'' (CBase CULong),
    Fld ''nivcsw'' (CBase CULong),
    Fld ''start_time'' typedef_u64,
    Fld ''start_boottime'' typedef_u64,
    Fld ''min_flt'' (CBase CULong),
    Fld ''maj_flt'' (CBase CULong),
    Fld ''posix_cputimers'' struct_posix_cputimers,
    Fld ''posix_cputimers_work'' struct_posix_cputimers_work,
    Fld ''ptracer_cred'' (CPtr ''struct cred''),
    Fld ''real_cred'' (CPtr ''struct cred''),
    Fld ''cred'' (CPtr ''struct cred''),
    Fld ''cached_requested_key'' (CPtr ''struct key''),
    Fld ''comm'' (CArray (CBase CChar) 16),
    Fld ''nameidata'' (CPtr ''struct nameidata''),
    Fld ''sysvsem'' struct_sysv_sem,
    Fld ''sysvshm'' struct_sysv_shm,
    Fld ''last_switch_count'' (CBase CULong),
    Fld ''last_switch_time'' (CBase CULong),
    Fld ''fs'' (CPtr ''struct fs_struct''),
    Fld ''files'' (CPtr ''struct files_struct''),
    Fld ''io_uring'' (CPtr ''struct io_uring_task''),
    Fld ''nsproxy'' (CPtr ''struct nsproxy'')]"

definition struct_task_struct_part2 :: "cfield list" where
  "struct_task_struct_part2 = [
    Fld ''signal'' (CPtr ''struct signal_struct''),
    Fld ''sighand'' (CPtr ''struct sighand_struct''),
    Fld ''blocked'' typedef_sigset_t,
    Fld ''real_blocked'' typedef_sigset_t,
    Fld ''saved_sigmask'' typedef_sigset_t,
    Fld ''pending'' struct_sigpending,
    Fld ''sas_ss_sp'' (CBase CULong),
    Fld ''sas_ss_size'' typedef_size_t,
    Fld ''sas_ss_flags'' (CBase CUInt),
    Fld ''task_works'' (CPtr ''struct callback_head''),
    Fld ''audit_context'' (CPtr ''struct audit_context''),
    Fld ''loginuid'' typedef_kuid_t,
    Fld ''sessionid'' (CBase CUInt),
    Fld ''seccomp'' struct_seccomp,
    Fld ''syscall_dispatch'' struct_syscall_user_dispatch,
    Fld ''parent_exec_id'' typedef_u64,
    Fld ''self_exec_id'' typedef_u64,
    Fld ''alloc_lock'' typedef_spinlock_t,
    Fld ''pi_lock'' typedef_raw_spinlock_t,
    Fld ''wake_q'' struct_wake_q_node,
    Fld ''pi_waiters'' struct_rb_root_cached,
    Fld ''pi_top_task'' (CPtr ''struct task_struct''),
    Fld ''pi_blocked_on'' (CPtr ''struct rt_mutex_waiter''),
    Fld ''journal_info'' (CPtr ''void''),
    Fld ''bio_list'' (CPtr ''struct bio_list''),
    Fld ''plug'' (CPtr ''struct blk_plug''),
    Fld ''reclaim_state'' (CPtr ''struct reclaim_state''),
    Fld ''io_context'' (CPtr ''struct io_context''),
    Fld ''capture_control'' (CPtr ''struct capture_control''),
    Fld ''ptrace_message'' (CBase CULong),
    Fld ''last_siginfo'' (CPtr ''kernel_siginfo_t''),
    Fld ''ioac'' struct_task_io_accounting,
    Fld ''psi_flags'' (CBase CUInt),
    Fld ''acct_rss_mem1'' typedef_u64,
    Fld ''acct_vm_mem1'' typedef_u64,
    Fld ''acct_timexpd'' typedef_u64,
    Fld ''mems_allowed'' typedef_nodemask_t,
    Fld ''mems_allowed_seq'' typedef_seqcount_spinlock_t,
    Fld ''cpuset_mem_spread_rotor'' (CBase CInt),
    Fld ''cpuset_slab_spread_rotor'' (CBase CInt),
    Fld ''cgroups'' (CPtr ''struct css_set''),
    Fld ''cg_list'' struct_list_head,
    Fld ''closid'' typedef_u32,
    Fld ''rmid'' typedef_u32,
    Fld ''robust_list'' (CPtr ''struct robust_list_head''),
    Fld ''compat_robust_list'' (CPtr ''struct compat_robust_list_head''),
    Fld ''pi_state_list'' struct_list_head,
    Fld ''pi_state_cache'' (CPtr ''struct futex_pi_state''),
    Fld ''futex_exit_mutex'' struct_mutex,
    Fld ''futex_state'' (CBase CUInt),
    Fld ''perf_event_ctxp'' (CPtr ''struct perf_event_context''),
    Fld ''perf_event_mutex'' struct_mutex,
    Fld ''perf_event_list'' struct_list_head,
    Fld ''mempolicy'' (CPtr ''struct mempolicy''),
    Fld ''il_prev'' (CBase CShort),
    Fld ''il_weight'' typedef_u8,
    Fld ''pref_node_fork'' (CBase CShort),
    Fld ''numa_scan_seq'' (CBase CInt),
    Fld ''numa_scan_period'' (CBase CUInt),
    Fld ''numa_scan_period_max'' (CBase CUInt),
    Fld ''numa_preferred_nid'' (CBase CInt),
    Fld ''numa_migrate_retry'' (CBase CULong),
    Fld ''node_stamp'' typedef_u64,
    Fld ''last_task_numa_placement'' typedef_u64,
    Fld ''last_sum_exec_runtime'' typedef_u64,
    Fld ''numa_work'' struct_callback_head,
    Fld ''numa_group'' (CPtr ''struct numa_group''),
    Fld ''numa_faults'' (CPtr ''long unsigned int''),
    Fld ''total_numa_faults'' (CBase CULong),
    Fld ''numa_faults_locality'' (CArray (CBase CULong) 3),
    Fld ''numa_pages_migrated'' (CBase CULong),
    Fld ''rseq'' (CPtr ''struct rseq''),
    Fld ''rseq_len'' typedef_u32,
    Fld ''rseq_sig'' typedef_u32,
    Fld ''rseq_event_mask'' (CBase CULong),
    Fld ''mm_cid'' (CBase CInt),
    Fld ''last_mm_cid'' (CBase CInt),
    Fld ''migrate_from_cpu'' (CBase CInt),
    Fld ''mm_cid_active'' (CBase CInt),
    Fld ''cid_work'' struct_callback_head,
    Fld ''tlb_ubc'' struct_tlbflush_unmap_batch,
    Fld ''splice_pipe'' (CPtr ''struct pipe_inode_info''),
    Fld ''task_frag'' struct_page_frag,
    Fld ''delays'' (CPtr ''struct task_delay_info''),
    Fld ''make_it_fail'' (CBase CInt),
    Fld ''fail_nth'' (CBase CUInt),
    Fld ''nr_dirtied'' (CBase CInt),
    Fld ''nr_dirtied_pause'' (CBase CInt),
    Fld ''dirty_paused_when'' (CBase CULong),
    Fld ''latency_record_count'' (CBase CInt),
    Fld ''latency_record'' (CArray struct_latency_record 32),
    Fld ''timer_slack_ns'' typedef_u64,
    Fld ''default_timer_slack_ns'' typedef_u64,
    Fld ''curr_ret_stack'' (CBase CInt),
    Fld ''curr_ret_depth'' (CBase CInt),
    Fld ''ret_stack'' (CPtr ''struct ftrace_ret_stack''),
    Fld ''ftrace_timestamp'' (CBase CULLong),
    Fld ''trace_overrun'' typedef_atomic_t,
    Fld ''tracing_graph_pause'' typedef_atomic_t,
    Fld ''trace_recursion'' (CBase CULong),
    Fld ''memcg_in_oom'' (CPtr ''struct mem_cgroup''),
    Fld ''memcg_oom_gfp_mask'' typedef_gfp_t,
    Fld ''memcg_oom_order'' (CBase CInt),
    Fld ''memcg_nr_pages_over_high'' (CBase CUInt),
    Fld ''active_memcg'' (CPtr ''struct mem_cgroup''),
    Fld ''objcg'' (CPtr ''struct obj_cgroup''),
    Fld ''throttle_disk'' (CPtr ''struct gendisk''),
    Fld ''utask'' (CPtr ''struct uprobe_task''),
    Fld ''sequential_io'' (CBase CUInt),
    Fld ''sequential_io_avg'' (CBase CUInt),
    Fld ''kmap_ctrl'' struct_kmap_ctrl,
    Fld ''rcu'' struct_callback_head,
    Fld ''rcu_users'' typedef_refcount_t,
    Fld ''pagefault_disabled'' (CBase CInt),
    Fld ''oom_reaper_list'' (CPtr ''struct task_struct''),
    Fld ''oom_reaper_timer'' struct_timer_list,
    Fld ''stack_vm_area'' (CPtr ''struct vm_struct''),
    Fld ''stack_refcount'' typedef_refcount_t,
    Fld ''patch_state'' (CBase CInt),
    Fld ''security'' (CPtr ''void''),
    Fld ''bpf_storage'' (CPtr ''struct bpf_local_storage''),
    Fld ''bpf_ctx'' (CPtr ''struct bpf_run_ctx''),
    Fld ''mce_vaddr'' (CPtr ''void''),
    Fld ''mce_kflags'' typedef___u64,
    Fld ''mce_addr'' typedef_u64,
    Bits ''mce_ripv'' typedef___u64 1,
    Bits ''mce_whole_page'' typedef___u64 1,
    Bits ''__mce_reserved'' typedef___u64 62,
    Fld ''mce_kill_me'' struct_callback_head,
    Fld ''mce_count'' (CBase CInt),
    Fld ''kretprobe_instances'' struct_llist_head,
    Fld ''rethooks'' struct_llist_head,
    Fld ''l1d_flush_kill'' struct_callback_head,
    Bits [] (CBase CLong) 64,
    Bits [] (CBase CLong) 64,
    Fld ''thread'' struct_thread_struct]"

definition struct_task_struct :: ctype where
  "struct_task_struct = CStruct False (struct_task_struct_part1 @ struct_task_struct_part2)"

section \<open>Sizes and alignments\<close>

lemma typedef___u16_layout [layout]: "csize typedef___u16 = 2" "calign typedef___u16 = 2"
  by (simp_all add: typedef___u16_def layout)

lemma typedef_u16_layout [layout]: "csize typedef_u16 = 2" "calign typedef_u16 = 2"
  by (simp_all add: typedef_u16_def layout)

lemma typedef___u64_layout [layout]: "csize typedef___u64 = 8" "calign typedef___u64 = 8"
  by (simp_all add: typedef___u64_def layout)

lemma typedef_u64_layout [layout]: "csize typedef_u64 = 8" "calign typedef_u64 = 8"
  by (simp_all add: typedef_u64_def layout)

lemma struct_fred_cs_layout [layout]: "csize struct_fred_cs = 8" "calign struct_fred_cs = 8"
  by (simp_all add: struct_fred_cs_def layout)

lemma struct_fred_ss_layout [layout]: "csize struct_fred_ss = 8" "calign struct_fred_ss = 8"
  by (simp_all add: struct_fred_ss_def layout)

lemma struct_pt_regs_layout [layout]: "csize struct_pt_regs = 168" "calign struct_pt_regs = 8"
  by (simp_all add: struct_pt_regs_def layout)

lemma typedef___u32_layout [layout]: "csize typedef___u32 = 4" "calign typedef___u32 = 4"
  by (simp_all add: typedef___u32_def layout)

lemma typedef_u32_layout [layout]: "csize typedef_u32 = 4" "calign typedef_u32 = 4"
  by (simp_all add: typedef_u32_def layout)

lemma struct_thread_info_layout [layout]: "csize struct_thread_info = 24" "calign struct_thread_info = 8"
  by (simp_all add: struct_thread_info_def layout)

lemma typedef_atomic_t_layout [layout]: "csize typedef_atomic_t = 4" "calign typedef_atomic_t = 4"
  by (simp_all add: typedef_atomic_t_def layout)

lemma struct_refcount_struct_layout [layout]: "csize struct_refcount_struct = 4" "calign struct_refcount_struct = 4"
  by (simp_all add: struct_refcount_struct_def layout)

lemma typedef_refcount_t_layout [layout]: "csize typedef_refcount_t = 4" "calign typedef_refcount_t = 4"
  by (simp_all add: typedef_refcount_t_def layout)

lemma struct_llist_node_layout [layout]: "csize struct_llist_node = 8" "calign struct_llist_node = 8"
  by (simp_all add: struct_llist_node_def layout)

lemma struct___call_single_node_layout [layout]: "csize struct___call_single_node = 16" "calign struct___call_single_node = 8"
  by (simp_all add: struct___call_single_node_def layout)

lemma struct_load_weight_layout [layout]: "csize struct_load_weight = 16" "calign struct_load_weight = 8"
  by (simp_all add: struct_load_weight_def layout)

lemma struct_rb_node_layout [layout]: "csize struct_rb_node = 24" "calign struct_rb_node = 8"
  by (simp_all add: struct_rb_node_def layout)

lemma struct_list_head_layout [layout]: "csize struct_list_head = 16" "calign struct_list_head = 8"
  by (simp_all add: struct_list_head_def layout)

lemma typedef___s64_layout [layout]: "csize typedef___s64 = 8" "calign typedef___s64 = 8"
  by (simp_all add: typedef___s64_def layout)

lemma typedef_s64_layout [layout]: "csize typedef_s64 = 8" "calign typedef_s64 = 8"
  by (simp_all add: typedef_s64_def layout)

lemma struct_sched_avg_layout [layout]: "csize struct_sched_avg = 64" "calign struct_sched_avg = 8"
  by (simp_all add: struct_sched_avg_def layout)

lemma struct_sched_entity_layout [layout]: "csize struct_sched_entity = 256" "calign struct_sched_entity = 8"
  by (simp_all add: struct_sched_entity_def layout)

lemma struct_sched_rt_entity_layout [layout]: "csize struct_sched_rt_entity = 48" "calign struct_sched_rt_entity = 8"
  by (simp_all add: struct_sched_rt_entity_def layout)

lemma typedef_ktime_t_layout [layout]: "csize typedef_ktime_t = 8" "calign typedef_ktime_t = 8"
  by (simp_all add: typedef_ktime_t_def layout)

lemma struct_timerqueue_node_layout [layout]: "csize struct_timerqueue_node = 32" "calign struct_timerqueue_node = 8"
  by (simp_all add: struct_timerqueue_node_def layout)

lemma typedef___u8_layout [layout]: "csize typedef___u8 = 1" "calign typedef___u8 = 1"
  by (simp_all add: typedef___u8_def layout)

lemma typedef_u8_layout [layout]: "csize typedef_u8 = 1" "calign typedef_u8 = 1"
  by (simp_all add: typedef_u8_def layout)

lemma struct_hrtimer_layout [layout]: "csize struct_hrtimer = 64" "calign struct_hrtimer = 8"
  by (simp_all add: struct_hrtimer_def layout)

lemma typedef_dl_server_has_tasks_f_layout [layout]: "csize typedef_dl_server_has_tasks_f = 8" "calign typedef_dl_server_has_tasks_f = 8"
  by (simp_all add: typedef_dl_server_has_tasks_f_def layout)

lemma typedef_dl_server_pick_f_layout [layout]: "csize typedef_dl_server_pick_f = 8" "calign typedef_dl_server_pick_f = 8"
  by (simp_all add: typedef_dl_server_pick_f_def layout)

lemma struct_sched_dl_entity_layout [layout]: "csize struct_sched_dl_entity = 248" "calign struct_sched_dl_entity = 8"
  by (simp_all add: struct_sched_dl_entity_def layout)

lemma struct_sched_statistics_layout [layout]: "csize struct_sched_statistics = 256" "calign struct_sched_statistics = 8"
  by (simp_all add: struct_sched_statistics_def layout)

lemma struct_hlist_head_layout [layout]: "csize struct_hlist_head = 8" "calign struct_hlist_head = 8"
  by (simp_all add: struct_hlist_head_def layout)

lemma struct_cpumask_layout [layout]: "csize struct_cpumask = 1024" "calign struct_cpumask = 8"
  by (simp_all add: struct_cpumask_def layout)

lemma typedef_cpumask_t_layout [layout]: "csize typedef_cpumask_t = 1024" "calign typedef_cpumask_t = 8"
  by (simp_all add: typedef_cpumask_t_def layout)

lemma union_rcu_special_layout [layout]: "csize union_rcu_special = 4" "calign union_rcu_special = 4"
  by (simp_all add: union_rcu_special_def layout)

lemma struct_sched_info_layout [layout]: "csize struct_sched_info = 32" "calign struct_sched_info = 8"
  by (simp_all add: struct_sched_info_def layout)

lemma struct_plist_node_layout [layout]: "csize struct_plist_node = 40" "calign struct_plist_node = 8"
  by (simp_all add: struct_plist_node_def layout)

lemma typedef___kernel_clockid_t_layout [layout]: "csize typedef___kernel_clockid_t = 4" "calign typedef___kernel_clockid_t = 4"
  by (simp_all add: typedef___kernel_clockid_t_def layout)

lemma typedef_clockid_t_layout [layout]: "csize typedef_clockid_t = 4" "calign typedef_clockid_t = 4"
  by (simp_all add: typedef_clockid_t_def layout)

lemma enum_timespec_type_layout [layout]: "csize enum_timespec_type = 4" "calign enum_timespec_type = 4"
  by (simp_all add: enum_timespec_type_def layout)

lemma struct_restart_block_layout [layout]: "csize struct_restart_block = 56" "calign struct_restart_block = 8"
  by (simp_all add: struct_restart_block_def layout)

lemma typedef___kernel_pid_t_layout [layout]: "csize typedef___kernel_pid_t = 4" "calign typedef___kernel_pid_t = 4"
  by (simp_all add: typedef___kernel_pid_t_def layout)

lemma typedef_pid_t_layout [layout]: "csize typedef_pid_t = 4" "calign typedef_pid_t = 4"
  by (simp_all add: typedef_pid_t_def layout)

lemma struct_hlist_node_layout [layout]: "csize struct_hlist_node = 16" "calign struct_hlist_node = 8"
  by (simp_all add: struct_hlist_node_def layout)

lemma struct_qspinlock_layout [layout]: "csize struct_qspinlock = 4" "calign struct_qspinlock = 4"
  by (simp_all add: struct_qspinlock_def layout)

lemma typedef_arch_spinlock_t_layout [layout]: "csize typedef_arch_spinlock_t = 4" "calign typedef_arch_spinlock_t = 4"
  by (simp_all add: typedef_arch_spinlock_t_def layout)

lemma struct_raw_spinlock_layout [layout]: "csize struct_raw_spinlock = 4" "calign struct_raw_spinlock = 4"
  by (simp_all add: struct_raw_spinlock_def layout)

lemma typedef_raw_spinlock_t_layout [layout]: "csize typedef_raw_spinlock_t = 4" "calign typedef_raw_spinlock_t = 4"
  by (simp_all add: typedef_raw_spinlock_t_def layout)

lemma struct_prev_cputime_layout [layout]: "csize struct_prev_cputime = 24" "calign struct_prev_cputime = 8"
  by (simp_all add: struct_prev_cputime_def layout)

lemma struct_seqcount_layout [layout]: "csize struct_seqcount = 4" "calign struct_seqcount = 4"
  by (simp_all add: struct_seqcount_def layout)

lemma typedef_seqcount_t_layout [layout]: "csize typedef_seqcount_t = 4" "calign typedef_seqcount_t = 4"
  by (simp_all add: typedef_seqcount_t_def layout)

lemma enum_vtime_state_layout [layout]: "csize enum_vtime_state = 4" "calign enum_vtime_state = 4"
  by (simp_all add: enum_vtime_state_def layout)

lemma struct_vtime_layout [layout]: "csize struct_vtime = 48" "calign struct_vtime = 8"
  by (simp_all add: struct_vtime_def layout)

lemma struct_rb_root_layout [layout]: "csize struct_rb_root = 8" "calign struct_rb_root = 8"
  by (simp_all add: struct_rb_root_def layout)

lemma struct_rb_root_cached_layout [layout]: "csize struct_rb_root_cached = 16" "calign struct_rb_root_cached = 8"
  by (simp_all add: struct_rb_root_cached_def layout)

lemma struct_timerqueue_head_layout [layout]: "csize struct_timerqueue_head = 16" "calign struct_timerqueue_head = 8"
  by (simp_all add: struct_timerqueue_head_def layout)

lemma struct_posix_cputimer_base_layout [layout]: "csize struct_posix_cputimer_base = 24" "calign struct_posix_cputimer_base = 8"
  by (simp_all add: struct_posix_cputimer_base_def layout)

lemma struct_posix_cputimers_layout [layout]: "csize struct_posix_cputimers = 80" "calign struct_posix_cputimers = 8"
  by (simp_all add: struct_posix_cputimers_def layout)

lemma struct_callback_head_layout [layout]: "csize struct_callback_head = 16" "calign struct_callback_head = 8"
  by (simp_all add: struct_callback_head_def layout)

lemma typedef_atomic64_t_layout [layout]: "csize typedef_atomic64_t = 8" "calign typedef_atomic64_t = 8"
  by (simp_all add: typedef_atomic64_t_def layout)

lemma typedef_atomic_long_t_layout [layout]: "csize typedef_atomic_long_t = 8" "calign typedef_atomic_long_t = 8"
  by (simp_all add: typedef_atomic_long_t_def layout)

lemma struct_optimistic_spin_queue_layout [layout]: "csize struct_optimistic_spin_queue = 4" "calign struct_optimistic_spin_queue = 4"
  by (simp_all add: struct_optimistic_spin_queue_def layout)

lemma struct_mutex_layout [layout]: "csize struct_mutex = 32" "calign struct_mutex = 8"
  by (simp_all add: struct_mutex_def layout)

lemma struct_posix_cputimers_work_layout [layout]: "csize struct_posix_cputimers_work = 56" "calign struct_posix_cputimers_work = 8"
  by (simp_all add: struct_posix_cputimers_work_def layout)

lemma struct_sysv_sem_layout [layout]: "csize struct_sysv_sem = 8" "calign struct_sysv_sem = 8"
  by (simp_all add: struct_sysv_sem_def layout)

lemma struct_sysv_shm_layout [layout]: "csize struct_sysv_shm = 16" "calign struct_sysv_shm = 8"
  by (simp_all add: struct_sysv_shm_def layout)

lemma typedef_sigset_t_layout [layout]: "csize typedef_sigset_t = 8" "calign typedef_sigset_t = 8"
  by (simp_all add: typedef_sigset_t_def layout)

lemma struct_sigpending_layout [layout]: "csize struct_sigpending = 24" "calign struct_sigpending = 8"
  by (simp_all add: struct_sigpending_def layout)

lemma typedef___kernel_ulong_t_layout [layout]: "csize typedef___kernel_ulong_t = 8" "calign typedef___kernel_ulong_t = 8"
  by (simp_all add: typedef___kernel_ulong_t_def layout)

lemma typedef___kernel_size_t_layout [layout]: "csize typedef___kernel_size_t = 8" "calign typedef___kernel_size_t = 8"
  by (simp_all add: typedef___kernel_size_t_def layout)

lemma typedef_size_t_layout [layout]: "csize typedef_size_t = 8" "calign typedef_size_t = 8"
  by (simp_all add: typedef_size_t_def layout)

lemma typedef___kernel_uid32_t_layout [layout]: "csize typedef___kernel_uid32_t = 4" "calign typedef___kernel_uid32_t = 4"
  by (simp_all add: typedef___kernel_uid32_t_def layout)

lemma typedef_uid_t_layout [layout]: "csize typedef_uid_t = 4" "calign typedef_uid_t = 4"
  by (simp_all add: typedef_uid_t_def layout)

lemma typedef_kuid_t_layout [layout]: "csize typedef_kuid_t = 4" "calign typedef_kuid_t = 4"
  by (simp_all add: typedef_kuid_t_def layout)

lemma struct_seccomp_layout [layout]: "csize struct_seccomp = 16" "calign struct_seccomp = 8"
  by (simp_all add: struct_seccomp_def layout)

lemma typedef_bool_layout [layout]: "csize typedef_bool = 1" "calign typedef_bool = 1"
  by (simp_all add: typedef_bool_def layout)

lemma struct_syscall_user_dispatch_layout [layout]: "csize struct_syscall_user_dispatch = 32" "calign struct_syscall_user_dispatch = 8"
  by (simp_all add: struct_syscall_user_dispatch_def layout)

lemma struct_spinlock_layout [layout]: "csize struct_spinlock = 4" "calign struct_spinlock = 4"
  by (simp_all add: struct_spinlock_def layout)

lemma typedef_spinlock_t_layout [layout]: "csize typedef_spinlock_t = 4" "calign typedef_spinlock_t = 4"
  by (simp_all add: typedef_spinlock_t_def layout)

lemma struct_wake_q_node_layout [layout]: "csize struct_wake_q_node = 8" "calign struct_wake_q_node = 8"
  by (simp_all add: struct_wake_q_node_def layout)

lemma struct_task_io_accounting_layout [layout]: "csize struct_task_io_accounting = 56" "calign struct_task_io_accounting = 8"
  by (simp_all add: struct_task_io_accounting_def layout)

lemma typedef_nodemask_t_layout [layout]: "csize typedef_nodemask_t = 128" "calign typedef_nodemask_t = 8"
  by (simp_all add: typedef_nodemask_t_def layout)

lemma struct_seqcount_spinlock_layout [layout]: "csize struct_seqcount_spinlock = 4" "calign struct_seqcount_spinlock = 4"
  by (simp_all add: struct_seqcount_spinlock_def layout)

lemma typedef_seqcount_spinlock_t_layout [layout]: "csize typedef_seqcount_spinlock_t = 4" "calign typedef_seqcount_spinlock_t = 4"
  by (simp_all add: typedef_seqcount_spinlock_t_def layout)

lemma struct_arch_tlbflush_unmap_batch_layout [layout]: "csize struct_arch_tlbflush_unmap_batch = 1024" "calign struct_arch_tlbflush_unmap_batch = 8"
  by (simp_all add: struct_arch_tlbflush_unmap_batch_def layout)

lemma struct_tlbflush_unmap_batch_layout [layout]: "csize struct_tlbflush_unmap_batch = 1032" "calign struct_tlbflush_unmap_batch = 8"
  by (simp_all add: struct_tlbflush_unmap_batch_def layout)

lemma struct_page_frag_layout [layout]: "csize struct_page_frag = 16" "calign struct_page_frag = 8"
  by (simp_all add: struct_page_frag_def layout)

lemma struct_latency_record_layout [layout]: "csize struct_latency_record = 120" "calign struct_latency_record = 8"
  by (simp_all add: struct_latency_record_def layout)

lemma typedef_gfp_t_layout [layout]: "csize typedef_gfp_t = 4" "calign typedef_gfp_t = 4"
  by (simp_all add: typedef_gfp_t_def layout)

lemma struct_kmap_ctrl_layout [layout]: "csize struct_kmap_ctrl = 0" "calign struct_kmap_ctrl = 1"
  by (simp_all add: struct_kmap_ctrl_def layout)

lemma struct_timer_list_layout [layout]: "csize struct_timer_list = 40" "calign struct_timer_list = 8"
  by (simp_all add: struct_timer_list_def layout)

lemma struct_llist_head_layout [layout]: "csize struct_llist_head = 8" "calign struct_llist_head = 8"
  by (simp_all add: struct_llist_head_def layout)

lemma struct_desc_struct_layout [layout]: "csize struct_desc_struct = 8" "calign struct_desc_struct = 2"
  by (simp_all add: struct_desc_struct_def layout)

lemma struct_fpu_state_perm_layout [layout]: "csize struct_fpu_state_perm = 16" "calign struct_fpu_state_perm = 8"
  by (simp_all add: struct_fpu_state_perm_def layout)

lemma struct_fregs_state_layout [layout]: "csize struct_fregs_state = 112" "calign struct_fregs_state = 4"
  by (simp_all add: struct_fregs_state_def layout)

lemma struct_fxregs_state_layout [layout]: "csize struct_fxregs_state = 512" "calign struct_fxregs_state = 8"
  by (simp_all add: struct_fxregs_state_def layout)

lemma struct_swregs_state_layout [layout]: "csize struct_swregs_state = 136" "calign struct_swregs_state = 8"
  by (simp_all add: struct_swregs_state_def layout)

lemma struct_xstate_header_layout [layout]: "csize struct_xstate_header = 64" "calign struct_xstate_header = 8"
  by (simp_all add: struct_xstate_header_def layout)

lemma struct_xregs_state_layout [layout]: "csize struct_xregs_state = 576" "calign struct_xregs_state = 8"
  by (simp_all add: struct_xregs_state_def layout)

lemma union_fpregs_state_layout [layout]: "csize union_fpregs_state = 4096" "calign union_fpregs_state = 8"
  by (simp_all add: union_fpregs_state_def layout)

lemma struct_fpstate_layout [layout]: "csize struct_fpstate = 4160" "calign struct_fpstate = 8"
  by (simp_all add: struct_fpstate_def layout)

lemma struct_fpu_layout [layout]: "csize struct_fpu = 4224" "calign struct_fpu = 8"
  by (simp_all add: struct_fpu_def layout)

lemma struct_thread_struct_layout [layout]: "csize struct_thread_struct = 4416" "calign struct_thread_struct = 8"
  by (simp_all add: struct_thread_struct_def layout)

lemma struct_task_struct_layout [layout]: "csize struct_task_struct = 13696" "calign struct_task_struct = 8"
  by (simp_all add: struct_task_struct_def struct_task_struct_part1_def struct_task_struct_part2_def layout)

end
