(* ===== verification/Kernel_Types_Net.thy ===== *)
theory Kernel_Types_Net imports Kernel_Types_Task begin

text \<open>
  The namespaces of a task: \<^verbatim>\<open>struct nsproxy\<close>, the namespace objects it points to, and
  \<^verbatim>\<open>struct net\<close>, whose inode number identifies a container in the probe's maps, with every
  type they contain by value.

  Transcribed line by line from
  \<^verbatim>\<open>src/autoscaler/conc_req_monitoring/bpf/vmlinux.h\<close>: one definition per
  \<^verbatim>\<open>struct\<close>, \<^verbatim>\<open>union\<close>, \<^verbatim>\<open>enum\<close> and \<^verbatim>\<open>typedef\<close>, named
  after the declaration with its kind as a prefix, members in the header's order, and one line
  per member; an aggregate of more than 150 lines is cut into parts. Qualifiers are dropped. For
  each type its size and alignment are computed and added to \<open>layout\<close>, so that the types
  that contain it are laid out from these facts and not from its members again.
\<close>

section \<open>Declarations\<close>

definition struct_nsproxy :: ctype where
  "struct_nsproxy = CStruct False [
    Fld ''count'' typedef_refcount_t,
    Fld ''uts_ns'' (CPtr ''struct uts_namespace''),
    Fld ''ipc_ns'' (CPtr ''struct ipc_namespace''),
    Fld ''mnt_ns'' (CPtr ''struct mnt_namespace''),
    Fld ''pid_ns_for_children'' (CPtr ''struct pid_namespace''),
    Fld ''net_ns'' (CPtr ''struct net''),
    Fld ''time_ns'' (CPtr ''struct time_namespace''),
    Fld ''time_ns_for_children'' (CPtr ''struct time_namespace''),
    Fld ''cgroup_ns'' (CPtr ''struct cgroup_namespace'')]"

definition struct_new_utsname :: ctype where
  "struct_new_utsname = CStruct False [
    Fld ''sysname'' (CArray (CBase CChar) 65),
    Fld ''nodename'' (CArray (CBase CChar) 65),
    Fld ''release'' (CArray (CBase CChar) 65),
    Fld ''version'' (CArray (CBase CChar) 65),
    Fld ''machine'' (CArray (CBase CChar) 65),
    Fld ''domainname'' (CArray (CBase CChar) 65)]"

definition struct_ns_common :: ctype where
  "struct_ns_common = CStruct False [
    Fld ''stashed'' (CPtr ''struct dentry''),
    Fld ''ops'' (CPtr ''struct proc_ns_operations''),
    Fld ''inum'' (CBase CUInt),
    Fld ''count'' typedef_refcount_t]"

definition struct_uts_namespace :: ctype where
  "struct_uts_namespace = CStruct False [
    Fld ''name'' struct_new_utsname,
    Fld ''user_ns'' (CPtr ''struct user_namespace''),
    Fld ''ucounts'' (CPtr ''struct ucounts''),
    Fld ''ns'' struct_ns_common]"

definition struct_rw_semaphore :: ctype where
  "struct_rw_semaphore = CStruct False [
    Fld ''count'' typedef_atomic_long_t,
    Fld ''owner'' typedef_atomic_long_t,
    Fld ''osq'' struct_optimistic_spin_queue,
    Fld ''wait_lock'' typedef_raw_spinlock_t,
    Fld ''wait_list'' struct_list_head]"

definition struct_xarray :: ctype where
  "struct_xarray = CStruct False [
    Fld ''xa_lock'' typedef_spinlock_t,
    Fld ''xa_flags'' typedef_gfp_t,
    Fld ''xa_head'' (CPtr ''void'')]"

definition struct_idr :: ctype where
  "struct_idr = CStruct False [
    Fld ''idr_rt'' struct_xarray,
    Fld ''idr_base'' (CBase CUInt),
    Fld ''idr_next'' (CBase CUInt)]"

definition typedef_rht_hashfn_t :: ctype where
  "typedef_rht_hashfn_t = CFunPtr"

definition typedef_rht_obj_hashfn_t :: ctype where
  "typedef_rht_obj_hashfn_t = CFunPtr"

definition typedef_rht_obj_cmpfn_t :: ctype where
  "typedef_rht_obj_cmpfn_t = CFunPtr"

definition struct_rhashtable_params :: ctype where
  "struct_rhashtable_params = CStruct False [
    Fld ''nelem_hint'' typedef_u16,
    Fld ''key_len'' typedef_u16,
    Fld ''key_offset'' typedef_u16,
    Fld ''head_offset'' typedef_u16,
    Fld ''max_size'' (CBase CUInt),
    Fld ''min_size'' typedef_u16,
    Fld ''automatic_shrinking'' typedef_bool,
    Fld ''hashfn'' typedef_rht_hashfn_t,
    Fld ''obj_hashfn'' typedef_rht_obj_hashfn_t,
    Fld ''obj_cmpfn'' typedef_rht_obj_cmpfn_t]"

definition typedef_work_func_t :: ctype where
  "typedef_work_func_t = CFunPtr"

definition struct_work_struct :: ctype where
  "struct_work_struct = CStruct False [
    Fld ''data'' typedef_atomic_long_t,
    Fld ''entry'' struct_list_head,
    Fld ''func'' typedef_work_func_t]"

definition struct_rhashtable :: ctype where
  "struct_rhashtable = CStruct False [
    Fld ''tbl'' (CPtr ''struct bucket_table''),
    Fld ''key_len'' (CBase CUInt),
    Fld ''max_elems'' (CBase CUInt),
    Fld ''p'' struct_rhashtable_params,
    Fld ''rhlist'' typedef_bool,
    Fld ''run_work'' struct_work_struct,
    Fld ''mutex'' struct_mutex,
    Fld ''lock'' typedef_spinlock_t,
    Fld ''nelems'' typedef_atomic_t]"

definition struct_ipc_ids :: ctype where
  "struct_ipc_ids = CStruct False [
    Fld ''in_use'' (CBase CInt),
    Fld ''seq'' (CBase CUShort),
    Fld ''rwsem'' struct_rw_semaphore,
    Fld ''ipcs_idr'' struct_idr,
    Fld ''max_idx'' (CBase CInt),
    Fld ''last_idx'' (CBase CInt),
    Fld ''next_id'' (CBase CInt),
    Fld ''key_ht'' struct_rhashtable]"

definition struct_percpu_counter :: ctype where
  "struct_percpu_counter = CStruct False [
    Fld ''lock'' typedef_raw_spinlock_t,
    Fld ''count'' typedef_s64,
    Fld ''list'' struct_list_head,
    Fld ''counters'' (CPtr ''s32'')]"

definition typedef_notifier_fn_t :: ctype where
  "typedef_notifier_fn_t = CFunPtr"

definition struct_notifier_block :: ctype where
  "struct_notifier_block = CStruct False [
    Fld ''notifier_call'' typedef_notifier_fn_t,
    Fld ''next'' (CPtr ''struct notifier_block''),
    Fld ''priority'' (CBase CInt)]"

definition struct_ctl_table_header :: ctype where
  "struct_ctl_table_header = CStruct False [
    Fld [] (CUnion False [
      Fld [] (CStruct False [
        Fld ''ctl_table'' (CPtr ''struct ctl_table''),
        Fld ''ctl_table_size'' (CBase CInt),
        Fld ''used'' (CBase CInt),
        Fld ''count'' (CBase CInt),
        Fld ''nreg'' (CBase CInt)]),
      Fld ''rcu'' struct_callback_head]),
    Fld ''unregistering'' (CPtr ''struct completion''),
    Fld ''ctl_table_arg'' (CPtr ''struct ctl_table''),
    Fld ''root'' (CPtr ''struct ctl_table_root''),
    Fld ''set'' (CPtr ''struct ctl_table_set''),
    Fld ''parent'' (CPtr ''struct ctl_dir''),
    Fld ''node'' (CPtr ''struct ctl_node''),
    Fld ''inodes'' struct_hlist_head]"

definition struct_ctl_dir :: ctype where
  "struct_ctl_dir = CStruct False [
    Fld ''header'' struct_ctl_table_header,
    Fld ''root'' struct_rb_root]"

definition struct_ctl_table_set :: ctype where
  "struct_ctl_table_set = CStruct False [
    Fld ''is_seen'' CFunPtr,
    Fld ''dir'' struct_ctl_dir]"

definition struct_ipc_namespace :: ctype where
  "struct_ipc_namespace = CStruct False [
    Fld ''ids'' (CArray struct_ipc_ids 3),
    Fld ''sem_ctls'' (CArray (CBase CInt) 4),
    Fld ''used_sems'' (CBase CInt),
    Fld ''msg_ctlmax'' (CBase CUInt),
    Fld ''msg_ctlmnb'' (CBase CUInt),
    Fld ''msg_ctlmni'' (CBase CUInt),
    Fld ''percpu_msg_bytes'' struct_percpu_counter,
    Fld ''percpu_msg_hdrs'' struct_percpu_counter,
    Fld ''shm_ctlmax'' typedef_size_t,
    Fld ''shm_ctlall'' typedef_size_t,
    Fld ''shm_tot'' (CBase CULong),
    Fld ''shm_ctlmni'' (CBase CInt),
    Fld ''shm_rmid_forced'' (CBase CInt),
    Fld ''ipcns_nb'' struct_notifier_block,
    Fld ''mq_mnt'' (CPtr ''struct vfsmount''),
    Fld ''mq_queues_count'' (CBase CUInt),
    Fld ''mq_queues_max'' (CBase CUInt),
    Fld ''mq_msg_max'' (CBase CUInt),
    Fld ''mq_msgsize_max'' (CBase CUInt),
    Fld ''mq_msg_default'' (CBase CUInt),
    Fld ''mq_msgsize_default'' (CBase CUInt),
    Fld ''mq_set'' struct_ctl_table_set,
    Fld ''mq_sysctls'' (CPtr ''struct ctl_table_header''),
    Fld ''ipc_set'' struct_ctl_table_set,
    Fld ''ipc_sysctls'' (CPtr ''struct ctl_table_header''),
    Fld ''user_ns'' (CPtr ''struct user_namespace''),
    Fld ''ucounts'' (CPtr ''struct ucounts''),
    Fld ''mnt_llist'' struct_llist_node,
    Fld ''ns'' struct_ns_common]"

definition struct_wait_queue_head :: ctype where
  "struct_wait_queue_head = CStruct False [
    Fld ''lock'' typedef_spinlock_t,
    Fld ''head'' struct_list_head]"

definition typedef_wait_queue_head_t :: ctype where
  "typedef_wait_queue_head_t = struct_wait_queue_head"

definition struct_mnt_namespace :: ctype where
  "struct_mnt_namespace = CStruct False [
    Fld ''ns'' struct_ns_common,
    Fld ''root'' (CPtr ''struct mount''),
    Fld ''mounts'' struct_rb_root,
    Fld ''user_ns'' (CPtr ''struct user_namespace''),
    Fld ''ucounts'' (CPtr ''struct ucounts''),
    Fld ''seq'' typedef_u64,
    Fld ''poll'' typedef_wait_queue_head_t,
    Fld ''event'' typedef_u64,
    Fld ''nr_mounts'' (CBase CUInt),
    Fld ''pending_mounts'' (CBase CUInt)]"

definition struct_pid_namespace :: ctype where
  "struct_pid_namespace = CStruct False [
    Fld ''idr'' struct_idr,
    Fld ''rcu'' struct_callback_head,
    Fld ''pid_allocated'' (CBase CUInt),
    Fld ''child_reaper'' (CPtr ''struct task_struct''),
    Fld ''pid_cachep'' (CPtr ''struct kmem_cache''),
    Fld ''level'' (CBase CUInt),
    Fld ''parent'' (CPtr ''struct pid_namespace''),
    Fld ''bacct'' (CPtr ''struct fs_pin''),
    Fld ''user_ns'' (CPtr ''struct user_namespace''),
    Fld ''ucounts'' (CPtr ''struct ucounts''),
    Fld ''reboot'' (CBase CInt),
    Fld ''ns'' struct_ns_common,
    Fld ''memfd_noexec_scope'' (CBase CInt)]"

definition typedef_time64_t :: ctype where
  "typedef_time64_t = typedef___s64"

definition struct_timespec64 :: ctype where
  "struct_timespec64 = CStruct False [
    Fld ''tv_sec'' typedef_time64_t,
    Fld ''tv_nsec'' (CBase CLong)]"

definition struct_timens_offsets :: ctype where
  "struct_timens_offsets = CStruct False [
    Fld ''monotonic'' struct_timespec64,
    Fld ''boottime'' struct_timespec64]"

definition struct_time_namespace :: ctype where
  "struct_time_namespace = CStruct False [
    Fld ''user_ns'' (CPtr ''struct user_namespace''),
    Fld ''ucounts'' (CPtr ''struct ucounts''),
    Fld ''ns'' struct_ns_common,
    Fld ''offsets'' struct_timens_offsets,
    Fld ''vvar_page'' (CPtr ''struct page''),
    Fld ''frozen_offsets'' typedef_bool]"

definition struct_cgroup_namespace :: ctype where
  "struct_cgroup_namespace = CStruct False [
    Fld ''ns'' struct_ns_common,
    Fld ''user_ns'' (CPtr ''struct user_namespace''),
    Fld ''ucounts'' (CPtr ''struct ucounts''),
    Fld ''root_cset'' (CPtr ''struct css_set'')]"

definition struct_ref_tracker_dir :: ctype where
  "struct_ref_tracker_dir = CStruct False []"

definition struct_raw_notifier_head :: ctype where
  "struct_raw_notifier_head = CStruct False [
    Fld ''head'' (CPtr ''struct notifier_block'')]"

definition struct_netns_core :: ctype where
  "struct_netns_core = CStruct False [
    Fld ''sysctl_hdr'' (CPtr ''struct ctl_table_header''),
    Fld ''sysctl_somaxconn'' (CBase CInt),
    Fld ''sysctl_optmem_max'' (CBase CInt),
    Fld ''sysctl_txrehash'' typedef_u8,
    Fld ''prot_inuse'' (CPtr ''struct prot_inuse''),
    Fld ''rps_default_mask'' (CPtr ''struct cpumask'')]"

definition struct_netns_mib :: ctype where
  "struct_netns_mib = CStruct False [
    Fld ''ip_statistics'' (CPtr ''struct ipstats_mib''),
    Fld ''ipv6_statistics'' (CPtr ''struct ipstats_mib''),
    Fld ''tcp_statistics'' (CPtr ''struct tcp_mib''),
    Fld ''net_statistics'' (CPtr ''struct linux_mib''),
    Fld ''udp_statistics'' (CPtr ''struct udp_mib''),
    Fld ''udp_stats_in6'' (CPtr ''struct udp_mib''),
    Fld ''tls_statistics'' (CPtr ''struct linux_tls_mib''),
    Fld ''mptcp_statistics'' (CPtr ''struct mptcp_mib''),
    Fld ''udplite_statistics'' (CPtr ''struct udp_mib''),
    Fld ''udplite_stats_in6'' (CPtr ''struct udp_mib''),
    Fld ''icmp_statistics'' (CPtr ''struct icmp_mib''),
    Fld ''icmpmsg_statistics'' (CPtr ''struct icmpmsg_mib''),
    Fld ''icmpv6_statistics'' (CPtr ''struct icmpv6_mib''),
    Fld ''icmpv6msg_statistics'' (CPtr ''struct icmpv6msg_mib''),
    Fld ''proc_net_devsnmp6'' (CPtr ''struct proc_dir_entry'')]"

definition struct_netns_packet :: ctype where
  "struct_netns_packet = CStruct False [
    Fld ''sklist_lock'' struct_mutex,
    Fld ''sklist'' struct_hlist_head]"

definition struct_unix_table :: ctype where
  "struct_unix_table = CStruct False [
    Fld ''locks'' (CPtr ''spinlock_t''),
    Fld ''buckets'' (CPtr ''struct hlist_head'')]"

definition struct_netns_unix :: ctype where
  "struct_netns_unix = CStruct False [
    Fld ''table'' struct_unix_table,
    Fld ''sysctl_max_dgram_qlen'' (CBase CInt),
    Fld ''ctl'' (CPtr ''struct ctl_table_header'')]"

definition struct_blocking_notifier_head :: ctype where
  "struct_blocking_notifier_head = CStruct False [
    Fld ''rwsem'' struct_rw_semaphore,
    Fld ''head'' (CPtr ''struct notifier_block'')]"

definition struct_netns_nexthop :: ctype where
  "struct_netns_nexthop = CStruct False [
    Fld ''rb_root'' struct_rb_root,
    Fld ''devhash'' (CPtr ''struct hlist_head''),
    Fld ''seq'' (CBase CUInt),
    Fld ''last_id_allocated'' typedef_u32,
    Fld ''notifier_chain'' struct_blocking_notifier_head]"

definition struct_inet_timewait_death_row :: ctype where
  "struct_inet_timewait_death_row = CStruct False [
    Fld ''tw_refcount'' typedef_refcount_t,
    Bits [] (CBase CLong) 64,
    Bits [] (CBase CLong) 64,
    Bits [] (CBase CLong) 64,
    Bits [] (CBase CLong) 64,
    Bits [] (CBase CLong) 64,
    Bits [] (CBase CLong) 64,
    Bits [] (CBase CLong) 64,
    Fld ''hashinfo'' (CPtr ''struct inet_hashinfo''),
    Fld ''sysctl_max_tw_buckets'' (CBase CInt),
    Bits [] (CBase CLong) 64,
    Bits [] (CBase CLong) 64,
    Bits [] (CBase CLong) 64,
    Bits [] (CBase CLong) 64,
    Bits [] (CBase CLong) 64,
    Bits [] (CBase CLong) 64]"

definition struct_local_ports :: ctype where
  "struct_local_ports = CStruct False [
    Fld ''range'' typedef_u32,
    Fld ''warned'' typedef_bool]"

definition typedef_seqlock_t :: ctype where
  "typedef_seqlock_t = CStruct False [
    Fld ''seqcount'' typedef_seqcount_spinlock_t,
    Fld ''lock'' typedef_spinlock_t]"

definition typedef___kernel_gid32_t :: ctype where
  "typedef___kernel_gid32_t = CBase CUInt"

definition typedef_gid_t :: ctype where
  "typedef_gid_t = typedef___kernel_gid32_t"

definition typedef_kgid_t :: ctype where
  "typedef_kgid_t = CStruct False [
    Fld ''val'' typedef_gid_t]"

definition struct_ping_group_range :: ctype where
  "struct_ping_group_range = CStruct False [
    Fld ''lock'' typedef_seqlock_t,
    Fld ''range'' (CArray typedef_kgid_t 2)]"

definition typedef_siphash_key_t :: ctype where
  "typedef_siphash_key_t = CStruct False [
    Fld ''key'' (CArray typedef_u64 2)]"

definition struct_netns_ipv4_part1 :: "cfield list" where
  "struct_netns_ipv4_part1 = [
    Fld ''__cacheline_group_begin__netns_ipv4_read_tx'' (CArray typedef___u8 0),
    Fld ''sysctl_tcp_early_retrans'' typedef_u8,
    Fld ''sysctl_tcp_tso_win_divisor'' typedef_u8,
    Fld ''sysctl_tcp_tso_rtt_log'' typedef_u8,
    Fld ''sysctl_tcp_autocorking'' typedef_u8,
    Fld ''sysctl_tcp_min_snd_mss'' (CBase CInt),
    Fld ''sysctl_tcp_notsent_lowat'' (CBase CUInt),
    Fld ''sysctl_tcp_limit_output_bytes'' (CBase CInt),
    Fld ''sysctl_tcp_min_rtt_wlen'' (CBase CInt),
    Fld ''sysctl_tcp_wmem'' (CArray (CBase CInt) 3),
    Fld ''sysctl_ip_fwd_use_pmtu'' typedef_u8,
    Fld ''__cacheline_group_end__netns_ipv4_read_tx'' (CArray typedef___u8 0),
    Fld ''__cacheline_group_begin__netns_ipv4_read_txrx'' (CArray typedef___u8 0),
    Fld ''sysctl_tcp_moderate_rcvbuf'' typedef_u8,
    Fld ''__cacheline_group_end__netns_ipv4_read_txrx'' (CArray typedef___u8 0),
    Fld ''__cacheline_group_begin__netns_ipv4_read_rx'' (CArray typedef___u8 0),
    Fld ''sysctl_ip_early_demux'' typedef_u8,
    Fld ''sysctl_tcp_early_demux'' typedef_u8,
    Fld ''sysctl_tcp_reordering'' (CBase CInt),
    Fld ''sysctl_tcp_rmem'' (CArray (CBase CInt) 3),
    Fld ''__cacheline_group_end__netns_ipv4_read_rx'' (CArray typedef___u8 0),
    Bits [] (CBase CLong) 64,
    Fld ''tcp_death_row'' struct_inet_timewait_death_row,
    Fld ''udp_table'' (CPtr ''struct udp_table''),
    Fld ''forw_hdr'' (CPtr ''struct ctl_table_header''),
    Fld ''frags_hdr'' (CPtr ''struct ctl_table_header''),
    Fld ''ipv4_hdr'' (CPtr ''struct ctl_table_header''),
    Fld ''route_hdr'' (CPtr ''struct ctl_table_header''),
    Fld ''xfrm4_hdr'' (CPtr ''struct ctl_table_header''),
    Fld ''devconf_all'' (CPtr ''struct ipv4_devconf''),
    Fld ''devconf_dflt'' (CPtr ''struct ipv4_devconf''),
    Fld ''ra_chain'' (CPtr ''struct ip_ra_chain''),
    Fld ''ra_mutex'' struct_mutex,
    Fld ''rules_ops'' (CPtr ''struct fib_rules_ops''),
    Fld ''fib_main'' (CPtr ''struct fib_table''),
    Fld ''fib_default'' (CPtr ''struct fib_table''),
    Fld ''fib_rules_require_fldissect'' (CBase CUInt),
    Fld ''fib_has_custom_rules'' typedef_bool,
    Fld ''fib_has_custom_local_routes'' typedef_bool,
    Fld ''fib_offload_disabled'' typedef_bool,
    Fld ''sysctl_tcp_shrink_window'' typedef_u8,
    Fld ''fib_num_tclassid_users'' typedef_atomic_t,
    Fld ''fib_table_hash'' (CPtr ''struct hlist_head''),
    Fld ''fibnl'' (CPtr ''struct sock''),
    Fld ''mc_autojoin_sk'' (CPtr ''struct sock''),
    Fld ''peers'' (CPtr ''struct inet_peer_base''),
    Fld ''fqdir'' (CPtr ''struct fqdir''),
    Fld ''sysctl_icmp_echo_ignore_all'' typedef_u8,
    Fld ''sysctl_icmp_echo_enable_probe'' typedef_u8,
    Fld ''sysctl_icmp_echo_ignore_broadcasts'' typedef_u8,
    Fld ''sysctl_icmp_ignore_bogus_error_responses'' typedef_u8,
    Fld ''sysctl_icmp_errors_use_inbound_ifaddr'' typedef_u8,
    Fld ''sysctl_icmp_ratelimit'' (CBase CInt),
    Fld ''sysctl_icmp_ratemask'' (CBase CInt),
    Fld ''ip_rt_min_pmtu'' typedef_u32,
    Fld ''ip_rt_mtu_expires'' (CBase CInt),
    Fld ''ip_rt_min_advmss'' (CBase CInt),
    Fld ''ip_local_ports'' struct_local_ports,
    Fld ''sysctl_tcp_ecn'' typedef_u8,
    Fld ''sysctl_tcp_ecn_fallback'' typedef_u8,
    Fld ''sysctl_ip_default_ttl'' typedef_u8,
    Fld ''sysctl_ip_no_pmtu_disc'' typedef_u8,
    Fld ''sysctl_ip_fwd_update_priority'' typedef_u8,
    Fld ''sysctl_ip_nonlocal_bind'' typedef_u8,
    Fld ''sysctl_ip_autobind_reuse'' typedef_u8,
    Fld ''sysctl_ip_dynaddr'' typedef_u8,
    Fld ''sysctl_raw_l3mdev_accept'' typedef_u8,
    Fld ''sysctl_udp_early_demux'' typedef_u8,
    Fld ''sysctl_nexthop_compat_mode'' typedef_u8,
    Fld ''sysctl_fwmark_reflect'' typedef_u8,
    Fld ''sysctl_tcp_fwmark_accept'' typedef_u8,
    Fld ''sysctl_tcp_l3mdev_accept'' typedef_u8,
    Fld ''sysctl_tcp_mtu_probing'' typedef_u8,
    Fld ''sysctl_tcp_mtu_probe_floor'' (CBase CInt),
    Fld ''sysctl_tcp_base_mss'' (CBase CInt),
    Fld ''sysctl_tcp_probe_threshold'' (CBase CInt),
    Fld ''sysctl_tcp_probe_interval'' typedef_u32,
    Fld ''sysctl_tcp_keepalive_time'' (CBase CInt),
    Fld ''sysctl_tcp_keepalive_intvl'' (CBase CInt),
    Fld ''sysctl_tcp_keepalive_probes'' typedef_u8,
    Fld ''sysctl_tcp_syn_retries'' typedef_u8,
    Fld ''sysctl_tcp_synack_retries'' typedef_u8,
    Fld ''sysctl_tcp_syncookies'' typedef_u8,
    Fld ''sysctl_tcp_migrate_req'' typedef_u8,
    Fld ''sysctl_tcp_comp_sack_nr'' typedef_u8,
    Fld ''sysctl_tcp_backlog_ack_defer'' typedef_u8,
    Fld ''sysctl_tcp_pingpong_thresh'' typedef_u8,
    Fld ''sysctl_tcp_retries1'' typedef_u8,
    Fld ''sysctl_tcp_retries2'' typedef_u8,
    Fld ''sysctl_tcp_orphan_retries'' typedef_u8,
    Fld ''sysctl_tcp_tw_reuse'' typedef_u8,
    Fld ''sysctl_tcp_fin_timeout'' (CBase CInt),
    Fld ''sysctl_tcp_sack'' typedef_u8,
    Fld ''sysctl_tcp_window_scaling'' typedef_u8,
    Fld ''sysctl_tcp_timestamps'' typedef_u8,
    Fld ''sysctl_tcp_recovery'' typedef_u8,
    Fld ''sysctl_tcp_thin_linear_timeouts'' typedef_u8,
    Fld ''sysctl_tcp_slow_start_after_idle'' typedef_u8,
    Fld ''sysctl_tcp_retrans_collapse'' typedef_u8,
    Fld ''sysctl_tcp_stdurg'' typedef_u8,
    Fld ''sysctl_tcp_rfc1337'' typedef_u8,
    Fld ''sysctl_tcp_abort_on_overflow'' typedef_u8,
    Fld ''sysctl_tcp_fack'' typedef_u8,
    Fld ''sysctl_tcp_max_reordering'' (CBase CInt),
    Fld ''sysctl_tcp_adv_win_scale'' (CBase CInt),
    Fld ''sysctl_tcp_dsack'' typedef_u8,
    Fld ''sysctl_tcp_app_win'' typedef_u8,
    Fld ''sysctl_tcp_frto'' typedef_u8,
    Fld ''sysctl_tcp_nometrics_save'' typedef_u8,
    Fld ''sysctl_tcp_no_ssthresh_metrics_save'' typedef_u8,
    Fld ''sysctl_tcp_workaround_signed_windows'' typedef_u8,
    Fld ''sysctl_tcp_challenge_ack_limit'' (CBase CInt),
    Fld ''sysctl_tcp_min_tso_segs'' typedef_u8,
    Fld ''sysctl_tcp_reflect_tos'' typedef_u8,
    Fld ''sysctl_tcp_invalid_ratelimit'' (CBase CInt),
    Fld ''sysctl_tcp_pacing_ss_ratio'' (CBase CInt),
    Fld ''sysctl_tcp_pacing_ca_ratio'' (CBase CInt),
    Fld ''sysctl_tcp_child_ehash_entries'' (CBase CUInt),
    Fld ''sysctl_tcp_comp_sack_delay_ns'' (CBase CULong),
    Fld ''sysctl_tcp_comp_sack_slack_ns'' (CBase CULong),
    Fld ''sysctl_max_syn_backlog'' (CBase CInt),
    Fld ''sysctl_tcp_fastopen'' (CBase CInt),
    Fld ''tcp_congestion_control'' (CPtr ''struct tcp_congestion_ops''),
    Fld ''tcp_fastopen_ctx'' (CPtr ''struct tcp_fastopen_context''),
    Fld ''sysctl_tcp_fastopen_blackhole_timeout'' (CBase CUInt),
    Fld ''tfo_active_disable_times'' typedef_atomic_t,
    Fld ''tfo_active_disable_stamp'' (CBase CULong),
    Fld ''tcp_challenge_timestamp'' typedef_u32,
    Fld ''tcp_challenge_count'' typedef_u32,
    Fld ''sysctl_tcp_plb_enabled'' typedef_u8,
    Fld ''sysctl_tcp_plb_idle_rehash_rounds'' typedef_u8,
    Fld ''sysctl_tcp_plb_rehash_rounds'' typedef_u8,
    Fld ''sysctl_tcp_plb_suspend_rto_sec'' typedef_u8,
    Fld ''sysctl_tcp_plb_cong_thresh'' (CBase CInt),
    Fld ''sysctl_udp_wmem_min'' (CBase CInt),
    Fld ''sysctl_udp_rmem_min'' (CBase CInt),
    Fld ''sysctl_fib_notify_on_flag_change'' typedef_u8,
    Fld ''sysctl_tcp_syn_linear_timeouts'' typedef_u8,
    Fld ''sysctl_udp_l3mdev_accept'' typedef_u8]"

definition struct_netns_ipv4_part2 :: "cfield list" where
  "struct_netns_ipv4_part2 = [
    Fld ''sysctl_igmp_llm_reports'' typedef_u8,
    Fld ''sysctl_igmp_max_memberships'' (CBase CInt),
    Fld ''sysctl_igmp_max_msf'' (CBase CInt),
    Fld ''sysctl_igmp_qrv'' (CBase CInt),
    Fld ''ping_group_range'' struct_ping_group_range,
    Fld ''dev_addr_genid'' typedef_atomic_t,
    Fld ''sysctl_udp_child_hash_entries'' (CBase CUInt),
    Fld ''sysctl_local_reserved_ports'' (CPtr ''long unsigned int''),
    Fld ''sysctl_ip_prot_sock'' (CBase CInt),
    Fld ''mr_tables'' struct_list_head,
    Fld ''mr_rules_ops'' (CPtr ''struct fib_rules_ops''),
    Fld ''sysctl_fib_multipath_hash_fields'' typedef_u32,
    Fld ''sysctl_fib_multipath_use_neigh'' typedef_u8,
    Fld ''sysctl_fib_multipath_hash_policy'' typedef_u8,
    Fld ''notifier_ops'' (CPtr ''struct fib_notifier_ops''),
    Fld ''fib_seq'' (CBase CUInt),
    Fld ''ipmr_notifier_ops'' (CPtr ''struct fib_notifier_ops''),
    Fld ''ipmr_seq'' (CBase CUInt),
    Fld ''rt_genid'' typedef_atomic_t,
    Fld ''ip_id_key'' typedef_siphash_key_t,
    Bits [] (CBase CLong) 64,
    Bits [] (CBase CLong) 64,
    Bits [] (CBase CLong) 64,
    Bits [] (CBase CLong) 64]"

definition struct_netns_ipv4 :: ctype where
  "struct_netns_ipv4 = CStruct False (struct_netns_ipv4_part1 @ struct_netns_ipv4_part2)"

definition struct_dst_ops :: ctype where
  "struct_dst_ops = CStruct False [
    Fld ''family'' (CBase CUShort),
    Fld ''gc_thresh'' (CBase CUInt),
    Fld ''gc'' CFunPtr,
    Fld ''check'' CFunPtr,
    Fld ''default_advmss'' CFunPtr,
    Fld ''mtu'' CFunPtr,
    Fld ''cow_metrics'' CFunPtr,
    Fld ''destroy'' CFunPtr,
    Fld ''ifdown'' CFunPtr,
    Fld ''negative_advice'' CFunPtr,
    Fld ''link_failure'' CFunPtr,
    Fld ''update_pmtu'' CFunPtr,
    Fld ''redirect'' CFunPtr,
    Fld ''local_out'' CFunPtr,
    Fld ''neigh_lookup'' CFunPtr,
    Fld ''confirm_neigh'' CFunPtr,
    Fld ''kmem_cachep'' (CPtr ''struct kmem_cache''),
    Fld ''pcpuc_entries'' struct_percpu_counter,
    Bits [] (CBase CLong) 64,
    Bits [] (CBase CLong) 64,
    Bits [] (CBase CLong) 64]"

definition struct_netns_sysctl_ipv6 :: ctype where
  "struct_netns_sysctl_ipv6 = CStruct False [
    Fld ''hdr'' (CPtr ''struct ctl_table_header''),
    Fld ''route_hdr'' (CPtr ''struct ctl_table_header''),
    Fld ''icmp_hdr'' (CPtr ''struct ctl_table_header''),
    Fld ''frags_hdr'' (CPtr ''struct ctl_table_header''),
    Fld ''xfrm6_hdr'' (CPtr ''struct ctl_table_header''),
    Fld ''flush_delay'' (CBase CInt),
    Fld ''ip6_rt_max_size'' (CBase CInt),
    Fld ''ip6_rt_gc_min_interval'' (CBase CInt),
    Fld ''ip6_rt_gc_timeout'' (CBase CInt),
    Fld ''ip6_rt_gc_interval'' (CBase CInt),
    Fld ''ip6_rt_gc_elasticity'' (CBase CInt),
    Fld ''ip6_rt_mtu_expires'' (CBase CInt),
    Fld ''ip6_rt_min_advmss'' (CBase CInt),
    Fld ''multipath_hash_fields'' typedef_u32,
    Fld ''multipath_hash_policy'' typedef_u8,
    Fld ''bindv6only'' typedef_u8,
    Fld ''flowlabel_consistency'' typedef_u8,
    Fld ''auto_flowlabels'' typedef_u8,
    Fld ''icmpv6_time'' (CBase CInt),
    Fld ''icmpv6_echo_ignore_all'' typedef_u8,
    Fld ''icmpv6_echo_ignore_multicast'' typedef_u8,
    Fld ''icmpv6_echo_ignore_anycast'' typedef_u8,
    Fld ''icmpv6_ratemask'' (CArray (CBase CULong) 4),
    Fld ''icmpv6_ratemask_ptr'' (CPtr ''long unsigned int''),
    Fld ''anycast_src_echo_reply'' typedef_u8,
    Fld ''ip_nonlocal_bind'' typedef_u8,
    Fld ''fwmark_reflect'' typedef_u8,
    Fld ''flowlabel_state_ranges'' typedef_u8,
    Fld ''idgen_retries'' (CBase CInt),
    Fld ''idgen_delay'' (CBase CInt),
    Fld ''flowlabel_reflect'' (CBase CInt),
    Fld ''max_dst_opts_cnt'' (CBase CInt),
    Fld ''max_hbh_opts_cnt'' (CBase CInt),
    Fld ''max_dst_opts_len'' (CBase CInt),
    Fld ''max_hbh_opts_len'' (CBase CInt),
    Fld ''seg6_flowlabel'' (CBase CInt),
    Fld ''ioam6_id'' typedef_u32,
    Fld ''ioam6_id_wide'' typedef_u64,
    Fld ''skip_notify_on_dev_down'' typedef_u8,
    Fld ''fib_notify_on_flag_change'' typedef_u8,
    Fld ''icmpv6_error_anycast_as_unicast'' typedef_u8]"

definition struct_qrwlock :: ctype where
  "struct_qrwlock = CStruct False [
    Fld [] (CUnion False [
      Fld ''cnts'' typedef_atomic_t,
      Fld [] (CStruct False [
        Fld ''wlocked'' typedef_u8,
        Fld ''__lstate'' (CArray typedef_u8 3)])]),
    Fld ''wait_lock'' typedef_arch_spinlock_t]"

definition typedef_arch_rwlock_t :: ctype where
  "typedef_arch_rwlock_t = struct_qrwlock"

definition typedef_rwlock_t :: ctype where
  "typedef_rwlock_t = CStruct False [
    Fld ''raw_lock'' typedef_arch_rwlock_t]"

definition struct_delayed_work :: ctype where
  "struct_delayed_work = CStruct False [
    Fld ''work'' struct_work_struct,
    Fld ''timer'' struct_timer_list,
    Fld ''wq'' (CPtr ''struct workqueue_struct''),
    Fld ''cpu'' (CBase CInt)]"

definition struct_netns_ipv6 :: ctype where
  "struct_netns_ipv6 = CStruct False [
    Fld ''ip6_dst_ops'' struct_dst_ops,
    Fld ''sysctl'' struct_netns_sysctl_ipv6,
    Fld ''devconf_all'' (CPtr ''struct ipv6_devconf''),
    Fld ''devconf_dflt'' (CPtr ''struct ipv6_devconf''),
    Fld ''peers'' (CPtr ''struct inet_peer_base''),
    Fld ''fqdir'' (CPtr ''struct fqdir''),
    Fld ''fib6_null_entry'' (CPtr ''struct fib6_info''),
    Fld ''ip6_null_entry'' (CPtr ''struct rt6_info''),
    Fld ''rt6_stats'' (CPtr ''struct rt6_statistics''),
    Fld ''ip6_fib_timer'' struct_timer_list,
    Fld ''fib_table_hash'' (CPtr ''struct hlist_head''),
    Fld ''fib6_main_tbl'' (CPtr ''struct fib6_table''),
    Fld ''fib6_walkers'' struct_list_head,
    Fld ''fib6_walker_lock'' typedef_rwlock_t,
    Fld ''fib6_gc_lock'' typedef_spinlock_t,
    Fld ''ip6_rt_gc_expire'' typedef_atomic_t,
    Fld ''ip6_rt_last_gc'' (CBase CULong),
    Fld ''flowlabel_has_excl'' (CBase CUChar),
    Fld ''fib6_has_custom_rules'' typedef_bool,
    Fld ''fib6_rules_require_fldissect'' (CBase CUInt),
    Fld ''fib6_routes_require_src'' (CBase CUInt),
    Fld ''ip6_prohibit_entry'' (CPtr ''struct rt6_info''),
    Fld ''ip6_blk_hole_entry'' (CPtr ''struct rt6_info''),
    Fld ''fib6_local_tbl'' (CPtr ''struct fib6_table''),
    Fld ''fib6_rules_ops'' (CPtr ''struct fib_rules_ops''),
    Fld ''ndisc_sk'' (CPtr ''struct sock''),
    Fld ''tcp_sk'' (CPtr ''struct sock''),
    Fld ''igmp_sk'' (CPtr ''struct sock''),
    Fld ''mc_autojoin_sk'' (CPtr ''struct sock''),
    Fld ''inet6_addr_lst'' (CPtr ''struct hlist_head''),
    Fld ''addrconf_hash_lock'' typedef_spinlock_t,
    Fld ''addr_chk_work'' struct_delayed_work,
    Fld ''mr6_tables'' struct_list_head,
    Fld ''mr6_rules_ops'' (CPtr ''struct fib_rules_ops''),
    Fld ''dev_addr_genid'' typedef_atomic_t,
    Fld ''fib6_sernum'' typedef_atomic_t,
    Fld ''seg6_data'' (CPtr ''struct seg6_pernet_data''),
    Fld ''notifier_ops'' (CPtr ''struct fib_notifier_ops''),
    Fld ''ip6mr_notifier_ops'' (CPtr ''struct fib_notifier_ops''),
    Fld ''ipmr_seq'' (CBase CUInt),
    Fld ''ip6addrlbl_table'' (CStruct False [
      Fld ''head'' struct_hlist_head,
      Fld ''lock'' typedef_spinlock_t,
      Fld ''seq'' typedef_u32]),
    Fld ''ioam6_data'' (CPtr ''struct ioam6_pernet_data''),
    Bits [] (CBase CLong) 64,
    Bits [] (CBase CLong) 64,
    Bits [] (CBase CLong) 64,
    Bits [] (CBase CLong) 64]"

definition struct_netns_sysctl_lowpan :: ctype where
  "struct_netns_sysctl_lowpan = CStruct False [
    Fld ''frags_hdr'' (CPtr ''struct ctl_table_header'')]"

definition struct_netns_ieee802154_lowpan :: ctype where
  "struct_netns_ieee802154_lowpan = CStruct False [
    Fld ''sysctl'' struct_netns_sysctl_lowpan,
    Fld ''fqdir'' (CPtr ''struct fqdir'')]"

definition struct_netns_sctp :: ctype where
  "struct_netns_sctp = CStruct False [
    Fld ''sctp_statistics'' (CPtr ''struct sctp_mib''),
    Fld ''proc_net_sctp'' (CPtr ''struct proc_dir_entry''),
    Fld ''sysctl_header'' (CPtr ''struct ctl_table_header''),
    Fld ''ctl_sock'' (CPtr ''struct sock''),
    Fld ''udp4_sock'' (CPtr ''struct sock''),
    Fld ''udp6_sock'' (CPtr ''struct sock''),
    Fld ''udp_port'' (CBase CInt),
    Fld ''encap_port'' (CBase CInt),
    Fld ''local_addr_list'' struct_list_head,
    Fld ''addr_waitq'' struct_list_head,
    Fld ''addr_wq_timer'' struct_timer_list,
    Fld ''auto_asconf_splist'' struct_list_head,
    Fld ''addr_wq_lock'' typedef_spinlock_t,
    Fld ''local_addr_lock'' typedef_spinlock_t,
    Fld ''rto_initial'' (CBase CUInt),
    Fld ''rto_min'' (CBase CUInt),
    Fld ''rto_max'' (CBase CUInt),
    Fld ''rto_alpha'' (CBase CInt),
    Fld ''rto_beta'' (CBase CInt),
    Fld ''max_burst'' (CBase CInt),
    Fld ''cookie_preserve_enable'' (CBase CInt),
    Fld ''sctp_hmac_alg'' (CPtr ''char''),
    Fld ''valid_cookie_life'' (CBase CUInt),
    Fld ''sack_timeout'' (CBase CUInt),
    Fld ''hb_interval'' (CBase CUInt),
    Fld ''probe_interval'' (CBase CUInt),
    Fld ''max_retrans_association'' (CBase CInt),
    Fld ''max_retrans_path'' (CBase CInt),
    Fld ''max_retrans_init'' (CBase CInt),
    Fld ''pf_retrans'' (CBase CInt),
    Fld ''ps_retrans'' (CBase CInt),
    Fld ''pf_enable'' (CBase CInt),
    Fld ''pf_expose'' (CBase CInt),
    Fld ''sndbuf_policy'' (CBase CInt),
    Fld ''rcvbuf_policy'' (CBase CInt),
    Fld ''default_auto_asconf'' (CBase CInt),
    Fld ''addip_enable'' (CBase CInt),
    Fld ''addip_noauth'' (CBase CInt),
    Fld ''prsctp_enable'' (CBase CInt),
    Fld ''reconf_enable'' (CBase CInt),
    Fld ''auth_enable'' (CBase CInt),
    Fld ''intl_enable'' (CBase CInt),
    Fld ''ecn_enable'' (CBase CInt),
    Fld ''scope_policy'' (CBase CInt),
    Fld ''rwnd_upd_shift'' (CBase CInt),
    Fld ''max_autoclose'' (CBase CULong),
    Fld ''l3mdev_accept'' (CBase CInt)]"

definition struct_netns_nf :: ctype where
  "struct_netns_nf = CStruct False [
    Fld ''proc_netfilter'' (CPtr ''struct proc_dir_entry''),
    Fld ''nf_loggers'' (CArray (CPtr ''struct nf_logger'') 11),
    Fld ''nf_log_dir_header'' (CPtr ''struct ctl_table_header''),
    Fld ''hooks_ipv4'' (CArray (CPtr ''struct nf_hook_entries'') 5),
    Fld ''hooks_ipv6'' (CArray (CPtr ''struct nf_hook_entries'') 5),
    Fld ''hooks_arp'' (CArray (CPtr ''struct nf_hook_entries'') 3),
    Fld ''hooks_bridge'' (CArray (CPtr ''struct nf_hook_entries'') 5),
    Fld ''defrag_ipv4_users'' (CBase CUInt),
    Fld ''defrag_ipv6_users'' (CBase CUInt)]"

definition struct_nf_generic_net :: ctype where
  "struct_nf_generic_net = CStruct False [
    Fld ''timeout'' (CBase CUInt)]"

definition struct_nf_tcp_net :: ctype where
  "struct_nf_tcp_net = CStruct False [
    Fld ''timeouts'' (CArray (CBase CUInt) 14),
    Fld ''tcp_loose'' typedef_u8,
    Fld ''tcp_be_liberal'' typedef_u8,
    Fld ''tcp_max_retrans'' typedef_u8,
    Fld ''tcp_ignore_invalid_rst'' typedef_u8,
    Fld ''offload_timeout'' (CBase CUInt)]"

definition struct_nf_udp_net :: ctype where
  "struct_nf_udp_net = CStruct False [
    Fld ''timeouts'' (CArray (CBase CUInt) 2),
    Fld ''offload_timeout'' (CBase CUInt)]"

definition struct_nf_icmp_net :: ctype where
  "struct_nf_icmp_net = CStruct False [
    Fld ''timeout'' (CBase CUInt)]"

definition struct_nf_dccp_net :: ctype where
  "struct_nf_dccp_net = CStruct False [
    Fld ''dccp_loose'' typedef_u8,
    Fld ''dccp_timeout'' (CArray (CBase CUInt) 10)]"

definition struct_nf_sctp_net :: ctype where
  "struct_nf_sctp_net = CStruct False [
    Fld ''timeouts'' (CArray (CBase CUInt) 10)]"

definition struct_nf_gre_net :: ctype where
  "struct_nf_gre_net = CStruct False [
    Fld ''keymap_list'' struct_list_head,
    Fld ''timeouts'' (CArray (CBase CUInt) 2)]"

definition struct_nf_ip_net :: ctype where
  "struct_nf_ip_net = CStruct False [
    Fld ''generic'' struct_nf_generic_net,
    Fld ''tcp'' struct_nf_tcp_net,
    Fld ''udp'' struct_nf_udp_net,
    Fld ''icmp'' struct_nf_icmp_net,
    Fld ''icmpv6'' struct_nf_icmp_net,
    Fld ''dccp'' struct_nf_dccp_net,
    Fld ''sctp'' struct_nf_sctp_net,
    Fld ''gre'' struct_nf_gre_net]"

definition struct_netns_ct :: ctype where
  "struct_netns_ct = CStruct False [
    Fld ''ecache_dwork_pending'' typedef_bool,
    Fld ''sysctl_log_invalid'' typedef_u8,
    Fld ''sysctl_events'' typedef_u8,
    Fld ''sysctl_acct'' typedef_u8,
    Fld ''sysctl_tstamp'' typedef_u8,
    Fld ''sysctl_checksum'' typedef_u8,
    Fld ''stat'' (CPtr ''struct ip_conntrack_stat''),
    Fld ''nf_conntrack_event_cb'' (CPtr ''struct nf_ct_event_notifier''),
    Fld ''nf_ct_proto'' struct_nf_ip_net,
    Fld ''labels_used'' typedef_atomic_t]"

definition struct_netns_nftables :: ctype where
  "struct_netns_nftables = CStruct False [
    Fld ''gencursor'' typedef_u8]"

definition struct_netns_ft :: ctype where
  "struct_netns_ft = CStruct False [
    Fld ''stat'' (CPtr ''struct nf_flow_table_stat'')]"

definition struct_sk_buff_list :: ctype where
  "struct_sk_buff_list = CStruct False [
    Fld ''next'' (CPtr ''struct sk_buff''),
    Fld ''prev'' (CPtr ''struct sk_buff'')]"

definition struct_sk_buff_head :: ctype where
  "struct_sk_buff_head = CStruct False [
    Fld [] (CUnion False [
      Fld [] (CStruct False [
        Fld ''next'' (CPtr ''struct sk_buff''),
        Fld ''prev'' (CPtr ''struct sk_buff'')]),
      Fld ''list'' struct_sk_buff_list]),
    Fld ''qlen'' typedef___u32,
    Fld ''lock'' typedef_spinlock_t]"

definition struct_netns_bpf :: ctype where
  "struct_netns_bpf = CStruct False [
    Fld ''run_array'' (CArray (CPtr ''struct bpf_prog_array'') 2),
    Fld ''progs'' (CArray (CPtr ''struct bpf_prog'') 2),
    Fld ''links'' (CArray struct_list_head 2)]"

definition struct_xfrm_policy_hash :: ctype where
  "struct_xfrm_policy_hash = CStruct False [
    Fld ''table'' (CPtr ''struct hlist_head''),
    Fld ''hmask'' (CBase CUInt),
    Fld ''dbits4'' typedef_u8,
    Fld ''sbits4'' typedef_u8,
    Fld ''dbits6'' typedef_u8,
    Fld ''sbits6'' typedef_u8]"

definition struct_xfrm_policy_hthresh :: ctype where
  "struct_xfrm_policy_hthresh = CStruct False [
    Fld ''work'' struct_work_struct,
    Fld ''lock'' typedef_seqlock_t,
    Fld ''lbits4'' typedef_u8,
    Fld ''rbits4'' typedef_u8,
    Fld ''lbits6'' typedef_u8,
    Fld ''rbits6'' typedef_u8]"

definition struct_netns_xfrm :: ctype where
  "struct_netns_xfrm = CStruct False [
    Fld ''state_all'' struct_list_head,
    Fld ''state_bydst'' (CPtr ''struct hlist_head''),
    Fld ''state_bysrc'' (CPtr ''struct hlist_head''),
    Fld ''state_byspi'' (CPtr ''struct hlist_head''),
    Fld ''state_byseq'' (CPtr ''struct hlist_head''),
    Fld ''state_hmask'' (CBase CUInt),
    Fld ''state_num'' (CBase CUInt),
    Fld ''state_hash_work'' struct_work_struct,
    Fld ''policy_all'' struct_list_head,
    Fld ''policy_byidx'' (CPtr ''struct hlist_head''),
    Fld ''policy_idx_hmask'' (CBase CUInt),
    Fld ''idx_generator'' (CBase CUInt),
    Fld ''policy_inexact'' (CArray struct_hlist_head 3),
    Fld ''policy_bydst'' (CArray struct_xfrm_policy_hash 3),
    Fld ''policy_count'' (CArray (CBase CUInt) 6),
    Fld ''policy_hash_work'' struct_work_struct,
    Fld ''policy_hthresh'' struct_xfrm_policy_hthresh,
    Fld ''inexact_bins'' struct_list_head,
    Fld ''nlsk'' (CPtr ''struct sock''),
    Fld ''nlsk_stash'' (CPtr ''struct sock''),
    Fld ''sysctl_aevent_etime'' typedef_u32,
    Fld ''sysctl_aevent_rseqth'' typedef_u32,
    Fld ''sysctl_larval_drop'' (CBase CInt),
    Fld ''sysctl_acq_expires'' typedef_u32,
    Fld ''policy_default'' (CArray typedef_u8 3),
    Fld ''sysctl_hdr'' (CPtr ''struct ctl_table_header''),
    Bits [] (CBase CLong) 64,
    Bits [] (CBase CLong) 64,
    Bits [] (CBase CLong) 64,
    Fld ''xfrm4_dst_ops'' struct_dst_ops,
    Fld ''xfrm6_dst_ops'' struct_dst_ops,
    Fld ''xfrm_state_lock'' typedef_spinlock_t,
    Fld ''xfrm_state_hash_generation'' typedef_seqcount_spinlock_t,
    Fld ''xfrm_policy_hash_generation'' typedef_seqcount_spinlock_t,
    Fld ''xfrm_policy_lock'' typedef_spinlock_t,
    Fld ''xfrm_cfg_mutex'' struct_mutex,
    Bits [] (CBase CLong) 64,
    Bits [] (CBase CLong) 64]"

definition struct_netns_mpls :: ctype where
  "struct_netns_mpls = CStruct False [
    Fld ''ip_ttl_propagate'' (CBase CInt),
    Fld ''default_ttl'' (CBase CInt),
    Fld ''platform_labels'' typedef_size_t,
    Fld ''platform_label'' (CPtr ''struct mpls_route*''),
    Fld ''ctl'' (CPtr ''struct ctl_table_header'')]"

definition struct_netns_can :: ctype where
  "struct_netns_can = CStruct False [
    Fld ''proc_dir'' (CPtr ''struct proc_dir_entry''),
    Fld ''pde_stats'' (CPtr ''struct proc_dir_entry''),
    Fld ''pde_reset_stats'' (CPtr ''struct proc_dir_entry''),
    Fld ''pde_rcvlist_all'' (CPtr ''struct proc_dir_entry''),
    Fld ''pde_rcvlist_fil'' (CPtr ''struct proc_dir_entry''),
    Fld ''pde_rcvlist_inv'' (CPtr ''struct proc_dir_entry''),
    Fld ''pde_rcvlist_sff'' (CPtr ''struct proc_dir_entry''),
    Fld ''pde_rcvlist_eff'' (CPtr ''struct proc_dir_entry''),
    Fld ''pde_rcvlist_err'' (CPtr ''struct proc_dir_entry''),
    Fld ''bcmproc_dir'' (CPtr ''struct proc_dir_entry''),
    Fld ''rx_alldev_list'' (CPtr ''struct can_dev_rcv_lists''),
    Fld ''rcvlists_lock'' typedef_spinlock_t,
    Fld ''stattimer'' struct_timer_list,
    Fld ''pkg_stats'' (CPtr ''struct can_pkg_stats''),
    Fld ''rcv_lists_stats'' (CPtr ''struct can_rcv_lists_stats''),
    Fld ''cgw_list'' struct_hlist_head]"

definition struct_netns_xdp :: ctype where
  "struct_netns_xdp = CStruct False [
    Fld ''lock'' struct_mutex,
    Fld ''list'' struct_hlist_head]"

definition struct_netns_mctp :: ctype where
  "struct_netns_mctp = CStruct False [
    Fld ''routes'' struct_list_head,
    Fld ''bind_lock'' struct_mutex,
    Fld ''binds'' struct_hlist_head,
    Fld ''keys_lock'' typedef_spinlock_t,
    Fld ''keys'' struct_hlist_head,
    Fld ''default_net'' (CBase CUInt),
    Fld ''neigh_lock'' struct_mutex,
    Fld ''neighbours'' struct_list_head]"

definition struct_netns_smc :: ctype where
  "struct_netns_smc = CStruct False [
    Fld ''smc_stats'' (CPtr ''struct smc_stats''),
    Fld ''mutex_fback_rsn'' struct_mutex,
    Fld ''fback_rsn'' (CPtr ''struct smc_stats_rsn''),
    Fld ''limit_smc_hs'' typedef_bool,
    Fld ''smc_hdr'' (CPtr ''struct ctl_table_header''),
    Fld ''sysctl_autocorking_size'' (CBase CUInt),
    Fld ''sysctl_smcr_buf_type'' (CBase CUInt),
    Fld ''sysctl_smcr_testlink_time'' (CBase CInt),
    Fld ''sysctl_wmem'' (CBase CInt),
    Fld ''sysctl_rmem'' (CBase CInt),
    Fld ''sysctl_max_links_per_lgr'' (CBase CInt),
    Fld ''sysctl_max_conns_per_lgr'' (CBase CInt)]"

definition struct_net :: ctype where
  "struct_net = CStruct False [
    Fld ''passive'' typedef_refcount_t,
    Fld ''rules_mod_lock'' typedef_spinlock_t,
    Fld ''dev_base_seq'' (CBase CUInt),
    Fld ''ifindex'' typedef_u32,
    Fld ''nsid_lock'' typedef_spinlock_t,
    Fld ''fnhe_genid'' typedef_atomic_t,
    Fld ''list'' struct_list_head,
    Fld ''exit_list'' struct_list_head,
    Fld ''cleanup_list'' struct_llist_node,
    Fld ''key_domain'' (CPtr ''struct key_tag''),
    Fld ''user_ns'' (CPtr ''struct user_namespace''),
    Fld ''ucounts'' (CPtr ''struct ucounts''),
    Fld ''netns_ids'' struct_idr,
    Fld ''ns'' struct_ns_common,
    Fld ''refcnt_tracker'' struct_ref_tracker_dir,
    Fld ''notrefcnt_tracker'' struct_ref_tracker_dir,
    Fld ''dev_base_head'' struct_list_head,
    Fld ''proc_net'' (CPtr ''struct proc_dir_entry''),
    Fld ''proc_net_stat'' (CPtr ''struct proc_dir_entry''),
    Fld ''sysctls'' struct_ctl_table_set,
    Fld ''rtnl'' (CPtr ''struct sock''),
    Fld ''genl_sock'' (CPtr ''struct sock''),
    Fld ''uevent_sock'' (CPtr ''struct uevent_sock''),
    Fld ''dev_name_head'' (CPtr ''struct hlist_head''),
    Fld ''dev_index_head'' (CPtr ''struct hlist_head''),
    Fld ''dev_by_index'' struct_xarray,
    Fld ''netdev_chain'' struct_raw_notifier_head,
    Fld ''hash_mix'' typedef_u32,
    Fld ''loopback_dev'' (CPtr ''struct net_device''),
    Fld ''rules_ops'' struct_list_head,
    Fld ''core'' struct_netns_core,
    Fld ''mib'' struct_netns_mib,
    Fld ''packet'' struct_netns_packet,
    Fld ''unx'' struct_netns_unix,
    Fld ''nexthop'' struct_netns_nexthop,
    Bits [] (CBase CLong) 64,
    Bits [] (CBase CLong) 64,
    Bits [] (CBase CLong) 64,
    Bits [] (CBase CLong) 64,
    Bits [] (CBase CLong) 64,
    Fld ''ipv4'' struct_netns_ipv4,
    Fld ''ipv6'' struct_netns_ipv6,
    Fld ''ieee802154_lowpan'' struct_netns_ieee802154_lowpan,
    Fld ''sctp'' struct_netns_sctp,
    Fld ''nf'' struct_netns_nf,
    Fld ''ct'' struct_netns_ct,
    Fld ''nft'' struct_netns_nftables,
    Fld ''ft'' struct_netns_ft,
    Fld ''wext_nlevents'' struct_sk_buff_head,
    Fld ''gen'' (CPtr ''struct net_generic''),
    Fld ''bpf'' struct_netns_bpf,
    Bits [] (CBase CLong) 64,
    Bits [] (CBase CLong) 64,
    Bits [] (CBase CLong) 64,
    Bits [] (CBase CLong) 64,
    Bits [] (CBase CLong) 64,
    Fld ''xfrm'' struct_netns_xfrm,
    Fld ''net_cookie'' typedef_u64,
    Fld ''ipvs'' (CPtr ''struct netns_ipvs''),
    Fld ''mpls'' struct_netns_mpls,
    Fld ''can'' struct_netns_can,
    Fld ''xdp'' struct_netns_xdp,
    Fld ''mctp'' struct_netns_mctp,
    Fld ''crypto_nlsk'' (CPtr ''struct sock''),
    Fld ''diag_nlsk'' (CPtr ''struct sock''),
    Fld ''smc'' struct_netns_smc,
    Bits [] (CBase CLong) 64,
    Bits [] (CBase CLong) 64,
    Bits [] (CBase CLong) 64]"

section \<open>Sizes and alignments\<close>

lemma struct_nsproxy_layout [layout]: "csize struct_nsproxy = 72" "calign struct_nsproxy = 8"
  by (simp_all add: struct_nsproxy_def layout)

lemma struct_new_utsname_layout [layout]: "csize struct_new_utsname = 390" "calign struct_new_utsname = 1"
  by (simp_all add: struct_new_utsname_def layout)

lemma struct_ns_common_layout [layout]: "csize struct_ns_common = 24" "calign struct_ns_common = 8"
  by (simp_all add: struct_ns_common_def layout)

lemma struct_uts_namespace_layout [layout]: "csize struct_uts_namespace = 432" "calign struct_uts_namespace = 8"
  by (simp_all add: struct_uts_namespace_def layout)

lemma struct_rw_semaphore_layout [layout]: "csize struct_rw_semaphore = 40" "calign struct_rw_semaphore = 8"
  by (simp_all add: struct_rw_semaphore_def layout)

lemma struct_xarray_layout [layout]: "csize struct_xarray = 16" "calign struct_xarray = 8"
  by (simp_all add: struct_xarray_def layout)

lemma struct_idr_layout [layout]: "csize struct_idr = 24" "calign struct_idr = 8"
  by (simp_all add: struct_idr_def layout)

lemma typedef_rht_hashfn_t_layout [layout]: "csize typedef_rht_hashfn_t = 8" "calign typedef_rht_hashfn_t = 8"
  by (simp_all add: typedef_rht_hashfn_t_def layout)

lemma typedef_rht_obj_hashfn_t_layout [layout]: "csize typedef_rht_obj_hashfn_t = 8" "calign typedef_rht_obj_hashfn_t = 8"
  by (simp_all add: typedef_rht_obj_hashfn_t_def layout)

lemma typedef_rht_obj_cmpfn_t_layout [layout]: "csize typedef_rht_obj_cmpfn_t = 8" "calign typedef_rht_obj_cmpfn_t = 8"
  by (simp_all add: typedef_rht_obj_cmpfn_t_def layout)

lemma struct_rhashtable_params_layout [layout]: "csize struct_rhashtable_params = 40" "calign struct_rhashtable_params = 8"
  by (simp_all add: struct_rhashtable_params_def layout)

lemma typedef_work_func_t_layout [layout]: "csize typedef_work_func_t = 8" "calign typedef_work_func_t = 8"
  by (simp_all add: typedef_work_func_t_def layout)

lemma struct_work_struct_layout [layout]: "csize struct_work_struct = 32" "calign struct_work_struct = 8"
  by (simp_all add: struct_work_struct_def layout)

lemma struct_rhashtable_layout [layout]: "csize struct_rhashtable = 136" "calign struct_rhashtable = 8"
  by (simp_all add: struct_rhashtable_def layout)

lemma struct_ipc_ids_layout [layout]: "csize struct_ipc_ids = 224" "calign struct_ipc_ids = 8"
  by (simp_all add: struct_ipc_ids_def layout)

lemma struct_percpu_counter_layout [layout]: "csize struct_percpu_counter = 40" "calign struct_percpu_counter = 8"
  by (simp_all add: struct_percpu_counter_def layout)

lemma typedef_notifier_fn_t_layout [layout]: "csize typedef_notifier_fn_t = 8" "calign typedef_notifier_fn_t = 8"
  by (simp_all add: typedef_notifier_fn_t_def layout)

lemma struct_notifier_block_layout [layout]: "csize struct_notifier_block = 24" "calign struct_notifier_block = 8"
  by (simp_all add: struct_notifier_block_def layout)

lemma struct_ctl_table_header_layout [layout]: "csize struct_ctl_table_header = 80" "calign struct_ctl_table_header = 8"
  by (simp_all add: struct_ctl_table_header_def layout)

lemma struct_ctl_dir_layout [layout]: "csize struct_ctl_dir = 88" "calign struct_ctl_dir = 8"
  by (simp_all add: struct_ctl_dir_def layout)

lemma struct_ctl_table_set_layout [layout]: "csize struct_ctl_table_set = 96" "calign struct_ctl_table_set = 8"
  by (simp_all add: struct_ctl_table_set_def layout)

lemma struct_ipc_namespace_layout [layout]: "csize struct_ipc_namespace = 1128" "calign struct_ipc_namespace = 8"
  by (simp_all add: struct_ipc_namespace_def layout)

lemma struct_wait_queue_head_layout [layout]: "csize struct_wait_queue_head = 24" "calign struct_wait_queue_head = 8"
  by (simp_all add: struct_wait_queue_head_def layout)

lemma typedef_wait_queue_head_t_layout [layout]: "csize typedef_wait_queue_head_t = 24" "calign typedef_wait_queue_head_t = 8"
  by (simp_all add: typedef_wait_queue_head_t_def layout)

lemma struct_mnt_namespace_layout [layout]: "csize struct_mnt_namespace = 104" "calign struct_mnt_namespace = 8"
  by (simp_all add: struct_mnt_namespace_def layout)

lemma struct_pid_namespace_layout [layout]: "csize struct_pid_namespace = 144" "calign struct_pid_namespace = 8"
  by (simp_all add: struct_pid_namespace_def layout)

lemma typedef_time64_t_layout [layout]: "csize typedef_time64_t = 8" "calign typedef_time64_t = 8"
  by (simp_all add: typedef_time64_t_def layout)

lemma struct_timespec64_layout [layout]: "csize struct_timespec64 = 16" "calign struct_timespec64 = 8"
  by (simp_all add: struct_timespec64_def layout)

lemma struct_timens_offsets_layout [layout]: "csize struct_timens_offsets = 32" "calign struct_timens_offsets = 8"
  by (simp_all add: struct_timens_offsets_def layout)

lemma struct_time_namespace_layout [layout]: "csize struct_time_namespace = 88" "calign struct_time_namespace = 8"
  by (simp_all add: struct_time_namespace_def layout)

lemma struct_cgroup_namespace_layout [layout]: "csize struct_cgroup_namespace = 48" "calign struct_cgroup_namespace = 8"
  by (simp_all add: struct_cgroup_namespace_def layout)

lemma struct_ref_tracker_dir_layout [layout]: "csize struct_ref_tracker_dir = 0" "calign struct_ref_tracker_dir = 1"
  by (simp_all add: struct_ref_tracker_dir_def layout)

lemma struct_raw_notifier_head_layout [layout]: "csize struct_raw_notifier_head = 8" "calign struct_raw_notifier_head = 8"
  by (simp_all add: struct_raw_notifier_head_def layout)

lemma struct_netns_core_layout [layout]: "csize struct_netns_core = 40" "calign struct_netns_core = 8"
  by (simp_all add: struct_netns_core_def layout)

lemma struct_netns_mib_layout [layout]: "csize struct_netns_mib = 120" "calign struct_netns_mib = 8"
  by (simp_all add: struct_netns_mib_def layout)

lemma struct_netns_packet_layout [layout]: "csize struct_netns_packet = 40" "calign struct_netns_packet = 8"
  by (simp_all add: struct_netns_packet_def layout)

lemma struct_unix_table_layout [layout]: "csize struct_unix_table = 16" "calign struct_unix_table = 8"
  by (simp_all add: struct_unix_table_def layout)

lemma struct_netns_unix_layout [layout]: "csize struct_netns_unix = 32" "calign struct_netns_unix = 8"
  by (simp_all add: struct_netns_unix_def layout)

lemma struct_blocking_notifier_head_layout [layout]: "csize struct_blocking_notifier_head = 48" "calign struct_blocking_notifier_head = 8"
  by (simp_all add: struct_blocking_notifier_head_def layout)

lemma struct_netns_nexthop_layout [layout]: "csize struct_netns_nexthop = 72" "calign struct_netns_nexthop = 8"
  by (simp_all add: struct_netns_nexthop_def layout)

lemma struct_inet_timewait_death_row_layout [layout]: "csize struct_inet_timewait_death_row = 128" "calign struct_inet_timewait_death_row = 8"
  by (simp_all add: struct_inet_timewait_death_row_def layout)

lemma struct_local_ports_layout [layout]: "csize struct_local_ports = 8" "calign struct_local_ports = 4"
  by (simp_all add: struct_local_ports_def layout)

lemma typedef_seqlock_t_layout [layout]: "csize typedef_seqlock_t = 8" "calign typedef_seqlock_t = 4"
  by (simp_all add: typedef_seqlock_t_def layout)

lemma typedef___kernel_gid32_t_layout [layout]: "csize typedef___kernel_gid32_t = 4" "calign typedef___kernel_gid32_t = 4"
  by (simp_all add: typedef___kernel_gid32_t_def layout)

lemma typedef_gid_t_layout [layout]: "csize typedef_gid_t = 4" "calign typedef_gid_t = 4"
  by (simp_all add: typedef_gid_t_def layout)

lemma typedef_kgid_t_layout [layout]: "csize typedef_kgid_t = 4" "calign typedef_kgid_t = 4"
  by (simp_all add: typedef_kgid_t_def layout)

lemma struct_ping_group_range_layout [layout]: "csize struct_ping_group_range = 16" "calign struct_ping_group_range = 4"
  by (simp_all add: struct_ping_group_range_def layout)

lemma typedef_siphash_key_t_layout [layout]: "csize typedef_siphash_key_t = 16" "calign typedef_siphash_key_t = 8"
  by (simp_all add: typedef_siphash_key_t_def layout)

lemma struct_netns_ipv4_layout [layout]: "csize struct_netns_ipv4 = 768" "calign struct_netns_ipv4 = 8"
  by (simp_all add: struct_netns_ipv4_def struct_netns_ipv4_part1_def struct_netns_ipv4_part2_def layout)

lemma struct_dst_ops_layout [layout]: "csize struct_dst_ops = 192" "calign struct_dst_ops = 8"
  by (simp_all add: struct_dst_ops_def layout)

lemma struct_netns_sysctl_ipv6_layout [layout]: "csize struct_netns_sysctl_ipv6 = 184" "calign struct_netns_sysctl_ipv6 = 8"
  by (simp_all add: struct_netns_sysctl_ipv6_def layout)

lemma struct_qrwlock_layout [layout]: "csize struct_qrwlock = 8" "calign struct_qrwlock = 4"
  by (simp_all add: struct_qrwlock_def layout)

lemma typedef_arch_rwlock_t_layout [layout]: "csize typedef_arch_rwlock_t = 8" "calign typedef_arch_rwlock_t = 4"
  by (simp_all add: typedef_arch_rwlock_t_def layout)

lemma typedef_rwlock_t_layout [layout]: "csize typedef_rwlock_t = 8" "calign typedef_rwlock_t = 4"
  by (simp_all add: typedef_rwlock_t_def layout)

lemma struct_delayed_work_layout [layout]: "csize struct_delayed_work = 88" "calign struct_delayed_work = 8"
  by (simp_all add: struct_delayed_work_def layout)

lemma struct_netns_ipv6_layout [layout]: "csize struct_netns_ipv6 = 832" "calign struct_netns_ipv6 = 8"
  by (simp_all add: struct_netns_ipv6_def layout)

lemma struct_netns_sysctl_lowpan_layout [layout]: "csize struct_netns_sysctl_lowpan = 8" "calign struct_netns_sysctl_lowpan = 8"
  by (simp_all add: struct_netns_sysctl_lowpan_def layout)

lemma struct_netns_ieee802154_lowpan_layout [layout]: "csize struct_netns_ieee802154_lowpan = 16" "calign struct_netns_ieee802154_lowpan = 8"
  by (simp_all add: struct_netns_ieee802154_lowpan_def layout)

lemma struct_netns_sctp_layout [layout]: "csize struct_netns_sctp = 304" "calign struct_netns_sctp = 8"
  by (simp_all add: struct_netns_sctp_def layout)

lemma struct_netns_nf_layout [layout]: "csize struct_netns_nf = 256" "calign struct_netns_nf = 8"
  by (simp_all add: struct_netns_nf_def layout)

lemma struct_nf_generic_net_layout [layout]: "csize struct_nf_generic_net = 4" "calign struct_nf_generic_net = 4"
  by (simp_all add: struct_nf_generic_net_def layout)

lemma struct_nf_tcp_net_layout [layout]: "csize struct_nf_tcp_net = 64" "calign struct_nf_tcp_net = 4"
  by (simp_all add: struct_nf_tcp_net_def layout)

lemma struct_nf_udp_net_layout [layout]: "csize struct_nf_udp_net = 12" "calign struct_nf_udp_net = 4"
  by (simp_all add: struct_nf_udp_net_def layout)

lemma struct_nf_icmp_net_layout [layout]: "csize struct_nf_icmp_net = 4" "calign struct_nf_icmp_net = 4"
  by (simp_all add: struct_nf_icmp_net_def layout)

lemma struct_nf_dccp_net_layout [layout]: "csize struct_nf_dccp_net = 44" "calign struct_nf_dccp_net = 4"
  by (simp_all add: struct_nf_dccp_net_def layout)

lemma struct_nf_sctp_net_layout [layout]: "csize struct_nf_sctp_net = 40" "calign struct_nf_sctp_net = 4"
  by (simp_all add: struct_nf_sctp_net_def layout)

lemma struct_nf_gre_net_layout [layout]: "csize struct_nf_gre_net = 24" "calign struct_nf_gre_net = 8"
  by (simp_all add: struct_nf_gre_net_def layout)

lemma struct_nf_ip_net_layout [layout]: "csize struct_nf_ip_net = 200" "calign struct_nf_ip_net = 8"
  by (simp_all add: struct_nf_ip_net_def layout)

lemma struct_netns_ct_layout [layout]: "csize struct_netns_ct = 232" "calign struct_netns_ct = 8"
  by (simp_all add: struct_netns_ct_def layout)

lemma struct_netns_nftables_layout [layout]: "csize struct_netns_nftables = 1" "calign struct_netns_nftables = 1"
  by (simp_all add: struct_netns_nftables_def layout)

lemma struct_netns_ft_layout [layout]: "csize struct_netns_ft = 8" "calign struct_netns_ft = 8"
  by (simp_all add: struct_netns_ft_def layout)

lemma struct_sk_buff_list_layout [layout]: "csize struct_sk_buff_list = 16" "calign struct_sk_buff_list = 8"
  by (simp_all add: struct_sk_buff_list_def layout)

lemma struct_sk_buff_head_layout [layout]: "csize struct_sk_buff_head = 24" "calign struct_sk_buff_head = 8"
  by (simp_all add: struct_sk_buff_head_def layout)

lemma struct_netns_bpf_layout [layout]: "csize struct_netns_bpf = 64" "calign struct_netns_bpf = 8"
  by (simp_all add: struct_netns_bpf_def layout)

lemma struct_xfrm_policy_hash_layout [layout]: "csize struct_xfrm_policy_hash = 16" "calign struct_xfrm_policy_hash = 8"
  by (simp_all add: struct_xfrm_policy_hash_def layout)

lemma struct_xfrm_policy_hthresh_layout [layout]: "csize struct_xfrm_policy_hthresh = 48" "calign struct_xfrm_policy_hthresh = 8"
  by (simp_all add: struct_xfrm_policy_hthresh_def layout)

lemma struct_netns_xfrm_layout [layout]: "csize struct_netns_xfrm = 832" "calign struct_netns_xfrm = 8"
  by (simp_all add: struct_netns_xfrm_def layout)

lemma struct_netns_mpls_layout [layout]: "csize struct_netns_mpls = 32" "calign struct_netns_mpls = 8"
  by (simp_all add: struct_netns_mpls_def layout)

lemma struct_netns_can_layout [layout]: "csize struct_netns_can = 160" "calign struct_netns_can = 8"
  by (simp_all add: struct_netns_can_def layout)

lemma struct_netns_xdp_layout [layout]: "csize struct_netns_xdp = 40" "calign struct_netns_xdp = 8"
  by (simp_all add: struct_netns_xdp_def layout)

lemma struct_netns_mctp_layout [layout]: "csize struct_netns_mctp = 128" "calign struct_netns_mctp = 8"
  by (simp_all add: struct_netns_mctp_def layout)

lemma struct_netns_smc_layout [layout]: "csize struct_netns_smc = 96" "calign struct_netns_smc = 8"
  by (simp_all add: struct_netns_smc_def layout)

lemma struct_net_layout [layout]: "csize struct_net = 4608" "calign struct_net = 8"
  by (simp_all add: struct_net_def layout)

end
