(* ===== verification/Kernel_Types_Sock.thy ===== *)
theory Kernel_Types_Sock imports Kernel_Types_Net begin

text \<open>
  The sockets the probe receives: \<^verbatim>\<open>struct sock\<close> with its common part, the TCP sockets built
  on it, the request and time-wait sockets that share only the common part, and the arguments and
  operation tables of the probed \<^verbatim>\<open>tcp_recvmsg\<close>.

  Transcribed line by line from
  \<^verbatim>\<open>src/autoscaler/conc_req_monitoring/bpf/vmlinux.h\<close>: one definition per
  \<^verbatim>\<open>struct\<close>, \<^verbatim>\<open>union\<close>, \<^verbatim>\<open>enum\<close> and \<^verbatim>\<open>typedef\<close>, named
  after the declaration with its kind as a prefix, members in the header's order, and one line
  per member; an aggregate of more than 150 lines is cut into parts. Qualifiers are dropped. For
  each type its size and alignment are computed and added to \<open>layout\<close>, so that the types
  that contain it are laid out from these facts and not from its members again.
\<close>

section \<open>Declarations\<close>

definition typedef___addrpair :: ctype where
  "typedef___addrpair = typedef___u64"

definition typedef___be32 :: ctype where
  "typedef___be32 = typedef___u32"

definition typedef___portpair :: ctype where
  "typedef___portpair = typedef___u32"

definition typedef___be16 :: ctype where
  "typedef___be16 = typedef___u16"

definition typedef_possible_net_t :: ctype where
  "typedef_possible_net_t = CStruct False [
    Fld ''net'' (CPtr ''struct net'')]"

definition struct_in6_addr :: ctype where
  "struct_in6_addr = CStruct False [
    Fld ''in6_u'' (CUnion False [
      Fld ''u6_addr8'' (CArray typedef___u8 16),
      Fld ''u6_addr16'' (CArray typedef___be16 8),
      Fld ''u6_addr32'' (CArray typedef___be32 4)])]"

definition struct_hlist_nulls_node :: ctype where
  "struct_hlist_nulls_node = CStruct False [
    Fld ''next'' (CPtr ''struct hlist_nulls_node''),
    Fld ''pprev'' (CPtr ''struct hlist_nulls_node*'')]"

definition struct_sock_common :: ctype where
  "struct_sock_common = CStruct False [
    Fld [] (CUnion False [
      Fld ''skc_addrpair'' typedef___addrpair,
      Fld [] (CStruct False [
        Fld ''skc_daddr'' typedef___be32,
        Fld ''skc_rcv_saddr'' typedef___be32])]),
    Fld [] (CUnion False [
      Fld ''skc_hash'' (CBase CUInt),
      Fld ''skc_u16hashes'' (CArray typedef___u16 2)]),
    Fld [] (CUnion False [
      Fld ''skc_portpair'' typedef___portpair,
      Fld [] (CStruct False [
        Fld ''skc_dport'' typedef___be16,
        Fld ''skc_num'' typedef___u16])]),
    Fld ''skc_family'' (CBase CUShort),
    Fld ''skc_state'' (CBase CUChar),
    Bits ''skc_reuse'' (CBase CUChar) 4,
    Bits ''skc_reuseport'' (CBase CUChar) 1,
    Bits ''skc_ipv6only'' (CBase CUChar) 1,
    Bits ''skc_net_refcnt'' (CBase CUChar) 1,
    Fld ''skc_bound_dev_if'' (CBase CInt),
    Fld [] (CUnion False [
      Fld ''skc_bind_node'' struct_hlist_node,
      Fld ''skc_portaddr_node'' struct_hlist_node]),
    Fld ''skc_prot'' (CPtr ''struct proto''),
    Fld ''skc_net'' typedef_possible_net_t,
    Fld ''skc_v6_daddr'' struct_in6_addr,
    Fld ''skc_v6_rcv_saddr'' struct_in6_addr,
    Fld ''skc_cookie'' typedef_atomic64_t,
    Fld [] (CUnion False [
      Fld ''skc_flags'' (CBase CULong),
      Fld ''skc_listener'' (CPtr ''struct sock''),
      Fld ''skc_tw_dr'' (CPtr ''struct inet_timewait_death_row'')]),
    Fld ''skc_dontcopy_begin'' (CArray (CBase CInt) 0),
    Fld [] (CUnion False [
      Fld ''skc_node'' struct_hlist_node,
      Fld ''skc_nulls_node'' struct_hlist_nulls_node]),
    Fld ''skc_tx_queue_mapping'' (CBase CUShort),
    Fld ''skc_rx_queue_mapping'' (CBase CUShort),
    Fld [] (CUnion False [
      Fld ''skc_incoming_cpu'' (CBase CInt),
      Fld ''skc_rcv_wnd'' typedef_u32,
      Fld ''skc_tw_rcv_nxt'' typedef_u32]),
    Fld ''skc_refcnt'' typedef_refcount_t,
    Fld ''skc_dontcopy_end'' (CArray (CBase CInt) 0),
    Fld [] (CUnion False [
      Fld ''skc_rxhash'' typedef_u32,
      Fld ''skc_window_clamp'' typedef_u32,
      Fld ''skc_tw_snd_nxt'' typedef_u32])]"

definition typedef___s32 :: ctype where
  "typedef___s32 = CBase CInt"

definition typedef_socket_lock_t :: ctype where
  "typedef_socket_lock_t = CStruct False [
    Fld ''slock'' typedef_spinlock_t,
    Fld ''owned'' (CBase CInt),
    Fld ''wq'' typedef_wait_queue_head_t]"

definition typedef_netdev_features_t :: ctype where
  "typedef_netdev_features_t = typedef_u64"

definition struct_sock_cgroup_data :: ctype where
  "struct_sock_cgroup_data = CStruct False [
    Fld ''cgroup'' (CPtr ''struct cgroup''),
    Fld ''classid'' typedef_u32,
    Fld ''prioidx'' typedef_u16]"

definition typedef_netns_tracker :: ctype where
  "typedef_netns_tracker = CStruct False []"

definition struct_sock :: ctype where
  "struct_sock = CStruct False [
    Fld ''__sk_common'' struct_sock_common,
    Fld ''__cacheline_group_begin__sock_write_rx'' (CArray typedef___u8 0),
    Fld ''sk_drops'' typedef_atomic_t,
    Fld ''sk_peek_off'' typedef___s32,
    Fld ''sk_error_queue'' struct_sk_buff_head,
    Fld ''sk_receive_queue'' struct_sk_buff_head,
    Fld ''sk_backlog'' (CStruct False [
      Fld ''rmem_alloc'' typedef_atomic_t,
      Fld ''len'' (CBase CInt),
      Fld ''head'' (CPtr ''struct sk_buff''),
      Fld ''tail'' (CPtr ''struct sk_buff'')]),
    Fld ''__cacheline_group_end__sock_write_rx'' (CArray typedef___u8 0),
    Fld ''__cacheline_group_begin__sock_read_rx'' (CArray typedef___u8 0),
    Fld ''sk_rx_dst'' (CPtr ''struct dst_entry''),
    Fld ''sk_rx_dst_ifindex'' (CBase CInt),
    Fld ''sk_rx_dst_cookie'' typedef_u32,
    Fld ''sk_ll_usec'' (CBase CUInt),
    Fld ''sk_napi_id'' (CBase CUInt),
    Fld ''sk_busy_poll_budget'' typedef_u16,
    Fld ''sk_prefer_busy_poll'' typedef_u8,
    Fld ''sk_userlocks'' typedef_u8,
    Fld ''sk_rcvbuf'' (CBase CInt),
    Fld ''sk_filter'' (CPtr ''struct sk_filter''),
    Fld [] (CUnion False [
      Fld ''sk_wq'' (CPtr ''struct socket_wq''),
      Fld ''sk_wq_raw'' (CPtr ''struct socket_wq'')]),
    Fld ''sk_data_ready'' CFunPtr,
    Fld ''sk_rcvtimeo'' (CBase CLong),
    Fld ''sk_rcvlowat'' (CBase CInt),
    Fld ''__cacheline_group_end__sock_read_rx'' (CArray typedef___u8 0),
    Fld ''__cacheline_group_begin__sock_read_rxtx'' (CArray typedef___u8 0),
    Fld ''sk_err'' (CBase CInt),
    Fld ''sk_socket'' (CPtr ''struct socket''),
    Fld ''sk_memcg'' (CPtr ''struct mem_cgroup''),
    Fld ''sk_policy'' (CArray (CPtr ''struct xfrm_policy'') 2),
    Fld ''__cacheline_group_end__sock_read_rxtx'' (CArray typedef___u8 0),
    Fld ''__cacheline_group_begin__sock_write_rxtx'' (CArray typedef___u8 0),
    Fld ''sk_lock'' typedef_socket_lock_t,
    Fld ''sk_reserved_mem'' typedef_u32,
    Fld ''sk_forward_alloc'' (CBase CInt),
    Fld ''sk_tsflags'' typedef_u32,
    Fld ''__cacheline_group_end__sock_write_rxtx'' (CArray typedef___u8 0),
    Fld ''__cacheline_group_begin__sock_write_tx'' (CArray typedef___u8 0),
    Fld ''sk_write_pending'' (CBase CInt),
    Fld ''sk_omem_alloc'' typedef_atomic_t,
    Fld ''sk_sndbuf'' (CBase CInt),
    Fld ''sk_wmem_queued'' (CBase CInt),
    Fld ''sk_wmem_alloc'' typedef_refcount_t,
    Fld ''sk_tsq_flags'' (CBase CULong),
    Fld [] (CUnion False [
      Fld ''sk_send_head'' (CPtr ''struct sk_buff''),
      Fld ''tcp_rtx_queue'' struct_rb_root]),
    Fld ''sk_write_queue'' struct_sk_buff_head,
    Fld ''sk_dst_pending_confirm'' typedef_u32,
    Fld ''sk_pacing_status'' typedef_u32,
    Fld ''sk_frag'' struct_page_frag,
    Fld ''sk_timer'' struct_timer_list,
    Fld ''sk_pacing_rate'' (CBase CULong),
    Fld ''sk_zckey'' typedef_atomic_t,
    Fld ''sk_tskey'' typedef_atomic_t,
    Fld ''__cacheline_group_end__sock_write_tx'' (CArray typedef___u8 0),
    Fld ''__cacheline_group_begin__sock_read_tx'' (CArray typedef___u8 0),
    Fld ''sk_max_pacing_rate'' (CBase CULong),
    Fld ''sk_sndtimeo'' (CBase CLong),
    Fld ''sk_priority'' typedef_u32,
    Fld ''sk_mark'' typedef_u32,
    Fld ''sk_dst_cache'' (CPtr ''struct dst_entry''),
    Fld ''sk_route_caps'' typedef_netdev_features_t,
    Fld ''sk_validate_xmit_skb'' CFunPtr,
    Fld ''sk_gso_type'' typedef_u16,
    Fld ''sk_gso_max_segs'' typedef_u16,
    Fld ''sk_gso_max_size'' (CBase CUInt),
    Fld ''sk_allocation'' typedef_gfp_t,
    Fld ''sk_txhash'' typedef_u32,
    Fld ''sk_pacing_shift'' typedef_u8,
    Fld ''sk_use_task_frag'' typedef_bool,
    Fld ''__cacheline_group_end__sock_read_tx'' (CArray typedef___u8 0),
    Bits ''sk_gso_disabled'' typedef_u8 1,
    Bits ''sk_kern_sock'' typedef_u8 1,
    Bits ''sk_no_check_tx'' typedef_u8 1,
    Bits ''sk_no_check_rx'' typedef_u8 1,
    Fld ''sk_shutdown'' typedef_u8,
    Fld ''sk_type'' typedef_u16,
    Fld ''sk_protocol'' typedef_u16,
    Fld ''sk_lingertime'' (CBase CULong),
    Fld ''sk_prot_creator'' (CPtr ''struct proto''),
    Fld ''sk_callback_lock'' typedef_rwlock_t,
    Fld ''sk_err_soft'' (CBase CInt),
    Fld ''sk_ack_backlog'' typedef_u32,
    Fld ''sk_max_ack_backlog'' typedef_u32,
    Fld ''sk_uid'' typedef_kuid_t,
    Fld ''sk_peer_lock'' typedef_spinlock_t,
    Fld ''sk_bind_phc'' (CBase CInt),
    Fld ''sk_peer_pid'' (CPtr ''struct pid''),
    Fld ''sk_peer_cred'' (CPtr ''struct cred''),
    Fld ''sk_stamp'' typedef_ktime_t,
    Fld ''sk_disconnects'' (CBase CInt),
    Fld ''sk_txrehash'' typedef_u8,
    Fld ''sk_clockid'' typedef_u8,
    Bits ''sk_txtime_deadline_mode'' typedef_u8 1,
    Bits ''sk_txtime_report_errors'' typedef_u8 1,
    Bits ''sk_txtime_unused'' typedef_u8 6,
    Fld ''sk_user_data'' (CPtr ''void''),
    Fld ''sk_security'' (CPtr ''void''),
    Fld ''sk_cgrp_data'' struct_sock_cgroup_data,
    Fld ''sk_state_change'' CFunPtr,
    Fld ''sk_write_space'' CFunPtr,
    Fld ''sk_error_report'' CFunPtr,
    Fld ''sk_backlog_rcv'' CFunPtr,
    Fld ''sk_destruct'' CFunPtr,
    Fld ''sk_reuseport_cb'' (CPtr ''struct sock_reuseport''),
    Fld ''sk_bpf_storage'' (CPtr ''struct bpf_local_storage''),
    Fld ''sk_rcu'' struct_callback_head,
    Fld ''ns_tracker'' typedef_netns_tracker]"

definition typedef___s16 :: ctype where
  "typedef___s16 = CBase CShort"

definition struct_inet_cork :: ctype where
  "struct_inet_cork = CStruct False [
    Fld ''flags'' (CBase CUInt),
    Fld ''addr'' typedef___be32,
    Fld ''opt'' (CPtr ''struct ip_options''),
    Fld ''fragsize'' (CBase CUInt),
    Fld ''length'' (CBase CInt),
    Fld ''dst'' (CPtr ''struct dst_entry''),
    Fld ''tx_flags'' typedef_u8,
    Fld ''ttl'' typedef___u8,
    Fld ''tos'' typedef___s16,
    Fld ''priority'' (CBase CChar),
    Fld ''gso_size'' typedef___u16,
    Fld ''transmit_time'' typedef_u64,
    Fld ''mark'' typedef_u32]"

definition typedef___be64 :: ctype where
  "typedef___be64 = typedef___u64"

definition struct_flowi_tunnel :: ctype where
  "struct_flowi_tunnel = CStruct False [
    Fld ''tun_id'' typedef___be64]"

definition struct_flowi_common :: ctype where
  "struct_flowi_common = CStruct False [
    Fld ''flowic_oif'' (CBase CInt),
    Fld ''flowic_iif'' (CBase CInt),
    Fld ''flowic_l3mdev'' (CBase CInt),
    Fld ''flowic_mark'' typedef___u32,
    Fld ''flowic_tos'' typedef___u8,
    Fld ''flowic_scope'' typedef___u8,
    Fld ''flowic_proto'' typedef___u8,
    Fld ''flowic_flags'' typedef___u8,
    Fld ''flowic_secid'' typedef___u32,
    Fld ''flowic_uid'' typedef_kuid_t,
    Fld ''flowic_multipath_hash'' typedef___u32,
    Fld ''flowic_tun_key'' struct_flowi_tunnel]"

definition union_flowi_uli :: ctype where
  "union_flowi_uli = CUnion False [
    Fld ''ports'' (CStruct False [
      Fld ''dport'' typedef___be16,
      Fld ''sport'' typedef___be16]),
    Fld ''icmpt'' (CStruct False [
      Fld ''type'' typedef___u8,
      Fld ''code'' typedef___u8]),
    Fld ''gre_key'' typedef___be32,
    Fld ''mht'' (CStruct False [
      Fld ''type'' typedef___u8])]"

definition struct_flowi4 :: ctype where
  "struct_flowi4 = CStruct False [
    Fld ''__fl_common'' struct_flowi_common,
    Fld ''saddr'' typedef___be32,
    Fld ''daddr'' typedef___be32,
    Fld ''uli'' union_flowi_uli]"

definition struct_flowi6 :: ctype where
  "struct_flowi6 = CStruct False [
    Fld ''__fl_common'' struct_flowi_common,
    Fld ''daddr'' struct_in6_addr,
    Fld ''saddr'' struct_in6_addr,
    Fld ''flowlabel'' typedef___be32,
    Fld ''uli'' union_flowi_uli,
    Fld ''mp_hash'' typedef___u32]"

definition struct_flowi :: ctype where
  "struct_flowi = CStruct False [
    Fld ''u'' (CUnion False [
      Fld ''__fl_common'' struct_flowi_common,
      Fld ''ip4'' struct_flowi4,
      Fld ''ip6'' struct_flowi6])]"

definition struct_inet_cork_full :: ctype where
  "struct_inet_cork_full = CStruct False [
    Fld ''base'' struct_inet_cork,
    Fld ''fl'' struct_flowi]"

definition struct_inet_sock :: ctype where
  "struct_inet_sock = CStruct False [
    Fld ''sk'' struct_sock,
    Fld ''pinet6'' (CPtr ''struct ipv6_pinfo''),
    Fld ''inet_flags'' (CBase CULong),
    Fld ''inet_saddr'' typedef___be32,
    Fld ''uc_ttl'' typedef___s16,
    Fld ''inet_sport'' typedef___be16,
    Fld ''inet_opt'' (CPtr ''struct ip_options_rcu''),
    Fld ''inet_id'' typedef_atomic_t,
    Fld ''tos'' typedef___u8,
    Fld ''min_ttl'' typedef___u8,
    Fld ''mc_ttl'' typedef___u8,
    Fld ''pmtudisc'' typedef___u8,
    Fld ''rcv_tos'' typedef___u8,
    Fld ''convert_csum'' typedef___u8,
    Fld ''uc_index'' (CBase CInt),
    Fld ''mc_index'' (CBase CInt),
    Fld ''mc_addr'' typedef___be32,
    Fld ''local_port_range'' typedef_u32,
    Fld ''mc_list'' (CPtr ''struct ip_mc_socklist''),
    Fld ''cork'' struct_inet_cork_full]"

definition struct_fastopen_queue :: ctype where
  "struct_fastopen_queue = CStruct False [
    Fld ''rskq_rst_head'' (CPtr ''struct request_sock''),
    Fld ''rskq_rst_tail'' (CPtr ''struct request_sock''),
    Fld ''lock'' typedef_spinlock_t,
    Fld ''qlen'' (CBase CInt),
    Fld ''max_qlen'' (CBase CInt),
    Fld ''ctx'' (CPtr ''struct tcp_fastopen_context'')]"

definition struct_request_sock_queue :: ctype where
  "struct_request_sock_queue = CStruct False [
    Fld ''rskq_lock'' typedef_spinlock_t,
    Fld ''rskq_defer_accept'' typedef_u8,
    Fld ''synflood_warned'' typedef_u32,
    Fld ''qlen'' typedef_atomic_t,
    Fld ''young'' typedef_atomic_t,
    Fld ''rskq_accept_head'' (CPtr ''struct request_sock''),
    Fld ''rskq_accept_tail'' (CPtr ''struct request_sock''),
    Fld ''fastopenq'' struct_fastopen_queue]"

definition struct_inet_connection_sock :: ctype where
  "struct_inet_connection_sock = CStruct False [
    Fld ''icsk_inet'' struct_inet_sock,
    Fld ''icsk_accept_queue'' struct_request_sock_queue,
    Fld ''icsk_bind_hash'' (CPtr ''struct inet_bind_bucket''),
    Fld ''icsk_bind2_hash'' (CPtr ''struct inet_bind2_bucket''),
    Fld ''icsk_timeout'' (CBase CULong),
    Fld ''icsk_retransmit_timer'' struct_timer_list,
    Fld ''icsk_delack_timer'' struct_timer_list,
    Fld ''icsk_rto'' typedef___u32,
    Fld ''icsk_rto_min'' typedef___u32,
    Fld ''icsk_delack_max'' typedef___u32,
    Fld ''icsk_pmtu_cookie'' typedef___u32,
    Fld ''icsk_ca_ops'' (CPtr ''struct tcp_congestion_ops''),
    Fld ''icsk_af_ops'' (CPtr ''struct inet_connection_sock_af_ops''),
    Fld ''icsk_ulp_ops'' (CPtr ''struct tcp_ulp_ops''),
    Fld ''icsk_ulp_data'' (CPtr ''void''),
    Fld ''icsk_clean_acked'' CFunPtr,
    Fld ''icsk_sync_mss'' CFunPtr,
    Bits ''icsk_ca_state'' typedef___u8 5,
    Bits ''icsk_ca_initialized'' typedef___u8 1,
    Bits ''icsk_ca_setsockopt'' typedef___u8 1,
    Bits ''icsk_ca_dst_locked'' typedef___u8 1,
    Fld ''icsk_retransmits'' typedef___u8,
    Fld ''icsk_pending'' typedef___u8,
    Fld ''icsk_backoff'' typedef___u8,
    Fld ''icsk_syn_retries'' typedef___u8,
    Fld ''icsk_probes_out'' typedef___u8,
    Fld ''icsk_ext_hdr_len'' typedef___u16,
    Fld ''icsk_ack'' (CStruct False [
      Fld ''pending'' typedef___u8,
      Fld ''quick'' typedef___u8,
      Fld ''pingpong'' typedef___u8,
      Fld ''retry'' typedef___u8,
      Bits ''ato'' typedef___u32 8,
      Bits ''lrcv_flowlabel'' typedef___u32 20,
      Bits ''unused'' typedef___u32 4,
      Fld ''timeout'' (CBase CULong),
      Fld ''lrcvtime'' typedef___u32,
      Fld ''last_seg_size'' typedef___u16,
      Fld ''rcv_mss'' typedef___u16]),
    Fld ''icsk_mtup'' (CStruct False [
      Fld ''search_high'' (CBase CInt),
      Fld ''search_low'' (CBase CInt),
      Bits ''probe_size'' typedef_u32 31,
      Bits ''enabled'' typedef_u32 1,
      Fld ''probe_timestamp'' typedef_u32]),
    Fld ''icsk_probes_tstamp'' typedef_u32,
    Fld ''icsk_user_timeout'' typedef_u32,
    Fld ''icsk_ca_priv'' (CArray typedef_u64 13)]"

definition struct_minmax_sample :: ctype where
  "struct_minmax_sample = CStruct False [
    Fld ''t'' typedef_u32,
    Fld ''v'' typedef_u32]"

definition struct_minmax :: ctype where
  "struct_minmax = CStruct False [
    Fld ''s'' (CArray struct_minmax_sample 3)]"

definition struct_tcp_options_received :: ctype where
  "struct_tcp_options_received = CStruct False [
    Fld ''ts_recent_stamp'' (CBase CInt),
    Fld ''ts_recent'' typedef_u32,
    Fld ''rcv_tsval'' typedef_u32,
    Fld ''rcv_tsecr'' typedef_u32,
    Bits ''saw_tstamp'' typedef_u16 1,
    Bits ''tstamp_ok'' typedef_u16 1,
    Bits ''dsack'' typedef_u16 1,
    Bits ''wscale_ok'' typedef_u16 1,
    Bits ''sack_ok'' typedef_u16 3,
    Bits ''smc_ok'' typedef_u16 1,
    Bits ''snd_wscale'' typedef_u16 4,
    Bits ''rcv_wscale'' typedef_u16 4,
    Bits ''saw_unknown'' typedef_u8 1,
    Bits ''unused'' typedef_u8 7,
    Fld ''num_sacks'' typedef_u8,
    Fld ''user_mss'' typedef_u16,
    Fld ''mss_clamp'' typedef_u16]"

definition struct_tcp_rack :: ctype where
  "struct_tcp_rack = CStruct False [
    Fld ''mstamp'' typedef_u64,
    Fld ''rtt_us'' typedef_u32,
    Fld ''end_seq'' typedef_u32,
    Fld ''last_delivered'' typedef_u32,
    Fld ''reo_wnd_steps'' typedef_u8,
    Bits ''reo_wnd_persist'' typedef_u8 5,
    Bits ''dsack_seen'' typedef_u8 1,
    Bits ''advanced'' typedef_u8 1]"

definition struct_tcp_sack_block :: ctype where
  "struct_tcp_sack_block = CStruct False [
    Fld ''start_seq'' typedef_u32,
    Fld ''end_seq'' typedef_u32]"

definition struct_tcp_sock_part1 :: "cfield list" where
  "struct_tcp_sock_part1 = [
    Fld ''inet_conn'' struct_inet_connection_sock,
    Fld ''__cacheline_group_begin__tcp_sock_read_tx'' (CArray typedef___u8 0),
    Fld ''max_window'' typedef_u32,
    Fld ''rcv_ssthresh'' typedef_u32,
    Fld ''reordering'' typedef_u32,
    Fld ''notsent_lowat'' typedef_u32,
    Fld ''gso_segs'' typedef_u16,
    Fld ''lost_skb_hint'' (CPtr ''struct sk_buff''),
    Fld ''retransmit_skb_hint'' (CPtr ''struct sk_buff''),
    Fld ''__cacheline_group_end__tcp_sock_read_tx'' (CArray typedef___u8 0),
    Fld ''__cacheline_group_begin__tcp_sock_read_txrx'' (CArray typedef___u8 0),
    Fld ''tsoffset'' typedef_u32,
    Fld ''snd_wnd'' typedef_u32,
    Fld ''mss_cache'' typedef_u32,
    Fld ''snd_cwnd'' typedef_u32,
    Fld ''prr_out'' typedef_u32,
    Fld ''lost_out'' typedef_u32,
    Fld ''sacked_out'' typedef_u32,
    Fld ''tcp_header_len'' typedef_u16,
    Fld ''scaling_ratio'' typedef_u8,
    Bits ''chrono_type'' typedef_u8 2,
    Bits ''repair'' typedef_u8 1,
    Bits ''tcp_usec_ts'' typedef_u8 1,
    Bits ''is_sack_reneg'' typedef_u8 1,
    Bits ''is_cwnd_limited'' typedef_u8 1,
    Fld ''__cacheline_group_end__tcp_sock_read_txrx'' (CArray typedef___u8 0),
    Fld ''__cacheline_group_begin__tcp_sock_read_rx'' (CArray typedef___u8 0),
    Fld ''copied_seq'' typedef_u32,
    Fld ''rcv_tstamp'' typedef_u32,
    Fld ''snd_wl1'' typedef_u32,
    Fld ''tlp_high_seq'' typedef_u32,
    Fld ''rttvar_us'' typedef_u32,
    Fld ''retrans_out'' typedef_u32,
    Fld ''advmss'' typedef_u16,
    Fld ''urg_data'' typedef_u16,
    Fld ''lost'' typedef_u32,
    Fld ''rtt_min'' struct_minmax,
    Fld ''out_of_order_queue'' struct_rb_root,
    Fld ''snd_ssthresh'' typedef_u32,
    Fld ''__cacheline_group_end__tcp_sock_read_rx'' (CArray typedef___u8 0),
    Bits [] (CBase CLong) 64,
    Fld ''__cacheline_group_begin__tcp_sock_write_tx'' (CArray typedef___u8 0),
    Fld ''segs_out'' typedef_u32,
    Fld ''data_segs_out'' typedef_u32,
    Fld ''bytes_sent'' typedef_u64,
    Fld ''snd_sml'' typedef_u32,
    Fld ''chrono_start'' typedef_u32,
    Fld ''chrono_stat'' (CArray typedef_u32 3),
    Fld ''write_seq'' typedef_u32,
    Fld ''pushed_seq'' typedef_u32,
    Fld ''lsndtime'' typedef_u32,
    Fld ''mdev_us'' typedef_u32,
    Fld ''rtt_seq'' typedef_u32,
    Fld ''tcp_wstamp_ns'' typedef_u64,
    Fld ''tcp_clock_cache'' typedef_u64,
    Fld ''tcp_mstamp'' typedef_u64,
    Fld ''tsorted_sent_queue'' struct_list_head,
    Fld ''highest_sack'' (CPtr ''struct sk_buff''),
    Fld ''ecn_flags'' typedef_u8,
    Fld ''__cacheline_group_end__tcp_sock_write_tx'' (CArray typedef___u8 0),
    Fld ''__cacheline_group_begin__tcp_sock_write_txrx'' (CArray typedef___u8 0),
    Fld ''pred_flags'' typedef___be32,
    Fld ''rcv_nxt'' typedef_u32,
    Fld ''snd_nxt'' typedef_u32,
    Fld ''snd_una'' typedef_u32,
    Fld ''window_clamp'' typedef_u32,
    Fld ''srtt_us'' typedef_u32,
    Fld ''packets_out'' typedef_u32,
    Fld ''snd_up'' typedef_u32,
    Fld ''delivered'' typedef_u32,
    Fld ''delivered_ce'' typedef_u32,
    Fld ''app_limited'' typedef_u32,
    Fld ''rcv_wnd'' typedef_u32,
    Fld ''rx_opt'' struct_tcp_options_received,
    Bits ''nonagle'' typedef_u8 4,
    Bits ''rate_app_limited'' typedef_u8 1,
    Fld ''__cacheline_group_end__tcp_sock_write_txrx'' (CArray typedef___u8 0),
    Bits [] (CBase CLong) 0,
    Fld ''__cacheline_group_begin__tcp_sock_write_rx'' (CArray typedef___u8 0),
    Fld ''bytes_received'' typedef_u64,
    Fld ''segs_in'' typedef_u32,
    Fld ''data_segs_in'' typedef_u32,
    Fld ''rcv_wup'' typedef_u32,
    Fld ''max_packets_out'' typedef_u32,
    Fld ''cwnd_usage_seq'' typedef_u32,
    Fld ''rate_delivered'' typedef_u32,
    Fld ''rate_interval_us'' typedef_u32,
    Fld ''rcv_rtt_last_tsecr'' typedef_u32,
    Fld ''first_tx_mstamp'' typedef_u64,
    Fld ''delivered_mstamp'' typedef_u64,
    Fld ''bytes_acked'' typedef_u64,
    Fld ''rcv_rtt_est'' (CStruct False [
      Fld ''rtt_us'' typedef_u32,
      Fld ''seq'' typedef_u32,
      Fld ''time'' typedef_u64]),
    Fld ''rcvq_space'' (CStruct False [
      Fld ''space'' typedef_u32,
      Fld ''seq'' typedef_u32,
      Fld ''time'' typedef_u64]),
    Fld ''__cacheline_group_end__tcp_sock_write_rx'' (CArray typedef___u8 0),
    Fld ''dsack_dups'' typedef_u32,
    Fld ''compressed_ack_rcv_nxt'' typedef_u32,
    Fld ''tsq_node'' struct_list_head,
    Fld ''rack'' struct_tcp_rack,
    Fld ''compressed_ack'' typedef_u8,
    Bits ''dup_ack_counter'' typedef_u8 2,
    Bits ''tlp_retrans'' typedef_u8 1,
    Bits ''unused'' typedef_u8 5,
    Bits ''thin_lto'' typedef_u8 1,
    Bits ''recvmsg_inq'' typedef_u8 1,
    Bits ''fastopen_connect'' typedef_u8 1,
    Bits ''fastopen_no_cookie'' typedef_u8 1,
    Bits ''fastopen_client_fail'' typedef_u8 2,
    Bits ''frto'' typedef_u8 1,
    Fld ''repair_queue'' typedef_u8,
    Bits ''save_syn'' typedef_u8 2,
    Bits ''syn_data'' typedef_u8 1,
    Bits ''syn_fastopen'' typedef_u8 1,
    Bits ''syn_fastopen_exp'' typedef_u8 1,
    Bits ''syn_fastopen_ch'' typedef_u8 1,
    Bits ''syn_data_acked'' typedef_u8 1,
    Fld ''keepalive_probes'' typedef_u8,
    Fld ''tcp_tx_delay'' typedef_u32,
    Fld ''mdev_max_us'' typedef_u32,
    Fld ''reord_seen'' typedef_u32,
    Fld ''snd_cwnd_cnt'' typedef_u32,
    Fld ''snd_cwnd_clamp'' typedef_u32,
    Fld ''snd_cwnd_used'' typedef_u32,
    Fld ''snd_cwnd_stamp'' typedef_u32,
    Fld ''prior_cwnd'' typedef_u32,
    Fld ''prr_delivered'' typedef_u32,
    Fld ''last_oow_ack_time'' typedef_u32,
    Fld ''pacing_timer'' struct_hrtimer,
    Fld ''compressed_ack_timer'' struct_hrtimer,
    Fld ''ooo_last_skb'' (CPtr ''struct sk_buff''),
    Fld ''duplicate_sack'' (CArray struct_tcp_sack_block 1),
    Fld ''selective_acks'' (CArray struct_tcp_sack_block 4)]"

definition struct_tcp_sock_part2 :: "cfield list" where
  "struct_tcp_sock_part2 = [
    Fld ''recv_sack_cache'' (CArray struct_tcp_sack_block 4),
    Fld ''lost_cnt_hint'' (CBase CInt),
    Fld ''prior_ssthresh'' typedef_u32,
    Fld ''high_seq'' typedef_u32,
    Fld ''retrans_stamp'' typedef_u32,
    Fld ''undo_marker'' typedef_u32,
    Fld ''undo_retrans'' (CBase CInt),
    Fld ''bytes_retrans'' typedef_u64,
    Fld ''total_retrans'' typedef_u32,
    Fld ''rto_stamp'' typedef_u32,
    Fld ''total_rto'' typedef_u16,
    Fld ''total_rto_recoveries'' typedef_u16,
    Fld ''total_rto_time'' typedef_u32,
    Fld ''urg_seq'' typedef_u32,
    Fld ''keepalive_time'' (CBase CUInt),
    Fld ''keepalive_intvl'' (CBase CUInt),
    Fld ''linger2'' (CBase CInt),
    Fld ''bpf_sock_ops_cb_flags'' typedef_u8,
    Bits ''bpf_chg_cc_inprogress'' typedef_u8 1,
    Fld ''timeout_rehash'' typedef_u16,
    Fld ''rcv_ooopack'' typedef_u32,
    Fld ''mtu_probe'' (CStruct False [
      Fld ''probe_seq_start'' typedef_u32,
      Fld ''probe_seq_end'' typedef_u32]),
    Fld ''plb_rehash'' typedef_u32,
    Fld ''mtu_info'' typedef_u32,
    Fld ''is_mptcp'' typedef_bool,
    Fld ''syn_smc'' typedef_bool,
    Fld ''smc_hs_congested'' CFunPtr,
    Fld ''af_specific'' (CPtr ''struct tcp_sock_af_ops''),
    Fld ''md5sig_info'' (CPtr ''struct tcp_md5sig_info''),
    Fld ''ao_info'' (CPtr ''struct tcp_ao_info''),
    Fld ''fastopen_req'' (CPtr ''struct tcp_fastopen_request''),
    Fld ''fastopen_rsk'' (CPtr ''struct request_sock''),
    Fld ''saved_syn'' (CPtr ''struct saved_syn''),
    Bits [] (CBase CLong) 64,
    Bits [] (CBase CLong) 64,
    Bits [] (CBase CLong) 64,
    Bits [] (CBase CLong) 64]"

definition struct_tcp_sock :: ctype where
  "struct_tcp_sock = CStruct False (struct_tcp_sock_part1 @ struct_tcp_sock_part2)"

definition struct_in6_pktinfo :: ctype where
  "struct_in6_pktinfo = CStruct False [
    Fld ''ipi6_addr'' struct_in6_addr,
    Fld ''ipi6_ifindex'' (CBase CInt)]"

definition typedef_s16 :: ctype where
  "typedef_s16 = typedef___s16"

definition struct_inet6_cork :: ctype where
  "struct_inet6_cork = CStruct False [
    Fld ''opt'' (CPtr ''struct ipv6_txoptions''),
    Fld ''hop_limit'' typedef_u8,
    Fld ''tclass'' typedef_u8]"

definition struct_ipv6_pinfo :: ctype where
  "struct_ipv6_pinfo = CStruct False [
    Fld ''saddr'' struct_in6_addr,
    Fld ''sticky_pktinfo'' struct_in6_pktinfo,
    Fld ''daddr_cache'' (CPtr ''struct in6_addr''),
    Fld ''saddr_cache'' (CPtr ''struct in6_addr''),
    Fld ''flow_label'' typedef___be32,
    Fld ''frag_size'' typedef___u32,
    Fld ''hop_limit'' typedef_s16,
    Fld ''mcast_hops'' typedef_u8,
    Fld ''ucast_oif'' (CBase CInt),
    Fld ''mcast_oif'' (CBase CInt),
    Fld ''rxopt'' (CUnion False [
      Fld ''bits'' (CStruct False [
        Bits ''srcrt'' typedef___u16 1,
        Bits ''osrcrt'' typedef___u16 1,
        Bits ''rxinfo'' typedef___u16 1,
        Bits ''rxoinfo'' typedef___u16 1,
        Bits ''rxhlim'' typedef___u16 1,
        Bits ''rxohlim'' typedef___u16 1,
        Bits ''hopopts'' typedef___u16 1,
        Bits ''ohopopts'' typedef___u16 1,
        Bits ''dstopts'' typedef___u16 1,
        Bits ''odstopts'' typedef___u16 1,
        Bits ''rxflow'' typedef___u16 1,
        Bits ''rxtclass'' typedef___u16 1,
        Bits ''rxpmtu'' typedef___u16 1,
        Bits ''rxorigdstaddr'' typedef___u16 1,
        Bits ''recvfragsize'' typedef___u16 1]),
      Fld ''all'' typedef___u16]),
    Fld ''srcprefs'' typedef___u8,
    Fld ''pmtudisc'' typedef___u8,
    Fld ''min_hopcount'' typedef___u8,
    Fld ''tclass'' typedef___u8,
    Fld ''rcv_flowinfo'' typedef___be32,
    Fld ''dst_cookie'' typedef___u32,
    Fld ''ipv6_mc_list'' (CPtr ''struct ipv6_mc_socklist''),
    Fld ''ipv6_ac_list'' (CPtr ''struct ipv6_ac_socklist''),
    Fld ''ipv6_fl_list'' (CPtr ''struct ipv6_fl_socklist''),
    Fld ''opt'' (CPtr ''struct ipv6_txoptions''),
    Fld ''pktoptions'' (CPtr ''struct sk_buff''),
    Fld ''rxpmtu'' (CPtr ''struct sk_buff''),
    Fld ''cork'' struct_inet6_cork]"

definition struct_tcp6_sock :: ctype where
  "struct_tcp6_sock = CStruct False [
    Fld ''tcp'' struct_tcp_sock,
    Fld ''inet6'' struct_ipv6_pinfo,
    Bits [] (CBase CLong) 64,
    Bits [] (CBase CLong) 64,
    Bits [] (CBase CLong) 64,
    Bits [] (CBase CLong) 64]"

definition struct_request_sock :: ctype where
  "struct_request_sock = CStruct False [
    Fld ''__req_common'' struct_sock_common,
    Fld ''dl_next'' (CPtr ''struct request_sock''),
    Fld ''mss'' typedef_u16,
    Fld ''num_retrans'' typedef_u8,
    Bits ''syncookie'' typedef_u8 1,
    Bits ''num_timeout'' typedef_u8 7,
    Fld ''ts_recent'' typedef_u32,
    Fld ''rsk_timer'' struct_timer_list,
    Fld ''rsk_ops'' (CPtr ''struct request_sock_ops''),
    Fld ''sk'' (CPtr ''struct sock''),
    Fld ''saved_syn'' (CPtr ''struct saved_syn''),
    Fld ''secid'' typedef_u32,
    Fld ''peer_secid'' typedef_u32,
    Fld ''timeout'' typedef_u32]"

definition struct_inet_request_sock :: ctype where
  "struct_inet_request_sock = CStruct False [
    Fld ''req'' struct_request_sock,
    Bits ''snd_wscale'' typedef_u16 4,
    Bits ''rcv_wscale'' typedef_u16 4,
    Bits ''tstamp_ok'' typedef_u16 1,
    Bits ''sack_ok'' typedef_u16 1,
    Bits ''wscale_ok'' typedef_u16 1,
    Bits ''ecn_ok'' typedef_u16 1,
    Bits ''acked'' typedef_u16 1,
    Bits ''no_srccheck'' typedef_u16 1,
    Bits ''smc_ok'' typedef_u16 1,
    Fld ''ir_mark'' typedef_u32,
    Fld [] (CUnion False [
      Fld ''ireq_opt'' (CPtr ''struct ip_options_rcu''),
      Fld [] (CStruct False [
        Fld ''ipv6_opt'' (CPtr ''struct ipv6_txoptions''),
        Fld ''pktopts'' (CPtr ''struct sk_buff'')])])]"

definition struct_tcp_request_sock :: ctype where
  "struct_tcp_request_sock = CStruct False [
    Fld ''req'' struct_inet_request_sock,
    Fld ''af_specific'' (CPtr ''struct tcp_request_sock_ops''),
    Fld ''snt_synack'' typedef_u64,
    Fld ''tfo_listener'' typedef_bool,
    Fld ''is_mptcp'' typedef_bool,
    Fld ''req_usec_ts'' typedef_bool,
    Fld ''drop_req'' typedef_bool,
    Fld ''txhash'' typedef_u32,
    Fld ''rcv_isn'' typedef_u32,
    Fld ''snt_isn'' typedef_u32,
    Fld ''ts_off'' typedef_u32,
    Fld ''last_oow_ack_time'' typedef_u32,
    Fld ''rcv_nxt'' typedef_u32,
    Fld ''syn_tos'' typedef_u8,
    Fld ''ao_keyid'' typedef_u8,
    Fld ''ao_rcv_next'' typedef_u8,
    Fld ''used_tcp_ao'' typedef_bool]"

definition struct_inet_timewait_sock :: ctype where
  "struct_inet_timewait_sock = CStruct False [
    Fld ''__tw_common'' struct_sock_common,
    Fld ''tw_mark'' typedef___u32,
    Fld ''tw_substate'' (CBase CUChar),
    Fld ''tw_rcv_wscale'' (CBase CUChar),
    Fld ''tw_sport'' typedef___be16,
    Bits ''tw_transparent'' (CBase CUInt) 1,
    Bits ''tw_flowlabel'' (CBase CUInt) 20,
    Bits ''tw_usec_ts'' (CBase CUInt) 1,
    Bits ''tw_pad'' (CBase CUInt) 2,
    Bits ''tw_tos'' (CBase CUInt) 8,
    Fld ''tw_txhash'' typedef_u32,
    Fld ''tw_priority'' typedef_u32,
    Fld ''tw_timer'' struct_timer_list,
    Fld ''tw_tb'' (CPtr ''struct inet_bind_bucket''),
    Fld ''tw_tb2'' (CPtr ''struct inet_bind2_bucket'')]"

definition struct_tcp_timewait_sock :: ctype where
  "struct_tcp_timewait_sock = CStruct False [
    Fld ''tw_sk'' struct_inet_timewait_sock,
    Fld ''tw_rcv_wnd'' typedef_u32,
    Fld ''tw_ts_offset'' typedef_u32,
    Fld ''tw_ts_recent'' typedef_u32,
    Fld ''tw_last_oow_ack_time'' typedef_u32,
    Fld ''tw_ts_recent_stamp'' (CBase CInt),
    Fld ''tw_tx_delay'' typedef_u32,
    Fld ''tw_md5_key'' (CPtr ''struct tcp_md5sig_key''),
    Fld ''ao_info'' (CPtr ''struct tcp_ao_info'')]"

definition typedef_socket_state :: ctype where
  "typedef_socket_state = CEnum [
    (''SS_FREE'', 0),
    (''SS_UNCONNECTED'', 1),
    (''SS_CONNECTING'', 2),
    (''SS_CONNECTED'', 3),
    (''SS_DISCONNECTING'', 4)]"

definition struct_socket_wq :: ctype where
  "struct_socket_wq = CStruct False [
    Fld ''wait'' typedef_wait_queue_head_t,
    Fld ''fasync_list'' (CPtr ''struct fasync_struct''),
    Fld ''flags'' (CBase CULong),
    Fld ''rcu'' struct_callback_head,
    Bits [] (CBase CLong) 64]"

definition struct_socket :: ctype where
  "struct_socket = CStruct False [
    Fld ''state'' typedef_socket_state,
    Fld ''type'' (CBase CShort),
    Fld ''flags'' (CBase CULong),
    Fld ''file'' (CPtr ''struct file''),
    Fld ''sk'' (CPtr ''struct sock''),
    Fld ''ops'' (CPtr ''struct proto_ops''),
    Bits [] (CBase CLong) 64,
    Bits [] (CBase CLong) 64,
    Bits [] (CBase CLong) 64,
    Fld ''wq'' struct_socket_wq]"

definition struct_iovec :: ctype where
  "struct_iovec = CStruct False [
    Fld ''iov_base'' (CPtr ''void''),
    Fld ''iov_len'' typedef___kernel_size_t]"

definition typedef___kernel_loff_t :: ctype where
  "typedef___kernel_loff_t = CBase CLLong"

definition typedef_loff_t :: ctype where
  "typedef_loff_t = typedef___kernel_loff_t"

definition struct_iov_iter :: ctype where
  "struct_iov_iter = CStruct False [
    Fld ''iter_type'' typedef_u8,
    Fld ''nofault'' typedef_bool,
    Fld ''data_source'' typedef_bool,
    Fld ''iov_offset'' typedef_size_t,
    Fld [] (CUnion False [
      Fld ''__ubuf_iovec'' struct_iovec,
      Fld [] (CStruct False [
        Fld [] (CUnion False [
          Fld ''__iov'' (CPtr ''struct iovec''),
          Fld ''kvec'' (CPtr ''struct kvec''),
          Fld ''bvec'' (CPtr ''struct bio_vec''),
          Fld ''xarray'' (CPtr ''struct xarray''),
          Fld ''ubuf'' (CPtr ''void'')]),
        Fld ''count'' typedef_size_t])]),
    Fld [] (CUnion False [
      Fld ''nr_segs'' (CBase CULong),
      Fld ''xarray_start'' typedef_loff_t])]"

definition struct_msghdr :: ctype where
  "struct_msghdr = CStruct False [
    Fld ''msg_name'' (CPtr ''void''),
    Fld ''msg_namelen'' (CBase CInt),
    Fld ''msg_inq'' (CBase CInt),
    Fld ''msg_iter'' struct_iov_iter,
    Fld [] (CUnion False [
      Fld ''msg_control'' (CPtr ''void''),
      Fld ''msg_control_user'' (CPtr ''void'')]),
    Bits ''msg_control_is_user'' typedef_bool 1,
    Bits ''msg_get_inq'' typedef_bool 1,
    Fld ''msg_flags'' (CBase CUInt),
    Fld ''msg_controllen'' typedef___kernel_size_t,
    Fld ''msg_iocb'' (CPtr ''struct kiocb''),
    Fld ''msg_ubuf'' (CPtr ''struct ubuf_info''),
    Fld ''sg_from_iter'' CFunPtr]"

definition typedef_slab_flags_t :: ctype where
  "typedef_slab_flags_t = CBase CUInt"

definition struct_proto :: ctype where
  "struct_proto = CStruct False [
    Fld ''close'' CFunPtr,
    Fld ''pre_connect'' CFunPtr,
    Fld ''connect'' CFunPtr,
    Fld ''disconnect'' CFunPtr,
    Fld ''accept'' CFunPtr,
    Fld ''ioctl'' CFunPtr,
    Fld ''init'' CFunPtr,
    Fld ''destroy'' CFunPtr,
    Fld ''shutdown'' CFunPtr,
    Fld ''setsockopt'' CFunPtr,
    Fld ''getsockopt'' CFunPtr,
    Fld ''keepalive'' CFunPtr,
    Fld ''compat_ioctl'' CFunPtr,
    Fld ''sendmsg'' CFunPtr,
    Fld ''recvmsg'' CFunPtr,
    Fld ''splice_eof'' CFunPtr,
    Fld ''bind'' CFunPtr,
    Fld ''bind_add'' CFunPtr,
    Fld ''backlog_rcv'' CFunPtr,
    Fld ''bpf_bypass_getsockopt'' CFunPtr,
    Fld ''release_cb'' CFunPtr,
    Fld ''hash'' CFunPtr,
    Fld ''unhash'' CFunPtr,
    Fld ''rehash'' CFunPtr,
    Fld ''get_port'' CFunPtr,
    Fld ''put_port'' CFunPtr,
    Fld ''psock_update_sk_prot'' CFunPtr,
    Fld ''inuse_idx'' (CBase CUInt),
    Fld ''forward_alloc_get'' CFunPtr,
    Fld ''stream_memory_free'' CFunPtr,
    Fld ''sock_is_readable'' CFunPtr,
    Fld ''enter_memory_pressure'' CFunPtr,
    Fld ''leave_memory_pressure'' CFunPtr,
    Fld ''memory_allocated'' (CPtr ''atomic_long_t''),
    Fld ''per_cpu_fw_alloc'' (CPtr ''int''),
    Fld ''sockets_allocated'' (CPtr ''struct percpu_counter''),
    Fld ''memory_pressure'' (CPtr ''long unsigned int''),
    Fld ''sysctl_mem'' (CPtr ''long int''),
    Fld ''sysctl_wmem'' (CPtr ''int''),
    Fld ''sysctl_rmem'' (CPtr ''int''),
    Fld ''sysctl_wmem_offset'' typedef_u32,
    Fld ''sysctl_rmem_offset'' typedef_u32,
    Fld ''max_header'' (CBase CInt),
    Fld ''no_autobind'' typedef_bool,
    Fld ''slab'' (CPtr ''struct kmem_cache''),
    Fld ''obj_size'' (CBase CUInt),
    Fld ''ipv6_pinfo_offset'' (CBase CUInt),
    Fld ''slab_flags'' typedef_slab_flags_t,
    Fld ''useroffset'' (CBase CUInt),
    Fld ''usersize'' (CBase CUInt),
    Fld ''orphan_count'' (CPtr ''unsigned int''),
    Fld ''rsk_prot'' (CPtr ''struct request_sock_ops''),
    Fld ''twsk_prot'' (CPtr ''struct timewait_sock_ops''),
    Fld ''h'' (CUnion False [
      Fld ''hashinfo'' (CPtr ''struct inet_hashinfo''),
      Fld ''udp_table'' (CPtr ''struct udp_table''),
      Fld ''raw_hash'' (CPtr ''struct raw_hashinfo''),
      Fld ''smc_hash'' (CPtr ''struct smc_hashinfo'')]),
    Fld ''owner'' (CPtr ''struct module''),
    Fld ''name'' (CArray (CBase CChar) 32),
    Fld ''node'' struct_list_head,
    Fld ''diag_destroy'' CFunPtr]"

definition struct_proto_ops :: ctype where
  "struct_proto_ops = CStruct False [
    Fld ''family'' (CBase CInt),
    Fld ''owner'' (CPtr ''struct module''),
    Fld ''release'' CFunPtr,
    Fld ''bind'' CFunPtr,
    Fld ''connect'' CFunPtr,
    Fld ''socketpair'' CFunPtr,
    Fld ''accept'' CFunPtr,
    Fld ''getname'' CFunPtr,
    Fld ''poll'' CFunPtr,
    Fld ''ioctl'' CFunPtr,
    Fld ''compat_ioctl'' CFunPtr,
    Fld ''gettstamp'' CFunPtr,
    Fld ''listen'' CFunPtr,
    Fld ''shutdown'' CFunPtr,
    Fld ''setsockopt'' CFunPtr,
    Fld ''getsockopt'' CFunPtr,
    Fld ''show_fdinfo'' CFunPtr,
    Fld ''sendmsg'' CFunPtr,
    Fld ''recvmsg'' CFunPtr,
    Fld ''mmap'' CFunPtr,
    Fld ''splice_read'' CFunPtr,
    Fld ''splice_eof'' CFunPtr,
    Fld ''set_peek_off'' CFunPtr,
    Fld ''peek_len'' CFunPtr,
    Fld ''read_sock'' CFunPtr,
    Fld ''read_skb'' CFunPtr,
    Fld ''sendmsg_locked'' CFunPtr,
    Fld ''set_rcvlowat'' CFunPtr]"

section \<open>Sizes and alignments\<close>

lemma typedef___addrpair_layout [layout]: "csize typedef___addrpair = 8" "calign typedef___addrpair = 8"
  by (simp_all add: typedef___addrpair_def layout)

lemma typedef___be32_layout [layout]: "csize typedef___be32 = 4" "calign typedef___be32 = 4"
  by (simp_all add: typedef___be32_def layout)

lemma typedef___portpair_layout [layout]: "csize typedef___portpair = 4" "calign typedef___portpair = 4"
  by (simp_all add: typedef___portpair_def layout)

lemma typedef___be16_layout [layout]: "csize typedef___be16 = 2" "calign typedef___be16 = 2"
  by (simp_all add: typedef___be16_def layout)

lemma typedef_possible_net_t_layout [layout]: "csize typedef_possible_net_t = 8" "calign typedef_possible_net_t = 8"
  by (simp_all add: typedef_possible_net_t_def layout)

lemma struct_in6_addr_layout [layout]: "csize struct_in6_addr = 16" "calign struct_in6_addr = 4"
  by (simp_all add: struct_in6_addr_def layout)

lemma struct_hlist_nulls_node_layout [layout]: "csize struct_hlist_nulls_node = 16" "calign struct_hlist_nulls_node = 8"
  by (simp_all add: struct_hlist_nulls_node_def layout)

lemma struct_sock_common_layout [layout]: "csize struct_sock_common = 136" "calign struct_sock_common = 8"
  by (simp_all add: struct_sock_common_def layout)

lemma typedef___s32_layout [layout]: "csize typedef___s32 = 4" "calign typedef___s32 = 4"
  by (simp_all add: typedef___s32_def layout)

lemma typedef_socket_lock_t_layout [layout]: "csize typedef_socket_lock_t = 32" "calign typedef_socket_lock_t = 8"
  by (simp_all add: typedef_socket_lock_t_def layout)

lemma typedef_netdev_features_t_layout [layout]: "csize typedef_netdev_features_t = 8" "calign typedef_netdev_features_t = 8"
  by (simp_all add: typedef_netdev_features_t_def layout)

lemma struct_sock_cgroup_data_layout [layout]: "csize struct_sock_cgroup_data = 16" "calign struct_sock_cgroup_data = 8"
  by (simp_all add: struct_sock_cgroup_data_def layout)

lemma typedef_netns_tracker_layout [layout]: "csize typedef_netns_tracker = 0" "calign typedef_netns_tracker = 1"
  by (simp_all add: typedef_netns_tracker_def layout)

lemma struct_sock_layout [layout]: "csize struct_sock = 760" "calign struct_sock = 8"
  by (simp_all add: struct_sock_def layout)

lemma typedef___s16_layout [layout]: "csize typedef___s16 = 2" "calign typedef___s16 = 2"
  by (simp_all add: typedef___s16_def layout)

lemma struct_inet_cork_layout [layout]: "csize struct_inet_cork = 56" "calign struct_inet_cork = 8"
  by (simp_all add: struct_inet_cork_def layout)

lemma typedef___be64_layout [layout]: "csize typedef___be64 = 8" "calign typedef___be64 = 8"
  by (simp_all add: typedef___be64_def layout)

lemma struct_flowi_tunnel_layout [layout]: "csize struct_flowi_tunnel = 8" "calign struct_flowi_tunnel = 8"
  by (simp_all add: struct_flowi_tunnel_def layout)

lemma struct_flowi_common_layout [layout]: "csize struct_flowi_common = 40" "calign struct_flowi_common = 8"
  by (simp_all add: struct_flowi_common_def layout)

lemma union_flowi_uli_layout [layout]: "csize union_flowi_uli = 4" "calign union_flowi_uli = 4"
  by (simp_all add: union_flowi_uli_def layout)

lemma struct_flowi4_layout [layout]: "csize struct_flowi4 = 56" "calign struct_flowi4 = 8"
  by (simp_all add: struct_flowi4_def layout)

lemma struct_flowi6_layout [layout]: "csize struct_flowi6 = 88" "calign struct_flowi6 = 8"
  by (simp_all add: struct_flowi6_def layout)

lemma struct_flowi_layout [layout]: "csize struct_flowi = 88" "calign struct_flowi = 8"
  by (simp_all add: struct_flowi_def layout)

lemma struct_inet_cork_full_layout [layout]: "csize struct_inet_cork_full = 144" "calign struct_inet_cork_full = 8"
  by (simp_all add: struct_inet_cork_full_def layout)

lemma struct_inet_sock_layout [layout]: "csize struct_inet_sock = 976" "calign struct_inet_sock = 8"
  by (simp_all add: struct_inet_sock_def layout)

lemma struct_fastopen_queue_layout [layout]: "csize struct_fastopen_queue = 40" "calign struct_fastopen_queue = 8"
  by (simp_all add: struct_fastopen_queue_def layout)

lemma struct_request_sock_queue_layout [layout]: "csize struct_request_sock_queue = 80" "calign struct_request_sock_queue = 8"
  by (simp_all add: struct_request_sock_queue_def layout)

lemma struct_inet_connection_sock_layout [layout]: "csize struct_inet_connection_sock = 1384" "calign struct_inet_connection_sock = 8"
  by (simp_all add: struct_inet_connection_sock_def layout)

lemma struct_minmax_sample_layout [layout]: "csize struct_minmax_sample = 8" "calign struct_minmax_sample = 4"
  by (simp_all add: struct_minmax_sample_def layout)

lemma struct_minmax_layout [layout]: "csize struct_minmax = 24" "calign struct_minmax = 4"
  by (simp_all add: struct_minmax_def layout)

lemma struct_tcp_options_received_layout [layout]: "csize struct_tcp_options_received = 24" "calign struct_tcp_options_received = 4"
  by (simp_all add: struct_tcp_options_received_def layout)

lemma struct_tcp_rack_layout [layout]: "csize struct_tcp_rack = 24" "calign struct_tcp_rack = 8"
  by (simp_all add: struct_tcp_rack_def layout)

lemma struct_tcp_sack_block_layout [layout]: "csize struct_tcp_sack_block = 8" "calign struct_tcp_sack_block = 4"
  by (simp_all add: struct_tcp_sack_block_def layout)

lemma struct_tcp_sock_layout [layout]: "csize struct_tcp_sock = 2304" "calign struct_tcp_sock = 8"
  by (simp_all add: struct_tcp_sock_def struct_tcp_sock_part1_def struct_tcp_sock_part2_def layout)

lemma struct_in6_pktinfo_layout [layout]: "csize struct_in6_pktinfo = 20" "calign struct_in6_pktinfo = 4"
  by (simp_all add: struct_in6_pktinfo_def layout)

lemma typedef_s16_layout [layout]: "csize typedef_s16 = 2" "calign typedef_s16 = 2"
  by (simp_all add: typedef_s16_def layout)

lemma struct_inet6_cork_layout [layout]: "csize struct_inet6_cork = 16" "calign struct_inet6_cork = 8"
  by (simp_all add: struct_inet6_cork_def layout)

lemma struct_ipv6_pinfo_layout [layout]: "csize struct_ipv6_pinfo = 160" "calign struct_ipv6_pinfo = 8"
  by (simp_all add: struct_ipv6_pinfo_def layout)

lemma struct_tcp6_sock_layout [layout]: "csize struct_tcp6_sock = 2496" "calign struct_tcp6_sock = 8"
  by (simp_all add: struct_tcp6_sock_def layout)

lemma struct_request_sock_layout [layout]: "csize struct_request_sock = 232" "calign struct_request_sock = 8"
  by (simp_all add: struct_request_sock_def layout)

lemma struct_inet_request_sock_layout [layout]: "csize struct_inet_request_sock = 256" "calign struct_inet_request_sock = 8"
  by (simp_all add: struct_inet_request_sock_def layout)

lemma struct_tcp_request_sock_layout [layout]: "csize struct_tcp_request_sock = 304" "calign struct_tcp_request_sock = 8"
  by (simp_all add: struct_tcp_request_sock_def layout)

lemma struct_inet_timewait_sock_layout [layout]: "csize struct_inet_timewait_sock = 216" "calign struct_inet_timewait_sock = 8"
  by (simp_all add: struct_inet_timewait_sock_def layout)

lemma struct_tcp_timewait_sock_layout [layout]: "csize struct_tcp_timewait_sock = 256" "calign struct_tcp_timewait_sock = 8"
  by (simp_all add: struct_tcp_timewait_sock_def layout)

lemma typedef_socket_state_layout [layout]: "csize typedef_socket_state = 4" "calign typedef_socket_state = 4"
  by (simp_all add: typedef_socket_state_def layout)

lemma struct_socket_wq_layout [layout]: "csize struct_socket_wq = 64" "calign struct_socket_wq = 8"
  by (simp_all add: struct_socket_wq_def layout)

lemma struct_socket_layout [layout]: "csize struct_socket = 128" "calign struct_socket = 8"
  by (simp_all add: struct_socket_def layout)

lemma struct_iovec_layout [layout]: "csize struct_iovec = 16" "calign struct_iovec = 8"
  by (simp_all add: struct_iovec_def layout)

lemma typedef___kernel_loff_t_layout [layout]: "csize typedef___kernel_loff_t = 8" "calign typedef___kernel_loff_t = 8"
  by (simp_all add: typedef___kernel_loff_t_def layout)

lemma typedef_loff_t_layout [layout]: "csize typedef_loff_t = 8" "calign typedef_loff_t = 8"
  by (simp_all add: typedef_loff_t_def layout)

lemma struct_iov_iter_layout [layout]: "csize struct_iov_iter = 40" "calign struct_iov_iter = 8"
  by (simp_all add: struct_iov_iter_def layout)

lemma struct_msghdr_layout [layout]: "csize struct_msghdr = 104" "calign struct_msghdr = 8"
  by (simp_all add: struct_msghdr_def layout)

lemma typedef_slab_flags_t_layout [layout]: "csize typedef_slab_flags_t = 4" "calign typedef_slab_flags_t = 4"
  by (simp_all add: typedef_slab_flags_t_def layout)

lemma struct_proto_layout [layout]: "csize struct_proto = 464" "calign struct_proto = 8"
  by (simp_all add: struct_proto_def layout)

lemma struct_proto_ops_layout [layout]: "csize struct_proto_ops = 224" "calign struct_proto_ops = 8"
  by (simp_all add: struct_proto_ops_def layout)

end
