(* ===== verification/Kernel_Types_Packet.thy ===== *)
theory Kernel_Types_Packet imports Kernel_Types_Sock begin

text \<open>
  A packet as the classifier sees it: \<^verbatim>\<open>struct sk_buff\<close> and the Ethernet, IPv4 and TCP
  headers.

  Transcribed line by line from
  \<^verbatim>\<open>src/autoscaler/conc_req_monitoring/bpf/vmlinux.h\<close>: one definition per
  \<^verbatim>\<open>struct\<close>, \<^verbatim>\<open>union\<close>, \<^verbatim>\<open>enum\<close> and \<^verbatim>\<open>typedef\<close>, named
  after the declaration with its kind as a prefix, members in the header's order, and one line
  per member; an aggregate of more than 150 lines is cut into parts. Qualifiers are dropped. For
  each type its size and alignment are computed and added to \<open>layout\<close>, so that the types
  that contain it are laid out from these facts and not from its members again.
\<close>

section \<open>Declarations\<close>

definition typedef___wsum :: ctype where
  "typedef___wsum = typedef___u32"

definition typedef_sk_buff_data_t :: ctype where
  "typedef_sk_buff_data_t = CBase CUInt"

definition struct_sk_buff_inner1 :: ctype where
  "struct_sk_buff_inner1 = CStruct False [
    Fld ''__pkt_type_offset'' (CArray typedef___u8 0),
    Bits ''pkt_type'' typedef___u8 3,
    Bits ''ignore_df'' typedef___u8 1,
    Bits ''dst_pending_confirm'' typedef___u8 1,
    Bits ''ip_summed'' typedef___u8 2,
    Bits ''ooo_okay'' typedef___u8 1,
    Fld ''__mono_tc_offset'' (CArray typedef___u8 0),
    Bits ''mono_delivery_time'' typedef___u8 1,
    Bits ''tc_at_ingress'' typedef___u8 1,
    Bits ''tc_skip_classify'' typedef___u8 1,
    Bits ''remcsum_offload'' typedef___u8 1,
    Bits ''csum_complete_sw'' typedef___u8 1,
    Bits ''csum_level'' typedef___u8 2,
    Bits ''inner_protocol_type'' typedef___u8 1,
    Bits ''l4_hash'' typedef___u8 1,
    Bits ''sw_hash'' typedef___u8 1,
    Bits ''wifi_acked_valid'' typedef___u8 1,
    Bits ''wifi_acked'' typedef___u8 1,
    Bits ''no_fcs'' typedef___u8 1,
    Bits ''encapsulation'' typedef___u8 1,
    Bits ''encap_hdr_csum'' typedef___u8 1,
    Bits ''csum_valid'' typedef___u8 1,
    Bits ''ndisc_nodetype'' typedef___u8 2,
    Bits ''ipvs_property'' typedef___u8 1,
    Bits ''nf_trace'' typedef___u8 1,
    Bits ''offload_fwd_mark'' typedef___u8 1,
    Bits ''offload_l3_fwd_mark'' typedef___u8 1,
    Bits ''redirected'' typedef___u8 1,
    Bits ''from_ingress'' typedef___u8 1,
    Bits ''nf_skip_egress'' typedef___u8 1,
    Bits ''decrypted'' typedef___u8 1,
    Bits ''slow_gro'' typedef___u8 1,
    Bits ''csum_not_inet'' typedef___u8 1,
    Fld ''tc_index'' typedef___u16,
    Fld ''alloc_cpu'' typedef_u16,
    Fld [] (CUnion False [
      Fld ''csum'' typedef___wsum,
      Fld [] (CStruct False [
        Fld ''csum_start'' typedef___u16,
        Fld ''csum_offset'' typedef___u16])]),
    Fld ''priority'' typedef___u32,
    Fld ''skb_iif'' (CBase CInt),
    Fld ''hash'' typedef___u32,
    Fld [] (CUnion False [
      Fld ''vlan_all'' typedef_u32,
      Fld [] (CStruct False [
        Fld ''vlan_proto'' typedef___be16,
        Fld ''vlan_tci'' typedef___u16])]),
    Fld [] (CUnion False [
      Fld ''napi_id'' (CBase CUInt),
      Fld ''sender_cpu'' (CBase CUInt)]),
    Fld ''secmark'' typedef___u32,
    Fld [] (CUnion False [
      Fld ''mark'' typedef___u32,
      Fld ''reserved_tailroom'' typedef___u32]),
    Fld [] (CUnion False [
      Fld ''inner_protocol'' typedef___be16,
      Fld ''inner_ipproto'' typedef___u8]),
    Fld ''inner_transport_header'' typedef___u16,
    Fld ''inner_network_header'' typedef___u16,
    Fld ''inner_mac_header'' typedef___u16,
    Fld ''protocol'' typedef___be16,
    Fld ''transport_header'' typedef___u16,
    Fld ''network_header'' typedef___u16,
    Fld ''mac_header'' typedef___u16]"

definition struct_sk_buff_inner2 :: ctype where
  "struct_sk_buff_inner2 = CStruct False [
    Fld ''__pkt_type_offset'' (CArray typedef___u8 0),
    Bits ''pkt_type'' typedef___u8 3,
    Bits ''ignore_df'' typedef___u8 1,
    Bits ''dst_pending_confirm'' typedef___u8 1,
    Bits ''ip_summed'' typedef___u8 2,
    Bits ''ooo_okay'' typedef___u8 1,
    Fld ''__mono_tc_offset'' (CArray typedef___u8 0),
    Bits ''mono_delivery_time'' typedef___u8 1,
    Bits ''tc_at_ingress'' typedef___u8 1,
    Bits ''tc_skip_classify'' typedef___u8 1,
    Bits ''remcsum_offload'' typedef___u8 1,
    Bits ''csum_complete_sw'' typedef___u8 1,
    Bits ''csum_level'' typedef___u8 2,
    Bits ''inner_protocol_type'' typedef___u8 1,
    Bits ''l4_hash'' typedef___u8 1,
    Bits ''sw_hash'' typedef___u8 1,
    Bits ''wifi_acked_valid'' typedef___u8 1,
    Bits ''wifi_acked'' typedef___u8 1,
    Bits ''no_fcs'' typedef___u8 1,
    Bits ''encapsulation'' typedef___u8 1,
    Bits ''encap_hdr_csum'' typedef___u8 1,
    Bits ''csum_valid'' typedef___u8 1,
    Bits ''ndisc_nodetype'' typedef___u8 2,
    Bits ''ipvs_property'' typedef___u8 1,
    Bits ''nf_trace'' typedef___u8 1,
    Bits ''offload_fwd_mark'' typedef___u8 1,
    Bits ''offload_l3_fwd_mark'' typedef___u8 1,
    Bits ''redirected'' typedef___u8 1,
    Bits ''from_ingress'' typedef___u8 1,
    Bits ''nf_skip_egress'' typedef___u8 1,
    Bits ''decrypted'' typedef___u8 1,
    Bits ''slow_gro'' typedef___u8 1,
    Bits ''csum_not_inet'' typedef___u8 1,
    Fld ''tc_index'' typedef___u16,
    Fld ''alloc_cpu'' typedef_u16,
    Fld [] (CUnion False [
      Fld ''csum'' typedef___wsum,
      Fld [] (CStruct False [
        Fld ''csum_start'' typedef___u16,
        Fld ''csum_offset'' typedef___u16])]),
    Fld ''priority'' typedef___u32,
    Fld ''skb_iif'' (CBase CInt),
    Fld ''hash'' typedef___u32,
    Fld [] (CUnion False [
      Fld ''vlan_all'' typedef_u32,
      Fld [] (CStruct False [
        Fld ''vlan_proto'' typedef___be16,
        Fld ''vlan_tci'' typedef___u16])]),
    Fld [] (CUnion False [
      Fld ''napi_id'' (CBase CUInt),
      Fld ''sender_cpu'' (CBase CUInt)]),
    Fld ''secmark'' typedef___u32,
    Fld [] (CUnion False [
      Fld ''mark'' typedef___u32,
      Fld ''reserved_tailroom'' typedef___u32]),
    Fld [] (CUnion False [
      Fld ''inner_protocol'' typedef___be16,
      Fld ''inner_ipproto'' typedef___u8]),
    Fld ''inner_transport_header'' typedef___u16,
    Fld ''inner_network_header'' typedef___u16,
    Fld ''inner_mac_header'' typedef___u16,
    Fld ''protocol'' typedef___be16,
    Fld ''transport_header'' typedef___u16,
    Fld ''network_header'' typedef___u16,
    Fld ''mac_header'' typedef___u16]"

definition struct_sk_buff_part1 :: "cfield list" where
  "struct_sk_buff_part1 = [
    Fld [] (CUnion False [
      Fld [] (CStruct False [
        Fld ''next'' (CPtr ''struct sk_buff''),
        Fld ''prev'' (CPtr ''struct sk_buff''),
        Fld [] (CUnion False [
          Fld ''dev'' (CPtr ''struct net_device''),
          Fld ''dev_scratch'' (CBase CULong)])]),
      Fld ''rbnode'' struct_rb_node,
      Fld ''list'' struct_list_head,
      Fld ''ll_node'' struct_llist_node]),
    Fld ''sk'' (CPtr ''struct sock''),
    Fld [] (CUnion False [
      Fld ''tstamp'' typedef_ktime_t,
      Fld ''skb_mstamp_ns'' typedef_u64]),
    Fld ''cb'' (CArray (CBase CChar) 48),
    Fld [] (CUnion False [
      Fld [] (CStruct False [
        Fld ''_skb_refdst'' (CBase CULong),
        Fld ''destructor'' CFunPtr]),
      Fld ''tcp_tsorted_anchor'' struct_list_head,
      Fld ''_sk_redir'' (CBase CULong)]),
    Fld ''_nfct'' (CBase CULong),
    Fld ''len'' (CBase CUInt),
    Fld ''data_len'' (CBase CUInt),
    Fld ''mac_len'' typedef___u16,
    Fld ''hdr_len'' typedef___u16,
    Fld ''queue_mapping'' typedef___u16,
    Fld ''__cloned_offset'' (CArray typedef___u8 0),
    Bits ''cloned'' typedef___u8 1,
    Bits ''nohdr'' typedef___u8 1,
    Bits ''fclone'' typedef___u8 2,
    Bits ''peeked'' typedef___u8 1,
    Bits ''head_frag'' typedef___u8 1,
    Bits ''pfmemalloc'' typedef___u8 1,
    Bits ''pp_recycle'' typedef___u8 1,
    Fld ''active_extensions'' typedef___u8,
    Fld [] (CUnion False [
      Fld [] struct_sk_buff_inner1,
      Fld ''headers'' struct_sk_buff_inner2])]"

definition struct_sk_buff_part2 :: "cfield list" where
  "struct_sk_buff_part2 = [
    Fld ''tail'' typedef_sk_buff_data_t,
    Fld ''end'' typedef_sk_buff_data_t,
    Fld ''head'' (CPtr ''unsigned char''),
    Fld ''data'' (CPtr ''unsigned char''),
    Fld ''truesize'' (CBase CUInt),
    Fld ''users'' typedef_refcount_t,
    Fld ''extensions'' (CPtr ''struct skb_ext'')]"

definition struct_sk_buff :: ctype where
  "struct_sk_buff = CStruct False (struct_sk_buff_part1 @ struct_sk_buff_part2)"

definition struct_ethhdr :: ctype where
  "struct_ethhdr = CStruct False [
    Fld ''h_dest'' (CArray (CBase CUChar) 6),
    Fld ''h_source'' (CArray (CBase CUChar) 6),
    Fld ''h_proto'' typedef___be16]"

definition typedef___sum16 :: ctype where
  "typedef___sum16 = typedef___u16"

definition struct_iphdr :: ctype where
  "struct_iphdr = CStruct False [
    Bits ''ihl'' typedef___u8 4,
    Bits ''version'' typedef___u8 4,
    Fld ''tos'' typedef___u8,
    Fld ''tot_len'' typedef___be16,
    Fld ''id'' typedef___be16,
    Fld ''frag_off'' typedef___be16,
    Fld ''ttl'' typedef___u8,
    Fld ''protocol'' typedef___u8,
    Fld ''check'' typedef___sum16,
    Fld [] (CUnion False [
      Fld [] (CStruct False [
        Fld ''saddr'' typedef___be32,
        Fld ''daddr'' typedef___be32]),
      Fld ''addrs'' (CStruct False [
        Fld ''saddr'' typedef___be32,
        Fld ''daddr'' typedef___be32])])]"

definition struct_tcphdr :: ctype where
  "struct_tcphdr = CStruct False [
    Fld ''source'' typedef___be16,
    Fld ''dest'' typedef___be16,
    Fld ''seq'' typedef___be32,
    Fld ''ack_seq'' typedef___be32,
    Bits ''res1'' typedef___u16 4,
    Bits ''doff'' typedef___u16 4,
    Bits ''fin'' typedef___u16 1,
    Bits ''syn'' typedef___u16 1,
    Bits ''rst'' typedef___u16 1,
    Bits ''psh'' typedef___u16 1,
    Bits ''ack'' typedef___u16 1,
    Bits ''urg'' typedef___u16 1,
    Bits ''ece'' typedef___u16 1,
    Bits ''cwr'' typedef___u16 1,
    Fld ''window'' typedef___be16,
    Fld ''check'' typedef___sum16,
    Fld ''urg_ptr'' typedef___be16]"

section \<open>Sizes and alignments\<close>

lemma typedef___wsum_layout [layout]: "csize typedef___wsum = 4" "calign typedef___wsum = 4"
  by (simp_all add: typedef___wsum_def layout)

lemma typedef_sk_buff_data_t_layout [layout]: "csize typedef_sk_buff_data_t = 4" "calign typedef_sk_buff_data_t = 4"
  by (simp_all add: typedef_sk_buff_data_t_def layout)

lemma struct_sk_buff_layout [layout]: "csize struct_sk_buff = 232" "calign struct_sk_buff = 8"
  by (simp_all add: struct_sk_buff_def struct_sk_buff_inner1_def struct_sk_buff_inner2_def struct_sk_buff_part1_def struct_sk_buff_part2_def layout)

lemma struct_ethhdr_layout [layout]: "csize struct_ethhdr = 14" "calign struct_ethhdr = 2"
  by (simp_all add: struct_ethhdr_def layout)

lemma typedef___sum16_layout [layout]: "csize typedef___sum16 = 2" "calign typedef___sum16 = 2"
  by (simp_all add: typedef___sum16_def layout)

lemma struct_iphdr_layout [layout]: "csize struct_iphdr = 20" "calign struct_iphdr = 4"
  by (simp_all add: struct_iphdr_def layout)

lemma struct_tcphdr_layout [layout]: "csize struct_tcphdr = 20" "calign struct_tcphdr = 4"
  by (simp_all add: struct_tcphdr_def layout)

end
