(* ===== verification/Kernel_Types_BPF.thy ===== *)
theory Kernel_Types_BPF imports Kernel_Types_Packet begin

text \<open>
  The kernel objects behind the programs' maps and events: hash and array maps, perf events and
  programs.

  Transcribed line by line from
  \<^verbatim>\<open>src/autoscaler/conc_req_monitoring/bpf/vmlinux.h\<close>: one definition per
  \<^verbatim>\<open>struct\<close>, \<^verbatim>\<open>union\<close>, \<^verbatim>\<open>enum\<close> and \<^verbatim>\<open>typedef\<close>, named
  after the declaration with its kind as a prefix, members in the header's order, and one line
  per member; an aggregate of more than 150 lines is cut into parts. Qualifiers are dropped. For
  each type its size and alignment are computed and added to \<open>layout\<close>, so that the types
  that contain it are laid out from these facts and not from its members again.
\<close>

section \<open>Declarations\<close>

definition enum_bpf_map_type :: ctype where
  "enum_bpf_map_type = CEnum [
    (''BPF_MAP_TYPE_UNSPEC'', 0),
    (''BPF_MAP_TYPE_HASH'', 1),
    (''BPF_MAP_TYPE_ARRAY'', 2),
    (''BPF_MAP_TYPE_PROG_ARRAY'', 3),
    (''BPF_MAP_TYPE_PERF_EVENT_ARRAY'', 4),
    (''BPF_MAP_TYPE_PERCPU_HASH'', 5),
    (''BPF_MAP_TYPE_PERCPU_ARRAY'', 6),
    (''BPF_MAP_TYPE_STACK_TRACE'', 7),
    (''BPF_MAP_TYPE_CGROUP_ARRAY'', 8),
    (''BPF_MAP_TYPE_LRU_HASH'', 9),
    (''BPF_MAP_TYPE_LRU_PERCPU_HASH'', 10),
    (''BPF_MAP_TYPE_LPM_TRIE'', 11),
    (''BPF_MAP_TYPE_ARRAY_OF_MAPS'', 12),
    (''BPF_MAP_TYPE_HASH_OF_MAPS'', 13),
    (''BPF_MAP_TYPE_DEVMAP'', 14),
    (''BPF_MAP_TYPE_SOCKMAP'', 15),
    (''BPF_MAP_TYPE_CPUMAP'', 16),
    (''BPF_MAP_TYPE_XSKMAP'', 17),
    (''BPF_MAP_TYPE_SOCKHASH'', 18),
    (''BPF_MAP_TYPE_CGROUP_STORAGE_DEPRECATED'', 19),
    (''BPF_MAP_TYPE_CGROUP_STORAGE'', 19),
    (''BPF_MAP_TYPE_REUSEPORT_SOCKARRAY'', 20),
    (''BPF_MAP_TYPE_PERCPU_CGROUP_STORAGE_DEPRECATED'', 21),
    (''BPF_MAP_TYPE_PERCPU_CGROUP_STORAGE'', 21),
    (''BPF_MAP_TYPE_QUEUE'', 22),
    (''BPF_MAP_TYPE_STACK'', 23),
    (''BPF_MAP_TYPE_SK_STORAGE'', 24),
    (''BPF_MAP_TYPE_DEVMAP_HASH'', 25),
    (''BPF_MAP_TYPE_STRUCT_OPS'', 26),
    (''BPF_MAP_TYPE_RINGBUF'', 27),
    (''BPF_MAP_TYPE_INODE_STORAGE'', 28),
    (''BPF_MAP_TYPE_TASK_STORAGE'', 29),
    (''BPF_MAP_TYPE_BLOOM_FILTER'', 30),
    (''BPF_MAP_TYPE_USER_RINGBUF'', 31),
    (''BPF_MAP_TYPE_CGRP_STORAGE'', 32),
    (''BPF_MAP_TYPE_ARENA'', 33),
    (''__MAX_BPF_MAP_TYPE'', 34)]"

definition enum_bpf_prog_type :: ctype where
  "enum_bpf_prog_type = CEnum [
    (''BPF_PROG_TYPE_UNSPEC'', 0),
    (''BPF_PROG_TYPE_SOCKET_FILTER'', 1),
    (''BPF_PROG_TYPE_KPROBE'', 2),
    (''BPF_PROG_TYPE_SCHED_CLS'', 3),
    (''BPF_PROG_TYPE_SCHED_ACT'', 4),
    (''BPF_PROG_TYPE_TRACEPOINT'', 5),
    (''BPF_PROG_TYPE_XDP'', 6),
    (''BPF_PROG_TYPE_PERF_EVENT'', 7),
    (''BPF_PROG_TYPE_CGROUP_SKB'', 8),
    (''BPF_PROG_TYPE_CGROUP_SOCK'', 9),
    (''BPF_PROG_TYPE_LWT_IN'', 10),
    (''BPF_PROG_TYPE_LWT_OUT'', 11),
    (''BPF_PROG_TYPE_LWT_XMIT'', 12),
    (''BPF_PROG_TYPE_SOCK_OPS'', 13),
    (''BPF_PROG_TYPE_SK_SKB'', 14),
    (''BPF_PROG_TYPE_CGROUP_DEVICE'', 15),
    (''BPF_PROG_TYPE_SK_MSG'', 16),
    (''BPF_PROG_TYPE_RAW_TRACEPOINT'', 17),
    (''BPF_PROG_TYPE_CGROUP_SOCK_ADDR'', 18),
    (''BPF_PROG_TYPE_LWT_SEG6LOCAL'', 19),
    (''BPF_PROG_TYPE_LIRC_MODE2'', 20),
    (''BPF_PROG_TYPE_SK_REUSEPORT'', 21),
    (''BPF_PROG_TYPE_FLOW_DISSECTOR'', 22),
    (''BPF_PROG_TYPE_CGROUP_SYSCTL'', 23),
    (''BPF_PROG_TYPE_RAW_TRACEPOINT_WRITABLE'', 24),
    (''BPF_PROG_TYPE_CGROUP_SOCKOPT'', 25),
    (''BPF_PROG_TYPE_TRACING'', 26),
    (''BPF_PROG_TYPE_STRUCT_OPS'', 27),
    (''BPF_PROG_TYPE_EXT'', 28),
    (''BPF_PROG_TYPE_LSM'', 29),
    (''BPF_PROG_TYPE_SK_LOOKUP'', 30),
    (''BPF_PROG_TYPE_SYSCALL'', 31),
    (''BPF_PROG_TYPE_NETFILTER'', 32),
    (''__MAX_BPF_PROG_TYPE'', 33)]"

definition struct_bpf_map :: ctype where
  "struct_bpf_map = CStruct False [
    Fld ''ops'' (CPtr ''struct bpf_map_ops''),
    Fld ''inner_map_meta'' (CPtr ''struct bpf_map''),
    Fld ''security'' (CPtr ''void''),
    Fld ''map_type'' enum_bpf_map_type,
    Fld ''key_size'' typedef_u32,
    Fld ''value_size'' typedef_u32,
    Fld ''max_entries'' typedef_u32,
    Fld ''map_extra'' typedef_u64,
    Fld ''map_flags'' typedef_u32,
    Fld ''id'' typedef_u32,
    Fld ''record'' (CPtr ''struct btf_record''),
    Fld ''numa_node'' (CBase CInt),
    Fld ''btf_key_type_id'' typedef_u32,
    Fld ''btf_value_type_id'' typedef_u32,
    Fld ''btf_vmlinux_value_type_id'' typedef_u32,
    Fld ''btf'' (CPtr ''struct btf''),
    Fld ''objcg'' (CPtr ''struct obj_cgroup''),
    Fld ''name'' (CArray (CBase CChar) 16),
    Fld ''freeze_mutex'' struct_mutex,
    Fld ''refcnt'' typedef_atomic64_t,
    Fld ''usercnt'' typedef_atomic64_t,
    Fld [] (CUnion False [
      Fld ''work'' struct_work_struct,
      Fld ''rcu'' struct_callback_head]),
    Fld ''writecnt'' typedef_atomic64_t,
    Fld ''owner'' (CStruct False [
      Fld ''lock'' typedef_spinlock_t,
      Fld ''type'' enum_bpf_prog_type,
      Fld ''jited'' typedef_bool,
      Fld ''xdp_has_frags'' typedef_bool]),
    Fld ''bypass_spec_v1'' typedef_bool,
    Fld ''frozen'' typedef_bool,
    Fld ''free_after_mult_rcu_gp'' typedef_bool,
    Fld ''free_after_rcu_gp'' typedef_bool,
    Fld ''sleepable_refcnt'' typedef_atomic64_t,
    Fld ''elem_count'' (CPtr ''s64'')]"

definition struct_bpf_mem_alloc :: ctype where
  "struct_bpf_mem_alloc = CStruct False [
    Fld ''caches'' (CPtr ''struct bpf_mem_caches''),
    Fld ''cache'' (CPtr ''struct bpf_mem_cache''),
    Fld ''objcg'' (CPtr ''struct obj_cgroup''),
    Fld ''percpu'' typedef_bool,
    Fld ''work'' struct_work_struct]"

definition struct_pcpu_freelist_head :: ctype where
  "struct_pcpu_freelist_head = CStruct False [
    Fld ''first'' (CPtr ''struct pcpu_freelist_node''),
    Fld ''lock'' typedef_raw_spinlock_t]"

definition struct_pcpu_freelist :: ctype where
  "struct_pcpu_freelist = CStruct False [
    Fld ''freelist'' (CPtr ''struct pcpu_freelist_head''),
    Fld ''extralist'' struct_pcpu_freelist_head]"

definition struct_bpf_lru_list :: ctype where
  "struct_bpf_lru_list = CStruct False [
    Fld ''lists'' (CArray struct_list_head 3),
    Fld ''counts'' (CArray (CBase CUInt) 2),
    Fld ''next_inactive_rotation'' (CPtr ''struct list_head''),
    Fld ''lock'' typedef_raw_spinlock_t,
    Bits [] (CBase CLong) 64,
    Bits [] (CBase CLong) 64,
    Bits [] (CBase CLong) 64,
    Bits [] (CBase CLong) 64,
    Bits [] (CBase CLong) 64,
    Bits [] (CBase CLong) 64,
    Bits [] (CBase CLong) 64]"

definition struct_bpf_common_lru :: ctype where
  "struct_bpf_common_lru = CStruct False [
    Fld ''lru_list'' struct_bpf_lru_list,
    Fld ''local_list'' (CPtr ''struct bpf_lru_locallist''),
    Bits [] (CBase CLong) 64,
    Bits [] (CBase CLong) 64,
    Bits [] (CBase CLong) 64,
    Bits [] (CBase CLong) 64,
    Bits [] (CBase CLong) 64,
    Bits [] (CBase CLong) 64,
    Bits [] (CBase CLong) 64]"

definition typedef_del_from_htab_func :: ctype where
  "typedef_del_from_htab_func = CFunPtr"

definition struct_bpf_lru :: ctype where
  "struct_bpf_lru = CStruct False [
    Fld [] (CUnion False [
      Fld ''common_lru'' struct_bpf_common_lru,
      Fld ''percpu_lru'' (CPtr ''struct bpf_lru_list'')]),
    Fld ''del_from_htab'' typedef_del_from_htab_func,
    Fld ''del_arg'' (CPtr ''void''),
    Fld ''hash_offset'' (CBase CUInt),
    Fld ''nr_scans'' (CBase CUInt),
    Fld ''percpu'' typedef_bool,
    Bits [] (CBase CLong) 64,
    Bits [] (CBase CLong) 64,
    Bits [] (CBase CLong) 64,
    Bits [] (CBase CLong) 64]"

definition struct_lock_class_key :: ctype where
  "struct_lock_class_key = CStruct False []"

definition struct_bpf_htab :: ctype where
  "struct_bpf_htab = CStruct False [
    Fld ''map'' struct_bpf_map,
    Fld ''ma'' struct_bpf_mem_alloc,
    Fld ''pcpu_ma'' struct_bpf_mem_alloc,
    Fld ''buckets'' (CPtr ''struct bucket''),
    Fld ''elems'' (CPtr ''void''),
    Bits [] (CBase CLong) 64,
    Fld [] (CUnion False [
      Fld ''freelist'' struct_pcpu_freelist,
      Fld ''lru'' struct_bpf_lru]),
    Fld ''extra_elems'' (CPtr ''struct htab_elem*''),
    Fld ''pcount'' struct_percpu_counter,
    Fld ''count'' typedef_atomic_t,
    Fld ''use_percpu_counter'' typedef_bool,
    Fld ''n_buckets'' typedef_u32,
    Fld ''elem_size'' typedef_u32,
    Fld ''hashrnd'' typedef_u32,
    Fld ''lockdep_key'' struct_lock_class_key,
    Fld ''map_locked'' (CArray (CPtr ''int'') 8),
    Bits [] (CBase CLong) 64,
    Bits [] (CBase CLong) 64,
    Bits [] (CBase CLong) 64,
    Bits [] (CBase CLong) 64,
    Bits [] (CBase CLong) 64,
    Bits [] (CBase CLong) 64,
    Bits [] (CBase CLong) 64]"

definition struct_bpf_array :: ctype where
  "struct_bpf_array = CStruct False [
    Fld ''map'' struct_bpf_map,
    Fld ''elem_size'' typedef_u32,
    Fld ''index_mask'' typedef_u32,
    Fld ''aux'' (CPtr ''struct bpf_array_aux''),
    Fld [] (CUnion False [
      Fld [] (CStruct False [
        Fld ''__empty_value'' (CStruct False []),
        Fld ''value'' (CArray (CBase CChar) 0)]),
      Fld [] (CStruct False [
        Fld ''__empty_ptrs'' (CStruct False []),
        Fld ''ptrs'' (CArray (CPtr ''void'') 0)]),
      Fld [] (CStruct False [
        Fld ''__empty_pptrs'' (CStruct False []),
        Fld ''pptrs'' (CArray (CPtr ''void'') 0)])])]"

definition enum_perf_event_state :: ctype where
  "enum_perf_event_state = CEnum [
    (''PERF_EVENT_STATE_DEAD'', - 4),
    (''PERF_EVENT_STATE_EXIT'', - 3),
    (''PERF_EVENT_STATE_ERROR'', - 2),
    (''PERF_EVENT_STATE_OFF'', - 1),
    (''PERF_EVENT_STATE_INACTIVE'', 0),
    (''PERF_EVENT_STATE_ACTIVE'', 1)]"

definition typedef_local_t :: ctype where
  "typedef_local_t = CStruct False [
    Fld ''a'' typedef_atomic_long_t]"

definition typedef_local64_t :: ctype where
  "typedef_local64_t = CStruct False [
    Fld ''a'' typedef_local_t]"

definition struct_perf_event_attr :: ctype where
  "struct_perf_event_attr = CStruct False [
    Fld ''type'' typedef___u32,
    Fld ''size'' typedef___u32,
    Fld ''config'' typedef___u64,
    Fld [] (CUnion False [
      Fld ''sample_period'' typedef___u64,
      Fld ''sample_freq'' typedef___u64]),
    Fld ''sample_type'' typedef___u64,
    Fld ''read_format'' typedef___u64,
    Bits ''disabled'' typedef___u64 1,
    Bits ''inherit'' typedef___u64 1,
    Bits ''pinned'' typedef___u64 1,
    Bits ''exclusive'' typedef___u64 1,
    Bits ''exclude_user'' typedef___u64 1,
    Bits ''exclude_kernel'' typedef___u64 1,
    Bits ''exclude_hv'' typedef___u64 1,
    Bits ''exclude_idle'' typedef___u64 1,
    Bits ''mmap'' typedef___u64 1,
    Bits ''comm'' typedef___u64 1,
    Bits ''freq'' typedef___u64 1,
    Bits ''inherit_stat'' typedef___u64 1,
    Bits ''enable_on_exec'' typedef___u64 1,
    Bits ''task'' typedef___u64 1,
    Bits ''watermark'' typedef___u64 1,
    Bits ''precise_ip'' typedef___u64 2,
    Bits ''mmap_data'' typedef___u64 1,
    Bits ''sample_id_all'' typedef___u64 1,
    Bits ''exclude_host'' typedef___u64 1,
    Bits ''exclude_guest'' typedef___u64 1,
    Bits ''exclude_callchain_kernel'' typedef___u64 1,
    Bits ''exclude_callchain_user'' typedef___u64 1,
    Bits ''mmap2'' typedef___u64 1,
    Bits ''comm_exec'' typedef___u64 1,
    Bits ''use_clockid'' typedef___u64 1,
    Bits ''context_switch'' typedef___u64 1,
    Bits ''write_backward'' typedef___u64 1,
    Bits ''namespaces'' typedef___u64 1,
    Bits ''ksymbol'' typedef___u64 1,
    Bits ''bpf_event'' typedef___u64 1,
    Bits ''aux_output'' typedef___u64 1,
    Bits ''cgroup'' typedef___u64 1,
    Bits ''text_poke'' typedef___u64 1,
    Bits ''build_id'' typedef___u64 1,
    Bits ''inherit_thread'' typedef___u64 1,
    Bits ''remove_on_exec'' typedef___u64 1,
    Bits ''sigtrap'' typedef___u64 1,
    Bits ''__reserved_1'' typedef___u64 26,
    Fld [] (CUnion False [
      Fld ''wakeup_events'' typedef___u32,
      Fld ''wakeup_watermark'' typedef___u32]),
    Fld ''bp_type'' typedef___u32,
    Fld [] (CUnion False [
      Fld ''bp_addr'' typedef___u64,
      Fld ''kprobe_func'' typedef___u64,
      Fld ''uprobe_path'' typedef___u64,
      Fld ''config1'' typedef___u64]),
    Fld [] (CUnion False [
      Fld ''bp_len'' typedef___u64,
      Fld ''kprobe_addr'' typedef___u64,
      Fld ''probe_offset'' typedef___u64,
      Fld ''config2'' typedef___u64]),
    Fld ''branch_sample_type'' typedef___u64,
    Fld ''sample_regs_user'' typedef___u64,
    Fld ''sample_stack_user'' typedef___u32,
    Fld ''clockid'' typedef___s32,
    Fld ''sample_regs_intr'' typedef___u64,
    Fld ''aux_watermark'' typedef___u32,
    Fld ''sample_max_stack'' typedef___u16,
    Fld ''__reserved_2'' typedef___u16,
    Fld ''aux_sample_size'' typedef___u32,
    Fld ''__reserved_3'' typedef___u32,
    Fld ''sig_data'' typedef___u64,
    Fld ''config3'' typedef___u64]"

definition struct_hw_perf_event_extra :: ctype where
  "struct_hw_perf_event_extra = CStruct False [
    Fld ''config'' typedef_u64,
    Fld ''reg'' (CBase CUInt),
    Fld ''alloc'' (CBase CInt),
    Fld ''idx'' (CBase CInt)]"

definition struct_arch_hw_breakpoint :: ctype where
  "struct_arch_hw_breakpoint = CStruct False [
    Fld ''address'' (CBase CULong),
    Fld ''mask'' (CBase CULong),
    Fld ''len'' typedef_u8,
    Fld ''type'' typedef_u8]"

definition struct_rhash_head :: ctype where
  "struct_rhash_head = CStruct False [
    Fld ''next'' (CPtr ''struct rhash_head'')]"

definition struct_rhlist_head :: ctype where
  "struct_rhlist_head = CStruct False [
    Fld ''rhead'' struct_rhash_head,
    Fld ''next'' (CPtr ''struct rhlist_head'')]"

definition struct_hw_perf_event :: ctype where
  "struct_hw_perf_event = CStruct False [
    Fld [] (CUnion False [
      Fld [] (CStruct False [
        Fld ''config'' typedef_u64,
        Fld ''last_tag'' typedef_u64,
        Fld ''config_base'' (CBase CULong),
        Fld ''event_base'' (CBase CULong),
        Fld ''event_base_rdpmc'' (CBase CInt),
        Fld ''idx'' (CBase CInt),
        Fld ''last_cpu'' (CBase CInt),
        Fld ''flags'' (CBase CInt),
        Fld ''extra_reg'' struct_hw_perf_event_extra,
        Fld ''branch_reg'' struct_hw_perf_event_extra]),
      Fld [] (CStruct False [
        Fld ''hrtimer'' struct_hrtimer]),
      Fld [] (CStruct False [
        Fld ''tp_list'' struct_list_head]),
      Fld [] (CStruct False [
        Fld ''pwr_acc'' typedef_u64,
        Fld ''ptsc'' typedef_u64]),
      Fld [] (CStruct False [
        Fld ''info'' struct_arch_hw_breakpoint,
        Fld ''bp_list'' struct_rhlist_head]),
      Fld [] (CStruct False [
        Fld ''iommu_bank'' typedef_u8,
        Fld ''iommu_cntr'' typedef_u8,
        Fld ''padding'' typedef_u16,
        Fld ''conf'' typedef_u64,
        Fld ''conf1'' typedef_u64])]),
    Fld ''target'' (CPtr ''struct task_struct''),
    Fld ''addr_filters'' (CPtr ''void''),
    Fld ''addr_filters_gen'' (CBase CULong),
    Fld ''state'' (CBase CInt),
    Fld ''prev_count'' typedef_local64_t,
    Fld ''sample_period'' typedef_u64,
    Fld [] (CUnion False [
      Fld [] (CStruct False [
        Fld ''last_period'' typedef_u64,
        Fld ''period_left'' typedef_local64_t]),
      Fld [] (CStruct False [
        Fld ''saved_metric'' typedef_u64,
        Fld ''saved_slots'' typedef_u64])]),
    Fld ''interrupts_seq'' typedef_u64,
    Fld ''interrupts'' typedef_u64,
    Fld ''freq_time_stamp'' typedef_u64,
    Fld ''freq_count_stamp'' typedef_u64]"

definition struct_rcuwait :: ctype where
  "struct_rcuwait = CStruct False [
    Fld ''task'' (CPtr ''struct task_struct'')]"

definition struct_irq_work :: ctype where
  "struct_irq_work = CStruct False [
    Fld ''node'' struct___call_single_node,
    Fld ''func'' CFunPtr,
    Fld ''irqwait'' struct_rcuwait]"

definition struct_perf_addr_filters_head :: ctype where
  "struct_perf_addr_filters_head = CStruct False [
    Fld ''list'' struct_list_head,
    Fld ''lock'' typedef_raw_spinlock_t,
    Fld ''nr_file_filters'' (CBase CUInt)]"

definition typedef_perf_overflow_handler_t :: ctype where
  "typedef_perf_overflow_handler_t = CFunPtr"

definition typedef_ftrace_func_t :: ctype where
  "typedef_ftrace_func_t = CFunPtr"

definition struct_ftrace_ops_hash :: ctype where
  "struct_ftrace_ops_hash = CStruct False [
    Fld ''notrace_hash'' (CPtr ''struct ftrace_hash''),
    Fld ''filter_hash'' (CPtr ''struct ftrace_hash''),
    Fld ''regex_lock'' struct_mutex]"

definition typedef_ftrace_ops_func_t :: ctype where
  "typedef_ftrace_ops_func_t = CFunPtr"

definition struct_ftrace_ops :: ctype where
  "struct_ftrace_ops = CStruct False [
    Fld ''func'' typedef_ftrace_func_t,
    Fld ''next'' (CPtr ''struct ftrace_ops''),
    Fld ''flags'' (CBase CULong),
    Fld ''private'' (CPtr ''void''),
    Fld ''saved_func'' typedef_ftrace_func_t,
    Fld ''local_hash'' struct_ftrace_ops_hash,
    Fld ''func_hash'' (CPtr ''struct ftrace_ops_hash''),
    Fld ''old_hash'' struct_ftrace_ops_hash,
    Fld ''trampoline'' (CBase CULong),
    Fld ''trampoline_size'' (CBase CULong),
    Fld ''list'' struct_list_head,
    Fld ''ops_func'' typedef_ftrace_ops_func_t,
    Fld ''direct_call'' (CBase CULong)]"

definition struct_perf_event :: ctype where
  "struct_perf_event = CStruct False [
    Fld ''event_entry'' struct_list_head,
    Fld ''sibling_list'' struct_list_head,
    Fld ''active_list'' struct_list_head,
    Fld ''group_node'' struct_rb_node,
    Fld ''group_index'' typedef_u64,
    Fld ''migrate_entry'' struct_list_head,
    Fld ''hlist_entry'' struct_hlist_node,
    Fld ''active_entry'' struct_list_head,
    Fld ''nr_siblings'' (CBase CInt),
    Fld ''event_caps'' (CBase CInt),
    Fld ''group_caps'' (CBase CInt),
    Fld ''group_generation'' (CBase CUInt),
    Fld ''group_leader'' (CPtr ''struct perf_event''),
    Fld ''pmu'' (CPtr ''struct pmu''),
    Fld ''pmu_private'' (CPtr ''void''),
    Fld ''state'' enum_perf_event_state,
    Fld ''attach_state'' (CBase CUInt),
    Fld ''count'' typedef_local64_t,
    Fld ''child_count'' typedef_atomic64_t,
    Fld ''total_time_enabled'' typedef_u64,
    Fld ''total_time_running'' typedef_u64,
    Fld ''tstamp'' typedef_u64,
    Fld ''attr'' struct_perf_event_attr,
    Fld ''header_size'' typedef_u16,
    Fld ''id_header_size'' typedef_u16,
    Fld ''read_size'' typedef_u16,
    Fld ''hw'' struct_hw_perf_event,
    Fld ''ctx'' (CPtr ''struct perf_event_context''),
    Fld ''pmu_ctx'' (CPtr ''struct perf_event_pmu_context''),
    Fld ''refcount'' typedef_atomic_long_t,
    Fld ''child_total_time_enabled'' typedef_atomic64_t,
    Fld ''child_total_time_running'' typedef_atomic64_t,
    Fld ''child_mutex'' struct_mutex,
    Fld ''child_list'' struct_list_head,
    Fld ''parent'' (CPtr ''struct perf_event''),
    Fld ''oncpu'' (CBase CInt),
    Fld ''cpu'' (CBase CInt),
    Fld ''owner_entry'' struct_list_head,
    Fld ''owner'' (CPtr ''struct task_struct''),
    Fld ''mmap_mutex'' struct_mutex,
    Fld ''mmap_count'' typedef_atomic_t,
    Fld ''rb'' (CPtr ''struct perf_buffer''),
    Fld ''rb_entry'' struct_list_head,
    Fld ''rcu_batches'' (CBase CULong),
    Fld ''rcu_pending'' (CBase CInt),
    Fld ''waitq'' typedef_wait_queue_head_t,
    Fld ''fasync'' (CPtr ''struct fasync_struct''),
    Fld ''pending_wakeup'' (CBase CUInt),
    Fld ''pending_kill'' (CBase CUInt),
    Fld ''pending_disable'' (CBase CUInt),
    Fld ''pending_sigtrap'' (CBase CUInt),
    Fld ''pending_addr'' (CBase CULong),
    Fld ''pending_irq'' struct_irq_work,
    Fld ''pending_task'' struct_callback_head,
    Fld ''pending_work'' (CBase CUInt),
    Fld ''event_limit'' typedef_atomic_t,
    Fld ''addr_filters'' struct_perf_addr_filters_head,
    Fld ''addr_filter_ranges'' (CPtr ''struct perf_addr_filter_range''),
    Fld ''addr_filters_gen'' (CBase CULong),
    Fld ''aux_event'' (CPtr ''struct perf_event''),
    Fld ''destroy'' CFunPtr,
    Fld ''callback_head'' struct_callback_head,
    Fld ''ns'' (CPtr ''struct pid_namespace''),
    Fld ''id'' typedef_u64,
    Fld ''lost_samples'' typedef_atomic64_t,
    Fld ''clock'' CFunPtr,
    Fld ''overflow_handler'' typedef_perf_overflow_handler_t,
    Fld ''overflow_handler_context'' (CPtr ''void''),
    Fld ''orig_overflow_handler'' typedef_perf_overflow_handler_t,
    Fld ''prog'' (CPtr ''struct bpf_prog''),
    Fld ''bpf_cookie'' typedef_u64,
    Fld ''tp_event'' (CPtr ''struct trace_event_call''),
    Fld ''filter'' (CPtr ''struct event_filter''),
    Fld ''ftrace_ops'' struct_ftrace_ops,
    Fld ''cgrp'' (CPtr ''struct perf_cgroup''),
    Fld ''security'' (CPtr ''void''),
    Fld ''sb_list'' struct_list_head,
    Fld ''orig_type'' typedef___u32]"

definition enum_bpf_attach_type :: ctype where
  "enum_bpf_attach_type = CEnum [
    (''BPF_CGROUP_INET_INGRESS'', 0),
    (''BPF_CGROUP_INET_EGRESS'', 1),
    (''BPF_CGROUP_INET_SOCK_CREATE'', 2),
    (''BPF_CGROUP_SOCK_OPS'', 3),
    (''BPF_SK_SKB_STREAM_PARSER'', 4),
    (''BPF_SK_SKB_STREAM_VERDICT'', 5),
    (''BPF_CGROUP_DEVICE'', 6),
    (''BPF_SK_MSG_VERDICT'', 7),
    (''BPF_CGROUP_INET4_BIND'', 8),
    (''BPF_CGROUP_INET6_BIND'', 9),
    (''BPF_CGROUP_INET4_CONNECT'', 10),
    (''BPF_CGROUP_INET6_CONNECT'', 11),
    (''BPF_CGROUP_INET4_POST_BIND'', 12),
    (''BPF_CGROUP_INET6_POST_BIND'', 13),
    (''BPF_CGROUP_UDP4_SENDMSG'', 14),
    (''BPF_CGROUP_UDP6_SENDMSG'', 15),
    (''BPF_LIRC_MODE2'', 16),
    (''BPF_FLOW_DISSECTOR'', 17),
    (''BPF_CGROUP_SYSCTL'', 18),
    (''BPF_CGROUP_UDP4_RECVMSG'', 19),
    (''BPF_CGROUP_UDP6_RECVMSG'', 20),
    (''BPF_CGROUP_GETSOCKOPT'', 21),
    (''BPF_CGROUP_SETSOCKOPT'', 22),
    (''BPF_TRACE_RAW_TP'', 23),
    (''BPF_TRACE_FENTRY'', 24),
    (''BPF_TRACE_FEXIT'', 25),
    (''BPF_MODIFY_RETURN'', 26),
    (''BPF_LSM_MAC'', 27),
    (''BPF_TRACE_ITER'', 28),
    (''BPF_CGROUP_INET4_GETPEERNAME'', 29),
    (''BPF_CGROUP_INET6_GETPEERNAME'', 30),
    (''BPF_CGROUP_INET4_GETSOCKNAME'', 31),
    (''BPF_CGROUP_INET6_GETSOCKNAME'', 32),
    (''BPF_XDP_DEVMAP'', 33),
    (''BPF_CGROUP_INET_SOCK_RELEASE'', 34),
    (''BPF_XDP_CPUMAP'', 35),
    (''BPF_SK_LOOKUP'', 36),
    (''BPF_XDP'', 37),
    (''BPF_SK_SKB_VERDICT'', 38),
    (''BPF_SK_REUSEPORT_SELECT'', 39),
    (''BPF_SK_REUSEPORT_SELECT_OR_MIGRATE'', 40),
    (''BPF_PERF_EVENT'', 41),
    (''BPF_TRACE_KPROBE_MULTI'', 42),
    (''BPF_LSM_CGROUP'', 43),
    (''BPF_STRUCT_OPS'', 44),
    (''BPF_NETFILTER'', 45),
    (''BPF_TCX_INGRESS'', 46),
    (''BPF_TCX_EGRESS'', 47),
    (''BPF_TRACE_UPROBE_MULTI'', 48),
    (''BPF_CGROUP_UNIX_CONNECT'', 49),
    (''BPF_CGROUP_UNIX_SENDMSG'', 50),
    (''BPF_CGROUP_UNIX_RECVMSG'', 51),
    (''BPF_CGROUP_UNIX_GETPEERNAME'', 52),
    (''BPF_CGROUP_UNIX_GETSOCKNAME'', 53),
    (''BPF_NETKIT_PRIMARY'', 54),
    (''BPF_NETKIT_PEER'', 55),
    (''__MAX_BPF_ATTACH_TYPE'', 56)]"

definition struct_sock_filter :: ctype where
  "struct_sock_filter = CStruct False [
    Fld ''code'' typedef___u16,
    Fld ''jt'' typedef___u8,
    Fld ''jf'' typedef___u8,
    Fld ''k'' typedef___u32]"

definition struct_bpf_insn :: ctype where
  "struct_bpf_insn = CStruct False [
    Fld ''code'' typedef___u8,
    Bits ''dst_reg'' typedef___u8 4,
    Bits ''src_reg'' typedef___u8 4,
    Fld ''off'' typedef___s16,
    Fld ''imm'' typedef___s32]"

definition struct_bpf_prog :: ctype where
  "struct_bpf_prog = CStruct False [
    Fld ''pages'' typedef_u16,
    Bits ''jited'' typedef_u16 1,
    Bits ''jit_requested'' typedef_u16 1,
    Bits ''gpl_compatible'' typedef_u16 1,
    Bits ''cb_access'' typedef_u16 1,
    Bits ''dst_needed'' typedef_u16 1,
    Bits ''blinding_requested'' typedef_u16 1,
    Bits ''blinded'' typedef_u16 1,
    Bits ''is_func'' typedef_u16 1,
    Bits ''kprobe_override'' typedef_u16 1,
    Bits ''has_callchain_buf'' typedef_u16 1,
    Bits ''enforce_expected_attach_type'' typedef_u16 1,
    Bits ''call_get_stack'' typedef_u16 1,
    Bits ''call_get_func_ip'' typedef_u16 1,
    Bits ''tstamp_type_access'' typedef_u16 1,
    Bits ''sleepable'' typedef_u16 1,
    Fld ''type'' enum_bpf_prog_type,
    Fld ''expected_attach_type'' enum_bpf_attach_type,
    Fld ''len'' typedef_u32,
    Fld ''jited_len'' typedef_u32,
    Fld ''tag'' (CArray typedef_u8 8),
    Fld ''stats'' (CPtr ''struct bpf_prog_stats''),
    Fld ''active'' (CPtr ''int''),
    Fld ''bpf_func'' CFunPtr,
    Fld ''aux'' (CPtr ''struct bpf_prog_aux''),
    Fld ''orig_prog'' (CPtr ''struct sock_fprog_kern''),
    Fld [] (CUnion False [
      Fld [] (CStruct False [
        Fld ''__empty_insns'' (CStruct False []),
        Fld ''insns'' (CArray struct_sock_filter 0)]),
      Fld [] (CStruct False [
        Fld ''__empty_insnsi'' (CStruct False []),
        Fld ''insnsi'' (CArray struct_bpf_insn 0)])])]"

section \<open>Sizes and alignments\<close>

lemma enum_bpf_map_type_layout [layout]: "csize enum_bpf_map_type = 4" "calign enum_bpf_map_type = 4"
  by (simp_all add: enum_bpf_map_type_def layout)

lemma enum_bpf_prog_type_layout [layout]: "csize enum_bpf_prog_type = 4" "calign enum_bpf_prog_type = 4"
  by (simp_all add: enum_bpf_prog_type_def layout)

lemma struct_bpf_map_layout [layout]: "csize struct_bpf_map = 232" "calign struct_bpf_map = 8"
  by (simp_all add: struct_bpf_map_def layout)

lemma struct_bpf_mem_alloc_layout [layout]: "csize struct_bpf_mem_alloc = 64" "calign struct_bpf_mem_alloc = 8"
  by (simp_all add: struct_bpf_mem_alloc_def layout)

lemma struct_pcpu_freelist_head_layout [layout]: "csize struct_pcpu_freelist_head = 16" "calign struct_pcpu_freelist_head = 8"
  by (simp_all add: struct_pcpu_freelist_head_def layout)

lemma struct_pcpu_freelist_layout [layout]: "csize struct_pcpu_freelist = 24" "calign struct_pcpu_freelist = 8"
  by (simp_all add: struct_pcpu_freelist_def layout)

lemma struct_bpf_lru_list_layout [layout]: "csize struct_bpf_lru_list = 128" "calign struct_bpf_lru_list = 8"
  by (simp_all add: struct_bpf_lru_list_def layout)

lemma struct_bpf_common_lru_layout [layout]: "csize struct_bpf_common_lru = 192" "calign struct_bpf_common_lru = 8"
  by (simp_all add: struct_bpf_common_lru_def layout)

lemma typedef_del_from_htab_func_layout [layout]: "csize typedef_del_from_htab_func = 8" "calign typedef_del_from_htab_func = 8"
  by (simp_all add: typedef_del_from_htab_func_def layout)

lemma struct_bpf_lru_layout [layout]: "csize struct_bpf_lru = 256" "calign struct_bpf_lru = 8"
  by (simp_all add: struct_bpf_lru_def layout)

lemma struct_lock_class_key_layout [layout]: "csize struct_lock_class_key = 0" "calign struct_lock_class_key = 1"
  by (simp_all add: struct_lock_class_key_def layout)

lemma struct_bpf_htab_layout [layout]: "csize struct_bpf_htab = 832" "calign struct_bpf_htab = 8"
  by (simp_all add: struct_bpf_htab_def layout)

lemma struct_bpf_array_layout [layout]: "csize struct_bpf_array = 248" "calign struct_bpf_array = 8"
  by (simp_all add: struct_bpf_array_def layout)

lemma enum_perf_event_state_layout [layout]: "csize enum_perf_event_state = 4" "calign enum_perf_event_state = 4"
  by (simp_all add: enum_perf_event_state_def layout)

lemma typedef_local_t_layout [layout]: "csize typedef_local_t = 8" "calign typedef_local_t = 8"
  by (simp_all add: typedef_local_t_def layout)

lemma typedef_local64_t_layout [layout]: "csize typedef_local64_t = 8" "calign typedef_local64_t = 8"
  by (simp_all add: typedef_local64_t_def layout)

lemma struct_perf_event_attr_layout [layout]: "csize struct_perf_event_attr = 136" "calign struct_perf_event_attr = 8"
  by (simp_all add: struct_perf_event_attr_def layout)

lemma struct_hw_perf_event_extra_layout [layout]: "csize struct_hw_perf_event_extra = 24" "calign struct_hw_perf_event_extra = 8"
  by (simp_all add: struct_hw_perf_event_extra_def layout)

lemma struct_arch_hw_breakpoint_layout [layout]: "csize struct_arch_hw_breakpoint = 24" "calign struct_arch_hw_breakpoint = 8"
  by (simp_all add: struct_arch_hw_breakpoint_def layout)

lemma struct_rhash_head_layout [layout]: "csize struct_rhash_head = 8" "calign struct_rhash_head = 8"
  by (simp_all add: struct_rhash_head_def layout)

lemma struct_rhlist_head_layout [layout]: "csize struct_rhlist_head = 16" "calign struct_rhlist_head = 8"
  by (simp_all add: struct_rhlist_head_def layout)

lemma struct_hw_perf_event_layout [layout]: "csize struct_hw_perf_event = 192" "calign struct_hw_perf_event = 8"
  by (simp_all add: struct_hw_perf_event_def layout)

lemma struct_rcuwait_layout [layout]: "csize struct_rcuwait = 8" "calign struct_rcuwait = 8"
  by (simp_all add: struct_rcuwait_def layout)

lemma struct_irq_work_layout [layout]: "csize struct_irq_work = 32" "calign struct_irq_work = 8"
  by (simp_all add: struct_irq_work_def layout)

lemma struct_perf_addr_filters_head_layout [layout]: "csize struct_perf_addr_filters_head = 24" "calign struct_perf_addr_filters_head = 8"
  by (simp_all add: struct_perf_addr_filters_head_def layout)

lemma typedef_perf_overflow_handler_t_layout [layout]: "csize typedef_perf_overflow_handler_t = 8" "calign typedef_perf_overflow_handler_t = 8"
  by (simp_all add: typedef_perf_overflow_handler_t_def layout)

lemma typedef_ftrace_func_t_layout [layout]: "csize typedef_ftrace_func_t = 8" "calign typedef_ftrace_func_t = 8"
  by (simp_all add: typedef_ftrace_func_t_def layout)

lemma struct_ftrace_ops_hash_layout [layout]: "csize struct_ftrace_ops_hash = 48" "calign struct_ftrace_ops_hash = 8"
  by (simp_all add: struct_ftrace_ops_hash_def layout)

lemma typedef_ftrace_ops_func_t_layout [layout]: "csize typedef_ftrace_ops_func_t = 8" "calign typedef_ftrace_ops_func_t = 8"
  by (simp_all add: typedef_ftrace_ops_func_t_def layout)

lemma struct_ftrace_ops_layout [layout]: "csize struct_ftrace_ops = 192" "calign struct_ftrace_ops = 8"
  by (simp_all add: struct_ftrace_ops_def layout)

lemma struct_perf_event_layout [layout]: "csize struct_perf_event = 1264" "calign struct_perf_event = 8"
  by (simp_all add: struct_perf_event_def layout)

lemma enum_bpf_attach_type_layout [layout]: "csize enum_bpf_attach_type = 4" "calign enum_bpf_attach_type = 4"
  by (simp_all add: enum_bpf_attach_type_def layout)

lemma struct_sock_filter_layout [layout]: "csize struct_sock_filter = 8" "calign struct_sock_filter = 4"
  by (simp_all add: struct_sock_filter_def layout)

lemma struct_bpf_insn_layout [layout]: "csize struct_bpf_insn = 8" "calign struct_bpf_insn = 4"
  by (simp_all add: struct_bpf_insn_def layout)

lemma struct_bpf_prog_layout [layout]: "csize struct_bpf_prog = 72" "calign struct_bpf_prog = 8"
  by (simp_all add: struct_bpf_prog_def layout)

end
