(* ===== verification/Kernel_Memory.thy ===== *)
theory Kernel_Memory imports Kernel_Types_BPF begin

text \<open>
  How the probe reads kernel memory. The two helpers the source uses,
  \<^verbatim>\<open>bpf_core_read\<close> and \<^verbatim>\<open>bpf_probe_read_kernel\<close>, are kernel code: reading
  \<open>n\<close> bytes at an address is a parameter \<open>rd\<close> of the model, \<open>None\<close> when the access
  faults. Every destination in the source is initialised to zero before the read, and a failing
  helper leaves it so (or zeroes it), so a failed read yields zero.

  \<open>object_at\<close> says that memory holds the image of an object of a C type; a member is then
  the bytes at its offset. The locale \<open>kernel_memory\<close> states the one law of the helper,
  and a memory made of disjoint objects satisfies it.
\<close>

section \<open>Reading\<close>

type_synonym memory = "u64 \<Rightarrow> nat \<Rightarrow> byte list option"

definition read_bytes :: "memory \<Rightarrow> nat \<Rightarrow> u64 \<Rightarrow> byte list" where
  "read_bytes rd n a = (case rd a n of Some bs \<Rightarrow> bs | None \<Rightarrow> replicate n 0)"

definition read_u64 :: "memory \<Rightarrow> u64 \<Rightarrow> u64" where
  "read_u64 rd a = le_u64 (read_bytes rd 8 a)"

definition read_u32 :: "memory \<Rightarrow> u64 \<Rightarrow> u32" where
  "read_u32 rd a = le_u32 (read_bytes rd 4 a)"

definition read_u8 :: "memory \<Rightarrow> u64 \<Rightarrow> u8" where
  "read_u8 rd a = of_nat (le_nat (read_bytes rd 1 a))"

text \<open>\<^verbatim>\<open>&p->a.b\<close>: the address of a member of the object at \<open>p\<close>.\<close>

definition member_addr :: "ctype \<Rightarrow> string list \<Rightarrow> u64 \<Rightarrow> u64" where
  "member_addr t path p =
     (case offset_of t path of None \<Rightarrow> p | Some (d, _) \<Rightarrow> p + of_nat d)"

section \<open>Objects in memory\<close>

definition object_at :: "memory \<Rightarrow> u64 \<Rightarrow> ctype \<Rightarrow> byte list \<Rightarrow> bool" where
  "object_at rd p t bs \<longleftrightarrow>
     length bs = csize t \<and>
     (\<forall>d n. d + n \<le> csize t \<longrightarrow> rd (p + of_nat d) n = Some (take n (drop d bs)))"

definition member_bytes :: "ctype \<Rightarrow> string list \<Rightarrow> byte list \<Rightarrow> byte list" where
  "member_bytes t path bs =
     (case offset_of t path of None \<Rightarrow> [] | Some (d, t') \<Rightarrow> take (csize t') (drop d bs))"

text \<open>
  Reading a member of an object in memory gives the bytes of that member: the read stays inside
  the object because the member does.
\<close>

lemma read_member:
  assumes "object_at rd p t bs" "offset_of t path = Some (d, t')" "csize t' = n"
  shows "read_bytes rd n (member_addr t path p) = member_bytes t path bs"
proof -
  have "d + n \<le> csize t" using path_inside [OF assms(2)] assms(3) by simp
  then show ?thesis
    using assms by (simp add: object_at_def read_bytes_def member_addr_def member_bytes_def)
qed

section \<open>A memory of disjoint objects\<close>

locale kernel_memory =
  fixes rd :: memory
  assumes rd_length: "rd a n = Some bs \<Longrightarrow> length bs = n"
begin

lemma length_read_bytes: "length (read_bytes rd n a) = n"
  using rd_length [of a n] by (simp add: read_bytes_def split: option.split)

end

text \<open>
  The memory that holds a list of objects, each with its address and image: a read succeeds
  when one object contains it.
\<close>

definition inside :: "u64 \<Rightarrow> nat \<Rightarrow> u64 \<times> byte list \<Rightarrow> bool" where
  "inside a n ob \<longleftrightarrow> unat (a - fst ob) + n \<le> length (snd ob)"

definition object_memory :: "(u64 \<times> byte list) list \<Rightarrow> memory" where
  "object_memory obs a n =
     map_option (\<lambda>ob. take n (drop (unat (a - fst ob)) (snd ob))) (find (inside a n) obs)"

interpretation objects: kernel_memory "object_memory obs" for obs
proof
  fix a n bs
  assume "object_memory obs a n = Some bs"
  then obtain ob where "find (inside a n) obs = Some ob"
    and bs: "bs = take n (drop (unat (a - fst ob)) (snd ob))"
    by (auto simp: object_memory_def)
  then have "inside a n ob" by (auto simp: find_Some_iff)
  with bs show "length bs = n" by (simp add: inside_def)
qed

text \<open>
  An object of the list is found when the objects before it are out of reach of any read inside
  it, the empty read at its end included.
\<close>

lemma object_memory_at:
  assumes len: "length bs = csize t" "length bs < 2 ^ 64"
    and before: "\<And>d n ob. ob \<in> set obs1 \<Longrightarrow> d + n \<le> length bs \<Longrightarrow> \<not> inside (p + of_nat d) n ob"
  shows "object_at (object_memory (obs1 @ (p, bs) # obs2)) p t bs"
  unfolding object_at_def
proof (intro conjI allI impI)
  fix d n
  assume dn: "d + n \<le> csize t"
  with len have d: "unat (of_nat d :: u64) = d" by (simp add: unat_of_nat)
  have "find (inside (p + of_nat d) n) (obs1 @ (p, bs) # obs2) = Some (p, bs)"
  proof -
    have "find (inside (p + of_nat d) n) obs1 = None"
      using before dn len by (auto simp: find_None_iff)
    moreover have "inside (p + of_nat d) n (p, bs)" using d dn len by (simp add: inside_def)
    ultimately show ?thesis by (induction obs1) auto
  qed
  with d show "object_memory (obs1 @ (p, bs) # obs2) (p + of_nat d) n = Some (take n (drop d bs))"
    by (simp add: object_memory_def)
qed (use len in simp)

text \<open>
  Two objects placed in different windows of the address space are out of reach of each other.
\<close>

lemma not_inside_window:
  assumes "of_nat g = p - q" "length bs' < g" "g + m < 2 ^ 64" "d + n \<le> m"
  shows "\<not> inside (p + of_nat d) n (q, bs')"
proof -
  have "p + of_nat d - q = p - q + of_nat d" by simp
  also have "\<dots> = of_nat (g + d)" unfolding assms(1) [symmetric] by simp
  finally have "unat (p + of_nat d - q) = unat (of_nat (g + d) :: u64)" by (rule arg_cong)
  also have "\<dots> = g + d" using assms by (simp add: unat_of_nat del: of_nat_add)
  finally show ?thesis using assms(2) by (simp add: inside_def)
qed

end
