(* ===== verification/BPF_Maps.thy ===== *)
theory BPF_Maps imports Prelude "HOL-Library.AList" begin

text \<open>
  The eBPF hash maps through which the kernel programs and the Go process share state
  (\<^verbatim>\<open>BPF_MAP_TYPE_HASH\<close> with 32-bit keys and values). The map implementation is kernel
  code outside the repository, so it is a parameter: a record of the operations the sources
  call, used by both sides. The locale \<open>bpf_hash\<close> states their documented behaviour, which
  is all the development relies on. The map of bounded capacity at the end satisfies it; the
  witnesses run on that one.
\<close>

section \<open>The interface\<close>

datatype update_flag = BPF_ANY | BPF_NOEXIST | BPF_EXIST

datatype errno = EEXIST | ENOENT | E2BIG | EOTHER

text \<open>
  \<open>map_store\<close> is a write through the pointer that \<^verbatim>\<open>bpf_map_lookup_elem\<close> returned
  (\<^verbatim>\<open>(*count)++\<close>); the other three are the helpers and system calls of the same names.
\<close>

record 'm map_ops =
  map_lookup :: "'m \<Rightarrow> u32 \<Rightarrow> u32 option"
  map_update :: "'m \<Rightarrow> u32 \<Rightarrow> u32 \<Rightarrow> update_flag \<Rightarrow> errno + 'm"
  map_delete :: "'m \<Rightarrow> u32 \<Rightarrow> errno + 'm"
  map_store :: "'m \<Rightarrow> u32 \<Rightarrow> u32 \<Rightarrow> 'm"

text \<open>A C program that ignores the result of \<^verbatim>\<open>bpf_map_update_elem\<close>.\<close>

definition update_ignore :: "'m map_ops \<Rightarrow> 'm \<Rightarrow> u32 \<Rightarrow> u32 \<Rightarrow> update_flag \<Rightarrow> 'm" where
  "update_ignore ops m k v f = (case map_update ops m k v f of Inl _ \<Rightarrow> m | Inr m' \<Rightarrow> m')"

text \<open>The map can take a new entry for the key: a full map refuses keys it does not hold.\<close>

definition has_room :: "'m map_ops \<Rightarrow> 'm \<Rightarrow> u32 \<Rightarrow> bool" where
  "has_room ops m k \<longleftrightarrow>
     (map_lookup ops m k = None \<longrightarrow>
        (\<forall>v f. f \<noteq> BPF_EXIST \<longrightarrow> (\<exists>m'. map_update ops m k v f = Inr m')))"

locale bpf_hash =
  fixes ops :: "'m map_ops"
  assumes update_inserts:
      "map_update ops m k v f = Inr m' \<Longrightarrow> map_lookup ops m' = (map_lookup ops m)(k \<mapsto> v)"
    and update_present: "map_lookup ops m k = Some w \<Longrightarrow> \<exists>m'. map_update ops m k v BPF_ANY = Inr m'"
    and noexist_present: "map_lookup ops m k = Some w \<Longrightarrow> map_update ops m k v BPF_NOEXIST = Inl EEXIST"
    and delete_present:
      "map_lookup ops m k = Some w \<Longrightarrow>
         \<exists>m'. map_delete ops m k = Inr m' \<and> map_lookup ops m' = (map_lookup ops m)(k := None)"
    and delete_absent: "map_lookup ops m k = None \<Longrightarrow> map_delete ops m k = Inl ENOENT"
    and store_present: "map_lookup ops m k = Some w \<Longrightarrow> map_lookup ops (map_store ops m k v) = (map_lookup ops m)(k \<mapsto> v)"
begin

lemma lookup_update_any:
  assumes "has_room ops m k"
  shows "map_lookup ops (update_ignore ops m k v BPF_ANY) = (map_lookup ops m)(k \<mapsto> v)"
proof -
  have "\<exists>m'. map_update ops m k v BPF_ANY = Inr m'"
    using assms update_present unfolding has_room_def by (cases "map_lookup ops m k") auto
  then show ?thesis by (auto simp: update_ignore_def update_inserts)
qed

lemma lookup_update_noexist_absent:
  assumes "has_room ops m k" "map_lookup ops m k = None"
  shows "map_lookup ops (update_ignore ops m k v BPF_NOEXIST) = (map_lookup ops m)(k \<mapsto> v)"
proof -
  have "\<exists>m'. map_update ops m k v BPF_NOEXIST = Inr m'"
    using assms unfolding has_room_def by auto
  then show ?thesis by (auto simp: update_ignore_def update_inserts)
qed

lemma update_noexist_present:
  "map_lookup ops m k = Some w \<Longrightarrow> update_ignore ops m k v BPF_NOEXIST = m"
  by (simp add: update_ignore_def noexist_present)

text \<open>Whatever an update answers, it leaves every other key alone.\<close>

lemma lookup_update_other:
  "k' \<noteq> k \<Longrightarrow> map_lookup ops (update_ignore ops m k v f) k' = map_lookup ops m k'"
  by (auto simp: update_ignore_def update_inserts split: sum.splits)

lemma lookup_store_other:
  "map_lookup ops m k = Some w \<Longrightarrow> k' \<noteq> k \<Longrightarrow>
     map_lookup ops (map_store ops m k v) k' = map_lookup ops m k'"
  by (simp add: store_present)

lemma has_room_present: "map_lookup ops m k = Some w \<Longrightarrow> has_room ops m k"
  by (simp add: has_room_def)

lemma delete_other:
  "map_delete ops m k = Inr m' \<Longrightarrow> k' \<noteq> k \<Longrightarrow> map_lookup ops m' k' = map_lookup ops m k'"
  using delete_present [of m k] delete_absent [of m k] by (cases "map_lookup ops m k") auto

lemma delete_removes: "map_delete ops m k = Inr m' \<Longrightarrow> map_lookup ops m' k = None"
  using delete_present [of m k] delete_absent [of m k] by (cases "map_lookup ops m k") auto

end

section \<open>Maps with a capacity\<close>

text \<open>
  A map is created empty with the number of entries of its declaration, and a new key is
  accepted exactly while it holds fewer. \<open>valid\<close> are the maps that the operations reach from
  a created one.
\<close>

locale bounded_hash = bpf_hash ops for ops :: "'m map_ops" +
  fixes create :: "nat \<Rightarrow> 'm" and capacity :: "'m \<Rightarrow> nat" and valid :: "'m \<Rightarrow> bool"
  assumes create: "valid (create n)" "capacity (create n) = n" "map_lookup ops (create n) k = None"
    and valid_bound: "valid m \<Longrightarrow> finite (dom (map_lookup ops m))"
      "valid m \<Longrightarrow> card (dom (map_lookup ops m)) \<le> capacity m"
    and update_valid: "\<lbrakk>valid m; map_update ops m k v f = Inr m'\<rbrakk> \<Longrightarrow> valid m' \<and> capacity m' = capacity m"
    and delete_valid: "\<lbrakk>valid m; map_delete ops m k = Inr m'\<rbrakk> \<Longrightarrow> valid m' \<and> capacity m' = capacity m"
    and store_valid: "\<lbrakk>valid m; map_lookup ops m k = Some w\<rbrakk> \<Longrightarrow>
      valid (map_store ops m k v) \<and> capacity (map_store ops m k v) = capacity m"
    and update_below: "\<lbrakk>valid m; map_lookup ops m k = None; card (dom (map_lookup ops m)) < capacity m;
      f \<noteq> BPF_EXIST\<rbrakk> \<Longrightarrow> \<exists>m'. map_update ops m k v f = Inr m'"
begin

lemma update_full:
  assumes "valid m" "map_lookup ops m k = None" "card (dom (map_lookup ops m)) = capacity m"
  shows "\<exists>e. map_update ops m k v f = Inl e"
proof (cases "map_update ops m k v f")
  case (Inr m')
  then have "card (dom (map_lookup ops m')) = Suc (capacity m)"
    using assms valid_bound(1) [OF assms(1)] by (simp add: update_inserts domIff)
  then show ?thesis using valid_bound(2) [of m'] update_valid [OF assms(1) Inr] by simp
qed simp

lemma has_room_iff:
  assumes "valid m"
  shows "has_room ops m k \<longleftrightarrow>
    map_lookup ops m k \<noteq> None \<or> card (dom (map_lookup ops m)) < capacity m"
proof (cases "map_lookup ops m k")
  case None
  show ?thesis
  proof (cases "card (dom (map_lookup ops m)) < capacity m")
    case True
    then show ?thesis using None update_below [OF assms] by (simp add: has_room_def)
  next
    case False
    then have "card (dom (map_lookup ops m)) = capacity m"
      using valid_bound(2) [OF assms] by simp
    with update_full [OF assms None, of 0 BPF_ANY] None False show ?thesis
      by (fastforce simp: has_room_def dest: spec [of _ 0] spec [of _ BPF_ANY])
  qed
qed (simp add: has_room_present)

text \<open>
  A map whose keys are among those of another one of no more capacity has room for every key of
  that one.
\<close>

lemma has_room_subset:
  assumes "valid m" "valid m'" "capacity m' \<le> capacity m"
    "dom (map_lookup ops m) \<subseteq> dom (map_lookup ops m')" "map_lookup ops m' k = Some w"
  shows "has_room ops m k"
proof (cases "map_lookup ops m k")
  case None
  then have "dom (map_lookup ops m) \<subset> dom (map_lookup ops m')" using assms(4,5) by auto
  then have "card (dom (map_lookup ops m)) < card (dom (map_lookup ops m'))"
    by (rule psubset_card_mono [OF valid_bound(1) [OF assms(2)]])
  then show ?thesis using valid_bound(2) [OF assms(2)] assms(3) has_room_iff [OF assms(1)] by simp
qed (rule has_room_present)

lemma update_ignore_valid:
  "valid m \<Longrightarrow> valid (update_ignore ops m k v f) \<and> capacity (update_ignore ops m k v f) = capacity m"
  using update_valid [of m k v f] by (simp add: update_ignore_def split: sum.split)

end

section \<open>A map of bounded capacity\<close>

record hmap =
  entries :: "(u32 \<times> u32) list"
  max_entries :: nat

definition hmap_empty :: "nat \<Rightarrow> hmap" where
  "hmap_empty n = \<lparr>entries = [], max_entries = n\<rparr>"

definition hmap_lookup :: "hmap \<Rightarrow> u32 \<Rightarrow> u32 option" where
  "hmap_lookup m = map_of (entries m)"

definition hmap_update :: "hmap \<Rightarrow> u32 \<Rightarrow> u32 \<Rightarrow> update_flag \<Rightarrow> errno + hmap" where
  "hmap_update m k v f =
     (case hmap_lookup m k of
        Some _ \<Rightarrow>
          if f = BPF_NOEXIST then Inl EEXIST
          else Inr (m\<lparr>entries := AList.update k v (entries m)\<rparr>)
      | None \<Rightarrow>
          if f = BPF_EXIST then Inl ENOENT
          else if max_entries m \<le> length (entries m) then Inl E2BIG
          else Inr (m\<lparr>entries := AList.update k v (entries m)\<rparr>))"

definition hmap_delete :: "hmap \<Rightarrow> u32 \<Rightarrow> errno + hmap" where
  "hmap_delete m k =
     (case hmap_lookup m k of
        None \<Rightarrow> Inl ENOENT
      | Some _ \<Rightarrow> Inr (m\<lparr>entries := AList.delete k (entries m)\<rparr>))"

definition hmap_store :: "hmap \<Rightarrow> u32 \<Rightarrow> u32 \<Rightarrow> hmap" where
  "hmap_store m k v = m\<lparr>entries := AList.update k v (entries m)\<rparr>"

definition hmap_ops :: "hmap map_ops" where
  "hmap_ops = \<lparr>map_lookup = hmap_lookup, map_update = hmap_update,
     map_delete = hmap_delete, map_store = hmap_store\<rparr>"

lemmas hmap_defs = hmap_empty_def hmap_lookup_def hmap_update_def hmap_delete_def hmap_store_def
  hmap_ops_def

interpretation hmap: bpf_hash hmap_ops
proof unfold_locales
  fix m k v f m'
  assume "map_update hmap_ops m k v f = Inr m'"
  then show "map_lookup hmap_ops m' = (map_lookup hmap_ops m)(k \<mapsto> v)"
    by (auto simp: hmap_defs update_conv' split: option.splits if_splits)
qed (auto simp: hmap_defs update_conv' delete_conv' split: option.splits)

text \<open>Its well-formed states: no key twice, no more entries than declared.\<close>

definition hmap_valid :: "hmap \<Rightarrow> bool" where
  "hmap_valid m \<longleftrightarrow> distinct (map fst (entries m)) \<and> length (entries m) \<le> max_entries m"

lemma hmap_card:
  "distinct (map fst (entries m)) \<Longrightarrow> card (dom (hmap_lookup m)) = length (entries m)"
  using distinct_card [of "map fst (entries m)"]
  by (simp add: hmap_lookup_def dom_map_of_conv_image_fst)

lemma length_update_present:
  "k \<in> fst ` set es \<Longrightarrow> length (AList.update k v es) = length es"
  by (induction es) auto

lemma length_update_absent: "k \<notin> fst ` set es \<Longrightarrow> length (AList.update k v es) = Suc (length es)"
  by (induction es) auto

lemma hmap_update_valid:
  "hmap_valid m \<Longrightarrow> k \<in> fst ` set (entries m) \<or> length (entries m) < max_entries m \<Longrightarrow>
   hmap_valid (m\<lparr>entries := AList.update k v (entries m)\<rparr>)"
  by (cases "k \<in> fst ` set (entries m)")
    (auto simp: hmap_valid_def distinct_update length_update_present length_update_absent)

interpretation hmap: bounded_hash hmap_ops hmap_empty max_entries hmap_valid
proof unfold_locales
  fix m assume "hmap_valid m"
  then have "card (dom (hmap_lookup m)) = length (entries m)" "length (entries m) \<le> max_entries m"
    by (simp_all add: hmap_card hmap_valid_def)
  then show "card (dom (map_lookup hmap_ops m)) \<le> max_entries m" by (simp add: hmap_ops_def)
next
  fix m k v f m'
  assume "hmap_valid m" "map_update hmap_ops m k v f = Inr m'"
  then show "hmap_valid m' \<and> max_entries m' = max_entries m"
    by (auto simp: hmap_ops_def hmap_update_def hmap_lookup_def map_of_eq_None_iff
        split: option.splits if_splits intro!: hmap_update_valid dest: map_of_SomeD)
      (metis (no_types, lifting) fst_conv image_eqI map_of_SomeD)
next
  fix m k m'
  assume "hmap_valid m" "map_delete hmap_ops m k = Inr m'"
  moreover have "length (AList.delete k (entries m)) \<le> length (entries m)"
    by (simp add: AList.delete_eq)
  ultimately show "hmap_valid m' \<and> max_entries m' = max_entries m"
    by (auto simp: hmap_ops_def hmap_delete_def hmap_valid_def distinct_delete split: option.splits)
next
  fix m k w v
  assume "hmap_valid m" "map_lookup hmap_ops m k = Some w"
  then show "hmap_valid (map_store hmap_ops m k v) \<and> max_entries (map_store hmap_ops m k v) = max_entries m"
    by (auto simp: hmap_ops_def hmap_store_def hmap_lookup_def intro!: hmap_update_valid)
      (metis fst_conv image_eqI map_of_SomeD)
next
  fix m k f v
  assume "hmap_valid m" "map_lookup hmap_ops m k = None"
    "card (dom (map_lookup hmap_ops m)) < max_entries m" "f \<noteq> BPF_EXIST"
  then show "\<exists>m'. map_update hmap_ops m k v f = Inr m'"
    by (simp add: hmap_ops_def hmap_update_def hmap_valid_def hmap_card)
qed (simp_all add: hmap_defs hmap_valid_def finite_dom_map_of)

end
