(* ===== verification/Conc_Req_Kprobe.thy ===== *)
theory Conc_Req_Kprobe imports Kernel_Memory BPF_Maps begin

text \<open>
  The kprobe on \<^verbatim>\<open>tcp_recvmsg\<close>
  (\<^verbatim>\<open>src/autoscaler/conc_req_monitoring/bpf/conc_req_monitoring.c\<close>): the five hash maps
  it shares with the Go process, \<open>get_netns_from_task\<close> on raw kernel memory, the handler in
  the source's blocks, and the sample it emits. The kernel's map operations \<open>ops\<close> and its
  memory \<open>rd\<close> are parameters. The handler is run for one event at a time here; the source takes no
  lock, and what becomes of its accesses when CPUs take turns between them is the subject of
  \<open>Kprobe_CPUs\<close>. The \<^verbatim>\<open>bpf_printk\<close> traces are left out.

  \<open>probe_step\<close> is the abstract specification: what one event of a tracked namespace does to
  that namespace's counter, breach buffer and suppression flag, with the signal it sends. The
  handler implements it (\<open>probe_refines\<close>), and the debouncing properties are proved on it.
\<close>

section \<open>State and samples\<close>

record 'm probe_maps =
  conn_count_map :: 'm
  constants_map :: 'm
  buffer_map :: 'm
  scaling_map :: 'm
  valid_netns_map :: 'm

record data_t =
  netns :: u32
  message :: "byte list"

definition struct_data_t :: ctype where
  "struct_data_t = CStruct False [
    Fld ''netns'' typedef_u32,
    Fld ''message'' (CArray (CBase CChar) 6)]"

lemma struct_data_t_layout [layout]: "csize struct_data_t = 12" "calign struct_data_t = 4"
  by (simp_all add: struct_data_t_def layout)

text \<open>The bytes of a sample: the two members, and the padding that \<^verbatim>\<open>= {}\<close> zeroes.\<close>

definition data_bytes :: "data_t \<Rightarrow> byte list" where
  "data_bytes d = u32_bytes (netns d) @ message d @
     replicate (csize struct_data_t - (4 + length (message d))) 0"

definition tcp_states :: ctype where
  "tcp_states = CEnum [
    (''TCP_ESTABLISHED'', 1),
    (''TCP_SYN_SENT'', 2),
    (''TCP_SYN_RECV'', 3),
    (''TCP_FIN_WAIT1'', 4),
    (''TCP_FIN_WAIT2'', 5),
    (''TCP_TIME_WAIT'', 6),
    (''TCP_CLOSE'', 7),
    (''TCP_CLOSE_WAIT'', 8),
    (''TCP_LAST_ACK'', 9),
    (''TCP_LISTEN'', 10),
    (''TCP_CLOSING'', 11),
    (''TCP_NEW_SYN_RECV'', 12),
    (''TCP_BOUND_INACTIVE'', 13),
    (''TCP_MAX_STATES'', 14)]"

definition TCP_ESTABLISHED :: u8 where "TCP_ESTABLISHED = 1"
definition TCP_CLOSE :: u8 where "TCP_CLOSE = 7"
definition TCP_CLOSE_WAIT :: u8 where "TCP_CLOSE_WAIT = 8"
definition TCP_LAST_ACK :: u8 where "TCP_LAST_ACK = 9"

lemmas tcp_state_defs = TCP_ESTABLISHED_def TCP_CLOSE_def TCP_CLOSE_WAIT_def TCP_LAST_ACK_def

section \<open>The program\<close>

definition get_netns_from_task :: "memory \<Rightarrow> u64 \<Rightarrow> u32" where
  "get_netns_from_task rd task =
     (let ns = read_u64 rd (member_addr struct_task_struct [''nsproxy''] task) in
      if ns \<noteq> 0 then
        (let net = read_u64 rd (member_addr struct_nsproxy [''net_ns''] ns) in
         if net \<noteq> 0 then read_u32 rd (member_addr struct_net [''ns'', ''inum''] net) else 0)
      else 0)"

text \<open>
  \<open>load_cell\<close> is the lookup of a counter with its fallback: the value, whether the pointer
  points into the map or at a local zero, and the map after the fallback's
  \<^verbatim>\<open>BPF_NOEXIST\<close> insertion. \<open>write_cell\<close> is a write through that pointer.
\<close>

definition load_cell :: "'m map_ops \<Rightarrow> u32 \<Rightarrow> 'm \<Rightarrow> u32 \<times> bool \<times> 'm" where
  "load_cell ops k m =
     (case map_lookup ops m k of
        Some c \<Rightarrow> (c, True, m)
      | None \<Rightarrow> (0, False, update_ignore ops m k 0 BPF_NOEXIST))"

definition write_cell :: "'m map_ops \<Rightarrow> u32 \<Rightarrow> bool \<Rightarrow> 'm \<Rightarrow> u32 \<Rightarrow> 'm" where
  "write_cell ops k in_map m v = (if in_map then map_store ops m k v else m)"

text \<open>
  The connection counter. The last disjunct of the source's second condition is the constant
  \<^verbatim>\<open>TCP_LAST_ACK\<close>, not a comparison with it.
\<close>

definition count_event :: "'m map_ops \<Rightarrow> u32 \<Rightarrow> u8 \<Rightarrow> 'm \<Rightarrow> u32 \<times> 'm" where
  "count_event ops k state m =
     (let (count, in_map, m1) = load_cell ops k m in
      if state = TCP_ESTABLISHED then (count + 1, write_cell ops k in_map m1 (count + 1))
      else if state = TCP_CLOSE \<or> state = TCP_CLOSE_WAIT \<or> TCP_LAST_ACK \<noteq> 0 then
        (if count > 0 then (count - 1, write_cell ops k in_map m1 (count - 1)) else (0, m1))
      else (0, m1))"

definition buffer_event :: "'m map_ops \<Rightarrow> u32 \<Rightarrow> bool \<Rightarrow> 'm \<Rightarrow> u32 \<times> 'm" where
  "buffer_event ops k breach m =
     (let (buffer, in_map, m1) = load_cell ops k m;
          buffer' = (if breach then buffer + 1 else 0);
          m2 = write_cell ops k in_map m1 buffer'
      in (buffer', update_ignore ops m2 k buffer' BPF_ANY))"

definition signal_data :: "u32 \<Rightarrow> u32 \<Rightarrow> u32 \<Rightarrow> data_t" where
  "signal_data ns new_value lowerLimit =
     \<lparr>netns = ns,
      message = string_bytes (if new_value \<le> lowerLimit then ''Lower'' else ''Upper'') @ [0]\<rparr>"

definition scale_event ::
  "'m map_ops \<Rightarrow> u32 \<Rightarrow> u32 \<Rightarrow> u32 \<Rightarrow> u32 \<Rightarrow> u32 \<Rightarrow> 'm probe_maps \<Rightarrow> 'm probe_maps \<times> data_t list"
where
  "scale_event ops ns new_value lowerLimit upperLimit bufferLength s =
     (if map_lookup ops (scaling_map s) ns = Some 1 then (s, [])
      else
         (let (buffer, bm) = buffer_event ops ns (new_value \<le> lowerLimit \<or> new_value \<ge> upperLimit)
                (buffer_map s)
          in if buffer = bufferLength then
               (s\<lparr>scaling_map := update_ignore ops (scaling_map s) ns 1 BPF_ANY,
                  buffer_map := update_ignore ops bm ns 0 BPF_ANY\<rparr>,
                [signal_data ns new_value lowerLimit])
             else (s\<lparr>buffer_map := bm\<rparr>, [])))"

definition kprobe_tcp_recvmsg ::
  "'m map_ops \<Rightarrow> memory \<Rightarrow> u64 \<Rightarrow> u64 \<Rightarrow> 'm probe_maps \<Rightarrow> 'm probe_maps \<times> data_t list"
where
  "kprobe_tcp_recvmsg ops rd task ctx s =
     (let ns = get_netns_from_task rd task;
          sk = read_u64 rd (member_addr struct_pt_regs [''di''] ctx)
      in if sk = 0 then (s, [])
         else case map_lookup ops (valid_netns_map s) ns of
           None \<Rightarrow> (s, [])
         | Some _ \<Rightarrow>
            (let state = read_u8 rd (member_addr struct_sock [''__sk_common'', ''skc_state''] sk) in
             case (map_lookup ops (constants_map s) 0, map_lookup ops (constants_map s) 1,
                   map_lookup ops (constants_map s) 2) of
               (Some lowerLimit, Some upperLimit, Some bufferLength) \<Rightarrow>
                 (let (new_value, cm) = count_event ops ns state (conn_count_map s) in
                  scale_event ops ns new_value lowerLimit upperLimit bufferLength
                    (s\<lparr>conn_count_map := cm\<rparr>))
             | _ \<Rightarrow> (s, [])))"

section \<open>Abstract specification\<close>

record netns_view =
  count :: u32
  buffer :: u32
  suppressed :: bool

datatype signal = Lower | Upper

text \<open>The limits of one namespace's automaton, as read from the constants map.\<close>

record limits =
  lower :: u32
  upper :: u32
  buffer_length :: u32

definition breaches :: "limits \<Rightarrow> u32 \<Rightarrow> bool" where
  "breaches l c \<longleftrightarrow> c \<le> lower l \<or> upper l \<le> c"

definition next_count :: "u8 \<Rightarrow> u32 \<Rightarrow> u32" where
  "next_count state c = (if state = TCP_ESTABLISHED then c + 1 else if c > 0 then c - 1 else 0)"

definition probe_step :: "limits \<Rightarrow> u8 \<Rightarrow> netns_view \<Rightarrow> netns_view \<times> signal option" where
  "probe_step l state v =
     (let c = next_count state (count v); v1 = v\<lparr>count := c\<rparr> in
      if suppressed v then (v1, None)
      else
        (let b = (if breaches l c then buffer v + 1 else 0) in
         if b = buffer_length l then
           (v1\<lparr>buffer := 0, suppressed := True\<rparr>, Some (if c \<le> lower l then Lower else Upper))
         else (v1\<lparr>buffer := b\<rparr>, None)))"

definition view :: "'m map_ops \<Rightarrow> 'm probe_maps \<Rightarrow> u32 \<Rightarrow> netns_view" where
  "view ops s k =
     \<lparr>count = (case map_lookup ops (conn_count_map s) k of Some c \<Rightarrow> c | None \<Rightarrow> 0),
      buffer = (case map_lookup ops (buffer_map s) k of Some b \<Rightarrow> b | None \<Rightarrow> 0),
      suppressed = (map_lookup ops (scaling_map s) k = Some 1)\<rparr>"

definition signal_event :: "u32 \<Rightarrow> signal \<Rightarrow> data_t" where
  "signal_event k sg =
     \<lparr>netns = k, message = string_bytes (case sg of Lower \<Rightarrow> ''Lower'' | Upper \<Rightarrow> ''Upper'') @ [0]\<rparr>"

section \<open>The offsets the probe reads at\<close>

text \<open>
  Computed from the declarations of the header. Each comes with the type of the member, which
  fixes how many bytes are read.
\<close>

lemma offset_task_nsproxy [offsets]:
  "offset_of struct_task_struct [''nsproxy''] = Some (3120, CPtr ''struct nsproxy'')"
  unfolding struct_task_struct_def struct_task_struct_part1_def struct_task_struct_part2_def
    append.simps
  by (simp add: layout cong: struct_off_cong)

lemma offset_nsproxy_net_ns [offsets]:
  "offset_of struct_nsproxy [''net_ns''] = Some (40, CPtr ''struct net'')"
  unfolding struct_nsproxy_def by (simp add: layout cong: struct_off_cong)

lemma offset_net_inum [offsets]:
  "offset_of struct_net [''ns'', ''inum''] = Some (128, CBase CUInt)"
  unfolding struct_net_def struct_ns_common_def by (simp add: layout cong: struct_off_cong)

lemma offset_pt_regs_di [offsets]:
  "offset_of struct_pt_regs [''di''] = Some (112, CBase CULong)"
  unfolding struct_pt_regs_def by (simp add: layout cong: struct_off_cong)

lemma offset_sock_state [offsets]:
  "offset_of struct_sock [''__sk_common'', ''skc_state''] = Some (18, CBase CUChar)"
  unfolding struct_sock_def struct_sock_common_def by (simp add: layout cong: struct_off_cong)

text \<open>From here on an offset is one of these facts, not a search of the members.\<close>

declare offset_of.simps [simp del]

section \<open>The handler implements the specification\<close>

text \<open>What each block of the handler does to its map, under the documented map operations.\<close>

context bpf_hash
begin

lemma count_event_present:
  assumes "map_lookup ops m k = Some c"
  shows "\<exists>m'. count_event ops k st m = (next_count st c, m') \<and>
    map_lookup ops m' = (map_lookup ops m)(k \<mapsto> next_count st c)"
  using assms
  by (auto simp: count_event_def load_cell_def write_cell_def next_count_def store_present
      tcp_state_defs word_greater_zero_iff fun_upd_idem)

lemma buffer_event_room:
  fixes breach :: bool
  assumes "has_room ops m k"
  defines "b \<equiv> case map_lookup ops m k of Some b \<Rightarrow> b | None \<Rightarrow> 0"
  defines "b' \<equiv> if breach then b + 1 else 0"
  shows "\<exists>m'. buffer_event ops k breach m = (b', m') \<and> map_lookup ops m' = (map_lookup ops m)(k \<mapsto> b')"
proof (cases "map_lookup ops m k")
  case None
  let ?m1 = "update_ignore ops m k 0 BPF_NOEXIST"
  have "map_lookup ops ?m1 = (map_lookup ops m)(k \<mapsto> 0)"
    using assms(1) None by (rule lookup_update_noexist_absent)
  then have "map_lookup ops (update_ignore ops ?m1 k b' BPF_ANY) = (map_lookup ops m)(k \<mapsto> b')"
    by (simp add: lookup_update_any has_room_present)
  moreover have "buffer_event ops k breach m = (b', update_ignore ops ?m1 k b' BPF_ANY)"
    using None by (simp add: buffer_event_def load_cell_def write_cell_def b_def b'_def)
  ultimately show ?thesis by blast
next
  case (Some w)
  then have "map_lookup ops (update_ignore ops (map_store ops m k b') k b' BPF_ANY) =
      (map_lookup ops m)(k \<mapsto> b')"
    by (simp add: store_present lookup_update_any has_room_present)
  moreover have "buffer_event ops k breach m =
      (b', update_ignore ops (map_store ops m k b') k b' BPF_ANY)"
    using Some by (simp add: buffer_event_def load_cell_def write_cell_def b_def b'_def Let_def)
  ultimately show ?thesis by blast
qed

text \<open>Whatever a map answers, an event of one namespace leaves the entries of the others alone.\<close>

lemma load_cell_other:
  "load_cell ops k m = (c, i, m') \<Longrightarrow> k' \<noteq> k \<Longrightarrow> map_lookup ops m' k' = map_lookup ops m k'"
  by (auto simp: load_cell_def lookup_update_other split: option.splits)

lemma write_cell_other:
  "load_cell ops k m = (c, i, m') \<Longrightarrow> k' \<noteq> k \<Longrightarrow>
     map_lookup ops (write_cell ops k i m' v) k' = map_lookup ops m k'"
  by (auto simp: load_cell_def write_cell_def lookup_update_other lookup_store_other
      split: option.splits if_splits)

lemma count_event_other:
  assumes "k' \<noteq> k"
  shows "map_lookup ops (snd (count_event ops k st m)) k' = map_lookup ops m k'"
  using assms
  by (cases "load_cell ops k m") (auto simp: count_event_def load_cell_other write_cell_other)

lemma buffer_event_other:
  assumes "k' \<noteq> k"
  shows "map_lookup ops (snd (buffer_event ops k breach m)) k' = map_lookup ops m k'"
  using assms
  by (cases "load_cell ops k m")
    (auto simp: buffer_event_def Let_def lookup_update_other write_cell_other)

lemma scale_event_step:
  assumes room: "has_room ops (buffer_map s) k" "has_room ops (scaling_map s) k"
    and view: "view ops s k = v\<lparr>count := c\<rparr>" and c: "c = next_count st (count v)"
  shows "view ops (fst (scale_event ops k c (lower l) (upper l) (buffer_length l) s)) k =
      fst (probe_step l st v) \<and>
    snd (scale_event ops k c (lower l) (upper l) (buffer_length l) s) =
      map (signal_event k) (case snd (probe_step l st v) of None \<Rightarrow> [] | Some sg \<Rightarrow> [sg])"
proof -
  have cnt: "(case map_lookup ops (conn_count_map s) k of Some c \<Rightarrow> c | None \<Rightarrow> 0) = c"
    using arg_cong [OF view, of count] by (simp add: view_def)
  have buf: "(case map_lookup ops (buffer_map s) k of Some b \<Rightarrow> b | None \<Rightarrow> 0) = buffer v"
    using arg_cong [OF view, of buffer] by (simp add: view_def)
  have sup: "(map_lookup ops (scaling_map s) k = Some 1) = suppressed v"
    using arg_cong [OF view, of suppressed] by (simp add: view_def)
  define b where "b = (if breaches l c then buffer v + 1 else 0)"
  obtain bm where bm: "buffer_event ops k (c \<le> lower l \<or> upper l \<le> c) (buffer_map s) = (b, bm)"
      "map_lookup ops bm = (map_lookup ops (buffer_map s))(k \<mapsto> b)"
    using buffer_event_room [OF room(1), of "c \<le> lower l \<or> upper l \<le> c"]
    by (auto simp: buf b_def breaches_def)
  have rm: "has_room ops bm k" by (simp add: has_room_present bm(2))
  show ?thesis
  proof (cases "suppressed v")
    case True
    then show ?thesis using view sup by (simp add: scale_event_def probe_step_def Let_def c)
  next
    case False
    have step: "probe_step l st v =
        (if b = buffer_length l
         then (v\<lparr>count := c, buffer := 0, suppressed := True\<rparr>, Some (if c \<le> lower l then Lower else Upper))
         else (v\<lparr>count := c, buffer := b\<rparr>, None))"
      using False by (simp add: probe_step_def Let_def b_def c)
    have event: "scale_event ops k c (lower l) (upper l) (buffer_length l) s =
        (if b = buffer_length l
         then (s\<lparr>scaling_map := update_ignore ops (scaling_map s) k 1 BPF_ANY,
                 buffer_map := update_ignore ops bm k 0 BPF_ANY\<rparr>, [signal_data k c (lower l)])
         else (s\<lparr>buffer_map := bm\<rparr>, []))"
      using False sup by (simp add: scale_event_def bm(1))
    show ?thesis
      unfolding step event using False sup cnt
      by (cases v) (simp add: view_def bm(2) lookup_update_any room(2) rm
          signal_data_def signal_event_def)
  qed
qed

text \<open>The whole handler, once its early returns are passed.\<close>

lemma kprobe_tracked:
  fixes rd :: memory and s :: "'m probe_maps" and task ctx :: u64
  defines "k \<equiv> get_netns_from_task rd task"
  defines "sk \<equiv> read_u64 rd (member_addr struct_pt_regs [''di''] ctx)"
  defines "st \<equiv> read_u8 rd (member_addr struct_sock [''__sk_common'', ''skc_state''] sk)"
  assumes sk: "sk \<noteq> 0" and valid: "map_lookup ops (valid_netns_map s) k = Some vw"
    and lims: "map_lookup ops (constants_map s) 0 = Some (lower l)"
      "map_lookup ops (constants_map s) 1 = Some (upper l)"
      "map_lookup ops (constants_map s) 2 = Some (buffer_length l)"
    and present: "map_lookup ops (conn_count_map s) k = Some c"
    and room: "has_room ops (buffer_map s) k" "has_room ops (scaling_map s) k"
  shows "view ops (fst (kprobe_tcp_recvmsg ops rd task ctx s)) k =
      fst (probe_step l st (view ops s k)) \<and>
    snd (kprobe_tcp_recvmsg ops rd task ctx s) =
      map (signal_event k) (case snd (probe_step l st (view ops s k)) of None \<Rightarrow> [] | Some sg \<Rightarrow> [sg])"
proof -
  obtain cm where cm: "count_event ops k st (conn_count_map s) = (next_count st c, cm)"
      "map_lookup ops cm = (map_lookup ops (conn_count_map s))(k \<mapsto> next_count st c)"
    using count_event_present [OF present] by blast
  let ?s = "s\<lparr>conn_count_map := cm\<rparr>"
  have run: "kprobe_tcp_recvmsg ops rd task ctx s =
      scale_event ops k (next_count st c) (lower l) (upper l) (buffer_length l) ?s"
    using sk valid lims cm(1)
    by (simp add: kprobe_tcp_recvmsg_def k_def [symmetric] sk_def [symmetric] st_def [symmetric])
  have "view ops ?s k = (view ops s k)\<lparr>count := next_count st c\<rparr>"
    by (simp add: view_def cm(2))
  moreover have "next_count st c = next_count st (count (view ops s k))"
    by (simp add: view_def present)
  ultimately show ?thesis
    unfolding run using scale_event_step [where s = ?s and k = k and v = "view ops s k"] room by simp
qed

lemma scale_event_cells:
  assumes "k' \<noteq> k"
  shows "map_lookup ops (buffer_map (fst (scale_event ops k c lo hi len s))) k' = map_lookup ops (buffer_map s) k'"
    and "map_lookup ops (scaling_map (fst (scale_event ops k c lo hi len s))) k' = map_lookup ops (scaling_map s) k'"
  using assms buffer_event_other [OF assms, of "c \<le> lo \<or> c \<ge> hi" "buffer_map s"]
  by (cases "buffer_event ops k (c \<le> lo \<or> c \<ge> hi) (buffer_map s)";
      simp add: scale_event_def lookup_update_other)+

lemma scale_event_conn [simp]:
  "conn_count_map (fst (scale_event ops k c lo hi len s)) = conn_count_map s"
  by (simp add: scale_event_def split: prod.split)

text \<open>An event changes at most the entries of its own namespace.\<close>

lemma kprobe_cases:
  fixes rd :: memory and task ctx :: u64
  defines "k \<equiv> get_netns_from_task rd task"
  obtains (ignored) "kprobe_tcp_recvmsg ops rd task ctx s = (s, [])"
  | (counted) st lo hi len where
      "kprobe_tcp_recvmsg ops rd task ctx s =
        scale_event ops k (fst (count_event ops k st (conn_count_map s))) lo hi len
          (s\<lparr>conn_count_map := snd (count_event ops k st (conn_count_map s))\<rparr>)"
proof (cases "read_u64 rd (member_addr struct_pt_regs [''di''] ctx) = 0 \<or>
    map_lookup ops (valid_netns_map s) k = None \<or> map_lookup ops (constants_map s) 0 = None \<or>
    map_lookup ops (constants_map s) 1 = None \<or> map_lookup ops (constants_map s) 2 = None")
  case True
  then have "kprobe_tcp_recvmsg ops rd task ctx s = (s, [])"
    unfolding kprobe_tcp_recvmsg_def Let_def k_def [symmetric] by (auto split: option.split)
  then show thesis by (rule ignored)
next
  case False
  then obtain lo hi len where "map_lookup ops (constants_map s) 0 = Some lo"
    "map_lookup ops (constants_map s) 1 = Some hi" "map_lookup ops (constants_map s) 2 = Some len"
    by auto
  with False show thesis
    by (intro counted) (auto simp: kprobe_tcp_recvmsg_def Let_def k_def [symmetric] split_beta)
qed

lemma kprobe_cells_other:
  fixes rd :: memory and task ctx :: u64
  assumes k': "k' \<noteq> get_netns_from_task rd task"
  shows "map_lookup ops (conn_count_map (fst (kprobe_tcp_recvmsg ops rd task ctx s))) k' = map_lookup ops (conn_count_map s) k'"
    and "map_lookup ops (buffer_map (fst (kprobe_tcp_recvmsg ops rd task ctx s))) k' = map_lookup ops (buffer_map s) k'"
    and "map_lookup ops (scaling_map (fst (kprobe_tcp_recvmsg ops rd task ctx s))) k' = map_lookup ops (scaling_map s) k'"
  by (cases rule: kprobe_cases [of rd task ctx s];
      simp add: scale_event_cells [OF k'] count_event_other [OF k'])+

lemma kprobe_other:
  assumes "k' \<noteq> get_netns_from_task rd task"
  shows "view ops (fst (kprobe_tcp_recvmsg ops rd task ctx s)) k' = view ops s k'"
  using kprobe_cells_other [OF assms] by (simp add: view_def)

lemma kprobe_frame:
  "valid_netns_map (fst (kprobe_tcp_recvmsg ops rd task ctx s)) = valid_netns_map s"
  "constants_map (fst (kprobe_tcp_recvmsg ops rd task ctx s)) = constants_map s"
  by (simp_all add: kprobe_tcp_recvmsg_def scale_event_def Let_def split: option.split prod.split)

end

section \<open>Objects for the witnesses\<close>

text \<open>
  A task in a network namespace: three objects in memory that point to one another, and a
  register frame and a socket for the handler.
\<close>

definition ex_task :: "byte list" where
  "ex_task = replicate 3120 0 @ u64_bytes 0x20000 @ replicate 10568 0"

definition ex_nsproxy :: "byte list" where
  "ex_nsproxy = replicate 40 0 @ u64_bytes 0x30000 @ replicate 24 0"

definition ex_net :: "u32 \<Rightarrow> byte list" where
  "ex_net inum = replicate 128 0 @ u32_bytes inum @ replicate 4476 0"

definition ex_regs :: "byte list" where
  "ex_regs = replicate 112 0 @ u64_bytes 0x50000 @ replicate 48 0"

definition ex_sock :: "u8 \<Rightarrow> byte list" where
  "ex_sock state = replicate 18 0 @ [state] @ replicate 741 0"

definition ex_memory :: "u32 \<Rightarrow> u8 \<Rightarrow> memory" where
  "ex_memory inum state = object_memory
     [(0x10000, ex_task), (0x20000, ex_nsproxy), (0x30000, ex_net inum),
      (0x40000, ex_regs), (0x50000, ex_sock state)]"

lemmas ex_defs = ex_task_def ex_nsproxy_def ex_net_def ex_regs_def ex_sock_def

lemma ex_lengths [simp]:
  "length ex_task = 13696" "length ex_nsproxy = 72" "length (ex_net inum) = 4608"
  "length ex_regs = 168" "length (ex_sock state) = 760"
  by (simp_all add: ex_defs)

lemma ex_objects:
  "object_at (ex_memory inum st) 0x10000 struct_task_struct ex_task"
  "object_at (ex_memory inum st) 0x20000 struct_nsproxy ex_nsproxy"
  "object_at (ex_memory inum st) 0x30000 struct_net (ex_net inum)"
  "object_at (ex_memory inum st) 0x40000 struct_pt_regs ex_regs"
  "object_at (ex_memory inum st) 0x50000 struct_sock (ex_sock st)"
proof -
  note at = object_memory_at [where ?obs1.0 = "[]"]
    object_memory_at [where ?obs1.0 = "[a]" for a]
    object_memory_at [where ?obs1.0 = "[a, b]" for a b]
    object_memory_at [where ?obs1.0 = "[a, b, c]" for a b c]
    object_memory_at [where ?obs1.0 = "[a, b, c, d]" for a b c d]
  note far = not_inside_window [where m = 4608]
  note out = far [where g = "0x10000"] far [where g = "0x20000"] far [where g = "0x30000"]
    far [where g = "0x40000"]
  show "object_at (ex_memory inum st) 0x10000 struct_task_struct ex_task"
    unfolding ex_memory_def by (rule at(1) [unfolded append.simps]) (simp_all add: layout)
  show "object_at (ex_memory inum st) 0x20000 struct_nsproxy ex_nsproxy"
    unfolding ex_memory_def
    by (rule at(2) [unfolded append.simps]) (auto simp: layout out)
  show "object_at (ex_memory inum st) 0x30000 struct_net (ex_net inum)"
    unfolding ex_memory_def
    by (rule at(3) [unfolded append.simps]) (auto simp: layout out)
  show "object_at (ex_memory inum st) 0x40000 struct_pt_regs ex_regs"
    unfolding ex_memory_def
    by (rule at(4) [unfolded append.simps]) (auto simp: layout out)
  show "object_at (ex_memory inum st) 0x50000 struct_sock (ex_sock st)"
    unfolding ex_memory_def
    by (rule at(5) [unfolded append.simps]) (auto simp: layout out)
qed

lemma ex_members [simp]:
  "member_bytes struct_task_struct [''nsproxy''] ex_task = u64_bytes 0x20000"
  "member_bytes struct_nsproxy [''net_ns''] ex_nsproxy = u64_bytes 0x30000"
  "member_bytes struct_net [''ns'', ''inum''] (ex_net inum) = u32_bytes inum"
  "member_bytes struct_pt_regs [''di''] ex_regs = u64_bytes 0x50000"
  "member_bytes struct_sock [''__sk_common'', ''skc_state''] (ex_sock st) = [st]"
  by (simp_all add: member_bytes_def offsets ex_defs)

text \<open>
  A probe state for the witnesses: limits 3, 10 and buffer length 2 in maps of the capacity the
  program declares, and one tracked namespace with its counter, breach buffer and flag.
\<close>

definition ex_map :: "(u32 \<times> u32) list \<Rightarrow> hmap" where
  "ex_map es = \<lparr>entries = es, max_entries = 1024\<rparr>"

definition ex_maps :: "u32 \<Rightarrow> u32 \<Rightarrow> u32 \<Rightarrow> u32 \<Rightarrow> hmap probe_maps" where
  "ex_maps len c b sc = \<lparr>conn_count_map = ex_map [(77, c)],
     constants_map = ex_map [(0, 3), (1, 10), (2, len)],
     buffer_map = ex_map [(77, b)], scaling_map = ex_map [(77, sc)],
     valid_netns_map = ex_map [(77, 1)]\<rparr>"

definition ex_limits :: "u32 \<Rightarrow> limits" where
  "ex_limits len = \<lparr>lower = 3, upper = 10, buffer_length = len\<rparr>"

lemma ex_maps_sel [simp]:
  "conn_count_map (ex_maps len c b sc) = ex_map [(77, c)]"
  "constants_map (ex_maps len c b sc) = ex_map [(0, 3), (1, 10), (2, len)]"
  "buffer_map (ex_maps len c b sc) = ex_map [(77, b)]"
  "scaling_map (ex_maps len c b sc) = ex_map [(77, sc)]"
  "valid_netns_map (ex_maps len c b sc) = ex_map [(77, 1)]"
  by (simp_all add: ex_maps_def)

lemma ex_lookup [simp]: "map_lookup hmap_ops (ex_map es) = map_of es"
  by (simp add: ex_map_def hmap_defs)

lemma ex_limits_sel [simp]:
  "lower (ex_limits len) = 3" "upper (ex_limits len) = 10" "buffer_length (ex_limits len) = len"
  by (simp_all add: ex_limits_def)

lemma ex_netns [simp]: "get_netns_from_task (ex_memory inum st) 0x10000 = inum"
proof -
  have "read_u64 (ex_memory inum st) (member_addr struct_task_struct [''nsproxy''] 0x10000) = 0x20000"
    using read_member [OF ex_objects(1) offset_task_nsproxy] by (simp add: read_u64_def)
  moreover have "read_u64 (ex_memory inum st) (member_addr struct_nsproxy [''net_ns''] 0x20000) = 0x30000"
    using read_member [OF ex_objects(2) offset_nsproxy_net_ns] by (simp add: read_u64_def)
  moreover have "read_u32 (ex_memory inum st) (member_addr struct_net [''ns'', ''inum''] 0x30000) = inum"
    using read_member [OF ex_objects(3) offset_net_inum] by (simp add: read_u32_def)
  ultimately show ?thesis by (simp add: get_netns_from_task_def)
qed

lemma ex_sk [simp]: "read_u64 (ex_memory inum st) (member_addr struct_pt_regs [''di''] 0x40000) = 0x50000"
  using read_member [OF ex_objects(4) offset_pt_regs_di] by (simp add: read_u64_def)

lemma ex_state [simp]:
  "read_u8 (ex_memory inum st) (member_addr struct_sock [''__sk_common'', ''skc_state''] 0x50000) = st"
  using read_member [OF ex_objects(5) offset_sock_state] by (simp add: read_u8_def)

section \<open>Properties\<close>

text \<open>
  The byte offsets and types of the members the probe reads, computed from
  the header: the pointers and the inode number of the namespace walk, the first argument
  register, and the TCP state.
\<close>

theorem probe_offsets:
  "offset_of struct_task_struct [''nsproxy''] = Some (3120, CPtr ''struct nsproxy'') \<and>
   offset_of struct_nsproxy [''net_ns''] = Some (40, CPtr ''struct net'') \<and>
   offset_of struct_net [''ns'', ''inum''] = Some (128, CBase CUInt) \<and>
   offset_of struct_pt_regs [''di''] = Some (112, CBase CULong) \<and>
   offset_of struct_sock [''__sk_common'', ''skc_state''] = Some (18, CBase CUChar)"
  by (simp add: offsets)

text \<open>
  C21 (get_netns_walk). When memory holds a task, its nsproxy and its network namespace,
  get_netns_from_task returns the inode number stored in that namespace.
\<close>

theorem get_netns_walk:
  assumes "object_at rd task struct_task_struct tb"
    and "object_at rd ns struct_nsproxy nb"
    and "object_at rd net struct_net eb"
    and "ns = le_u64 (member_bytes struct_task_struct [''nsproxy''] tb)" "ns \<noteq> 0"
    and "net = le_u64 (member_bytes struct_nsproxy [''net_ns''] nb)" "net \<noteq> 0"
  shows "get_netns_from_task rd task = le_u32 (member_bytes struct_net [''ns'', ''inum''] eb)"
proof -
  have "read_u64 rd (member_addr struct_task_struct [''nsproxy''] task) = ns"
    using read_member [OF assms(1) offset_task_nsproxy] assms(4) by (simp add: read_u64_def)
  moreover have "read_u64 rd (member_addr struct_nsproxy [''net_ns''] ns) = net"
    using read_member [OF assms(2) offset_nsproxy_net_ns] assms(6) by (simp add: read_u64_def)
  moreover have "read_u32 rd (member_addr struct_net [''ns'', ''inum''] net) =
      le_u32 (member_bytes struct_net [''ns'', ''inum''] eb)"
    using read_member [OF assms(3) offset_net_inum] by (simp add: read_u32_def)
  ultimately show ?thesis using assms(5,7) by (simp add: get_netns_from_task_def)
qed

theorem get_netns_walk_witness:
  "get_netns_from_task (ex_memory 4026531840 1) 0x10000 = 4026531840"
  using get_netns_walk [OF ex_objects(1,2,3) [of 4026531840 1]] by simp

text \<open>
  A read of the walk that faults makes get_netns_from_task return 0, so
  that the handler looks up namespace 0.
\<close>

lemma get_netns_fault:
  assumes "rd (member_addr struct_task_struct [''nsproxy''] task) 8 = None \<or>
    rd (member_addr struct_nsproxy [''net_ns'']
      (read_u64 rd (member_addr struct_task_struct [''nsproxy''] task))) 8 = None \<or>
    rd (member_addr struct_net [''ns'', ''inum'']
      (read_u64 rd (member_addr struct_nsproxy [''net_ns'']
        (read_u64 rd (member_addr struct_task_struct [''nsproxy''] task))))) 4 = None"
  shows "get_netns_from_task rd task = 0"
proof -
  have "le_nat (replicate n 0) = 0" for n by (induction n) auto
  then have "read_u64 rd a = 0" if "rd a 8 = None" for a
    using that by (simp add: read_u64_def read_bytes_def le_u64_def)
  moreover have "read_u32 rd a = 0" if "rd a 4 = None" for a
    using that \<open>\<And>n. le_nat (replicate n 0) = 0\<close> by (simp add: read_u32_def read_bytes_def le_u32_def)
  ultimately show ?thesis using assms by (auto simp: get_netns_from_task_def Let_def)
qed

text \<open>
  C1 (kprobe_refines_step). For an event of a tracked namespace with its limits configured, the
  handler implements the abstract step: the namespace's counter, breach buffer and suppression
  flag afterwards, and the sample emitted, are those of probe_step on the state of the socket.
\<close>

theorem kprobe_refines_step:
  fixes ops :: "'m map_ops" and rd :: memory
  assumes "bpf_hash ops"
    and "read_u64 rd (member_addr struct_pt_regs [''di''] ctx) = sk" "sk \<noteq> 0"
    and "get_netns_from_task rd task = k" "map_lookup ops (valid_netns_map s) k = Some vw"
    and "map_lookup ops (constants_map s) 0 = Some (lower l)"
      "map_lookup ops (constants_map s) 1 = Some (upper l)"
      "map_lookup ops (constants_map s) 2 = Some (buffer_length l)"
    and "map_lookup ops (conn_count_map s) k = Some c"
    and "has_room ops (buffer_map s) k" "has_room ops (scaling_map s) k"
    and "st = read_u8 rd (member_addr struct_sock [''__sk_common'', ''skc_state''] sk)"
  shows "view ops (fst (kprobe_tcp_recvmsg ops rd task ctx s)) k = fst (probe_step l st (view ops s k)) \<and>
    snd (kprobe_tcp_recvmsg ops rd task ctx s) =
      map (signal_event k) (case snd (probe_step l st (view ops s k)) of None \<Rightarrow> [] | Some sg \<Rightarrow> [sg])"
  using assms bpf_hash.kprobe_tracked [where ops = ops and rd = rd and task = task and ctx = ctx
      and s = s and l = l and c = c and vw = vw]
  by simp

theorem kprobe_refines_step_witness:
  "view hmap_ops (fst (kprobe_tcp_recvmsg hmap_ops (ex_memory 77 1) 0x10000 0x40000 (ex_maps 2 9 1 0))) 77 =
     \<lparr>count = 10, buffer = 0, suppressed = True\<rparr> \<and>
   snd (kprobe_tcp_recvmsg hmap_ops (ex_memory 77 1) 0x10000 0x40000 (ex_maps 2 9 1 0)) =
     [signal_event 77 Upper]"
proof -
  have "view hmap_ops (ex_maps 2 9 1 0) 77 = \<lparr>count = 9, buffer = 1, suppressed = False\<rparr>"
    by (simp add: view_def)
  moreover have "probe_step (ex_limits 2) 1 \<lparr>count = 9, buffer = 1, suppressed = False\<rparr> =
      (\<lparr>count = 10, buffer = 0, suppressed = True\<rparr>, Some Upper)"
    by (simp add: probe_step_def next_count_def breaches_def tcp_state_defs)
  ultimately show ?thesis
    using kprobe_refines_step [OF hmap.bpf_hash_axioms ex_sk [of 77 1] _ ex_netns [of 77 1],
        where s = "ex_maps 2 9 1 0" and l = "ex_limits 2" and vw = 1 and c = 9 and st = 1]
    by (simp add: has_room_def)
qed

text \<open>
  One event changes the counter, buffer and flag of its own
  namespace only, sends samples for that namespace only, and leaves the configured limits and
  the set of tracked namespaces alone, whatever the map operations answer.
\<close>

theorem kprobe_isolates_namespaces:
  fixes ops :: "'m map_ops"
  assumes "bpf_hash ops" and "get_netns_from_task rd task \<noteq> k"
  shows "view ops (fst (kprobe_tcp_recvmsg ops rd task ctx s)) k = view ops s k \<and>
    (\<forall>d \<in> set (snd (kprobe_tcp_recvmsg ops rd task ctx s)). netns d = get_netns_from_task rd task) \<and>
    constants_map (fst (kprobe_tcp_recvmsg ops rd task ctx s)) = constants_map s \<and>
    valid_netns_map (fst (kprobe_tcp_recvmsg ops rd task ctx s)) = valid_netns_map s"
proof -
  have "\<forall>d \<in> set (snd (kprobe_tcp_recvmsg ops rd task ctx s)). netns d = get_netns_from_task rd task"
    by (auto simp: kprobe_tcp_recvmsg_def scale_event_def signal_data_def Let_def
        split: if_splits option.splits prod.splits)
  then show ?thesis
    using assms bpf_hash.kprobe_other [of ops k rd task] bpf_hash.kprobe_frame [of ops] by auto
qed

theorem kprobe_isolates_namespaces_witness:
  "view hmap_ops (fst (kprobe_tcp_recvmsg hmap_ops (ex_memory 77 1) 0x10000 0x40000 (ex_maps 2 9 1 0))) 78 =
     view hmap_ops (ex_maps 2 9 1 0) 78"
  using kprobe_isolates_namespaces [OF hmap.bpf_hash_axioms, of "ex_memory 77 1" "0x10000" 78] by simp

text \<open>
  An event without a socket, of a namespace that is not tracked,
  or before all three limits are configured, changes no map and sends nothing.
\<close>

lemma kprobe_ignores_untracked:
  assumes "read_u64 rd (member_addr struct_pt_regs [''di''] ctx) = 0 \<or>
    map_lookup ops (valid_netns_map s) (get_netns_from_task rd task) = None \<or>
    (\<exists>key \<in> {0, 1, 2}. map_lookup ops (constants_map s) key = None)"
  shows "kprobe_tcp_recvmsg ops rd task ctx s = (s, [])"
  using assms unfolding kprobe_tcp_recvmsg_def Let_def by (auto split: option.split)

text \<open>
  With a buffer length above 0 every sample tells the truth: Lower is
  sent only with the new connection count at or below the lower limit, Upper only with the new
  count above it and at or beyond the upper limit, and the namespace is suppressed afterwards.
\<close>

theorem kprobe_signal_sound:
  fixes ops :: "'m map_ops" and rd :: memory and l :: limits
  assumes "bpf_hash ops"
    and "get_netns_from_task rd task = k" "map_lookup ops (valid_netns_map s) k = Some vw"
    and "map_lookup ops (constants_map s) 0 = Some (lower l)"
      "map_lookup ops (constants_map s) 1 = Some (upper l)"
      "map_lookup ops (constants_map s) 2 = Some (buffer_length l)" "0 < buffer_length l"
    and "map_lookup ops (conn_count_map s) k = Some c"
    and "has_room ops (buffer_map s) k" "has_room ops (scaling_map s) k"
    and "d \<in> set (snd (kprobe_tcp_recvmsg ops rd task ctx s))"
  shows "suppressed (view ops (fst (kprobe_tcp_recvmsg ops rd task ctx s)) k) \<and>
    (let n = count (view ops (fst (kprobe_tcp_recvmsg ops rd task ctx s)) k) in
       d = signal_event k Lower \<and> n \<le> lower l \<or>
       d = signal_event k Upper \<and> lower l < n \<and> upper l \<le> n)"
proof -
  let ?sk = "read_u64 rd (member_addr struct_pt_regs [''di''] ctx)"
  define st where "st = read_u8 rd (member_addr struct_sock [''__sk_common'', ''skc_state''] ?sk)"
  have "?sk \<noteq> 0"
    using assms(11) by (auto simp: kprobe_tcp_recvmsg_def)
  with assms(1-10) bpf_hash.kprobe_tracked [where ops = ops and rd = rd and task = task and ctx = ctx
      and s = s and l = l and c = c and vw = vw]
  have run: "view ops (fst (kprobe_tcp_recvmsg ops rd task ctx s)) k = fst (probe_step l st (view ops s k))"
    "snd (kprobe_tcp_recvmsg ops rd task ctx s) =
      map (signal_event k) (case snd (probe_step l st (view ops s k)) of None \<Rightarrow> [] | Some sg \<Rightarrow> [sg])"
    by (simp_all add: st_def)
  obtain sg where sg: "snd (probe_step l st (view ops s k)) = Some sg" "d = signal_event k sg"
    using assms(11) unfolding run(2) by (cases "snd (probe_step l st (view ops s k))") auto
  then show ?thesis
    unfolding run(1) using assms(7)
    by (auto simp: probe_step_def Let_def breaches_def split: if_splits)
qed

theorem kprobe_signal_sound_witness:
  "suppressed (view hmap_ops (fst (kprobe_tcp_recvmsg hmap_ops (ex_memory 77 1) 0x10000 0x40000 (ex_maps 1 9 0 0))) 77)"
proof -
  let ?run = "kprobe_tcp_recvmsg hmap_ops (ex_memory 77 1) 0x10000 0x40000 (ex_maps 1 9 0 0)"
  have "snd ?run = [signal_data 77 10 3]"
    by (simp add: kprobe_tcp_recvmsg_def count_event_def scale_event_def buffer_event_def
        load_cell_def tcp_state_defs)
  then show ?thesis
    using kprobe_signal_sound [OF hmap.bpf_hash_axioms ex_netns [of 77 1],
        where s = "ex_maps 1 9 0 0" and l = "ex_limits 1" and vw = 1 and c = 9
          and d = "signal_data 77 10 3"]
    by (simp add: has_room_def)
qed

text \<open>
  With req-buffer-length 0 the first event that is within
  both limits sends Upper: the source compares the buffer with the length after resetting it.
\<close>

theorem zero_buffer_length_signals_upper:
  fixes ops :: "'m map_ops" and rd :: memory and l :: limits
  assumes "bpf_hash ops"
    and "read_u64 rd (member_addr struct_pt_regs [''di''] ctx) = sk" "sk \<noteq> 0"
    and "get_netns_from_task rd task = k" "map_lookup ops (valid_netns_map s) k = Some vw"
    and "map_lookup ops (constants_map s) 0 = Some (lower l)"
      "map_lookup ops (constants_map s) 1 = Some (upper l)"
      "map_lookup ops (constants_map s) 2 = Some (buffer_length l)" "buffer_length l = 0"
    and "map_lookup ops (conn_count_map s) k = Some c"
    and "map_lookup ops (scaling_map s) k = Some 0" "has_room ops (buffer_map s) k"
    and "st = read_u8 rd (member_addr struct_sock [''__sk_common'', ''skc_state''] sk)"
    and "lower l < next_count st c" "next_count st c < upper l"
  shows "snd (kprobe_tcp_recvmsg ops rd task ctx s) = [signal_event k Upper]"
proof -
  have "has_room ops (scaling_map s) k" using assms(11) by (simp add: has_room_def)
  moreover have "\<not> next_count st c \<le> lower l" "\<not> upper l \<le> next_count st c"
    using assms(14,15) by simp_all
  then have "snd (probe_step l st (view ops s k)) = Some Upper"
    using assms(9,10,11) by (simp add: probe_step_def view_def breaches_def Let_def)
  ultimately show ?thesis
    using assms bpf_hash.kprobe_tracked [where ops = ops and rd = rd and task = task and ctx = ctx
      and s = s and l = l and c = c and vw = vw] by simp
qed

theorem zero_buffer_length_signals_upper_witness:
  "snd (kprobe_tcp_recvmsg hmap_ops (ex_memory 77 1) 0x10000 0x40000 (ex_maps 0 5 0 0)) =
     [signal_event 77 Upper]"
  by (rule zero_buffer_length_signals_upper [OF hmap.bpf_hash_axioms ex_sk _ ex_netns,
        where l = "ex_limits 0" and c = 5 and st = 1 and vw = 1])
    (simp_all add: has_room_def next_count_def tcp_state_defs)

text \<open>
  A socket in any state other than TCP_ESTABLISHED counts as a
  closed connection: the condition that lists three closing states ends in a bare constant, so
  its else branch is unreachable and, for one, TCP_SYN_RECV decrements the counter.
\<close>

theorem any_other_state_decrements:
  fixes ops :: "'m map_ops"
  assumes "bpf_hash ops" and "map_lookup ops m k = Some n" "0 < n" and "state \<noteq> TCP_ESTABLISHED"
  shows "fst (count_event ops k state m) = n - 1 \<and>
    map_lookup ops (snd (count_event ops k state m)) k = Some (n - 1)"
proof -
  obtain m' where "count_event ops k state m = (next_count state n, m')"
    "map_lookup ops m' = (map_lookup ops m)(k \<mapsto> next_count state n)"
    using bpf_hash.count_event_present [OF assms(1,2), of state] by blast
  with assms(3,4) show ?thesis by (simp add: next_count_def)
qed

theorem any_other_state_decrements_witness:
  "fst (count_event hmap_ops 77 3 (ex_map [(77, 4)])) = 3"
  using any_other_state_decrements [OF hmap.bpf_hash_axioms, of "ex_map [(77, 4)]" 77 4 3]
  by (simp add: tcp_state_defs)

text \<open>
  The first established connection of a namespace without a counter
  is reported as count 1, but the map is left at 0: the increment goes to a local variable.
\<close>

theorem first_connection_lost:
  fixes ops :: "'m map_ops"
  assumes "bpf_hash ops" and "map_lookup ops m k = None" and "has_room ops m k"
  shows "fst (count_event ops k TCP_ESTABLISHED m) = 1 \<and>
    map_lookup ops (snd (count_event ops k TCP_ESTABLISHED m)) k = Some 0"
  using assms bpf_hash.lookup_update_noexist_absent [OF assms(1,3,2), of 0]
  by (simp add: count_event_def load_cell_def write_cell_def)

theorem first_connection_lost_witness:
  "map_lookup hmap_ops (snd (count_event hmap_ops 5 TCP_ESTABLISHED (ex_map []))) 5 = Some 0"
  using first_connection_lost [OF hmap.bpf_hash_axioms, of "ex_map []" 5]
  by (simp add: has_room_def hmap_defs ex_map_def)

end
