(* ===== verification/Probe_Debounce.thy ===== *)
theory Probe_Debounce imports Conc_Req_Kprobe begin

text \<open>
  Runs of the kprobe over a sequence of \<^verbatim>\<open>tcp_recvmsg\<close> calls, of any tasks and sockets in
  any order. The view of one tracked namespace evolves by \<open>probe_step\<close> on its own events
  alone, whatever the events of the others in between (\<open>kprobe_run_refines\<close>), so the
  debouncing of scaling signals is proved on the automaton and carried over: a signal is sent
  exactly when the streak of breaching counts reaches the configured buffer length, and no
  second one follows before the Go process re-arms the namespace.
\<close>

section \<open>Runs of the handler\<close>

type_synonym probe_event = "memory \<times> u64 \<times> u64"

definition event_netns :: "probe_event \<Rightarrow> u32" where
  "event_netns e = (case e of (rd, task, ctx) \<Rightarrow> get_netns_from_task rd task)"

definition event_sock :: "probe_event \<Rightarrow> u64" where
  "event_sock e = (case e of (rd, task, ctx) \<Rightarrow> read_u64 rd (member_addr struct_pt_regs [''di''] ctx))"

definition event_state :: "probe_event \<Rightarrow> u8" where
  "event_state e = (case e of (rd, task, ctx) \<Rightarrow>
     read_u8 rd (member_addr struct_sock [''__sk_common'', ''skc_state''] (event_sock e)))"

fun kprobe_run :: "'m map_ops \<Rightarrow> probe_event list \<Rightarrow> 'm probe_maps \<Rightarrow> 'm probe_maps \<times> data_t list" where
  "kprobe_run ops [] s = (s, [])"
| "kprobe_run ops ((rd, task, ctx) # es) s =
     (let (s1, out1) = kprobe_tcp_recvmsg ops rd task ctx s;
          (s2, out2) = kprobe_run ops es s1
      in (s2, out1 @ out2))"

text \<open>The states of the sockets in the events that count for a namespace.\<close>

definition own_states :: "u32 \<Rightarrow> probe_event list \<Rightarrow> u8 list" where
  "own_states k es = map event_state (filter (\<lambda>e. event_netns e = k \<and> event_sock e \<noteq> 0) es)"

text \<open>A namespace with limits and an entry in every map, as it is after its first event.\<close>

definition tracked :: "'m map_ops \<Rightarrow> 'm probe_maps \<Rightarrow> limits \<Rightarrow> u32 \<Rightarrow> bool" where
  "tracked ops s l k \<longleftrightarrow>
     map_lookup ops (valid_netns_map s) k \<noteq> None \<and>
     map_lookup ops (constants_map s) 0 = Some (lower l) \<and>
     map_lookup ops (constants_map s) 1 = Some (upper l) \<and>
     map_lookup ops (constants_map s) 2 = Some (buffer_length l) \<and>
     map_lookup ops (conn_count_map s) k \<noteq> None \<and>
     map_lookup ops (buffer_map s) k \<noteq> None \<and>
     map_lookup ops (scaling_map s) k \<noteq> None"

section \<open>Runs of the automaton\<close>

fun probe_run :: "limits \<Rightarrow> u8 list \<Rightarrow> netns_view \<Rightarrow> netns_view \<times> signal list" where
  "probe_run l [] v = (v, [])"
| "probe_run l (st # sts) v =
     (let (v1, sg) = probe_step l st v; (v2, sgs) = probe_run l sts v1
      in (v2, (case sg of None \<Rightarrow> sgs | Some x \<Rightarrow> x # sgs)))"

lemma probe_run_snoc:
  "probe_run l (sts @ [st]) v =
     (let (v1, sgs) = probe_run l sts v; (v2, sg) = probe_step l st v1
      in (v2, sgs @ (case sg of None \<Rightarrow> [] | Some x \<Rightarrow> [x])))"
  by (induction sts arbitrary: v) (auto simp: Let_def split: prod.splits option.splits)

lemma count_probe_step: "count (fst (probe_step l st v)) = next_count st (count v)"
  by (simp add: probe_step_def Let_def)

text \<open>The counts a sequence of events goes through, and the current streak of breaches.\<close>

fun counts :: "u8 list \<Rightarrow> u32 \<Rightarrow> u32 list" where
  "counts [] c = []"
| "counts (st # sts) c = next_count st c # counts sts (next_count st c)"

definition streak :: "limits \<Rightarrow> u32 list \<Rightarrow> nat" where
  "streak l cs = length (takeWhile (breaches l) (rev cs))"

lemma length_counts [simp]: "length (counts sts c) = length sts"
  by (induction sts arbitrary: c) auto

lemma counts_snoc: "counts (sts @ [st]) c = counts sts c @ [next_count st (fold next_count sts c)]"
  by (induction sts arbitrary: c) auto

lemma streak_Nil [simp]: "streak l [] = 0"
  by (simp add: streak_def)

lemma streak_snoc: "streak l (cs @ [c]) = (if breaches l c then Suc (streak l cs) else 0)"
  by (simp add: streak_def)

lemma streak_upto:
  "(\<exists>i \<le> Suc n. streak l (take i (cs @ [c])) = m) \<longleftrightarrow>
     (\<exists>i \<le> n. streak l (take i cs) = m) \<or> streak l (cs @ [c]) = m" if "length cs = n"
proof -
  have "take i (cs @ [c]) = take i cs" if "i \<le> n" for i using that \<open>length cs = n\<close> by simp
  moreover have "take (Suc n) (cs @ [c]) = cs @ [c]" using that by simp
  ultimately show ?thesis by (auto simp: le_Suc_eq)
qed

text \<open>
  The invariant of a run: until the streak first reaches the buffer length the buffer holds the
  streak and nothing has been sent; from then on the namespace is suppressed, after one signal.
\<close>

lemma probe_run_streak:
  assumes v: "\<not> suppressed v" "buffer v = 0" and len: "0 < buffer_length l"
  defines "m \<equiv> unat (buffer_length l)"
  shows "count (fst (probe_run l sts v)) = fold next_count sts (count v) \<and>
    (if \<exists>i \<le> length sts. streak l (take i (counts sts (count v))) = m
     then suppressed (fst (probe_run l sts v)) \<and> length (snd (probe_run l sts v)) = 1
     else \<not> suppressed (fst (probe_run l sts v)) \<and> snd (probe_run l sts v) = [] \<and>
       buffer (fst (probe_run l sts v)) = of_nat (streak l (counts sts (count v))) \<and>
       streak l (counts sts (count v)) < m)"
proof (induction sts rule: rev_induct)
  case Nil
  have "0 < m" using len by (simp add: m_def unat_gt_0 word_greater_zero_iff)
  then show ?case using v by simp
next
  case (snoc st sts)
  obtain v1 sgs where run: "probe_run l sts v = (v1, sgs)" by (cases "probe_run l sts v")
  let ?cs = "counts sts (count v)" and ?c = "next_count st (count v1)"
  note IH = snoc.IH [unfolded run fst_conv snd_conv]
  have c1: "count v1 = fold next_count sts (count v)" using IH by blast
  have cs: "counts (sts @ [st]) (count v) = ?cs @ [?c]" by (simp add: counts_snoc c1)
  have reach: "(\<exists>i \<le> length (sts @ [st]). streak l (take i (?cs @ [?c])) = m) \<longleftrightarrow>
      (\<exists>i \<le> length sts. streak l (take i ?cs) = m) \<or> streak l (?cs @ [?c]) = m"
    using streak_upto [of ?cs "length sts"] by simp
  have cnt: "count (fst (probe_run l (sts @ [st]) v)) = fold next_count (sts @ [st]) (count v)"
    using c1 count_probe_step [of l st v1] by (simp add: probe_run_snoc run split_beta)
  show ?case
  proof (cases "\<exists>i \<le> length sts. streak l (take i ?cs) = m")
    case True
    then have "suppressed v1" "length sgs = 1" using IH unfolding if_P [OF True] by simp_all
    then show ?thesis
      unfolding cs reach using True cnt by (simp add: probe_run_snoc run probe_step_def Let_def)
  next
    case False
    then have v1: "\<not> suppressed v1" "sgs = []" "buffer v1 = of_nat (streak l ?cs)"
        "streak l ?cs < m"
      using IH unfolding if_not_P [OF False] by simp_all
    let ?n = "streak l (?cs @ [?c])"
    have "?n \<le> m" using v1(4) by (simp add: streak_snoc)
    have b: "(if breaches l ?c then buffer v1 + 1 else 0) = of_nat ?n"
      by (simp add: streak_snoc v1(3))
    have "m < 2 ^ 32" using unsigned_less [of "buffer_length l", where ?'a = nat] by (simp add: m_def)
    with \<open>?n \<le> m\<close> have "unat (of_nat ?n :: u32) = ?n" by (simp add: unat_of_nat)
    then have eq: "(of_nat ?n = buffer_length l) = (?n = m)" unfolding m_def by (metis word_unat_eq_iff)
    have step: "probe_step l st v1 =
        (if ?n = m then (v1\<lparr>count := ?c, buffer := 0, suppressed := True\<rparr>, Some (if ?c \<le> lower l then Lower else Upper))
         else (v1\<lparr>count := ?c, buffer := of_nat ?n\<rparr>, None))"
      using v1(1) by (simp add: probe_step_def Let_def b eq)
    show ?thesis
      unfolding cs reach using False cnt v1(1,2) \<open>?n \<le> m\<close> by (simp add: probe_run_snoc run step)
  qed
qed

lemma probe_run_suppressed:
  "suppressed v \<Longrightarrow> snd (probe_run l sts v) = [] \<and> suppressed (fst (probe_run l sts v)) \<and>
     buffer (fst (probe_run l sts v)) = buffer v"
  by (induction sts arbitrary: v) (auto simp: probe_step_def Let_def split: prod.split)

section \<open>Runs of the handler follow the automaton\<close>

text \<open>The handler sends samples for its own namespace only.\<close>

lemma kprobe_out_netns:
  "d \<in> set (snd (kprobe_tcp_recvmsg ops rd task ctx s)) \<Longrightarrow> netns d = get_netns_from_task rd task"
  by (auto simp: kprobe_tcp_recvmsg_def scale_event_def signal_data_def Let_def
      split: if_splits option.splits prod.splits)

context bpf_hash
begin

text \<open>No event removes an entry from a map.\<close>

lemma present_update: "map_lookup ops m k' \<noteq> None \<Longrightarrow> map_lookup ops (update_ignore ops m k v f) k' \<noteq> None"
  by (auto simp: update_ignore_def update_inserts split: sum.splits)

lemma present_cells:
  assumes "map_lookup ops m k' \<noteq> None"
  shows "map_lookup ops (write_cell ops k (fst (snd (load_cell ops k m))) (snd (snd (load_cell ops k m))) v) k' \<noteq> None"
    and "map_lookup ops (snd (snd (load_cell ops k m))) k' \<noteq> None"
  using assms by (auto simp: load_cell_def write_cell_def present_update store_present
      simp del: not_None_eq split: option.split)

lemma present_count_event:
  "map_lookup ops m k' \<noteq> None \<Longrightarrow> map_lookup ops (snd (count_event ops k st m)) k' \<noteq> None"
  using present_cells [of m k' k] by (auto simp: count_event_def split_beta)

lemma present_buffer_event:
  "map_lookup ops m k' \<noteq> None \<Longrightarrow> map_lookup ops (snd (buffer_event ops k br m)) k' \<noteq> None"
  using present_cells [of m k' k] present_update by (simp add: buffer_event_def split_beta Let_def)

lemma present_scale_event:
  "map_lookup ops (buffer_map s) k' \<noteq> None \<Longrightarrow>
     map_lookup ops (buffer_map (fst (scale_event ops k c lo hi len s))) k' \<noteq> None"
  "map_lookup ops (scaling_map s) k' \<noteq> None \<Longrightarrow>
     map_lookup ops (scaling_map (fst (scale_event ops k c lo hi len s))) k' \<noteq> None"
  using present_buffer_event [of "buffer_map s" k' k "c \<le> lo \<or> hi \<le> c"]
  by (auto simp: scale_event_def split_beta present_update simp del: not_None_eq)

lemma kprobe_keeps_tracked:
  "tracked ops s l k \<Longrightarrow> tracked ops (fst (kprobe_tcp_recvmsg ops rd task ctx s)) l k"
  unfolding tracked_def kprobe_frame
  by (cases rule: kprobe_cases [of rd task ctx s])
    (simp_all add: present_count_event present_scale_event del: not_None_eq)

lemma tracked_step:
  assumes "tracked ops s l k" "get_netns_from_task rd task = k"
    and sk: "event_sock (rd, task, ctx) \<noteq> 0"
  shows "view ops (fst (kprobe_tcp_recvmsg ops rd task ctx s)) k =
      fst (probe_step l (event_state (rd, task, ctx)) (view ops s k)) \<and>
    snd (kprobe_tcp_recvmsg ops rd task ctx s) = map (signal_event k)
      (case snd (probe_step l (event_state (rd, task, ctx)) (view ops s k)) of None \<Rightarrow> [] | Some sg \<Rightarrow> [sg])"
proof -
  from assms(1) obtain vw c b sc where "map_lookup ops (valid_netns_map s) k = Some vw"
    "map_lookup ops (conn_count_map s) k = Some c" "map_lookup ops (buffer_map s) k = Some b"
    "map_lookup ops (scaling_map s) k = Some sc"
    by (auto simp: tracked_def)
  with assms kprobe_tracked [where rd = rd and task = task and ctx = ctx and s = s and l = l]
  show ?thesis
    by (simp add: tracked_def event_sock_def event_state_def has_room_present)
qed

text \<open>
  The refinement of runs: the namespace's view and the signals sent for it are those of the
  automaton on its own events.
\<close>

lemma kprobe_run_follows:
  "tracked ops s l k \<Longrightarrow>
     tracked ops (fst (kprobe_run ops es s)) l k \<and>
     view ops (fst (kprobe_run ops es s)) k = fst (probe_run l (own_states k es) (view ops s k)) \<and>
     filter (\<lambda>d. netns d = k) (snd (kprobe_run ops es s)) =
       map (signal_event k) (snd (probe_run l (own_states k es) (view ops s k)))"
proof (induction es arbitrary: s)
  case Nil
  then show ?case by (simp add: own_states_def)
next
  case (Cons e es)
  obtain rd task ctx where e: "e = (rd, task, ctx)" by (cases e)
  obtain s1 out where run: "kprobe_tcp_recvmsg ops rd task ctx s = (s1, out)"
    by (cases "kprobe_tcp_recvmsg ops rd task ctx s")
  have tr: "tracked ops s1 l k" using kprobe_keeps_tracked [OF Cons.prems, of rd task ctx] run by simp
  have out: "netns d = event_netns e" if "d \<in> set out" for d
    using kprobe_out_netns [of d ops rd task ctx s] that run by (simp add: e event_netns_def)
  note IH = Cons.IH [OF tr]
  consider (other) "event_netns e \<noteq> k" | (nosock) "event_netns e = k" "event_sock e = 0"
    | (own) "event_netns e = k" "event_sock e \<noteq> 0" by blast
  then show ?case
  proof cases
    case other
    then have "filter (\<lambda>d. netns d = k) out = []" using out by (auto simp: filter_empty_conv)
    moreover have "view ops s1 k = view ops s k"
      using kprobe_other [of k rd task ctx s] other run by (simp add: e event_netns_def)
    ultimately show ?thesis using other IH run by (simp add: e own_states_def split_beta Let_def)
  next
    case nosock
    then have "s1 = s" "out = []"
      using run by (auto simp: e kprobe_tcp_recvmsg_def event_sock_def)
    then show ?thesis using nosock IH run by (simp add: e own_states_def split_beta Let_def)
  next
    case own
    have "filter (\<lambda>d. netns d = k) out = out" using own out by (simp add: filter_id_conv)
    moreover have "view ops s1 k = fst (probe_step l (event_state e) (view ops s k))"
      "out = map (signal_event k)
        (case snd (probe_step l (event_state e) (view ops s k)) of None \<Rightarrow> [] | Some sg \<Rightarrow> [sg])"
      using tracked_step [OF Cons.prems, of rd task ctx] own run by (simp_all add: e event_netns_def)
    ultimately show ?thesis
      using own IH run by (simp add: e own_states_def split_beta Let_def split: option.split)
  qed
qed

end

section \<open>Properties\<close>

text \<open>
  C18 (kprobe_run_refines). Over any interleaving of events of any namespaces, the view of a
  tracked namespace and the samples sent for it are those of the abstract automaton run on that
  namespace's own events, in their order.
\<close>

theorem kprobe_run_refines:
  fixes ops :: "'m map_ops"
  assumes "bpf_hash ops" and "tracked ops s l k"
  shows "view ops (fst (kprobe_run ops es s)) k = fst (probe_run l (own_states k es) (view ops s k)) \<and>
    filter (\<lambda>d. netns d = k) (snd (kprobe_run ops es s)) =
      map (signal_event k) (snd (probe_run l (own_states k es) (view ops s k)))"
  using bpf_hash.kprobe_run_follows [OF assms] by blast

text \<open>The events of the witnesses: of the tracked namespace 77, and of another one.\<close>

definition ex_event :: "u32 \<Rightarrow> u8 \<Rightarrow> probe_event" where
  "ex_event inum st = (ex_memory inum st, 0x10000, 0x40000)"

lemma ex_event_sel [simp]:
  "event_netns (ex_event inum st) = inum" "event_sock (ex_event inum st) = 0x50000"
  "event_state (ex_event inum st) = st"
  by (simp_all add: ex_event_def event_netns_def event_sock_def event_state_def)

lemma ex_tracked: "tracked hmap_ops (ex_maps len c b sc) (ex_limits len) 77"
  by (simp add: tracked_def)

lemma ex_view: "view hmap_ops (ex_maps len c b sc) 77 = \<lparr>count = c, buffer = b, suppressed = (sc = 1)\<rparr>"
  by (simp add: view_def)

theorem kprobe_run_refines_witness:
  "filter (\<lambda>d. netns d = 77)
     (snd (kprobe_run hmap_ops [ex_event 77 1, ex_event 78 1, ex_event 77 1] (ex_maps 2 9 0 0))) =
   [signal_event 77 Upper]"
  using kprobe_run_refines [OF hmap.bpf_hash_axioms ex_tracked,
      where es = "[ex_event 77 1, ex_event 78 1, ex_event 77 1]" and len1 = 2 and c1 = 9
        and b1 = 0 and sc1 = 0]
  by (simp add: ex_view own_states_def probe_step_def next_count_def breaches_def tcp_state_defs)

text \<open>
  C8 (signal_when_streak_reaches_length). Starting with an empty breach buffer and a positive
  buffer length, a namespace gets at most one signal over any interleaving of events, and it
  gets one exactly when the streak of consecutive breaching counts has reached the buffer
  length; it is suppressed from then on and not before.
\<close>

theorem signal_when_streak_reaches_length:
  fixes ops :: "'m map_ops" and es :: "probe_event list"
  assumes "bpf_hash ops" and "tracked ops s l k" and "0 < buffer_length l"
    and "\<not> suppressed (view ops s k)" and "buffer (view ops s k) = 0"
  defines "sts \<equiv> own_states k es"
  defines "reached \<equiv> \<exists>i \<le> length sts.
    streak l (take i (counts sts (count (view ops s k)))) = unat (buffer_length l)"
  shows "length (filter (\<lambda>d. netns d = k) (snd (kprobe_run ops es s))) = (if reached then 1 else 0) \<and>
    suppressed (view ops (fst (kprobe_run ops es s)) k) = reached"
proof -
  have "length (filter (\<lambda>d. netns d = k) (snd (kprobe_run ops es s))) =
      length (snd (probe_run l sts (view ops s k)))"
    and "view ops (fst (kprobe_run ops es s)) k = fst (probe_run l sts (view ops s k))"
    using bpf_hash.kprobe_run_follows [OF assms(1,2), of es] by (simp_all add: sts_def)
  moreover have "length (snd (probe_run l sts (view ops s k))) = (if reached then 1 else 0) \<and>
      suppressed (fst (probe_run l sts (view ops s k))) = reached"
    using probe_run_streak [OF assms(4,5,3), of sts] unfolding reached_def by (auto split: if_splits)
  ultimately show ?thesis by simp
qed

theorem signal_when_streak_reaches_length_witness:
  "length (filter (\<lambda>d. netns d = 77)
     (snd (kprobe_run hmap_ops [ex_event 77 1, ex_event 78 1, ex_event 77 7] (ex_maps 2 9 0 0)))) = 0"
proof -
  have "streak (ex_limits 2) (take i [10, 9]) \<noteq> 2" if "i \<le> Suc (Suc 0)" for i
  proof -
    from that consider "i = 0" | "i = 1" | "i = 2" by linarith
    then show ?thesis by cases (simp_all add: streak_def breaches_def)
  qed
  then show ?thesis
    using signal_when_streak_reaches_length [OF hmap.bpf_hash_axioms ex_tracked,
        where len1 = 2 and c1 = 9 and b1 = 0 and sc1 = 0 and
          es = "[ex_event 77 1, ex_event 78 1, ex_event 77 7]"]
    by (simp add: ex_view own_states_def next_count_def tcp_state_defs)
qed

text \<open>
  While a namespace is suppressed no interleaving of events sends
  a sample for it, lifts the suppression or moves its breach buffer; only its count follows its
  connections.
\<close>

theorem suppressed_until_rearmed:
  fixes ops :: "'m map_ops"
  assumes "bpf_hash ops" and "tracked ops s l k" and "suppressed (view ops s k)"
  shows "filter (\<lambda>d. netns d = k) (snd (kprobe_run ops es s)) = [] \<and>
    suppressed (view ops (fst (kprobe_run ops es s)) k) \<and>
    buffer (view ops (fst (kprobe_run ops es s)) k) = buffer (view ops s k)"
  using bpf_hash.kprobe_run_follows [OF assms(1,2), of es] probe_run_suppressed [OF assms(3)]
  by simp

theorem suppressed_until_rearmed_witness:
  "filter (\<lambda>d. netns d = 77) (snd (kprobe_run hmap_ops [ex_event 77 1, ex_event 77 1] (ex_maps 1 9 0 1))) = []"
  using suppressed_until_rearmed [OF hmap.bpf_hash_axioms ex_tracked, where len1 = 1 and c1 = 9 and b1 = 0 and sc1 = 1]
  by (simp add: ex_view)

end
