(* ===== verification/Go_Prelude.thy ===== *)
theory Go_Prelude imports Prelude "HOL-Library.Sublist" begin

text \<open>
  What the Go packages use of their language and its standard library: errors, the ways a
  function can end, and the functions of \<^verbatim>\<open>strings\<close> and
  \<^verbatim>\<open>strconv\<close> that occur in the sources. Go strings are byte strings; their
  bytes are characters here.
\<close>

section \<open>Errors and outcomes\<close>

text \<open>An error is its message; a function that returns only an error returns an option.\<close>

type_synonym go_error = string

text \<open>
  A call returns, panics (a nil dereference), ends the process (\<^verbatim>\<open>log.Fatalf\<close>), or
  blocks for ever (a send on a channel nobody receives from).
\<close>

datatype 'a outcome = Returns 'a | Panics | Exits | Blocks

text \<open>A call whose result is not used.\<close>

definition ignore_result :: "'a outcome \<Rightarrow> unit outcome" where
  "ignore_result r =
     (case r of Returns _ \<Rightarrow> Returns () | Panics \<Rightarrow> Panics | Exits \<Rightarrow> Exits | Blocks \<Rightarrow> Blocks)"

section \<open>Strings\<close>

definition strings_Trim :: "string \<Rightarrow> string \<Rightarrow> string" where
  "strings_Trim s cutset =
     rev (dropWhile (\<lambda>c. c \<in> set cutset) (rev (dropWhile (\<lambda>c. c \<in> set cutset) s)))"

definition strings_HasPrefix :: "string \<Rightarrow> string \<Rightarrow> bool" where
  "strings_HasPrefix s p = prefix p s"

fun strings_Contains :: "string \<Rightarrow> string \<Rightarrow> bool" where
  "strings_Contains [] sub = (sub = [])"
| "strings_Contains (c # s) sub = (prefix sub (c # s) \<or> strings_Contains s sub)"

lemma strings_Contains_iff: "strings_Contains s sub \<longleftrightarrow> sublist sub s"
proof (induction s)
  case Nil
  then show ?case by (auto simp: sublist_def)
next
  case (Cons c s)
  then show ?case by (simp add: sublist_Cons_right)
qed

definition is_space :: "char \<Rightarrow> bool" where
  "is_space c \<longleftrightarrow> c \<in> {CHR '' '', CHR 0x09, CHR 0x0A, CHR 0x0B, CHR 0x0C, CHR 0x0D}"

definition strings_TrimSpace :: "string \<Rightarrow> string" where
  "strings_TrimSpace s = rev (dropWhile is_space (rev (dropWhile is_space s)))"

text \<open>\<^verbatim>\<open>strings.Split(s, "\n")\<close> and \<^verbatim>\<open>strings.Fields\<close>.\<close>

fun split_lines :: "string \<Rightarrow> string list" where
  "split_lines [] = [[]]"
| "split_lines (c # s) =
     (if c = CHR 0x0A then [] # split_lines s
      else case split_lines s of [] \<Rightarrow> [[c]] | l # ls \<Rightarrow> (c # l) # ls)"

function strings_Fields :: "string \<Rightarrow> string list" where
  "strings_Fields s =
     (case dropWhile is_space s of
        [] \<Rightarrow> []
      | c # s' \<Rightarrow> (c # takeWhile (\<lambda>x. \<not> is_space x) s') #
          strings_Fields (dropWhile (\<lambda>x. \<not> is_space x) s'))"
  by pat_completeness auto
termination
proof (relation "measure length")
  fix s c s'
  assume "dropWhile is_space s = c # s'"
  moreover have "length (dropWhile is_space s) \<le> length s" by (rule length_dropWhile_le)
  moreover have "length (dropWhile (\<lambda>x. \<not> is_space x) s') \<le> length s'" by (rule length_dropWhile_le)
  ultimately show "(dropWhile (\<lambda>x. \<not> is_space x) s', s) \<in> measure length" by simp
qed simp

declare strings_Fields.simps [simp del]

section \<open>Decimal numbers\<close>

definition is_digit :: "char \<Rightarrow> bool" where
  "is_digit c \<longleftrightarrow> 48 \<le> (of_char c :: nat) \<and> (of_char c :: nat) \<le> 57"

definition digit_value :: "char \<Rightarrow> nat" where
  "digit_value c = of_char c - 48"

definition decimal_value :: "string \<Rightarrow> nat" where
  "decimal_value s = foldl (\<lambda>n c. 10 * n + digit_value c) 0 s"

text \<open>\<^verbatim>\<open>strconv.ParseInt(s, 10, 64)\<close>: an optional sign, digits only, in range.\<close>

definition ParseInt64 :: "string \<Rightarrow> int option" where
  "ParseInt64 s =
     (let neg = (s \<noteq> [] \<and> hd s = CHR ''-'');
          ds = (if s \<noteq> [] \<and> (hd s = CHR ''-'' \<or> hd s = CHR ''+'') then tl s else s);
          n = int (decimal_value ds)
      in if ds = [] \<or> \<not> list_all is_digit ds then None
         else if neg then (if n \<le> 2 ^ 63 then Some (- n) else None)
         else (if n < 2 ^ 63 then Some n else None))"

text \<open>The decimal form of a number, as \<^verbatim>\<open>%d\<close> prints it.\<close>

fun dec_digits :: "nat \<Rightarrow> string" where
  "dec_digits n = (if n < 10 then [char_of (48 + n)] else dec_digits (n div 10) @ [char_of (48 + n mod 10)])"

declare dec_digits.simps [simp del]

lemma digit_char [simp]:
  "n < 10 \<Longrightarrow> digit_value (char_of (48 + n)) = n" "n < 10 \<Longrightarrow> is_digit (char_of (48 + n))"
  by (simp_all add: digit_value_def is_digit_def)

lemma dec_digits_ne [simp]: "dec_digits n \<noteq> []"
  by (subst dec_digits.simps) simp

lemma dec_digits_digits: "list_all is_digit (dec_digits n)"
proof (induction n rule: dec_digits.induct)
  case (1 n)
  then show ?case by (subst dec_digits.simps) simp
qed

lemma decimal_value_dec_digits: "decimal_value (dec_digits n) = n"
proof (induction n rule: dec_digits.induct)
  case (1 n)
  then show ?case
    by (subst dec_digits.simps) (auto simp: decimal_value_def)
qed

definition dec_int :: "int \<Rightarrow> string" where
  "dec_int i = (if i < 0 then CHR ''-'' # dec_digits (nat (- i)) else dec_digits (nat i))"

text \<open>What is printed is parsed back.\<close>

lemma ParseInt64_dec_digits: "n < 2 ^ 63 \<Longrightarrow> ParseInt64 (dec_digits n) = Some (int n)"
proof -
  assume n: "n < 2 ^ 63"
  have hd: "is_digit (hd (dec_digits n))"
    using dec_digits_digits [of n] by (cases "dec_digits n") (auto simp: list_all_iff)
  then have "hd (dec_digits n) \<noteq> CHR ''-''" "hd (dec_digits n) \<noteq> CHR ''+''"
    by (auto simp: is_digit_def)
  moreover have "int n < 2 ^ 63" using n by (metis of_nat_less_iff of_nat_numeral of_nat_power)
  ultimately show ?thesis
    using dec_digits_digits [of n] by (simp add: ParseInt64_def decimal_value_dec_digits)
qed

section \<open>Conversions between integers\<close>

text \<open>\<^verbatim>\<open>uint32(x)\<close> of a signed 64-bit value keeps its low 32 bits.\<close>

definition uint32_of_int64 :: "int \<Rightarrow> u32" where
  "uint32_of_int64 x = of_int x"

end
