(* ===== verification/Docker_API.thy ===== *)
theory Docker_API imports Go_Prelude begin

text \<open>
  The Docker client the scaler calls (\<^verbatim>\<open>github.com/docker/docker/client\<close>, outside
  the repository): a record of the four calls the sources make on the state of the daemon, and
  a locale that states what the Docker API documents about service updates. Of a service only
  the parts the sources read or write are kept. A daemon that keeps a list of services at the
  end satisfies the locale; the witnesses run on it.
\<close>

section \<open>Services and containers\<close>

text \<open>
  \<open>Placement\<close> and \<open>Replicated\<close> are pointers in the Go structs and may be nil, as may the
  replica count inside the latter.
\<close>

record service_spec =
  Labels :: "string \<Rightarrow> string option"
  Placement :: "string list option"
  Replicated :: "u64 option option"

record service =
  ID :: string
  Version :: nat
  Spec :: service_spec
  PublishedPorts :: "u32 list"

record container =
  ContainerLabels :: "string \<Rightarrow> string option"
  Pid :: int

section \<open>The interface\<close>

record 'd docker_ops =
  service_inspect :: "'d \<Rightarrow> string \<Rightarrow> go_error + service"
  service_update :: "'d \<Rightarrow> string \<Rightarrow> nat \<Rightarrow> service_spec \<Rightarrow> go_error option \<times> 'd"
  container_inspect :: "'d \<Rightarrow> string \<Rightarrow> go_error + container"
  container_list :: "'d \<Rightarrow> go_error + string list"

text \<open>
  An update that succeeds replaces the spec of the service it names, under a new version, and
  touches no other service; an update that fails changes nothing. A service may be named by its
  identifier or otherwise, so that two names may stand for one service.
\<close>

definition updated :: "service \<Rightarrow> nat \<Rightarrow> service_spec \<Rightarrow> service \<Rightarrow> service" where
  "updated svc v sp svc' = (if ID svc' = ID svc then svc'\<lparr>Version := v, Spec := sp\<rparr> else svc')"

locale docker_api =
  fixes D :: "'d docker_ops"
  assumes update_succeeds:
      "service_update D d x v sp = (None, d') \<Longrightarrow>
         \<exists>svc v'. service_inspect D d x = Inr svc \<and>
           (\<forall>y. service_inspect D d' y = map_sum id (updated svc v' sp) (service_inspect D d y))"
    and update_fails: "service_update D d x v sp = (Some e, d') \<Longrightarrow> d' = d"
    and inspect_by_id: "service_inspect D d x = Inr svc \<Longrightarrow> service_inspect D d (ID svc) = Inr svc"
begin

lemma update_replicas_inspect:
  assumes "service_update D d x v sp = (None, d')" "service_inspect D d x = Inr svc"
  shows "\<exists>v'. service_inspect D d' x = Inr (svc\<lparr>Version := v', Spec := sp\<rparr>)"
  using update_succeeds [OF assms(1)] assms(2) by (auto simp: updated_def)

lemma update_other:
  assumes "service_update D d x v sp = (r, d')" "service_inspect D d x = Inr svc"
    "service_inspect D d y = Inr svc'" "ID svc' \<noteq> ID svc"
  shows "service_inspect D d' y = Inr svc'"
proof (cases r)
  case None
  then show ?thesis
    using update_succeeds [of d x v sp d'] assms by (auto simp: updated_def)
next
  case (Some e)
  then show ?thesis using update_fails [of d x v sp e d'] assms by simp
qed

end

text \<open>The daemon takes every update made with the version it last reported.\<close>

definition accepts_updates :: "'d docker_ops \<Rightarrow> bool" where
  "accepts_updates D \<longleftrightarrow>
     (\<forall>d x svc sp. service_inspect D d x = Inr svc \<longrightarrow> fst (service_update D d x (Version svc) sp) = None)"

section \<open>A daemon with a list of services\<close>

record daemon =
  services :: "service list"
  containers :: "(string \<times> container) list"

definition daemon_inspect :: "daemon \<Rightarrow> string \<Rightarrow> go_error + service" where
  "daemon_inspect d x =
     (case find (\<lambda>svc. ID svc = x) (services d) of None \<Rightarrow> Inl ''no such service'' | Some svc \<Rightarrow> Inr svc)"

definition daemon_update :: "daemon \<Rightarrow> string \<Rightarrow> nat \<Rightarrow> service_spec \<Rightarrow> go_error option \<times> daemon" where
  "daemon_update d x v sp =
     (case daemon_inspect d x of
        Inl e \<Rightarrow> (Some e, d)
      | Inr svc \<Rightarrow>
          if Version svc = v
          then (None, d\<lparr>services := map (updated svc (Suc v) sp) (services d)\<rparr>)
          else (Some ''update out of sequence'', d))"

definition daemon_ops :: "daemon docker_ops" where
  "daemon_ops = \<lparr>service_inspect = daemon_inspect, service_update = daemon_update,
     container_inspect = (\<lambda>d x. case map_of (containers d) x of
       None \<Rightarrow> Inl ''no such container'' | Some c \<Rightarrow> Inr c),
     container_list = (\<lambda>d. Inr (map fst (containers d)))\<rparr>"

lemmas daemon_defs = daemon_ops_def daemon_inspect_def daemon_update_def

lemma find_map_updated:
  "find (\<lambda>svc. ID svc = y) (map (updated s0 v sp) svcs) =
     map_option (updated s0 v sp) (find (\<lambda>svc. ID svc = y) svcs)"
  by (induction svcs) (auto simp: updated_def)

interpretation daemon: docker_api daemon_ops
proof
  fix d x v sp d'
  assume "service_update daemon_ops d x v sp = (None, d')"
  then obtain svc where svc: "daemon_inspect d x = Inr svc"
    and d': "d' = d\<lparr>services := map (updated svc (Suc v) sp) (services d)\<rparr>"
    by (auto simp: daemon_ops_def daemon_update_def split: sum.splits if_splits)
  have "service_inspect daemon_ops d' y = map_sum id (updated svc (Suc v) sp) (service_inspect daemon_ops d y)"
    for y by (simp add: d' daemon_ops_def daemon_inspect_def find_map_updated split: option.split)
  with svc show "\<exists>svc v'. service_inspect daemon_ops d x = Inr svc \<and>
      (\<forall>y. service_inspect daemon_ops d' y = map_sum id (updated svc v' sp) (service_inspect daemon_ops d y))"
    by (auto simp: daemon_ops_def)
next
  fix d x v sp e d'
  assume "service_update daemon_ops d x v sp = (Some e, d')"
  then show "d' = d" by (auto simp: daemon_ops_def daemon_update_def split: sum.splits if_splits)
next
  fix d x svc
  assume "service_inspect daemon_ops d x = Inr svc"
  then have find: "find (\<lambda>svc. ID svc = x) (services d) = Some svc"
    by (auto simp: daemon_ops_def daemon_inspect_def split: option.splits)
  then have "ID svc = x" by (auto simp: find_Some_iff)
  with find show "service_inspect daemon_ops d (ID svc) = Inr svc"
    by (simp add: daemon_ops_def daemon_inspect_def)
qed

lemma daemon_accepts_updates: "accepts_updates daemon_ops"
  by (auto simp: accepts_updates_def daemon_ops_def daemon_update_def)

end
