(* ===== verification/Swarm_Server.thy ===== *)
theory Swarm_Server imports Go_Prelude begin

text \<open>
  The HTTP layer between the nodes (\<^verbatim>\<open>src/autoscaler/server/server.go\<close>): the
  node list, the three handlers, and the requests a node sends. Request bodies are JSON values;
  their text form is left to \<^verbatim>\<open>encoding/json\<close>. The network is a parameter: what
  \<^verbatim>\<open>http.Post\<close> answers to a request, given the requests sent before, is a failure
  with its message or a status code. Functions that send requests return them, appended to the
  ones sent before, so that what is on the wire is part of every statement.
\<close>

section \<open>Nodes\<close>

record SwarmNode =
  Hostname :: string
  IP :: string
  Manager :: bool

record SwarmNodeInfo =
  AutoscalerManager :: bool
  OtherNodes :: "SwarmNode list"
  KeepAlive :: int

text \<open>The zero values.\<close>

definition no_info :: SwarmNodeInfo where
  "no_info = \<lparr>AutoscalerManager = False, OtherNodes = [], KeepAlive = 0\<rparr>"

definition no_node :: SwarmNode where
  "no_node = \<lparr>Hostname = [], IP = [], Manager = False\<rparr>"

text \<open>The result carries the node that is returned along with an error.\<close>

fun GetManagerNode :: "SwarmNode list \<Rightarrow> SwarmNode \<times> go_error option" where
  "GetManagerNode [] = (no_node, Some ''no manager node found'')"
| "GetManagerNode (node # nodes) = (if Manager node then (node, None) else GetManagerNode nodes)"

section \<open>JSON values\<close>

text \<open>A number literal is an integer or, with a fraction or an exponent, something else.\<close>

datatype json =
    JNull
  | JBool bool
  | JInt int
  | JFrac string
  | JStr string
  | JArr "json list"
  | JObj "(string \<times> json) list"

text \<open>
  \<^verbatim>\<open>Decode\<close> into a struct: a key sets the field whose name it matches without
  regard to ASCII case, the last one wins, null leaves the field alone, other keys are ignored,
  and a value of another type is an error. The zero value of a field is what it keeps.
\<close>

definition lower_char :: "char \<Rightarrow> char" where
  "lower_char c = (if 65 \<le> (of_char c :: nat) \<and> (of_char c :: nat) \<le> 90 then char_of (of_char c + 32 :: nat) else c)"

definition key_matches :: "string \<Rightarrow> string \<Rightarrow> bool" where
  "key_matches name k \<longleftrightarrow> map lower_char k = map lower_char name"

definition decode_string :: "json \<Rightarrow> string \<Rightarrow> string option" where
  "decode_string v old = (case v of JStr s \<Rightarrow> Some s | JNull \<Rightarrow> Some old | _ \<Rightarrow> None)"

definition decode_uint32 :: "json \<Rightarrow> u32 \<Rightarrow> u32 option" where
  "decode_uint32 v old =
     (case v of
        JInt i \<Rightarrow> if 0 \<le> i \<and> i < 2 ^ 32 then Some (of_int i) else None
      | JNull \<Rightarrow> Some old
      | _ \<Rightarrow> None)"

fun decode_field :: "(json \<Rightarrow> 'a \<Rightarrow> 'a option) \<Rightarrow> string \<Rightarrow> (string \<times> json) list \<Rightarrow> 'a \<Rightarrow> 'a option" where
  "decode_field dec name [] x = Some x"
| "decode_field dec name ((k, v) # kvs) x =
     (if key_matches name k
      then (case dec v x of None \<Rightarrow> None | Some y \<Rightarrow> decode_field dec name kvs y)
      else decode_field dec name kvs x)"

definition decode_struct_field ::
  "(json \<Rightarrow> 'a \<Rightarrow> 'a option) \<Rightarrow> string \<Rightarrow> json \<Rightarrow> 'a \<Rightarrow> 'a option" where
  "decode_struct_field dec name body zero =
     (case body of
        JObj kvs \<Rightarrow> decode_field dec name kvs zero
      | JNull \<Rightarrow> Some zero
      | _ \<Rightarrow> None)"

section \<open>Handlers\<close>

text \<open>A body that is not a JSON document is \<open>None\<close>.\<close>

record http_request =
  Method :: string
  Path :: string
  Body :: "json option"

record http_response =
  Status :: nat
  Text :: string

definition http_error :: "string \<Rightarrow> nat \<Rightarrow> http_response" where
  "http_error msg code = \<lparr>Status = code, Text = msg @ [CHR 0x0A]\<rparr>"

text \<open>The message of a decoding error is the library's; it is left open here.\<close>

definition decode_error :: string where
  "decode_error = ''invalid request body''"

text \<open>
  The function a handler calls works on the state of the process and may panic or block;
  the handler then never answers. \<^verbatim>\<open>(error option) outcome\<close> is how it ends.
\<close>

type_synonym 's operation = "'s \<Rightarrow> go_error option outcome \<times> 's"

definition answer :: "string \<Rightarrow> go_error option outcome \<Rightarrow> http_response outcome" where
  "answer ok r =
     (case r of
        Returns None \<Rightarrow> Returns \<lparr>Status = 200, Text = ok\<rparr>
      | Returns (Some err) \<Rightarrow> Returns (http_error err 500)
      | Panics \<Rightarrow> Panics
      | Exits \<Rightarrow> Exits
      | Blocks \<Rightarrow> Blocks)"

definition createScalerHandler ::
  "(string \<Rightarrow> string \<Rightarrow> 's operation) \<Rightarrow> http_request \<Rightarrow> 's \<Rightarrow> http_response outcome \<times> 's"
where
  "createScalerHandler scaleFunc r s =
     (if Method r \<noteq> ''POST'' then (Returns (http_error ''Unsupported method'' 405), s)
      else case Body r of
        None \<Rightarrow> (Returns (http_error decode_error 400), s)
      | Some body \<Rightarrow>
         (case (decode_struct_field decode_string ''serviceId'' body [],
                decode_struct_field decode_string ''direction'' body []) of
            (Some serviceID, Some direction) \<Rightarrow>
              (let (res, s') = scaleFunc serviceID direction s in (answer ''Scaling successful.'' res, s'))
          | _ \<Rightarrow> (Returns (http_error decode_error 400), s)))"

definition ListenPortHandler ::
  "(u32 \<Rightarrow> string \<Rightarrow> 's operation) \<Rightarrow> http_request \<Rightarrow> 's \<Rightarrow> http_response outcome \<times> 's"
where
  "ListenPortHandler listenOnPortFunc r s =
     (if Method r \<noteq> ''POST'' then (Returns (http_error ''Unsupported method'' 405), s)
      else case Body r of
        None \<Rightarrow> (Returns (http_error decode_error 400), s)
      | Some body \<Rightarrow>
         (case (decode_struct_field decode_uint32 ''port'' body 0,
                decode_struct_field decode_string ''serviceId'' body []) of
            (Some port, Some serviceID) \<Rightarrow>
              (let (res, s') = listenOnPortFunc port serviceID s in (answer ''Listening on port.'' res, s'))
          | _ \<Rightarrow> (Returns (http_error decode_error 400), s)))"

definition RemovePortHandler ::
  "(u32 \<Rightarrow> 's operation) \<Rightarrow> http_request \<Rightarrow> 's \<Rightarrow> http_response outcome \<times> 's"
where
  "RemovePortHandler removePortFunc r s =
     (if Method r \<noteq> ''POST'' then (Returns (http_error ''Unsupported method'' 405), s)
      else case Body r of
        None \<Rightarrow> (Returns (http_error decode_error 400), s)
      | Some body \<Rightarrow>
         (case decode_struct_field decode_uint32 ''port'' body 0 of
            Some port \<Rightarrow>
              (let (res, s') = removePortFunc port s in (answer ''Removed port.'' res, s'))
          | None \<Rightarrow> (Returns (http_error decode_error 400), s)))"

text \<open>
  Both servers pass nil to \<^verbatim>\<open>ListenAndServe\<close> and so share the default mux:
  \<^verbatim>\<open>/\<close> is registered by \<open>ScaleServer\<close>, which only a manager starts, the other
  two by \<open>PortServer\<close>. A path without a pattern of its own goes to \<^verbatim>\<open>/\<close>.
\<close>

definition serve ::
  "bool \<Rightarrow> (string \<Rightarrow> string \<Rightarrow> 's operation) \<Rightarrow> (u32 \<Rightarrow> string \<Rightarrow> 's operation) \<Rightarrow> (u32 \<Rightarrow> 's operation) \<Rightarrow>
   http_request \<Rightarrow> 's \<Rightarrow> http_response outcome \<times> 's"
where
  "serve manager scaleFunc listenOnPortFunc removePortFunc r s =
     (if Path r = ''/listen'' then ListenPortHandler listenOnPortFunc r s
      else if Path r = ''/remove'' then RemovePortHandler removePortFunc r s
      else if manager then createScalerHandler scaleFunc r s
      else (Returns (http_error ''404 page not found'' 404), s))"

section \<open>Requests\<close>

record post =
  host_port :: string
  post_path :: string
  post_body :: json

type_synonym network = "post list \<Rightarrow> post \<Rightarrow> go_error + nat"

text \<open>\<^verbatim>\<open>http.Post\<close>, and what the callers do with its result: the status is dropped.\<close>

definition http_Post ::
  "network \<Rightarrow> string \<Rightarrow> string \<Rightarrow> string \<Rightarrow> json \<Rightarrow> post list \<Rightarrow> go_error option \<times> post list"
where
  "http_Post net what hp path body sent =
     (let req = \<lparr>host_port = hp, post_path = path, post_body = body\<rparr> in
      case net sent req of
        Inl err \<Rightarrow> (Some (''error sending '' @ what @ '' request to manager node: '' @ err), sent @ [req])
      | Inr _ \<Rightarrow> (None, sent @ [req]))"

definition SendScaleRequest ::
  "network \<Rightarrow> string \<Rightarrow> string \<Rightarrow> string \<Rightarrow> post list \<Rightarrow> go_error option \<times> post list"
where
  "SendScaleRequest net serviceId direction managerIP sent =
     http_Post net ''scale'' (managerIP @ '':4567'') ''/''
       (JObj [(''direction'', JStr direction), (''serviceId'', JStr serviceId)]) sent"

definition SendListenRequest ::
  "network \<Rightarrow> u32 \<Rightarrow> string \<Rightarrow> string \<Rightarrow> post list \<Rightarrow> go_error option \<times> post list"
where
  "SendListenRequest net port serviceID ip sent =
     http_Post net ''listen'' (ip @ '':4568'') ''/listen''
       (JObj [(''port'', JInt (uint port)), (''serviceId'', JStr serviceID)]) sent"

definition SendRemoveRequest ::
  "network \<Rightarrow> u32 \<Rightarrow> string \<Rightarrow> post list \<Rightarrow> go_error option \<times> post list"
where
  "SendRemoveRequest net port ip sent =
     http_Post net ''remove'' (ip @ '':4568'') ''/remove'' (JObj [(''port'', JInt (uint port))]) sent"

text \<open>The two loops over the other nodes, which end at the first failure.\<close>

fun send_to_nodes ::
  "string \<Rightarrow> (string \<Rightarrow> post list \<Rightarrow> go_error option \<times> post list) \<Rightarrow> SwarmNode list \<Rightarrow> post list \<Rightarrow>
   go_error option \<times> post list"
where
  "send_to_nodes what send [] sent = (None, sent)"
| "send_to_nodes what send (node # nodes) sent =
     (case send (IP node) sent of
        (Some err, sent') \<Rightarrow>
          (Some (''error sending '' @ what @ '' request to node '' @ IP node @ '': '' @ err), sent')
      | (None, sent') \<Rightarrow> send_to_nodes what send nodes sent')"

definition SendListenRequestToAllNodes ::
  "network \<Rightarrow> SwarmNodeInfo \<Rightarrow> u32 \<Rightarrow> string \<Rightarrow> post list \<Rightarrow> go_error option \<times> post list"
where
  "SendListenRequestToAllNodes net swarmNodeInfo port serviceID sent =
     send_to_nodes ''listen'' (SendListenRequest net port serviceID) (OtherNodes swarmNodeInfo) sent"

definition SendRemoveRequestToAllNodes ::
  "network \<Rightarrow> SwarmNodeInfo \<Rightarrow> u32 \<Rightarrow> post list \<Rightarrow> go_error option \<times> post list"
where
  "SendRemoveRequestToAllNodes net swarmNodeInfo port sent =
     send_to_nodes ''remove'' (SendRemoveRequest net port) (OtherNodes swarmNodeInfo) sent"

text \<open>A request on the wire, as the server of the addressed node sees it.\<close>

definition received :: "post \<Rightarrow> http_request" where
  "received p = \<lparr>Method = ''POST'', Path = post_path p, Body = Some (post_body p)\<rparr>"

section \<open>Lemmas\<close>

definition listen_post :: "u32 \<Rightarrow> string \<Rightarrow> SwarmNode \<Rightarrow> post" where
  "listen_post port serviceID node =
     \<lparr>host_port = IP node @ '':4568'', post_path = ''/listen'',
      post_body = JObj [(''port'', JInt (uint port)), (''serviceId'', JStr serviceID)]\<rparr>"

definition remove_post :: "u32 \<Rightarrow> SwarmNode \<Rightarrow> post" where
  "remove_post port node =
     \<lparr>host_port = IP node @ '':4568'', post_path = ''/remove'',
      post_body = JObj [(''port'', JInt (uint port))]\<rparr>"

lemma decode_uint32_uint [simp]: "decode_uint32 (JInt (uint p)) old = Some p"
  using unsigned_less [of p, where ?'a = int] by (simp add: decode_uint32_def)

lemma key_matches_refl [simp]: "key_matches name name"
  by (simp add: key_matches_def)

lemma key_matches_fields [simp]:
  "\<not> key_matches ''serviceId'' ''direction''" "\<not> key_matches ''direction'' ''serviceId''"
  "\<not> key_matches ''serviceId'' ''port''" "\<not> key_matches ''port'' ''serviceId''"
  by code_simp+

lemma decode_string_JStr [simp]: "decode_string (JStr s) old = Some s"
  by (simp add: decode_string_def)

text \<open>
  The requests of a broadcast that has sent \<open>told\<close> after \<open>sent\<close>: without an error the
  network took every one of them, with an error it refused the last one.
\<close>

definition up_to_failure :: "network \<Rightarrow> bool \<Rightarrow> post list \<Rightarrow> post list \<Rightarrow> bool" where
  "up_to_failure net ok sent told \<longleftrightarrow>
     (if ok then list_all (\<lambda>i. \<not> isl (net (sent @ take i told) (told ! i))) [0..<length told]
      else told \<noteq> [] \<and> isl (net (sent @ butlast told) (last told)))"

lemma up_to_failure_Cons:
  assumes "\<not> isl (net sent p)" "up_to_failure net ok (sent @ [p]) told"
  shows "up_to_failure net ok sent (p # told)"
proof (cases ok)
  case True
  have "\<not> isl (net (sent @ take i (p # told)) ((p # told) ! i))" if "i < length (p # told)" for i
    using assms True that by (cases i) (simp_all add: up_to_failure_def list_all_iff)
  then show ?thesis using True by (simp add: up_to_failure_def list_all_iff)
next
  case False
  then show ?thesis using assms by (simp add: up_to_failure_def)
qed

text \<open>The loop over the nodes, for requests made by \<open>mk\<close>.\<close>

lemma send_to_nodes_prefix:
  assumes snd: "\<And>node tr. snd (send (IP node) tr) = tr @ [mk node]"
    and fst: "\<And>node tr. (fst (send (IP node) tr) = None) = (\<not> isl (net tr (mk node)))"
  shows "\<exists>told untold. nodes = told @ untold \<and>
    snd (send_to_nodes what send nodes sent) = sent @ map mk told \<and>
    (fst (send_to_nodes what send nodes sent) = None \<longrightarrow> untold = []) \<and>
    up_to_failure net (fst (send_to_nodes what send nodes sent) = None) sent (map mk told)"
proof (induction nodes arbitrary: sent)
  case Nil
  show ?case by (simp add: up_to_failure_def)
next
  case (Cons node nodes)
  obtain err where err: "send (IP node) sent = (err, sent @ [mk node])"
    using snd [of node sent] by (cases "send (IP node) sent") auto
  then have isl: "(err = None) = (\<not> isl (net sent (mk node)))" using fst [of node sent] by simp
  show ?case
  proof (cases err)
    case (Some e)
    then show ?thesis
      using err isl by (intro exI [of _ "[node]"] exI [of _ nodes]) (simp add: up_to_failure_def)
  next
    case None
    define run where "run = send_to_nodes what send nodes (sent @ [mk node])"
    from Cons.IH [of "sent @ [mk node]", folded run_def] obtain told untold where IH:
      "nodes = told @ untold" "snd run = (sent @ [mk node]) @ map mk told"
      "fst run = None \<longrightarrow> untold = []" "up_to_failure net (fst run = None) (sent @ [mk node]) (map mk told)"
      by (elim exE conjE) (rule that)
    have "send_to_nodes what send (node # nodes) sent = run" using None err by (simp add: run_def)
    moreover have "up_to_failure net (fst run = None) sent (map mk (node # told))"
      using up_to_failure_Cons [OF _ IH(4)] None isl by simp
    moreover have "node # nodes = (node # told) @ untold" "snd run = sent @ map mk (node # told)"
      using IH(1,2) by simp_all
    ultimately show ?thesis using IH(3) by metis
  qed
qed

text \<open>Each request function posts one request, and fails only when the network does.\<close>

definition scale_post :: "string \<Rightarrow> string \<Rightarrow> string \<Rightarrow> post" where
  "scale_post serviceId direction ip =
     \<lparr>host_port = ip @ '':4567'', post_path = ''/'',
      post_body = JObj [(''direction'', JStr direction), (''serviceId'', JStr serviceId)]\<rparr>"

lemma http_Post_simps [simp]:
  "snd (http_Post net what hp path body sent) =
     sent @ [\<lparr>host_port = hp, post_path = path, post_body = body\<rparr>]"
  "(fst (http_Post net what hp path body sent) = None) =
     (\<not> isl (net sent \<lparr>host_port = hp, post_path = path, post_body = body\<rparr>))"
  by (simp_all add: http_Post_def Let_def isl_def split: sum.split)

lemma send_request_simps [simp]:
  "snd (SendScaleRequest net sid dir ip sent) = sent @ [scale_post sid dir ip]"
  "snd (SendListenRequest net port sid (IP node) sent) = sent @ [listen_post port sid node]"
  "snd (SendRemoveRequest net port (IP node) sent) = sent @ [remove_post port node]"
  by (simp_all add: SendScaleRequest_def SendListenRequest_def SendRemoveRequest_def scale_post_def
      listen_post_def remove_post_def)

lemma send_request_ok [simp]:
  "(fst (SendScaleRequest net sid dir ip sent) = None) = (\<not> isl (net sent (scale_post sid dir ip)))"
  "(fst (SendListenRequest net port sid (IP node) sent) = None) = (\<not> isl (net sent (listen_post port sid node)))"
  "(fst (SendRemoveRequest net port (IP node) sent) = None) = (\<not> isl (net sent (remove_post port node)))"
  by (simp_all add: SendScaleRequest_def SendListenRequest_def SendRemoveRequest_def scale_post_def
      listen_post_def remove_post_def)

text \<open>A server that receives one of these requests decodes what it was made of.\<close>

lemma serve_scale_post:
  "serve True scale listen remove (received (scale_post sid dir ip)) s =
     (let (res, s') = scale sid dir s in (answer ''Scaling successful.'' res, s'))"
  by (simp add: serve_def createScalerHandler_def received_def scale_post_def decode_struct_field_def)

lemma serve_listen_post:
  "serve manager scale listen remove (received (listen_post port sid node)) s =
     (let (res, s') = listen port sid s in (answer ''Listening on port.'' res, s'))"
  by (simp add: serve_def ListenPortHandler_def received_def listen_post_def decode_struct_field_def)

lemma serve_remove_post:
  "serve manager scale listen remove (received (remove_post port node)) s =
     (let (res, s') = remove port s in (answer ''Removed port.'' res, s'))"
  by (simp add: serve_def RemovePortHandler_def received_def remove_post_def decode_struct_field_def)

section \<open>Properties\<close>

text \<open>
  C35 (requests_reach_operations). What a node sends is what the addressed node acts on: the three
  requests, received by the server of a manager, call its operations with the service, direction
  and port they were sent for, and answer with the operation's result.
\<close>

theorem requests_reach_operations:
  fixes node :: SwarmNode
  shows "(let p = last (snd (SendScaleRequest net sid dir ip sent)); (res, s') = scale sid dir s
    in serve True scale listen remove (received p) s = (answer ''Scaling successful.'' res, s')) \<and>
   (let p = last (snd (SendListenRequest net port sid (IP node) sent)); (res, s') = listen port sid s
    in serve manager scale listen remove (received p) s = (answer ''Listening on port.'' res, s')) \<and>
   (let p = last (snd (SendRemoveRequest net port (IP node) sent)); (res, s') = remove port s
    in serve manager scale listen remove (received p) s = (answer ''Removed port.'' res, s'))"
  by (simp add: serve_scale_post serve_listen_post serve_remove_post split_beta)


text \<open>
  A listen request to all other nodes is posted in the order of
  the list up to the first node that cannot be reached: without an error every node got it, with
  an error the nodes after the unreachable one are never told.
\<close>

theorem broadcast_stops_at_failure:
  "let (err, sent') = SendListenRequestToAllNodes net info port sid sent in
   \<exists>told untold. OtherNodes info = told @ untold \<and>
     sent' = sent @ map (listen_post port sid) told \<and>
     (err = None \<longrightarrow> untold = []) \<and>
     up_to_failure net (err = None) sent (map (listen_post port sid) told)"
  using send_to_nodes_prefix [where send = "SendListenRequest net port sid" and net = net
      and mk = "listen_post port sid" and nodes = "OtherNodes info" and sent = sent]
  by (auto simp: SendListenRequestToAllNodes_def split_beta)

theorem broadcast_stops_at_failure_witness:
  "let info = \<lparr>AutoscalerManager = True,
         OtherNodes = [\<lparr>Hostname = ''a'', IP = ''10.0.0.2'', Manager = False\<rparr>, \<lparr>Hostname = ''b'', IP = ''10.0.0.3'', Manager = False\<rparr>],
         KeepAlive = 0\<rparr>;
       run = SendListenRequestToAllNodes (\<lambda>_ _. Inr 200) info 80 ''web'' []
   in fst run = None \<and> snd run = map (listen_post 80 ''web'') (OtherNodes info)"
proof -
  let ?info = "\<lparr>AutoscalerManager = True,
         OtherNodes = [\<lparr>Hostname = ''a'', IP = ''10.0.0.2'', Manager = False\<rparr>, \<lparr>Hostname = ''b'', IP = ''10.0.0.3'', Manager = False\<rparr>],
         KeepAlive = 0\<rparr>"
  let ?run = "SendListenRequestToAllNodes (\<lambda>_ _. Inr 200) ?info 80 ''web'' []"
  have "fst ?run = None"
    by (simp add: SendListenRequestToAllNodes_def SendListenRequest_def http_Post_def)
  then show ?thesis
    using broadcast_stops_at_failure [of "\<lambda>_ _. Inr 200" ?info 80 "''web''" "[]"]
    by (auto simp: split_beta Let_def)
qed

text \<open>
  A node that asks the manager to scale takes any answer for success:
  the request returns no error whatever status code the manager sent, 500 included.
\<close>

lemma status_codes_ignored:
  assumes "net sent (scale_post sid dir ip) = Inr code"
  shows "fst (SendScaleRequest net sid dir ip sent) = None"
  using assms by simp

end
