(* ===== verification/Port_Classifier.thy ===== *)
theory Port_Classifier imports Kernel_Memory BPF_Maps begin

text \<open>
  The ingress classifier (\<^verbatim>\<open>src/autoscaler/bpf_port_listen/bpf/tc-port-monitor.c\<close>) that
  wakes up a service scaled to zero: it walks the Ethernet, IPv4 and TCP headers of a packet and
  sends a perf event when the destination port is in \<open>ports_map\<close>. Header sizes and member
  offsets are those of the kernel types; an access outside the packet's linear data is the value
  \<open>None\<close>, so that the bounds checks of the source are proved to be enough. The map lookup is
  the parameter \<open>ops\<close>. Addresses of the packet do not wrap around.
\<close>

section \<open>Packets\<close>

text \<open>
  The part of \<^verbatim>\<open>struct __sk_buff\<close> the program uses: the address of the packet and its
  linear data, which ends at \<open>data_end\<close>.
\<close>

record skb =
  data :: nat
  linear :: "byte list"

definition data_end :: "skb \<Rightarrow> nat" where
  "data_end skb = data skb + length (linear skb)"

definition load_bytes :: "skb \<Rightarrow> nat \<Rightarrow> nat \<Rightarrow> byte list option" where
  "load_bytes skb a n =
     (if data skb \<le> a \<and> a + n \<le> data_end skb then Some (take n (drop (a - data skb) (linear skb)))
      else None)"

text \<open>\<^verbatim>\<open>p->m\<close> for a header \<open>t\<close> at address \<open>p\<close>.\<close>

definition load_member :: "skb \<Rightarrow> ctype \<Rightarrow> string list \<Rightarrow> nat \<Rightarrow> byte list option" where
  "load_member skb t path p =
     (case offset_of t path of
        None \<Rightarrow> None
      | Some (d, t') \<Rightarrow> load_bytes skb (p + d) (csize t'))"

text \<open>\<^verbatim>\<open>__builtin_bswap16\<close> and \<^verbatim>\<open>__constant_htons\<close> on the little-endian target.\<close>

definition bswap16 :: "u16 \<Rightarrow> u16" where
  "bswap16 w = of_nat (unat w mod 256 * 256 + unat w div 256)"

definition le_u16 :: "byte list \<Rightarrow> u16" where
  "le_u16 bs = of_nat (le_nat bs)"

definition ETH_P_IP :: u16 where "ETH_P_IP = 0x0800"
definition IPPROTO_TCP :: nat where "IPPROTO_TCP = 6"
definition TC_ACT_OK :: int where "TC_ACT_OK = 0"

section \<open>The program\<close>

text \<open>
  The result is the returned action and the values passed to
  \<^verbatim>\<open>bpf_perf_event_output\<close>, whose result the source ignores.
\<close>

definition port_classifier :: "'m map_ops \<Rightarrow> 'm \<Rightarrow> skb \<Rightarrow> (int \<times> u64 list) option" where
  "port_classifier ops ports_map skb =
     (let eth = data skb in
      if eth + csize struct_ethhdr > data_end skb then Some (TC_ACT_OK, [])
      else case load_member skb struct_ethhdr [''h_proto''] eth of
        None \<Rightarrow> None
      | Some h_proto \<Rightarrow>
         if le_u16 h_proto \<noteq> bswap16 ETH_P_IP then Some (TC_ACT_OK, [])
         else
          (let ip = data skb + csize struct_ethhdr in
           if ip + csize struct_iphdr > data_end skb then Some (TC_ACT_OK, [])
           else case load_member skb struct_iphdr [''protocol''] ip of
             None \<Rightarrow> None
           | Some protocol \<Rightarrow>
              if le_nat protocol \<noteq> IPPROTO_TCP then Some (TC_ACT_OK, [])
              else
               (let tcp = ip + csize struct_iphdr in
                if tcp + csize struct_tcphdr > data_end skb then Some (TC_ACT_OK, [])
                else case load_member skb struct_tcphdr [''dest''] tcp of
                  None \<Rightarrow> None
                | Some dest \<Rightarrow>
                   (let tcp_dest_port = ucast (bswap16 (le_u16 dest)) :: u32 in
                    case map_lookup ops ports_map tcp_dest_port of
                      None \<Rightarrow> Some (TC_ACT_OK, [])
                    | Some _ \<Rightarrow> Some (TC_ACT_OK, [ucast tcp_dest_port])))))"

section \<open>Lemmas\<close>

lemma offset_eth_proto [offsets]:
  "offset_of struct_ethhdr [''h_proto''] = Some (12, typedef___be16)"
  unfolding struct_ethhdr_def by (simp add: layout cong: struct_off_cong)

lemma offset_ip_protocol [offsets]:
  "offset_of struct_iphdr [''protocol''] = Some (9, typedef___u8)"
  unfolding struct_iphdr_def by (simp add: layout cong: struct_off_cong)

lemma offset_tcp_dest [offsets]:
  "offset_of struct_tcphdr [''dest''] = Some (2, typedef___be16)"
  unfolding struct_tcphdr_def by (simp add: layout cong: struct_off_cong)

lemmas packet_offsets = offset_eth_proto offset_ip_protocol offset_tcp_dest

text \<open>A header whose end is inside the packet can be read at any of its members.\<close>

lemma load_member_inside:
  assumes "offset_of t path = Some (d, t')" "data skb \<le> p" "p + csize t \<le> data_end skb"
  shows "load_member skb t path p =
    Some (take (csize t') (drop (p - data skb + d) (linear skb)))"
  using assms path_inside [OF assms(1)] by (simp add: load_member_def load_bytes_def)

lemma bswap16_bswap16 [simp]: "bswap16 (bswap16 w) = w"
proof -
  define q r where "q = unat w div 256" and "r = unat w mod 256"
  have w: "unat w = q * 256 + r" "r < 256" "q < 256"
    using unsigned_less [of w, where ?'a = nat] by (simp_all add: q_def r_def less_mult_imp_div_less)
  then have "unat (bswap16 w) = r * 256 + q"
    by (simp add: bswap16_def unat_of_nat del: of_nat_add of_nat_mult)
  then have "bswap16 (bswap16 w) = of_nat (unat w)"
    using w by (simp add: bswap16_def [of "bswap16 w"])
  then show ?thesis by simp
qed

text \<open>A port is widened to the key type and to the event type, and read back from both.\<close>

lemma ucast_port:
  "(ucast (ucast p :: u32) :: u64) = ucast (p :: u16)"
  by (rule bit_word_eqI) (auto simp: bit_unsigned_iff dest: bit_imp_le_length)

lemma ucast_port_key: "(ucast (ucast p :: u64) :: u32) = ucast (p :: u16)"
  by (rule bit_word_eqI) (auto simp: bit_unsigned_iff dest: bit_imp_le_length)

lemma ucast_port_less: "(ucast (p :: u16) :: u64) < 2 ^ 16"
proof -
  have "(ucast p :: u64) = of_nat (unat p)" by simp
  then have "unat (ucast p :: u64) = unat p"
    using unsigned_less [of p, where ?'a = nat] by (simp add: unat_of_nat del: of_nat_unat)
  then show ?thesis
    using unsigned_less [of p, where ?'a = nat] by (simp add: word_less_nat_alt)
qed

text \<open>A number in network byte order.\<close>

definition be16_bytes :: "u16 \<Rightarrow> byte list" where
  "be16_bytes w = le_bytes 2 (unat (bswap16 w))"

lemma length_be16_bytes [simp]: "length (be16_bytes w) = 2"
  by (simp add: be16_bytes_def)

lemma le_u16_be16_bytes [simp]: "le_u16 (be16_bytes w) = bswap16 w"
  using unsigned_less [of "bswap16 w", where ?'a = nat] by (simp add: le_u16_def be16_bytes_def)

text \<open>The program on a packet cut into the fields it looks at, and what surrounds them.\<close>

definition packet_bytes ::
  "byte list \<Rightarrow> u16 \<Rightarrow> byte list \<Rightarrow> byte \<Rightarrow> byte list \<Rightarrow> byte list \<Rightarrow> u16 \<Rightarrow> byte list \<Rightarrow> byte list"
where
  "packet_bytes macs proto iph protocol ipt src dest rest =
     macs @ be16_bytes proto @ iph @ [protocol] @ ipt @ src @ be16_bytes dest @ rest"

lemma port_classifier_packet:
  assumes len: "length macs = 12" "length iph = 9" "length ipt = 10" "length src = 2"
      "16 \<le> length rest"
  shows "port_classifier ops m \<lparr>data = a, linear = packet_bytes macs proto iph protocol ipt src dest rest\<rparr> =
    Some (TC_ACT_OK,
      if proto = ETH_P_IP \<and> protocol = 6 \<and> map_lookup ops m (ucast dest) \<noteq> None then [ucast dest] else [])"
proof -
  let ?p = "packet_bytes macs proto iph protocol ipt src dest rest"
  define skb where "skb = \<lparr>data = a, linear = ?p\<rparr>"
  have skb: "data skb = a" "linear skb = ?p" by (simp_all add: skb_def)
  have end': "data_end skb = a + 38 + length rest"
    using len by (simp add: data_end_def packet_bytes_def skb)
  have "le_nat [protocol] = unat protocol" by simp
  moreover have "load_member skb struct_ethhdr [''h_proto''] a = Some (be16_bytes proto)"
    by (subst load_member_inside [OF packet_offsets(1)])
      (use len end' in \<open>simp_all add: layout packet_bytes_def skb\<close>)
  moreover have "load_member skb struct_iphdr [''protocol''] (a + 14) = Some [protocol]"
    by (subst load_member_inside [OF packet_offsets(2)])
      (use len end' in \<open>simp_all add: layout packet_bytes_def skb\<close>)
  moreover have "load_member skb struct_tcphdr [''dest''] (a + 14 + 20) = Some (be16_bytes dest)"
    by (subst load_member_inside [OF packet_offsets(3)])
      (use len end' in \<open>simp_all add: layout packet_bytes_def skb\<close>)
  moreover have "(bswap16 proto = bswap16 ETH_P_IP) = (proto = ETH_P_IP)"
    by (metis bswap16_bswap16)
  moreover have "(unat protocol = IPPROTO_TCP) = (protocol = 6)"
    by (auto simp: IPPROTO_TCP_def word_unat_eq_iff)
  ultimately show ?thesis
    unfolding skb_def [symmetric] using len(5) end' skb(1)
    by (cases "map_lookup ops m (ucast dest)") (simp_all add: port_classifier_def Let_def layout ucast_port)
qed

section \<open>Properties\<close>

text \<open>
  C24 (classifier_memory_safe). On every packet the classifier returns TC_ACT_OK without reading
  outside the packet, so that traffic is never dropped, and it sends at most one event, which
  carries a 16-bit port that is in ports_map.
\<close>

theorem classifier_memory_safe:
  "\<exists>evs. port_classifier ops m skb = Some (TC_ACT_OK, evs) \<and> length evs \<le> 1 \<and>
     list_all (\<lambda>v. v < 2 ^ 16 \<and> map_lookup ops m (ucast v) \<noteq> None) evs"
proof -
  note read = load_member_inside [OF packet_offsets(1)] load_member_inside [OF packet_offsets(2)]
    load_member_inside [OF packet_offsets(3)]
  show ?thesis
    using ucast_port_less
    by (auto simp: port_classifier_def Let_def read ucast_port ucast_port_key split: option.split)
qed

text \<open>
  C25 (classifier_detects_port). On a TCP packet over IPv4 with a header of the fixed size, whatever
  surrounds the fields it reads, the classifier sends an event exactly when the destination port
  is in ports_map, and the event carries that port.
\<close>

theorem classifier_detects_port:
  assumes "length macs = 12" "length iph = 9" "length ipt = 10" "length src = 2" "16 \<le> length rest"
  shows "port_classifier ops m \<lparr>data = a, linear = packet_bytes macs ETH_P_IP iph 6 ipt src dest rest\<rparr> =
    Some (TC_ACT_OK, if map_lookup ops m (ucast dest) \<noteq> None then [ucast dest] else [])"
  by (simp add: port_classifier_packet [OF assms])

definition ex_ports :: "u32 list \<Rightarrow> hmap" where
  "ex_ports ps = \<lparr>entries = map (\<lambda>p. (p, 1)) ps, max_entries = 256\<rparr>"

theorem classifier_detects_port_witness:
  "port_classifier hmap_ops (ex_ports [8080])
     \<lparr>data = 4096, linear = packet_bytes (replicate 12 0) ETH_P_IP (replicate 9 0) 6 (replicate 10 0)
        [0, 80] 8080 (replicate 16 0)\<rparr> = Some (TC_ACT_OK, [8080])"
  by (subst classifier_detects_port) (simp_all add: ex_ports_def hmap_defs)

text \<open>
  The TCP header is assumed right after the 20 fixed bytes of
  the IP header, whatever the header length field says: with IP options in between, the port
  looked up is made of the third and fourth option bytes, whatever the TCP header contains.
\<close>

theorem classifier_reads_ip_options:
  assumes "length macs = 12" "length iph = 9" "length ipt = 10"
    and "4 \<le> length options" "length tcp = 20"
    and "take 2 (drop 2 options) = be16_bytes seen"
  shows "port_classifier ops m
      \<lparr>data = a, linear = macs @ be16_bytes ETH_P_IP @ iph @ [6] @ ipt @ options @ tcp @ payload\<rparr> =
    Some (TC_ACT_OK, if map_lookup ops m (ucast seen) \<noteq> None then [ucast seen] else [])"
proof -
  have "options = take 2 options @ be16_bytes seen @ drop 4 options"
    using assms(6) append_take_drop_id [of 2 options] append_take_drop_id [of 2 "drop 2 options"]
    by simp
  then have "macs @ be16_bytes ETH_P_IP @ iph @ [6] @ ipt @ options @ tcp @ payload =
      packet_bytes macs ETH_P_IP iph 6 ipt (take 2 options) seen (drop 4 options @ tcp @ payload)"
    by (simp add: packet_bytes_def) 
  then show ?thesis
    using port_classifier_packet [where macs = macs and iph = iph and ipt = ipt
        and src = "take 2 options" and rest = "drop 4 options @ tcp @ payload" and ops = ops] assms(1-5)
    by simp
qed

theorem classifier_reads_ip_options_witness:
  "port_classifier hmap_ops (ex_ports [8080])
     \<lparr>data = 4096, linear = replicate 12 0 @ be16_bytes ETH_P_IP @ replicate 9 0 @ [6] @ replicate 10 0 @
        [1, 1, 1, 0] @ ([0, 80] @ be16_bytes 8080 @ replicate 16 0) @ []\<rparr> = Some (TC_ACT_OK, [])"
proof -
  have "le_bytes 2 1 = [1, 0]" by (simp add: numeral_2_eq_2)
  moreover have "bswap16 256 = 1" by (simp add: bswap16_def)
  ultimately have "be16_bytes 256 = [1, 0]" by (simp add: be16_bytes_def)
  then show ?thesis
    by (subst classifier_reads_ip_options [where seen = 256]) (simp_all add: ex_ports_def hmap_defs)
qed

end
