(* ===== verification/Port_Listener.thy ===== *)
theory Port_Listener imports Swarm_Server Port_Classifier begin

text \<open>
  The Go side of the port monitor (\<^verbatim>\<open>src/autoscaler/bpf_port_listen/listener.go\<close>):
  \<open>ListenOnPort\<close>, \<open>RemovePort\<close> and the event loop that removes a port and scales its
  service up when a packet for it is seen. The state is the Go map from ports to services, the
  kernel's \<open>ports_map\<close>, the listener table of \<^verbatim>\<open>logging\<close>, the requests sent
  so far, and the directions recorded in the scaling log (\<open>Log_Tables\<close> shows what a record
  writes to its file). The \<open>Scaler\<close> interface is a locale; the service scaler provides it. Event messages
  are left out.
\<close>

section \<open>State\<close>

record 'm listener =
  portToServiceID :: "u32 \<Rightarrow> string option"
  PortsMap :: 'm
  bpfListenerLogs :: "u32 \<Rightarrow> string option"
  sent :: "post list"
  scalingLogs :: "string list"

definition AddBPFListenerLog :: "string \<Rightarrow> u32 \<Rightarrow> ('m, 'z) listener_scheme \<Rightarrow> ('m, 'z) listener_scheme" where
  "AddBPFListenerLog serviceId port s = s\<lparr>bpfListenerLogs := (bpfListenerLogs s)(port \<mapsto> serviceId)\<rparr>"

definition RemoveBPFListenerLog :: "u32 \<Rightarrow> ('m, 'z) listener_scheme \<Rightarrow> ('m, 'z) listener_scheme" where
  "RemoveBPFListenerLog port s =
     (case bpfListenerLogs s port of
        None \<Rightarrow> s
      | Some _ \<Rightarrow> s\<lparr>bpfListenerLogs := (bpfListenerLogs s)(port := None)\<rparr>)"

text \<open>The text of a map error is its symbolic name; the library's is longer.\<close>

definition errno_text :: "errno \<Rightarrow> string" where
  "errno_text e =
     (case e of EEXIST \<Rightarrow> ''EEXIST'' | ENOENT \<Rightarrow> ''ENOENT'' | E2BIG \<Rightarrow> ''E2BIG'' | EOTHER \<Rightarrow> ''error'')"

section \<open>Operations\<close>

definition ListenOnPort ::
  "'m map_ops \<Rightarrow> u32 \<Rightarrow> string \<Rightarrow> ('m, 'z) listener_scheme \<Rightarrow> go_error option \<times> ('m, 'z) listener_scheme"
where
  "ListenOnPort ops port serviceID s =
     (let s1 = s\<lparr>portToServiceID := (portToServiceID s)(port \<mapsto> serviceID)\<rparr> in
      case map_update ops (PortsMap s1) port 1 BPF_ANY of
        Inl err \<Rightarrow> (Some (''failed to add port to BPF map: '' @ errno_text err), s1)
      | Inr m \<Rightarrow> (None, AddBPFListenerLog serviceID port (s1\<lparr>PortsMap := m\<rparr>)))"

definition RemovePort ::
  "'m map_ops \<Rightarrow> u32 \<Rightarrow> ('m, 'z) listener_scheme \<Rightarrow> go_error option \<times> ('m, 'z) listener_scheme"
where
  "RemovePort ops port s =
     (case portToServiceID s port of
        None \<Rightarrow> (Some (''service ID %!s(<nil>) for port '' @ dec_digits (unat port) @ '' not found in RemovePort''), s)
      | Some _ \<Rightarrow>
         (let s1 = s\<lparr>portToServiceID := (portToServiceID s)(port := None)\<rparr> in
          case map_delete ops (PortsMap s1) port of
            Inl err \<Rightarrow> (Some (''failed to remove port from BPF map: '' @ errno_text err), s1)
          | Inr m \<Rightarrow> (None, RemoveBPFListenerLog port (s1\<lparr>PortsMap := m\<rparr>))))"

text \<open>One sample of the event loop; \<open>ScaleTo\<close> is the method of the Scaler it was given.\<close>

definition handle_sample ::
  "'m map_ops \<Rightarrow> network \<Rightarrow> SwarmNodeInfo \<Rightarrow> (string \<Rightarrow> u64 \<Rightarrow> ('m, 'z) listener_scheme operation) \<Rightarrow>
   byte list \<Rightarrow> ('m, 'z) listener_scheme \<Rightarrow> unit outcome \<times> ('m, 'z) listener_scheme"
where
  "handle_sample ops net info ScaleTo raw s =
     (if length raw \<ge> 4 then
        (let port = le_u32 (take 4 raw) in
         case portToServiceID s port of
           None \<Rightarrow> (Returns (), s)
         | Some serviceID \<Rightarrow>
            (let s0 = s\<lparr>scalingLogs := scalingLogs s @ [''up'']\<rparr>;
                 s1 = snd (RemovePort ops port s0);
                 s2 = s1\<lparr>sent := snd (SendRemoveRequestToAllNodes net info port (sent s1))\<rparr>
             in if AutoscalerManager info then
                  (let (r, s3) = ScaleTo serviceID 1 s2 in (ignore_result r, s3))
                else
                  (let (manager, _) = GetManagerNode (OtherNodes info)
                   in (Returns (),
                       s2\<lparr>sent := snd (SendScaleRequest net serviceID ''over'' (IP manager) (sent s2))\<rparr>))))
      else (Returns (), s))"

text \<open>
  The loop: what each call of \<^verbatim>\<open>PerfReader.Read\<close> gives it. It ends when the
  reader is closed; the state after the given reads is returned.
\<close>

datatype perf_read = ReadClosed | ReadError | Sample "byte list"

fun listenForEvents ::
  "'m map_ops \<Rightarrow> network \<Rightarrow> SwarmNodeInfo \<Rightarrow> (string \<Rightarrow> u64 \<Rightarrow> ('m, 'z) listener_scheme operation) \<Rightarrow>
   perf_read list \<Rightarrow> ('m, 'z) listener_scheme \<Rightarrow> unit outcome \<times> ('m, 'z) listener_scheme"
where
  "listenForEvents ops net info ScaleTo [] s = (Returns (), s)"
| "listenForEvents ops net info ScaleTo (ReadClosed # rs) s = (Returns (), s)"
| "listenForEvents ops net info ScaleTo (ReadError # rs) s = listenForEvents ops net info ScaleTo rs s"
| "listenForEvents ops net info ScaleTo (Sample raw # rs) s =
     (case handle_sample ops net info ScaleTo raw s of
        (Returns _, s') \<Rightarrow> listenForEvents ops net info ScaleTo rs s'
      | other \<Rightarrow> other)"

text \<open>
  The loop over all calls to come, each with whether the listener is closing before it: \<open>None\<close>
  when the loop never ends.
\<close>

partial_function (option) listen_loop ::
  "'m map_ops \<Rightarrow> network \<Rightarrow> SwarmNodeInfo \<Rightarrow> (string \<Rightarrow> u64 \<Rightarrow> ('m, 'z) listener_scheme operation) \<Rightarrow>
   (nat \<Rightarrow> bool \<times> perf_read) \<Rightarrow> nat \<Rightarrow> ('m, 'z) listener_scheme \<Rightarrow>
   (unit outcome \<times> ('m, 'z) listener_scheme) option"
where
  "listen_loop ops net info ScaleTo world i s =
     (if fst (world i) then Some (Returns (), s)
      else case snd (world i) of
        ReadClosed \<Rightarrow> Some (Returns (), s)
      | ReadError \<Rightarrow> listen_loop ops net info ScaleTo world (Suc i) s
      | Sample raw \<Rightarrow>
         (case handle_sample ops net info ScaleTo raw s of
            (Returns _, s') \<Rightarrow> listen_loop ops net info ScaleTo world (Suc i) s'
          | other \<Rightarrow> Some other))"

section \<open>Setting up and closing\<close>

text \<open>
  The calls of \<^verbatim>\<open>github.com/cilium/ebpf\<close> and
  \<^verbatim>\<open>netlink\<close> that can fail while a program is loaded and attached: the error
  each of them gives, if any. They are outside the repository.
\<close>

record bpf_calls =
  RemoveMemlock :: "go_error option"
  LoadBPFObjects :: "go_error option"
  LinkByName :: "string \<Rightarrow> go_error + int"
  AttachTCX :: "int \<Rightarrow> go_error option"
  Kprobe :: "string \<Rightarrow> go_error option"
  NewReader :: "go_error option"

text \<open>
  What a listener holds: the interface it is attached to, its reader and its closing channel, and
  what the process gives it later, the scaler and the node information.
\<close>

record port_handle =
  port_link :: "int option"
  port_reader :: bool
  port_closing :: bool
  port_scaler :: bool
  port_nodeInfo :: SwarmNodeInfo

definition new_port_handle :: "int \<Rightarrow> port_handle" where
  "new_port_handle index = \<lparr>port_link = Some index, port_reader = True, port_closing = False,
     port_scaler = False, port_nodeInfo = no_info\<rparr>"

definition initBPFPortListener :: "bpf_calls \<Rightarrow> string \<Rightarrow> go_error + port_handle" where
  "initBPFPortListener calls ifaceName =
     (case RemoveMemlock calls of
        Some err \<Rightarrow> Inl (''failed to remove memlock limit: '' @ err)
      | None \<Rightarrow>
     (case LoadBPFObjects calls of
        Some err \<Rightarrow> Inl (''loading objects: '' @ err)
      | None \<Rightarrow>
     (case LinkByName calls ifaceName of
        Inl err \<Rightarrow> Inl (''failed to get interface by name '' @ ifaceName @ '': '' @ err)
      | Inr index \<Rightarrow>
     (case AttachTCX calls index of
        Some err \<Rightarrow> Inl (''failed to attach TC program: '' @ err)
      | None \<Rightarrow>
     (case NewReader calls of
        Some err \<Rightarrow> Inl (''failed to create perf event reader: '' @ err)
      | None \<Rightarrow> Inr (new_port_handle index))))))"

text \<open>
  The package's one listener, made by the first call only (\<^verbatim>\<open>sync.Once\<close>): the
  state is whether there has been a call, and the listener, nil when the call failed.
\<close>

definition GetBPFListener ::
  "bpf_calls \<Rightarrow> string \<Rightarrow> bool \<times> port_handle option \<Rightarrow>
   (port_handle option \<times> go_error option) \<times> bool \<times> port_handle option"
where
  "GetBPFListener calls ifaceName st =
     (let (called, listenerInstance) = st in
      if called then ((listenerInstance, None), st)
      else case initBPFPortListener calls ifaceName of
        Inl err \<Rightarrow> ((None, Some err), True, None)
      | Inr h \<Rightarrow> ((Some h, None), True, Some h))"

definition SetScaler :: "port_handle \<Rightarrow> port_handle" where
  "SetScaler h = h\<lparr>port_scaler := True\<rparr>"

definition SetNodeInfo :: "SwarmNodeInfo \<Rightarrow> port_handle \<Rightarrow> port_handle" where
  "SetNodeInfo nodeInfo h = h\<lparr>port_nodeInfo := nodeInfo\<rparr>"

text \<open>Closing a channel that is closed already panics.\<close>

definition Close :: "port_handle \<Rightarrow> port_handle outcome" where
  "Close h =
     (if port_closing h then Panics
      else Returns (h\<lparr>port_link := None, port_reader := False, port_closing := True\<rparr>))"

lemma initBPFPortListener_ok:
  "initBPFPortListener calls ifaceName = Inr h \<longleftrightarrow>
     RemoveMemlock calls = None \<and> LoadBPFObjects calls = None \<and> NewReader calls = None \<and>
     (\<exists>index. LinkByName calls ifaceName = Inr index \<and> AttachTCX calls index = None \<and>
       h = new_port_handle index)"
  by (auto simp: initBPFPortListener_def split: option.splits sum.splits)

text \<open>
  After a call that failed, the next one returns neither a listener nor an error: only the first
  caller learns of the failure.
\<close>

lemma second_call_hides_failure:
  "snd (fst (GetBPFListener calls i (False, None))) = Some err \<Longrightarrow>
   fst (GetBPFListener calls' i' (snd (GetBPFListener calls i (False, None)))) = (None, None)"
  by (simp add: GetBPFListener_def split: sum.splits)

lemma Close_twice: "Close h = Returns h' \<Longrightarrow> Close h' = Panics"
  by (auto simp: Close_def split: if_splits)

section \<open>The tables agree\<close>

text \<open>
  The three tables of the listener: a port in the kernel's map has a service, which is the one
  the listener table shows, and a port that is not in the kernel's map is not shown.
\<close>

definition ports_consistent :: "'m map_ops \<Rightarrow> ('m, 'z) listener_scheme \<Rightarrow> bool" where
  "ports_consistent ops s \<longleftrightarrow>
     (\<forall>p. bpfListenerLogs s p =
            (if map_lookup ops (PortsMap s) p = None then None else portToServiceID s p) \<and>
          (portToServiceID s p = None \<longrightarrow> map_lookup ops (PortsMap s) p = None))"

lemma RemovePort_scalingLogs [simp]:
  "RemovePort ops port (s\<lparr>scalingLogs := l\<rparr>) = apsnd (\<lambda>t. t\<lparr>scalingLogs := l\<rparr>) (RemovePort ops port s)"
  by (simp add: RemovePort_def RemoveBPFListenerLog_def Let_def split: option.split sum.split)

lemma ports_consistent_scalingLogs [simp]: "ports_consistent ops (s\<lparr>scalingLogs := l\<rparr>) = ports_consistent ops s"
  by (simp add: ports_consistent_def)

lemma ports_consistentD:
  assumes "ports_consistent ops s"
  shows "bpfListenerLogs s p = (if map_lookup ops (PortsMap s) p = None then None else portToServiceID s p)"
    and "portToServiceID s p = None \<Longrightarrow> map_lookup ops (PortsMap s) p = None"
  using assms unfolding ports_consistent_def by blast+

lemma ports_consistent_cong:
  assumes "portToServiceID s' = portToServiceID s" "PortsMap s' = PortsMap s"
    "bpfListenerLogs s' = bpfListenerLogs s"
  shows "ports_consistent ops s' = ports_consistent ops s"
  unfolding ports_consistent_def assms ..

context bpf_hash
begin

lemma update_fails_absent: "map_update ops m k v BPF_ANY = Inl e \<Longrightarrow> map_lookup ops m k = None"
  using update_present [of m k _ v] by (cases "map_lookup ops m k") fastforce+

lemma delete_fails_absent: "map_delete ops m k = Inl e \<Longrightarrow> map_lookup ops m k = None"
  using delete_present [of m k] by (cases "map_lookup ops m k") fastforce+

lemma delete_lookup: "map_delete ops m k = Inr m' \<Longrightarrow> map_lookup ops m' = (map_lookup ops m)(k := None)"
  using delete_present [of m k] delete_absent [of m k] by (cases "map_lookup ops m k") fastforce+

lemma ListenOnPort_consistent:
  assumes "ports_consistent ops s"
  shows "ports_consistent ops (snd (ListenOnPort ops port sid s))"
proof (cases "map_update ops (PortsMap s) port 1 BPF_ANY")
  case (Inl e)
  then show ?thesis
    using ports_consistentD [OF assms] update_fails_absent [OF Inl]
    by (simp add: ports_consistent_def ListenOnPort_def)
next
  case (Inr m)
  then show ?thesis
    using ports_consistentD [OF assms] update_inserts [OF Inr]
    by (simp add: ports_consistent_def ListenOnPort_def AddBPFListenerLog_def)
qed

lemma RemovePort_consistent:
  assumes "ports_consistent ops s"
  shows "ports_consistent ops (snd (RemovePort ops port s))"
proof (cases "portToServiceID s port")
  case None
  then show ?thesis using assms by (simp add: RemovePort_def)
next
  case (Some sid)
  show ?thesis
  proof (cases "map_delete ops (PortsMap s) port")
    case (Inl e)
    then show ?thesis
      using ports_consistentD [OF assms] delete_fails_absent [OF Inl] Some
      by (simp add: ports_consistent_def RemovePort_def)
  next
    case (Inr m)
    then show ?thesis
      using ports_consistentD [OF assms] delete_lookup [OF Inr] Some
      by (auto simp: ports_consistent_def RemovePort_def RemoveBPFListenerLog_def split: option.split)
  qed
qed

text \<open>After RemovePort the port is nowhere, whether or not it was listened on.\<close>

lemma RemovePort_removes:
  assumes "ports_consistent ops s"
  shows "portToServiceID (snd (RemovePort ops port s)) port = None"
    and "map_lookup ops (PortsMap (snd (RemovePort ops port s))) port = None"
  using ports_consistentD(2) [OF assms, of port] delete_fails_absent [of "PortsMap s" port]
    delete_removes [of "PortsMap s" port]
  by (auto simp: RemovePort_def RemoveBPFListenerLog_def Let_def split: option.split sum.split)

lemma ListenOnPort_listens:
  assumes "has_room ops (PortsMap s) port"
  shows "fst (ListenOnPort ops port sid s) = None"
    and "portToServiceID (snd (ListenOnPort ops port sid s)) port = Some sid"
    and "map_lookup ops (PortsMap (snd (ListenOnPort ops port sid s))) port = Some 1"
proof -
  obtain m where "map_update ops (PortsMap s) port 1 BPF_ANY = Inr m"
    using assms update_fails_absent [of "PortsMap s" port 1] unfolding has_room_def
    by (cases "map_update ops (PortsMap s) port 1 BPF_ANY") (fastforce dest: spec [of _ BPF_ANY])+
  then show "fst (ListenOnPort ops port sid s) = None"
    "portToServiceID (snd (ListenOnPort ops port sid s)) port = Some sid"
    "map_lookup ops (PortsMap (snd (ListenOnPort ops port sid s))) port = Some 1"
    by (simp_all add: ListenOnPort_def AddBPFListenerLog_def update_inserts)
qed

end

section \<open>The end of the loop\<close>

lemma listen_loop_prefix:
  assumes "\<forall>j. i \<le> j \<and> j < i + k \<longrightarrow> \<not> fst (world j)" "fst (world (i + k)) \<or> snd (world (i + k)) = ReadClosed"
  shows "listen_loop ops net info ScaleTo world i s =
    Some (listenForEvents ops net info ScaleTo (map (snd \<circ> world) [i..<i + k]) s)"
  using assms
proof (induction k arbitrary: i s)
  case 0
  then show ?case by (subst listen_loop.simps) (auto split: perf_read.split)
next
  case (Suc k)
  have IH: "listen_loop ops net info ScaleTo world (Suc i) t =
      Some (listenForEvents ops net info ScaleTo (map (snd \<circ> world) [Suc i..<Suc i + k]) t)" for t
    using Suc.prems by (intro Suc.IH) auto
  have "[i..<i + Suc k] = i # [Suc i..<Suc i + k]" by (simp add: upt_rec)
  then show ?case
    using Suc.prems IH by (subst listen_loop.simps) (auto split: perf_read.split outcome.split prod.split)
qed

section \<open>The Scaler interface\<close>

text \<open>
  What the listener relies on: scaling a service leaves the listener's own tables alone.
\<close>

locale scaler =
  fixes ScaleTo :: "string \<Rightarrow> u64 \<Rightarrow> ('m, 'z) listener_scheme operation"
  assumes ScaleTo_tables:
      "portToServiceID (snd (ScaleTo sid n s)) = portToServiceID s"
      "PortsMap (snd (ScaleTo sid n s)) = PortsMap s"
      "bpfListenerLogs (snd (ScaleTo sid n s)) = bpfListenerLogs s"

locale port_listener = bpf_hash ops + scaler ScaleTo
  for ops :: "'m map_ops" and ScaleTo :: "string \<Rightarrow> u64 \<Rightarrow> ('m, 'z) listener_scheme operation"
begin

lemma handle_sample_tables:
  assumes "4 \<le> length raw" "portToServiceID s (le_u32 (take 4 raw)) = Some sid"
  defines "s1 \<equiv> snd (RemovePort ops (le_u32 (take 4 raw)) s)"
  shows "portToServiceID (snd (handle_sample ops net info ScaleTo raw s)) = portToServiceID s1"
    and "PortsMap (snd (handle_sample ops net info ScaleTo raw s)) = PortsMap s1"
    and "bpfListenerLogs (snd (handle_sample ops net info ScaleTo raw s)) = bpfListenerLogs s1"
  using assms ScaleTo_tables by (simp_all add: handle_sample_def Let_def split_beta)

lemma handle_sample_consistent:
  assumes "ports_consistent ops s"
  shows "ports_consistent ops (snd (handle_sample ops net info ScaleTo raw s))"
proof (cases "4 \<le> length raw \<and> portToServiceID s (le_u32 (take 4 raw)) \<noteq> None")
  case True
  then obtain sid where "4 \<le> length raw" "portToServiceID s (le_u32 (take 4 raw)) = Some sid" by auto
  note tables = handle_sample_tables [OF this]
  show ?thesis
    using ports_consistent_cong [OF tables] RemovePort_consistent [OF assms] by simp
next
  case False
  then show ?thesis using assms by (auto simp: handle_sample_def)
qed

end

end
