(* ===== verification/Go_Float.thy ===== *)
theory Go_Float imports Complex_Main "HOL-Library.Log_Nat" begin

text \<open>
  Go's \<^verbatim>\<open>float64\<close>: binary64 of IEEE 754 with rounding to nearest, ties to even.
  A finite value is the rational it stands for; the sign of zero is dropped, since the sources
  only compare values and never divide by a value that can be zero. The rounding is executable,
  and it is shown to be the nearest value, monotone, exact on integers up to 2^53 and within a
  relative error of 2^-53 elsewhere.
\<close>

section \<open>Rounding\<close>

definition round_even :: "rat \<Rightarrow> int" where
  "round_even x =
     (let f = \<lfloor>x\<rfloor>; d = x - of_int f in
      if d < 1/2 then f else if d > 1/2 then f + 1 else if even f then f else f + 1)"

text \<open>The exponent of a positive rational: \<open>2^e \<le> x < 2^(e+1)\<close>.\<close>

definition exponent :: "rat \<Rightarrow> int" where
  "exponent x =
     (let (p, q) = quotient_of x; e = bitlen p - bitlen q
      in if 2 powi e \<le> x then e else e - 1)"

text \<open>The distance of neighbours at a rational; below 2^-1022 it no longer shrinks.\<close>

definition quantum :: "rat \<Rightarrow> rat" where
  "quantum x = 2 powi (max (exponent \<bar>x\<bar>) (-1022) - 52)"

definition round_quantum :: "rat \<Rightarrow> rat" where
  "round_quantum x = (if x = 0 then 0 else of_int (round_even (x / quantum x)) * quantum x)"

datatype float64 = Finite rat | PosInf | NegInf | NaN

definition round64 :: "rat \<Rightarrow> float64" where
  "round64 x =
     (let y = round_quantum x in
      if y \<ge> 2 ^ 1024 then PosInf else if y \<le> - (2 ^ 1024) then NegInf else Finite y)"

section \<open>Operations\<close>

definition float64_of_int :: "int \<Rightarrow> float64" where
  "float64_of_int n = round64 (of_int n)"

fun fneg :: "float64 \<Rightarrow> float64" where
  "fneg (Finite x) = Finite (- x)"
| "fneg PosInf = NegInf"
| "fneg NegInf = PosInf"
| "fneg NaN = NaN"

fun fadd :: "float64 \<Rightarrow> float64 \<Rightarrow> float64" where
  "fadd (Finite x) (Finite y) = round64 (x + y)"
| "fadd NaN _ = NaN"
| "fadd _ NaN = NaN"
| "fadd PosInf NegInf = NaN"
| "fadd NegInf PosInf = NaN"
| "fadd PosInf _ = PosInf"
| "fadd _ PosInf = PosInf"
| "fadd NegInf _ = NegInf"
| "fadd _ NegInf = NegInf"

fun fsign :: "float64 \<Rightarrow> rat" where
  "fsign (Finite x) = sgn x"
| "fsign PosInf = 1"
| "fsign NegInf = - 1"
| "fsign NaN = 0"

text \<open>An infinite or undefined value of the given sign.\<close>

definition finf :: "rat \<Rightarrow> float64" where
  "finf sg = (if sg > 0 then PosInf else if sg < 0 then NegInf else NaN)"

fun fmul :: "float64 \<Rightarrow> float64 \<Rightarrow> float64" where
  "fmul (Finite x) (Finite y) = round64 (x * y)"
| "fmul x y = finf (fsign x * fsign y)"

text \<open>A zero divisor counts as positive.\<close>

fun fdiv :: "float64 \<Rightarrow> float64 \<Rightarrow> float64" where
  "fdiv (Finite x) (Finite y) = (if y = 0 then finf (sgn x) else round64 (x / y))"
| "fdiv NaN _ = NaN"
| "fdiv _ NaN = NaN"
| "fdiv (Finite x) _ = Finite 0"
| "fdiv x (Finite y) = finf (fsign x * (if y < 0 then - 1 else 1))"
| "fdiv _ _ = NaN"

text \<open>Comparisons with \<open>NaN\<close> are false.\<close>

fun fless :: "float64 \<Rightarrow> float64 \<Rightarrow> bool" where
  "fless (Finite x) (Finite y) = (x < y)"
| "fless (Finite x) PosInf = True"
| "fless NegInf (Finite y) = True"
| "fless NegInf PosInf = True"
| "fless _ _ = False"

definition fle :: "float64 \<Rightarrow> float64 \<Rightarrow> bool" where
  "fle x y \<longleftrightarrow> fless x y \<or> (x = y \<and> x \<noteq> NaN)"

section \<open>Rounding to integers\<close>

lemma round_even_error: "\<bar>of_int (round_even x) - x\<bar> \<le> 1/2"
  using floor_correct [of x] by (auto simp: round_even_def Let_def)

lemma round_even_of_int [simp]: "round_even (of_int n) = n"
  by (simp add: round_even_def)

lemma round_even_minus: "round_even (- x) = - round_even x"
proof (cases "x = of_int \<lfloor>x\<rfloor>")
  case True
  then show ?thesis by (metis of_int_minus round_even_of_int)
next
  case False
  then have f: "\<lfloor>- x\<rfloor> = - \<lfloor>x\<rfloor> - 1"
    using floor_correct [of x] by (intro floor_unique) (auto simp: not_less le_less)
  show ?thesis by (auto simp: round_even_def Let_def f)
qed

lemma round_even_mono: "x \<le> y \<Longrightarrow> round_even x \<le> round_even y"
proof -
  assume xy: "x \<le> y"
  then have "\<lfloor>x\<rfloor> \<le> \<lfloor>y\<rfloor>" by (rule floor_mono)
  then consider "\<lfloor>x\<rfloor> = \<lfloor>y\<rfloor>" | "\<lfloor>x\<rfloor> + 1 \<le> \<lfloor>y\<rfloor>" by linarith
  then show ?thesis
  proof cases
    case 1
    then show ?thesis using xy by (auto simp: round_even_def Let_def)
  next
    case 2
    have "round_even x \<le> \<lfloor>x\<rfloor> + 1" "\<lfloor>y\<rfloor> \<le> round_even y" by (simp_all add: round_even_def Let_def)
    with 2 show ?thesis by linarith
  qed
qed

section \<open>Exponents\<close>

lemma bitlen_rat:
  assumes "0 < n"
  shows "2 powi (bitlen n - 1) \<le> (of_int n :: rat)" "(of_int n :: rat) < 2 powi bitlen n"
proof -
  have "0 < bitlen n" using assms bitlen_nonneg [of n] bitlen_eq_zero_iff [of n] by linarith
  then obtain k where k: "bitlen n = int k + 1" by (metis add.commute zle_iff_zadd zless_iff_Suc_zadd int_ops(4) of_nat_Suc less_le_not_le int_one_le_iff_zero_less)
  have "2 ^ k \<le> n \<and> n < 2 ^ Suc k" using bitlen_bounds [OF assms] by (simp add: k nat_add_distrib)
  then have "of_int (2 ^ k) \<le> (of_int n :: rat)" "(of_int n :: rat) < of_int (2 ^ Suc k)"
    by (simp_all only: of_int_le_iff of_int_less_iff)
  then show "2 powi (bitlen n - 1) \<le> (of_int n :: rat)" "(of_int n :: rat) < 2 powi bitlen n"
    by (simp_all add: k power_int_add)
qed

lemma exponent_bounds:
  assumes "0 < x"
  shows "2 powi exponent x \<le> x" "x < 2 powi (exponent x + 1)"
proof -
  obtain p q where pq: "quotient_of x = (p, q)" by force
  then have q: "0 < q" and x: "x = of_int p / of_int q"
    by (simp_all add: quotient_of_denom_pos quotient_of_div)
  with assms have p: "0 < p" by (simp add: zero_less_divide_iff)
  let ?e = "bitlen p - bitlen q"
  have bp: "2 powi (bitlen p - 1) \<le> (of_int p :: rat)" "(of_int p :: rat) < 2 powi bitlen p"
    and bq: "2 powi (bitlen q - 1) \<le> (of_int q :: rat)" "(of_int q :: rat) < 2 powi bitlen q"
    by (rule bitlen_rat [OF p] bitlen_rat [OF q])+
  have "x < 2 powi bitlen p / 2 powi (bitlen q - 1)"
    unfolding x using bp(2) bq(1) p q by (intro frac_less) auto
  also have "\<dots> = 2 powi (?e + 1)" by (simp add: algebra_simps flip: power_int_diff)
  finally have "x < 2 powi (?e + 1)" .
  moreover have "2 powi (bitlen p - 1) / 2 powi bitlen q \<le> x"
    unfolding x using bp(1) bq(2) p q by (intro frac_le) auto
  then have "2 powi (?e - 1) \<le> x" by (simp add: algebra_simps flip: power_int_diff)
  ultimately show "2 powi exponent x \<le> x" "x < 2 powi (exponent x + 1)"
    by (auto simp: exponent_def pq Let_def)
qed

lemma exponent_unique:
  assumes "2 powi e \<le> x" "x < 2 powi (e + 1)"
  shows "exponent x = e"
proof -
  have "0 < x" using assms(1) by (meson less_le_trans zero_less_numeral zero_less_power_int)
  note b = exponent_bounds [OF this]
  have "2 powi e < (2 :: rat) powi (exponent x + 1)" "2 powi exponent x < (2 :: rat) powi (e + 1)"
    using assms b by linarith+
  then have "e < exponent x + 1" "exponent x < e + 1"
    by (meson not_less one_le_numeral power_int_increasing zero_le_numeral)+
  then show ?thesis by linarith
qed


lemma exponent_mono: "0 < x \<Longrightarrow> x \<le> y \<Longrightarrow> exponent x \<le> exponent y"
proof -
  assume x: "0 < x" and xy: "x \<le> y"
  then have "(2 :: rat) powi exponent x < 2 powi (exponent y + 1)"
    using exponent_bounds(1) [of x] exponent_bounds(2) [of y] by linarith
  then have "exponent x < exponent y + 1"
    by (meson not_less one_le_numeral power_int_increasing)
  then show ?thesis by simp
qed

section \<open>Rounding to a quantum\<close>

lemma quantum_pos [simp]: "0 < quantum x"
  by (simp add: quantum_def)

lemma quantum_minus [simp]: "quantum (- x) = quantum x"
  by (simp add: quantum_def)

lemma round_quantum_minus: "round_quantum (- x) = - round_quantum x"
  by (simp add: round_quantum_def round_even_minus)

lemma round_quantum_error: "\<bar>round_quantum x - x\<bar> \<le> quantum x / 2"
proof (cases "x = 0")
  case False
  have "round_quantum x - x = (of_int (round_even (x / quantum x)) - x / quantum x) * quantum x"
    using False by (simp add: round_quantum_def left_diff_distrib less_imp_neq [OF quantum_pos, symmetric])
  then have "\<bar>round_quantum x - x\<bar> = \<bar>of_int (round_even (x / quantum x)) - x / quantum x\<bar> * quantum x"
    by (simp add: abs_mult less_imp_le)
  also have "\<dots> \<le> 1/2 * quantum x"
    by (rule mult_right_mono [OF round_even_error]) (simp add: less_imp_le)
  finally show ?thesis by simp
qed (simp add: round_quantum_def less_imp_le)

text \<open>The relative error in the normal range.\<close>

lemma round_quantum_relative:
  assumes "2 powi (-1022) \<le> \<bar>x\<bar>"
  shows "\<bar>round_quantum x - x\<bar> \<le> \<bar>x\<bar> / 2 ^ 53"
proof -
  have x: "0 < \<bar>x\<bar>" using assms by (meson less_le_trans zero_less_numeral zero_less_power_int)
  have "exponent \<bar>x\<bar> \<ge> -1022"
  proof (rule ccontr)
    assume "\<not> ?thesis"
    then have "2 powi (exponent \<bar>x\<bar> + 1) \<le> (2 :: rat) powi (-1022)"
      by (intro power_int_increasing) auto
    with exponent_bounds(2) [OF x] assms show False by linarith
  qed
  then have "quantum x = 2 powi (exponent \<bar>x\<bar>) / 2 ^ 52"
    by (simp add: quantum_def max_def power_int_diff)
  also have "\<dots> \<le> \<bar>x\<bar> / 2 ^ 52" using exponent_bounds(1) [OF x] by (simp add: divide_right_mono)
  finally show ?thesis using round_quantum_error [of x] by simp
qed

lemma round_quantum_pos_mono:
  assumes "0 < x" "x \<le> y"
  shows "round_quantum x \<le> round_quantum y"
proof (cases "quantum x = quantum y")
  case True
  have "x / quantum y \<le> y / quantum y" using assms by (simp add: divide_right_mono less_imp_le)
  then have "of_int (round_even (x / quantum y)) * quantum y \<le> of_int (round_even (y / quantum y)) * quantum y"
    by (intro mult_right_mono) (simp_all add: round_even_mono less_imp_le)
  with assms True show ?thesis by (simp add: round_quantum_def)
next
  case False
  have y: "0 < y" using assms by simp
  let ?ex = "max (exponent x) (-1022)"
  have "max (exponent x) (-1022) \<noteq> max (exponent y) (-1022)"
    using False assms(1) y by (auto simp: quantum_def)
  then have ey: "?ex < exponent y" "-1022 < exponent y" using exponent_mono [OF assms] by linarith+
  have qx: "quantum x = 2 powi (?ex + 1) / 2 ^ 53" and qy: "quantum y = 2 powi exponent y / 2 ^ 52"
    using assms y ey(2) by (simp_all add: quantum_def power_int_diff power_int_add max_def)
  have "x < 2 powi (?ex + 1)"
    using exponent_bounds(2) [OF assms(1)] by (rule less_le_trans) (simp add: power_int_increasing)
  then have "x / quantum x \<le> of_int (2 ^ 53)" by (simp add: qx divide_simps)
  then have "round_even (x / quantum x) \<le> 2 ^ 53" by (metis round_even_mono round_even_of_int)
  then have "of_int (round_even (x / quantum x)) \<le> (2 ^ 53 :: rat)" by (metis of_int_le_iff of_int_numeral of_int_power)
  then have "of_int (round_even (x / quantum x)) * quantum x \<le> 2 ^ 53 * quantum x"
    by (rule mult_right_mono) (simp add: less_imp_le)
  also have "\<dots> = 2 powi (?ex + 1)" by (simp add: qx)
  also have "\<dots> \<le> 2 powi exponent y" using ey by (intro power_int_increasing) auto
  also have "\<dots> = 2 ^ 52 * quantum y" by (simp add: qy)
  also have "\<dots> \<le> of_int (round_even (y / quantum y)) * quantum y"
  proof (rule mult_right_mono)
    have "of_int (2 ^ 52) \<le> y / quantum y" using exponent_bounds(1) [OF y] by (simp add: qy divide_simps)
    then have "2 ^ 52 \<le> round_even (y / quantum y)" by (metis round_even_mono round_even_of_int)
    then show "2 ^ 52 \<le> (of_int (round_even (y / quantum y)) :: rat)" by (metis of_int_le_iff of_int_numeral of_int_power)
  qed (simp add: less_imp_le)
  finally show ?thesis using assms y by (simp add: round_quantum_def)
qed

lemma round_quantum_nonneg: "0 \<le> x \<Longrightarrow> 0 \<le> round_quantum x"
proof -
  assume "0 \<le> x"
  then have "round_even (of_int 0) \<le> round_even (x / quantum x)"
    by (intro round_even_mono) (simp add: less_imp_le)
  then have "0 \<le> round_even (x / quantum x)" using round_even_of_int [of 0] by simp
  then show ?thesis by (simp add: round_quantum_def less_imp_le)
qed

lemma round_quantum_mono: "x \<le> y \<Longrightarrow> round_quantum x \<le> round_quantum y"
proof -
  assume xy: "x \<le> y"
  consider "0 < x" | "x \<le> 0" "0 \<le> y" | "y < 0" using xy by linarith
  then show ?thesis
  proof cases
    case 1
    then show ?thesis using xy by (rule round_quantum_pos_mono)
  next
    case 2
    then show ?thesis
      using round_quantum_nonneg [of y] round_quantum_nonneg [of "- x"] by (simp add: round_quantum_minus)
  next
    case 3
    then have "round_quantum (- y) \<le> round_quantum (- x)" using xy by (intro round_quantum_pos_mono) auto
    then show ?thesis by (simp add: round_quantum_minus)
  qed
qed

lemma abs_eq_powerE:
  assumes "\<bar>n\<bar> = (2 :: int) ^ 53"
  obtains "n = 2 ^ 53" | "n = - (2 ^ 53)"
  using assms by linarith

lemma round_quantum_int:
  assumes "\<bar>n\<bar> \<le> 2 ^ 53"
  shows "round_quantum (of_int n) = of_int n"
proof (cases "n = 0")
  case False
  let ?x = "of_int \<bar>n\<bar> :: rat"
  have x: "1 \<le> ?x" using False by (metis of_int_1_le_iff abs_ge_zero int_one_le_iff_zero_less zero_less_abs_iff)
  have e0: "0 \<le> exponent ?x"
    using exponent_mono [of 1 ?x] x exponent_unique [of 0 1] by simp
  have "\<exists>m. (of_int n :: rat) / quantum (of_int n) = of_int m"
  proof (cases "exponent ?x \<le> 52")
    case True
    then have "quantum (of_int n) = 1 / 2 ^ nat (52 - exponent ?x)"
      using e0 by (simp add: quantum_def max_def power_int_def field_simps)
    then have "(of_int n :: rat) / quantum (of_int n) = of_int (n * 2 ^ nat (52 - exponent ?x))" by simp
    then show ?thesis ..
  next
    case False
    have "(of_int \<bar>n\<bar> :: rat) \<le> of_int (2 ^ 53)" using assms by (simp only: of_int_le_iff)
    moreover have "(2 :: rat) powi 53 \<le> 2 powi exponent ?x" using False by (intro power_int_increasing) auto
    moreover have "2 powi exponent ?x \<le> ?x" by (rule exponent_bounds) (use x in simp)
    ultimately have "?x = 2 ^ 53" by simp
    then have "\<bar>n\<bar> = 2 ^ 53" by (metis of_int_eq_iff of_int_numeral of_int_power)
    moreover have "exponent (2 ^ 53) = 53" by (rule exponent_unique) simp_all
    moreover have "\<bar>of_int n :: rat\<bar> = 2 ^ 53" using \<open>?x = 2 ^ 53\<close> by simp
    ultimately have "quantum (of_int n) = 2" by (simp add: quantum_def)
    then have "(of_int n :: rat) / quantum (of_int n) = of_int (n div 2)"
      using \<open>\<bar>n\<bar> = 2 ^ 53\<close> by (elim abs_eq_powerE) simp_all
    then show ?thesis ..
  qed
  then obtain m where m: "(of_int n :: rat) / quantum (of_int n) = of_int m" ..
  then have "round_quantum (of_int n) = of_int n / quantum (of_int n) * quantum (of_int n)"
    using False by (simp add: round_quantum_def)
  then show ?thesis by (simp add: less_imp_neq [OF quantum_pos, symmetric])
qed (simp add: round_quantum_def)


section \<open>Values in range\<close>

lemma round_quantum_0 [simp]: "round_quantum 0 = 0"
  by (simp add: round_quantum_def)

lemma round_quantum_abs: "\<bar>round_quantum x\<bar> \<le> 2 * \<bar>x\<bar> + 1"
proof (cases "2 powi (-1022) \<le> \<bar>x\<bar>")
  case True
  have "\<bar>x\<bar> / 2 ^ 53 \<le> \<bar>x\<bar>" by (simp add: divide_le_eq)
  with round_quantum_relative [OF True] show ?thesis by linarith
next
  case False
  show ?thesis
  proof (cases "x = 0")
    case xne: False
    have "(2 :: rat) powi exponent \<bar>x\<bar> < 2 powi (-1022)"
      using exponent_bounds(1) [of "\<bar>x\<bar>"] xne False by linarith
    then have "exponent \<bar>x\<bar> < -1022" by (meson not_less one_le_numeral power_int_increasing)
    then have "quantum x / 2 \<le> 1" by (simp add: quantum_def max_def)
    with round_quantum_error [of x] show ?thesis by linarith
  qed simp
qed

lemma round64_finite: "\<bar>x\<bar> \<le> 2 ^ 1000 \<Longrightarrow> round64 x = Finite (round_quantum x)"
proof -
  assume "\<bar>x\<bar> \<le> 2 ^ 1000"
  moreover have "2 * (2 :: rat) ^ 1000 + 1 < 2 ^ 1024" by simp
  ultimately have "\<bar>round_quantum x\<bar> < 2 ^ 1024" using round_quantum_abs [of x] by linarith
  then have "round_quantum x < 2 ^ 1024" "- (2 ^ 1024) < round_quantum x" by (simp_all only: abs_less_iff) linarith
  then show ?thesis by (simp only: round64_def Let_def not_le [symmetric] if_False)
qed

lemma round64_cases:
  obtains (pos) "round64 x = PosInf" "2 ^ 1024 \<le> round_quantum x"
  | (neg) "round64 x = NegInf" "round_quantum x \<le> - (2 ^ 1024)"
  | (fin) "round64 x = Finite (round_quantum x)"
proof (cases "2 ^ 1024 \<le> round_quantum x")
  case True
  then show ?thesis by (intro pos) (simp_all only: round64_def Let_def if_True)
next
  case no: False
  show ?thesis
  proof (cases "round_quantum x \<le> - (2 ^ 1024)")
    case True
    with no show ?thesis by (intro neg) (simp_all only: round64_def Let_def if_True if_False)
  next
    case False
    with no show ?thesis by (intro fin) (simp_all only: round64_def Let_def if_False)
  qed
qed

lemma fless_round64:
  assumes "\<bar>c\<bar> < 2 ^ 1024"
  shows "fless (Finite c) (round64 x) \<longleftrightarrow> c < round_quantum x"
    and "fless (round64 x) (Finite c) \<longleftrightarrow> round_quantum x < c"
proof -
  have c: "c < 2 ^ 1024" "- (2 ^ 1024) < c" using assms by (simp_all only: abs_less_iff) linarith
  have "(fless (Finite c) (round64 x) \<longleftrightarrow> c < round_quantum x) \<and>
    (fless (round64 x) (Finite c) \<longleftrightarrow> round_quantum x < c)"
  proof (cases x rule: round64_cases)
    case pos
    with c(1) have "c < round_quantum x" by (meson less_le_trans)
    with pos(1) show ?thesis by simp
  next
    case neg
    with c(2) have "round_quantum x < c" by (meson le_less_trans)
    with neg(1) show ?thesis by simp
  qed simp
  then show "fless (Finite c) (round64 x) \<longleftrightarrow> c < round_quantum x"
    and "fless (round64 x) (Finite c) \<longleftrightarrow> round_quantum x < c" by simp_all
qed

lemma float64_of_small_int: "\<bar>n\<bar> \<le> 2 ^ 53 \<Longrightarrow> float64_of_int n = Finite (of_int n)"
proof -
  assume n: "\<bar>n\<bar> \<le> 2 ^ 53"
  then have "\<bar>of_int n :: rat\<bar> \<le> of_int (2 ^ 53)" by (metis of_int_abs of_int_le_iff)
  moreover have "of_int (2 ^ 53) \<le> (2 :: rat) ^ 1000" by simp
  ultimately have "round64 (of_int n) = Finite (round_quantum (of_int n))"
    by (intro round64_finite) linarith
  with n show ?thesis by (simp add: float64_of_int_def round_quantum_int)
qed

text \<open>Comparing an exact integer with any other is the comparison of the integers.\<close>

lemma fless_int:
  assumes "\<bar>n\<bar> < 2 ^ 53"
  shows "fless (float64_of_int n) (float64_of_int m) \<longleftrightarrow> n < m"
    and "fless (float64_of_int m) (float64_of_int n) \<longleftrightarrow> m < n"
proof -
  have n: "float64_of_int n = Finite (of_int n)" using assms by (simp add: float64_of_small_int)
  have "\<bar>of_int n :: rat\<bar> < of_int (2 ^ 53)" using assms by (metis of_int_abs of_int_less_iff)
  then have c: "\<bar>of_int n :: rat\<bar> < 2 ^ 1024" by (rule less_trans) simp
  have above: "of_int n < round_quantum (of_int m)" if "n < m"
    using round_quantum_mono [of "of_int (n + 1)" "of_int m"] that assms
      round_quantum_int [of "n + 1"] by (simp del: of_int_add)
  have below: "round_quantum (of_int m) < of_int n" if "m < n"
    using round_quantum_mono [of "of_int m" "of_int (n - 1)"] that assms
      round_quantum_int [of "n - 1"] by (simp del: of_int_diff)
  have "round_quantum (of_int n) = of_int n" using assms by (simp add: round_quantum_int)
  then show "fless (float64_of_int n) (float64_of_int m) \<longleftrightarrow> n < m"
    and "fless (float64_of_int m) (float64_of_int n) \<longleftrightarrow> m < n"
    unfolding n unfolding float64_of_int_def fless_round64 [OF c]
    using above below by (cases n m rule: linorder_cases; fastforce)+
qed


section \<open>Accumulated error\<close>

text \<open>
  \<open>approx k v u\<close>: the computed \<open>v\<close> is within the error of \<open>k\<close> roundings of the exact
  value \<open>u\<close>.
\<close>

definition approx :: "nat \<Rightarrow> rat \<Rightarrow> rat \<Rightarrow> bool" where
  "approx k v u \<longleftrightarrow> 0 \<le> u \<and> 0 \<le> v \<and> u * (1 - 1 / 2 ^ 53) ^ k \<le> v \<and> v * (1 - 1 / 2 ^ 53) ^ k \<le> u"

lemma approx_refl: "0 \<le> u \<Longrightarrow> approx 0 u u"
  by (simp add: approx_def)

lemma approx_weaken:
  assumes "approx j v u" "j \<le> k"
  shows "approx k v u"
proof -
  have "(1 - 1 / 2 ^ 53 :: rat) ^ k \<le> (1 - 1 / 2 ^ 53) ^ j"
    by (rule power_decreasing [OF assms(2)]) simp_all
  then have "w * (1 - 1 / 2 ^ 53) ^ k \<le> w * (1 - 1 / 2 ^ 53) ^ j" if "0 \<le> w" for w :: rat
    using that by (rule mult_left_mono)
  from this [of u] this [of v] assms(1) show ?thesis unfolding approx_def by linarith
qed

lemma approx_round:
  assumes "approx k v u" "v = 0 \<or> 2 powi (-1022) \<le> v"
  shows "approx (Suc k) (round_quantum v) u"
proof (cases "v = 0")
  case True
  have "approx (Suc k) v u" by (rule approx_weaken [OF assms(1)]) simp
  with True show ?thesis by simp
next
  case False
  let ?r = "1 - 1 / 2 ^ 53 :: rat"
  have v: "0 \<le> v" "u * ?r ^ k \<le> v" "v * ?r ^ k \<le> u" using assms(1) by (auto simp: approx_def)
  have e: "\<bar>round_quantum v - v\<bar> \<le> v / 2 ^ 53"
    using round_quantum_relative [of v] assms(2) False v(1) by simp
  then have lo: "v * ?r \<le> round_quantum v" and hi: "round_quantum v \<le> v * (1 + 1 / 2 ^ 53)"
    unfolding abs_le_iff by (simp_all add: right_diff_distrib distrib_left)
  have "u * ?r ^ Suc k = u * ?r ^ k * ?r" by simp
  also have "\<dots> \<le> v * ?r" using v(2) by (rule mult_right_mono) simp
  finally have "u * ?r ^ Suc k \<le> round_quantum v" using lo by linarith
  moreover have "round_quantum v * ?r ^ Suc k \<le> u"
  proof -
    have "round_quantum v * ?r \<le> v * (1 + 1 / 2 ^ 53) * ?r" using hi by (rule mult_right_mono) simp
    also have "\<dots> \<le> v" using v(1) by simp
    finally have "round_quantum v * ?r * ?r ^ k \<le> v * ?r ^ k" by (rule mult_right_mono) simp
    then show ?thesis using v(3) unfolding power_Suc mult.assoc by (rule order_trans)
  qed
  ultimately show ?thesis
    using assms(1) round_quantum_nonneg [OF v(1)] by (simp add: approx_def)
qed

lemma approx_mult:
  assumes "approx j v u" "approx k v' u'"
  shows "approx (j + k) (v * v') (u * u')"
proof -
  let ?r = "1 - 1 / 2 ^ 53 :: rat"
  have r: "0 \<le> ?r ^ n" for n by simp
  have "(u * ?r ^ j) * (u' * ?r ^ k) \<le> v * v'" "(v * ?r ^ j) * (v' * ?r ^ k) \<le> u * u'"
    using assms r by (auto simp: approx_def intro!: mult_mono mult_nonneg_nonneg)
  with assms show ?thesis by (simp add: approx_def power_add ac_simps)
qed

lemma approx_inverse:
  assumes "approx k v u" "0 < u" "0 < v"
  shows "approx k (1 / v) (1 / u)"
  using assms by (simp add: approx_def field_simps)

lemma approx_divide:
  assumes "approx j v u" "approx k v' u'" "0 < u'" "0 < v'"
  shows "approx (j + k) (v / v') (u / u')"
  using approx_mult [OF assms(1) approx_inverse [OF assms(2-4)]] by simp

lemma approx_add:
  assumes "approx j v u" "approx k v' u'" "j \<le> k"
  shows "approx k (v + v') (u + u')"
  using approx_weaken [OF assms(1,3)] assms(2) by (simp add: approx_def distrib_right)


lemma approx_range:
  assumes "approx k v u" "k \<le> 8"
  shows "u / 2 \<le> v" "v \<le> 2 * u"
proof -
  have w: "approx 8 v u" using assms by (rule approx_weaken)
  have half: "1 / 2 \<le> (1 - 1 / 2 ^ 53 :: rat) ^ 8" by (simp add: power_divide)
  then have "u * (1 / 2) \<le> u * (1 - 1 / 2 ^ 53) ^ 8" "v * (1 / 2) \<le> v * (1 - 1 / 2 ^ 53) ^ 8"
    using w by (auto simp only: approx_def intro!: mult_left_mono)
  then show "u / 2 \<le> v" "v \<le> 2 * u" using w unfolding approx_def by linarith+
qed

text \<open>One more operation on a value of ordinary size.\<close>

lemma approx_step:
  assumes "approx k v u" "k \<le> 8" "u = 0 \<or> 2 powi (-1000) \<le> u" "u \<le> 2 ^ 900"
  obtains w where "round64 v = Finite w" "approx (Suc k) w u"
proof -
  note r = approx_range [OF assms(1,2)]
  have v: "0 \<le> v" "0 \<le> u" using assms(1) by (simp_all add: approx_def)
  have "2 * (2 :: rat) ^ 900 \<le> 2 ^ 1000" by simp
  then have "\<bar>v\<bar> \<le> 2 ^ 1000" using r(2) assms(4) v(1) by linarith
  moreover have "v = 0 \<or> 2 powi (-1022) \<le> v"
  proof (cases "u = 0")
    case True
    with r v show ?thesis by simp
  next
    case False
    have "2 * 2 powi (-1022) \<le> (2 :: rat) powi (-1000)" by (simp add: power_int_def field_simps)
    with False assms(3) r(1) show ?thesis by linarith
  qed
  ultimately show ?thesis using that round64_finite approx_round [OF assms(1)] by blast
qed

end
