(* ===== verification/Go_Duration.thy ===== *)
theory Go_Duration imports Go_Prelude Go_Float "HOL-Library.Signed_Division" begin

text \<open>
  Go's \<^verbatim>\<open>time.Duration\<close>, a signed 64-bit count of nanoseconds: its value in
  seconds and \<^verbatim>\<open>time.ParseDuration\<close>, which the process applies to the periods
  of its configuration. Strings are byte strings; the micro sign is two bytes.
\<close>

section \<open>Seconds\<close>

definition Seconds :: "int \<Rightarrow> float64" where
  "Seconds d = fadd (float64_of_int (d sdiv 10 ^ 9)) (fdiv (float64_of_int (d smod 10 ^ 9)) (Finite (10 ^ 9)))"

section \<open>Parsing\<close>

text \<open>A run of digits as a number up to 2^63, with what follows it; \<open>None\<close> on overflow.\<close>

fun leadingInt :: "nat \<Rightarrow> string \<Rightarrow> (nat \<times> string) option" where
  "leadingInt x [] = Some (x, [])"
| "leadingInt x (c # s) =
     (if \<not> is_digit c then Some (x, c # s)
      else if x > 2 ^ 63 div 10 then None
      else (let y = x * 10 + digit_value c in if y > 2 ^ 63 then None else leadingInt y s))"

text \<open>
  A run of digits as a fraction: the digits up to overflow and ten to their number; the rest of
  the digits is skipped.
\<close>

fun leadingFraction :: "nat \<Rightarrow> float64 \<Rightarrow> bool \<Rightarrow> string \<Rightarrow> nat \<times> float64 \<times> string" where
  "leadingFraction x scale overflow [] = (x, scale, [])"
| "leadingFraction x scale overflow (c # s) =
     (if \<not> is_digit c then (x, scale, c # s)
      else if overflow then leadingFraction x scale True s
      else if x > (2 ^ 63 - 1) div 10 then leadingFraction x scale True s
      else (let y = x * 10 + digit_value c in
            if y > 2 ^ 63 then leadingFraction x scale True s
            else leadingFraction y (fmul scale (Finite 10)) False s))"

definition unit_map :: "string \<Rightarrow> nat option" where
  "unit_map = [''ns'' \<mapsto> 1, ''us'' \<mapsto> 10 ^ 3, [CHR 0xC2, CHR 0xB5, CHR ''s''] \<mapsto> 10 ^ 3,
     [CHR 0xCE, CHR 0xBC, CHR ''s''] \<mapsto> 10 ^ 3, ''ms'' \<mapsto> 10 ^ 6, ''s'' \<mapsto> 10 ^ 9,
     ''m'' \<mapsto> 60 * 10 ^ 9, ''h'' \<mapsto> 3600 * 10 ^ 9]"

text \<open>\<^verbatim>\<open>uint64(f * (unit / scale))\<close> in float64, cut towards zero.\<close>

definition fraction_of_unit :: "nat \<Rightarrow> nat \<Rightarrow> float64 \<Rightarrow> nat" where
  "fraction_of_unit f unit scale =
     (case fmul (float64_of_int (int f)) (fdiv (float64_of_int (int unit)) scale) of
        Finite x \<Rightarrow> nat \<lfloor>x\<rfloor>
      | _ \<Rightarrow> 0)"

definition unit_char :: "char \<Rightarrow> bool" where
  "unit_char c \<longleftrightarrow> c \<noteq> CHR ''.'' \<and> \<not> is_digit c"

text \<open>One number with its unit: the nanoseconds and what follows.\<close>

definition duration_part :: "string \<Rightarrow> (nat \<times> string) option" where
  "duration_part s =
     (if s = [] \<or> \<not> (hd s = CHR ''.'' \<or> is_digit (hd s)) then None
      else case leadingInt 0 s of
        None \<Rightarrow> None
      | Some (v, s1) \<Rightarrow>
         (let pre = (length s1 \<noteq> length s);
              (f, scale, s2, post) =
                (if s1 \<noteq> [] \<and> hd s1 = CHR ''.'' then
                   (let (f, scale, s2) = leadingFraction 0 (Finite 1) False (tl s1)
                    in (f, scale, s2, length s2 \<noteq> length (tl s1)))
                 else (0, Finite 1, s1, False));
              u = takeWhile unit_char s2; s3 = dropWhile unit_char s2
          in if \<not> pre \<and> \<not> post then None
             else if u = [] then None
             else case unit_map u of
               None \<Rightarrow> None
             | Some unit \<Rightarrow>
                 if v > 2 ^ 63 div unit then None
                 else (let w = v * unit + (if f > 0 then fraction_of_unit f unit scale else 0)
                       in if w > 2 ^ 63 then None else Some (w, s3))))"

lemma leadingInt_length: "leadingInt x s = Some (y, s') \<Longrightarrow> length s' \<le> length s"
  by (induction x s rule: leadingInt.induct) (fastforce simp: Let_def split: if_splits)+

lemma leadingFraction_length: "length (snd (snd (leadingFraction x sc b s))) \<le> length s"
  by (induction x sc b s rule: leadingFraction.induct) (auto simp: Let_def le_SucI)

text \<open>Every part consumes at least its unit, which makes the loop end.\<close>

lemma duration_part_length:
  assumes "duration_part s = Some (w, s')"
  shows "length s' < length s"
proof -
  obtain v s1 where s1: "leadingInt 0 s = Some (v, s1)"
    using assms by (auto simp: duration_part_def split: if_splits option.splits)
  define t where "t = (if s1 \<noteq> [] \<and> hd s1 = CHR ''.'' then
      snd (snd (leadingFraction 0 (Finite 1) False (tl s1))) else s1)"
  have "s' = dropWhile unit_char t" "takeWhile unit_char t \<noteq> []"
    using assms s1 by (auto simp: duration_part_def t_def Let_def split: if_splits option.splits prod.splits)
  moreover have "length t \<le> length s1"
    using leadingFraction_length [of 0 "Finite 1" False "tl s1"] by (auto simp: t_def)
  moreover have "length t = length (takeWhile unit_char t) + length (dropWhile unit_char t)"
    by (metis length_append takeWhile_dropWhile_id)
  ultimately show ?thesis using leadingInt_length [OF s1] by (cases "takeWhile unit_char t") auto
qed

text \<open>The sum of the parts, in 64 bits.\<close>

function duration_parts :: "nat \<Rightarrow> string \<Rightarrow> nat option" where
  "duration_parts d s =
     (if s = [] then Some d
      else case duration_part s of
        None \<Rightarrow> None
      | Some (w, s') \<Rightarrow>
         (let d' = (d + w) mod 2 ^ 64 in if d' > 2 ^ 63 then None else duration_parts d' s'))"
  by pat_completeness auto
termination
  by (relation "measure (\<lambda>(d, s). length s)") (auto dest: duration_part_length)

declare duration_parts.simps [simp del]

definition ParseDuration :: "string \<Rightarrow> int option" where
  "ParseDuration orig =
     (let neg = (orig \<noteq> [] \<and> hd orig = CHR ''-'');
          s = (if orig \<noteq> [] \<and> (hd orig = CHR ''-'' \<or> hd orig = CHR ''+'') then tl orig else orig)
      in if s = ''0'' then Some 0
         else if s = [] then None
         else case duration_parts 0 s of
           None \<Rightarrow> None
         | Some d \<Rightarrow>
             if neg then Some (- int d) else if d > 2 ^ 63 - 1 then None else Some (int d))"

section \<open>Whole numbers of a unit\<close>

lemma decimal_value_append:
  "decimal_value (xs @ [c]) = 10 * decimal_value xs + digit_value c"
  by (simp add: decimal_value_def)

lemma decimal_fold_mono: "(n::nat) \<le> foldl (\<lambda>n c. 10 * n + digit_value c) n s"
proof (induction s arbitrary: n)
  case (Cons c s)
  have "n \<le> 10 * n + digit_value c" by simp
  also have "\<dots> \<le> foldl (\<lambda>n c. 10 * n + digit_value c) (10 * n + digit_value c) s" by (rule Cons)
  finally show ?case by simp
qed simp

lemma leadingInt_digits:
  assumes "list_all is_digit ds" "foldl (\<lambda>n c. 10 * n + digit_value c) x ds \<le> 2 ^ 63"
    and "rest = [] \<or> \<not> is_digit (hd rest)"
  shows "leadingInt x (ds @ rest) = Some (foldl (\<lambda>n c. 10 * n + digit_value c) x ds, rest)"
  using assms(1,2)
proof (induction ds arbitrary: x)
  case Nil
  then show ?case using assms(3) by (cases rest) auto
next
  case (Cons c ds)
  let ?y = "10 * x + digit_value c"
  have "?y \<le> 2 ^ 63" using Cons.prems(2) decimal_fold_mono [of ?y ds] by simp
  then have "x \<le> 2 ^ 63 div 10" "x * 10 + digit_value c \<le> 2 ^ 63" by simp_all
  with Cons show ?case by (simp add: Let_def mult.commute)
qed

lemma duration_part_whole:
  assumes "unit_map u = Some k" "list_all unit_char u" "u \<noteq> []" "n * k \<le> 2 ^ 63" "0 < k"
  shows "duration_part (dec_digits n @ u) = Some (n * k, [])"
proof -
  have n: "n \<le> 2 ^ 63 div k" using assms(4,5) by (simp add: less_eq_div_iff_mult_less_eq)
  then have n63: "n \<le> 2 ^ 63" using div_le_dividend le_trans by blast
  have u: "\<not> is_digit (hd u)" "hd u \<noteq> CHR ''.''" using assms(2,3) by (cases u; simp add: unit_char_def)+
  have "leadingInt 0 (dec_digits n @ u) = Some (n, u)"
    using leadingInt_digits [OF dec_digits_digits, of 0 n u] u n63 decimal_value_dec_digits [of n]
    by (simp add: decimal_value_def)
  moreover have "is_digit (hd (dec_digits n))"
    using dec_digits_digits [of n] by (cases "dec_digits n") (auto simp: list_all_iff)
  moreover have "takeWhile unit_char u = u" "dropWhile unit_char u = []"
    using assms(2) by (auto simp: list_all_iff)
  ultimately show ?thesis
    using assms n u
    by (simp add: duration_part_def not_less Let_def del: takeWhile_eq_all_conv dropWhile_eq_Nil_conv)
qed

text \<open>A whole number of a unit is read back exactly, as long as it fits 63 bits.\<close>

lemma ParseDuration_whole:
  assumes "unit_map u = Some k" "list_all unit_char u" "u \<noteq> []" "n * k < 2 ^ 63" "0 < k"
  shows "ParseDuration (dec_digits n @ u) = Some (int (n * k))"
proof -
  have hd: "is_digit (hd (dec_digits n))"
    using dec_digits_digits [of n] by (cases "dec_digits n") (auto simp: list_all_iff)
  then have "hd (dec_digits n) \<noteq> CHR ''-''" "hd (dec_digits n) \<noteq> CHR ''+''"
    by (auto simp: is_digit_def)
  moreover have "dec_digits n @ u \<noteq> ''0''"
    using assms(3) by (cases "dec_digits n"; cases u) auto
  moreover have "duration_parts 0 (dec_digits n @ u) = Some (n * k)"
    using duration_part_whole [of u k n] assms
    by (subst duration_parts.simps) (simp add: duration_parts.simps [of _ "[]"])
  ultimately show ?thesis using assms(4) by (simp add: ParseDuration_def)
qed

lemma unit_seconds: "unit_map ''s'' = Some (10 ^ 9)" "list_all unit_char ''s''"
  and unit_minutes: "unit_map ''m'' = Some (60 * 10 ^ 9)" "list_all unit_char ''m''"
  and unit_milliseconds: "unit_map ''ms'' = Some (10 ^ 6)" "list_all unit_char ''ms''"
  by (simp_all add: unit_map_def unit_char_def is_digit_def)

lemma ParseDuration_defaults:
  "ParseDuration ''10s'' = Some (10 * 10 ^ 9)" "ParseDuration ''5s'' = Some (5 * 10 ^ 9)"
proof -
  have "dec_digits 10 @ ''s'' = ''10s''" "dec_digits 5 @ ''s'' = ''5s''"
    by (simp_all add: dec_digits.simps char_of_def bit_iff_odd)
  with ParseDuration_whole [OF unit_seconds, of 10] ParseDuration_whole [OF unit_seconds, of 5]
  show "ParseDuration ''10s'' = Some (10 * 10 ^ 9)" "ParseDuration ''5s'' = Some (5 * 10 ^ 9)" by simp_all
qed

lemma ParseDuration_rejects:
  "ParseDuration [] = None" "ParseDuration ''5'' = None" "ParseDuration ''s'' = None"
  by (simp_all add: ParseDuration_def duration_parts.simps duration_part_def is_digit_def digit_value_def)

section \<open>The value in seconds\<close>

lemma Seconds_approx:
  assumes "0 < d" "d < 2 ^ 63"
  obtains w where "Seconds d = Finite w" "approx 2 w (of_int d / 10 ^ 9)"
proof -
  let ?q = "d div 10 ^ 9" and ?r = "d mod 10 ^ 9"
  have sd: "d sdiv 10 ^ 9 = ?q" "d smod 10 ^ 9 = ?r"
    using assms(1) by (simp_all add: signed_divide_int_def signed_modulo_int_def)
  have q: "0 \<le> ?q" "?q \<le> 2 ^ 53" and r: "0 \<le> ?r" "?r < 10 ^ 9"
    using assms by (auto simp: pos_imp_zdiv_nonneg_iff)
  have e: "of_int d / 10 ^ 9 = (of_int ?q + of_int ?r / 10 ^ 9 :: rat)"
  proof -
    have "(of_int d :: rat) = of_int (?q * 10 ^ 9 + ?r)" by simp
    then show ?thesis by (simp only: of_int_add of_int_mult of_int_power of_int_numeral) (simp add: field_simps)
  qed
  have r0: "0 \<le> (of_int ?r :: rat)" "(of_int ?r :: rat) < 10 ^ 9"
    using r by (simp, metis r(2) of_int_less_iff of_int_numeral of_int_power)
  have tiny: "2 powi (-1000) \<le> (1 / 10 ^ 9 :: rat)" by (simp add: power_int_def field_simps)
  have "approx 0 (of_int ?r / 10 ^ 9) (of_int ?r / 10 ^ 9 :: rat)" using r0 by (simp add: approx_refl)
  moreover have "(of_int ?r :: rat) / 10 ^ 9 = 0 \<or> 2 powi (-1000) \<le> (of_int ?r :: rat) / 10 ^ 9"
  proof (cases "?r = 0")
    case False
    then have "1 \<le> ?r" using r(1) by linarith
    then have "1 \<le> (of_int ?r :: rat)" by (metis of_int_1_le_iff)
    then have "1 / 10 ^ 9 \<le> (of_int ?r :: rat) / 10 ^ 9" by (simp add: divide_right_mono)
    with tiny show ?thesis by linarith
  qed simp
  moreover have "(of_int ?r :: rat) / 10 ^ 9 \<le> 2 ^ 900"
  proof -
    have "(of_int ?r :: rat) / 10 ^ 9 \<le> 1" using r0 by simp
    then show ?thesis by (rule order_trans) simp
  qed
  ultimately obtain t where t: "round64 (of_int ?r / 10 ^ 9) = Finite t" "approx 1 t (of_int ?r / 10 ^ 9)"
    using approx_step [of 0] by (metis One_nat_def le0)
  have "approx 1 (of_int ?q + t) (of_int ?q + of_int ?r / 10 ^ 9)"
    using q(1) t(2) by (intro approx_add [of 0]) (simp_all add: approx_refl)
  then have a: "approx 1 (of_int ?q + t) (of_int d / 10 ^ 9)" by (simp only: e)
  have "1 \<le> (of_int d :: rat)" using assms(1) by simp
  then have "1 / 10 ^ 9 \<le> (of_int d / 10 ^ 9 :: rat)" by (simp add: divide_right_mono)
  then have lo: "2 powi (-1000) \<le> (of_int d / 10 ^ 9 :: rat)" using tiny by linarith
  have "(of_int d :: rat) \<le> of_int (2 ^ 63)" using assms(2) by (simp only: of_int_le_iff)
  then have "(of_int d / 10 ^ 9 :: rat) \<le> 2 ^ 63" by (simp add: divide_le_eq)
  then have hi: "(of_int d / 10 ^ 9 :: rat) \<le> 2 ^ 900" by (rule order_trans) simp
  obtain w where w: "round64 (of_int ?q + t) = Finite w" "approx (Suc 1) w (of_int d / 10 ^ 9)"
    using approx_step [OF a _ disjI2 [OF lo] hi] by auto
  have "Seconds d = Finite w"
    unfolding Seconds_def sd using w(1) t(1) q r by (simp add: float64_of_small_int)
  with w(2) show ?thesis by (intro that) (simp_all add: numeral_2_eq_2)
qed

end
