(* ===== verification/Scale_Manager.thy ===== *)
theory Scale_Manager imports Docker_API Port_Listener Go_Duration begin

text \<open>
  The service scaler (\<^verbatim>\<open>src/autoscaler/scale/scale.go\<close>): replica changes on the
  manager node, the placement constraint of a service that runs one replica, the keep-alive
  goroutines that scale an idle service to zero, and the ownership of containers. The state
  extends the port listener's, since scaling to zero listens on the service's port. The Docker
  daemon \<open>D\<close> and the network are parameters. Event messages are left out.

  A keep-alive goroutine is named by its channel and is either at its select or past it, its
  timer having expired; the handlers and the rest of a goroutine run without interleaving
  here. \<open>Scale_Down_Steps\<close> and \<open>Replica_Change_Steps\<close> interleave their statements; accesses to
  a Go map that overlap in time are not modelled.
\<close>

section \<open>The one scaler\<close>

text \<open>
  The package's one scaler, made by the first call only, and what the process gives it later.
  Without a Docker client the first call panics; it still counts as the one call, and what it
  leaves has neither a client nor a map of operations.
\<close>

record ScaleManager =
  has_client :: bool
  has_port_listener :: bool
  scaler_nodeInfo :: SwarmNodeInfo
  has_operations :: bool

definition zero_scaler :: ScaleManager where
  "zero_scaler = \<lparr>has_client = False, has_port_listener = False, scaler_nodeInfo = no_info, has_operations = False\<rparr>"

definition initScaler :: "go_error option \<Rightarrow> ScaleManager \<Rightarrow> ScaleManager outcome" where
  "initScaler client m =
     (case client of
        Some _ \<Rightarrow> Panics
      | None \<Rightarrow> Returns \<lparr>has_client = True, has_port_listener = False, scaler_nodeInfo = no_info, has_operations = True\<rparr>)"

definition GetScaler ::
  "go_error option \<Rightarrow> bool \<times> ScaleManager option \<Rightarrow> ScaleManager option outcome \<times> bool \<times> ScaleManager option"
where
  "GetScaler client st =
     (let (called, inst) = st in
      if called then (Returns inst, st)
      else case initScaler client zero_scaler of
        Returns m \<Rightarrow> (Returns (Some m), True, Some m)
      | _ \<Rightarrow> (Panics, True, Some zero_scaler))"

definition SetPortListener :: "ScaleManager \<Rightarrow> ScaleManager" where
  "SetPortListener m = m\<lparr>has_port_listener := True\<rparr>"

definition SetNodeInfo_scaler :: "SwarmNodeInfo \<Rightarrow> ScaleManager \<Rightarrow> ScaleManager" where
  "SetNodeInfo_scaler nodeInfo m = m\<lparr>scaler_nodeInfo := nodeInfo\<rparr>"

lemma GetScaler_first: "fst (GetScaler client (False, None)) = Returns m \<longleftrightarrow>
    client = None \<and> m = Some \<lparr>has_client = True, has_port_listener = False, scaler_nodeInfo = no_info, has_operations = True\<rparr>"
  by (auto simp: GetScaler_def initScaler_def split: option.split)

section \<open>State\<close>

datatype phase = Waiting | Expired

record ('m, 'd) manager = "'m listener" +
  docker :: 'd
  serviceLogs :: "string \<Rightarrow> u32 option"
  containerLogs :: "string \<Rightarrow> float64 option"
  keepAliveOps :: "string \<Rightarrow> nat option"
  goroutines :: "nat \<Rightarrow> (string \<times> phase) option"
  next_chan :: nat

definition AddServiceLog :: "string \<Rightarrow> u32 \<Rightarrow> ('m, 'd) manager \<Rightarrow> ('m, 'd) manager" where
  "AddServiceLog serviceId replicas s = s\<lparr>serviceLogs := (serviceLogs s)(serviceId \<mapsto> replicas)\<rparr>"

definition RemoveServiceLog :: "string \<Rightarrow> ('m, 'd) manager \<Rightarrow> ('m, 'd) manager" where
  "RemoveServiceLog serviceId s =
     (case serviceLogs s serviceId of
        None \<Rightarrow> s
      | Some _ \<Rightarrow> s\<lparr>serviceLogs := (serviceLogs s)(serviceId := None)\<rparr>)"

definition AddContainerLog :: "string \<Rightarrow> float64 \<Rightarrow> ('m, 'd) manager \<Rightarrow> ('m, 'd) manager" where
  "AddContainerLog containerId util s = s\<lparr>containerLogs := (containerLogs s)(containerId \<mapsto> util)\<rparr>"

definition RemoveContainerLog :: "string \<Rightarrow> ('m, 'd) manager \<Rightarrow> ('m, 'd) manager" where
  "RemoveContainerLog containerId s =
     (case containerLogs s containerId of
        None \<Rightarrow> s
      | Some _ \<Rightarrow> s\<lparr>containerLogs := (containerLogs s)(containerId := None)\<rparr>)"

section \<open>Replica changes\<close>

definition scaleTo :: "'d docker_ops \<Rightarrow> string \<Rightarrow> u64 \<Rightarrow> ('m, 'd) manager operation" where
  "scaleTo D serviceID replicas s =
     (case service_inspect D (docker s) serviceID of
        Inl err \<Rightarrow> (Returns (Some err), s)
      | Inr service \<Rightarrow>
         (case Replicated (Spec service) of
            None \<Rightarrow> (Panics, s)
          | Some _ \<Rightarrow>
             (case service_update D (docker s) serviceID (Version service)
                 ((Spec service)\<lparr>Replicated := Some (Some replicas)\<rparr>) of
                (Some err, d) \<Rightarrow> (Returns (Some err), s\<lparr>docker := d\<rparr>)
              | (None, d) \<Rightarrow> (Returns None, AddServiceLog serviceID (ucast replicas) (s\<lparr>docker := d\<rparr>)))))"

definition updateServiceConstraints ::
  "'d docker_ops \<Rightarrow> service \<Rightarrow> bool \<Rightarrow> ('m, 'd) manager operation"
where
  "updateServiceConstraints D service add s =
     (case Labels (Spec service) ''autoscaler.handlerNode'' of
        None \<Rightarrow> (Returns None, s)
      | Some hostName \<Rightarrow>
         (case Placement (Spec service) of
            None \<Rightarrow> (Panics, s)
          | Some _ \<Rightarrow>
             (let constraints = (if add then [''node.hostname=='' @ hostName] else []);
                  (err, d) = service_update D (docker s) (ID service) (Version service)
                    ((Spec service)\<lparr>Placement := Some constraints\<rparr>)
              in (Returns err, s\<lparr>docker := d\<rparr>))))"

text \<open>\<^verbatim>\<open>if err := f(); err != nil { return wrap(err) }\<close>, then the rest.\<close>

definition check ::
  "go_error option outcome \<times> 's \<Rightarrow> string \<Rightarrow> 's operation \<Rightarrow> go_error option outcome \<times> 's"
where
  "check r msg rest =
     (case r of
        (Returns None, s) \<Rightarrow> rest s
      | (Returns (Some err), s) \<Rightarrow> (Returns (Some (msg @ err)), s)
      | (stop, s) \<Rightarrow> (stop, s))"

text \<open>
  The send that cancels a keep-alive operation: only a goroutine at its select receives it, and
  ends. The channel has no buffer, so otherwise the sender waits for ever.
\<close>

definition cancel_keep_alive :: "string \<Rightarrow> ('m, 'd) manager operation" where
  "cancel_keep_alive serviceID s =
     (case keepAliveOps s serviceID of
        None \<Rightarrow> (Returns None, s)
      | Some ch \<Rightarrow>
         (case goroutines s ch of
            Some (_, Waiting) \<Rightarrow>
              (Returns None, s\<lparr>keepAliveOps := (keepAliveOps s)(serviceID := None),
                 goroutines := (goroutines s)(ch := None)\<rparr>)
          | _ \<Rightarrow> (Blocks, s)))"

definition start_keep_alive :: "string \<Rightarrow> ('m, 'd) manager \<Rightarrow> ('m, 'd) manager" where
  "start_keep_alive serviceID s =
     s\<lparr>keepAliveOps := (keepAliveOps s)(serviceID \<mapsto> next_chan s),
       goroutines := (goroutines s)(next_chan s \<mapsto> (serviceID, Waiting)),
       next_chan := Suc (next_chan s)\<rparr>"

definition ChangeServiceReplicas ::
  "'d docker_ops \<Rightarrow> SwarmNodeInfo \<Rightarrow> string \<Rightarrow> string \<Rightarrow> ('m, 'd) manager operation"
where
  "ChangeServiceReplicas D info serviceID direction s =
     (if \<not> AutoscalerManager info then
        (Returns (Some ''changeServiceReplicas should only be called on manager node''), s)
      else case service_inspect D (docker s) serviceID of
        Inl err \<Rightarrow> (Returns (Some err), s)
      | Inr service \<Rightarrow>
         (case Replicated (Spec service) of
            Some (Some currentReplicas) \<Rightarrow>
              if direction = ''over'' then
                check (if currentReplicas = 1 then updateServiceConstraints D service False s else (Returns None, s))
                  ''error removing constraint from service: ''
                  (\<lambda>s1. check (cancel_keep_alive serviceID s1) []
                     (\<lambda>s2. scaleTo D serviceID (currentReplicas + 1) s2))
              else if direction = ''under'' then
                (if currentReplicas > 1 then
                   check (if currentReplicas - 1 = 1 then updateServiceConstraints D service True s else (Returns None, s))
                     ''error adding constraint to service: ''
                     (\<lambda>s1. scaleTo D serviceID (currentReplicas - 1) s1)
                 else if keepAliveOps s serviceID \<noteq> None then (Returns None, s)
                 else (Returns None, start_keep_alive serviceID s))
              else (Returns (Some (''invalid direction: '' @ direction)), s)
          | _ \<Rightarrow> (Returns (Some ''service mode is not replicated or replicas are not set''), s)))"

section \<open>Scaling to zero\<close>

definition GetPublishedPort :: "'d docker_ops \<Rightarrow> string \<Rightarrow> ('m, 'd) manager \<Rightarrow> go_error + u32" where
  "GetPublishedPort D serviceID s =
     (case service_inspect D (docker s) serviceID of
        Inl err \<Rightarrow> Inl err
      | Inr service \<Rightarrow>
         (case PublishedPorts service of
            [] \<Rightarrow> Inl (''no published ports found for service '' @ serviceID)
          | port # _ \<Rightarrow> Inr port))"

text \<open>What the select of a keep-alive goroutine yields, and the goroutine from there to its end.\<close>

datatype select_case = TimerExpired | Cancelled

definition keepAliveAndScaleDown ::
  "'m map_ops \<Rightarrow> 'd docker_ops \<Rightarrow> network \<Rightarrow> SwarmNodeInfo \<Rightarrow> string \<Rightarrow> select_case \<Rightarrow>
   ('m, 'd) manager \<Rightarrow> unit outcome \<times> ('m, 'd) manager"
where
  "keepAliveAndScaleDown ops D net info serviceID choice s =
     (case choice of
        Cancelled \<Rightarrow> (Returns (), s)
      | TimerExpired \<Rightarrow>
         (case keepAliveOps s serviceID of
            None \<Rightarrow> (Returns (), s)
          | Some _ \<Rightarrow>
             (case GetPublishedPort D serviceID s of
                Inl _ \<Rightarrow> (Returns (), s)
              | Inr port \<Rightarrow>
                 (case ListenOnPort ops port serviceID s of
                    (Some _, s1) \<Rightarrow> (Returns (), s1)
                  | (None, s1) \<Rightarrow>
                     (case SendListenRequestToAllNodes net info port serviceID (sent s1) of
                        (Some _, tr) \<Rightarrow> (Returns (), s1\<lparr>sent := tr\<rparr>)
                      | (None, tr) \<Rightarrow>
                         (case scaleTo D serviceID 0 (s1\<lparr>sent := tr\<rparr>) of
                            (Returns None, s2) \<Rightarrow>
                              (Returns (), s2\<lparr>keepAliveOps := (keepAliveOps s2)(serviceID := None)\<rparr>)
                          | (r, s2) \<Rightarrow> (ignore_result r, s2)))))))"

section \<open>Containers\<close>

definition FindServiceIDFromContainer :: "'d docker_ops \<Rightarrow> string \<Rightarrow> ('m, 'd) manager \<Rightarrow> go_error + string" where
  "FindServiceIDFromContainer D containerID s =
     (case container_inspect D (docker s) containerID of
        Inl err \<Rightarrow> Inl err
      | Inr c \<Rightarrow>
         (case ContainerLabels c ''com.docker.swarm.service.id'' of
            None \<Rightarrow> Inl ''service ID label not found on container''
          | Some serviceID \<Rightarrow> Inr serviceID))"

definition ScaleService ::
  "'d docker_ops \<Rightarrow> SwarmNodeInfo \<Rightarrow> string \<Rightarrow> string \<Rightarrow> ('m, 'd) manager operation"
where
  "ScaleService D info containerID direction s =
     (case FindServiceIDFromContainer D containerID s of
        Inl err \<Rightarrow> (Returns (Some (''error finding service ID from container: '' @ err)), s)
      | Inr serviceID \<Rightarrow>
          check (ChangeServiceReplicas D info serviceID direction s) ''error changing service replicas: ''
            (\<lambda>s1. (Returns None, s1)))"

text \<open>The host name is the first argument, \<open>Inl\<close> when the system call fails.\<close>

definition CheckOwnedContainer ::
  "'d docker_ops \<Rightarrow> go_error + string \<Rightarrow> string \<Rightarrow> 'd \<Rightarrow> go_error + bool"
where
  "CheckOwnedContainer D hostname containerID d =
     (case hostname of
        Inl err \<Rightarrow> Inl err
      | Inr host \<Rightarrow>
         (case container_inspect D d containerID of
            Inl err \<Rightarrow> Inl err
          | Inr c \<Rightarrow>
             (case ContainerLabels c ''autoscaler.handlerNode'' of
                Some hostnameLabel \<Rightarrow> Inr (hostnameLabel = host)
              | None \<Rightarrow>
                 (case ContainerLabels c ''com.docker.swarm.task.name'' of
                    Some taskName \<Rightarrow> Inr (strings_Contains taskName ''.1.'')
                  | None \<Rightarrow> Inr False))))"

definition GetRunningContainers ::
  "'d docker_ops \<Rightarrow> go_error + string \<Rightarrow> 'd \<Rightarrow> go_error + string list"
where
  "GetRunningContainers D hostname d =
     (case container_list D d of
        Inl err \<Rightarrow> Inl (''error listing Docker containers: '' @ err)
      | Inr ids \<Rightarrow> Inr (filter (\<lambda>c. CheckOwnedContainer D hostname c d = Inr True) ids))"

text \<open>
  The inode number of a container's network namespace, cut to 32 bits. \<open>client\<close> is the error
  of the Docker client that each call makes for itself, \<open>stat\<close> the system call: an error or the
  inode number of a path.
\<close>

definition GetContainerNamespace ::
  "go_error option \<Rightarrow> 'd docker_ops \<Rightarrow> (string \<Rightarrow> go_error + u64) \<Rightarrow> string \<Rightarrow> 'd \<Rightarrow> go_error + u32"
where
  "GetContainerNamespace client D stat containerID d =
     (case client of
        Some err \<Rightarrow> Inl err
      | None \<Rightarrow>
     (case container_inspect D d containerID of
        Inl err \<Rightarrow> Inl err
      | Inr c \<Rightarrow>
         (let proc = (case stat ''/host_proc'' of Inr _ \<Rightarrow> ''/host_proc/'' | Inl _ \<Rightarrow> ''/proc/'');
              procPath = proc @ dec_int (Pid c) @ ''/ns/net''
          in case stat procPath of Inl err \<Rightarrow> Inl err | Inr ino \<Rightarrow> Inr (ucast ino))))"

text \<open>
  The event loop on one Docker event: what it sends to the process, if the container is one that
  this node handles. An error of the ownership check drops the event.
\<close>

datatype container_event = Started string | Stopped string

definition docker_event ::
  "'d docker_ops \<Rightarrow> go_error + string \<Rightarrow> string \<Rightarrow> string \<Rightarrow> ('m, 'd) manager \<Rightarrow>
   container_event option \<times> ('m, 'd) manager"
where
  "docker_event D hostname action containerID s =
     (if action = ''start'' then
        (case CheckOwnedContainer D hostname containerID (docker s) of
           Inl _ \<Rightarrow> (None, s)
         | Inr owned \<Rightarrow>
             if owned then (Some (Started containerID), AddContainerLog containerID (Finite 0) s)
             else (None, s))
      else if action = ''die'' then
        (case CheckOwnedContainer D hostname containerID (docker s) of
           Inl _ \<Rightarrow> (None, s)
         | Inr owned \<Rightarrow>
             if owned then (Some (Stopped containerID), RemoveContainerLog containerID s)
             else (None, s))
      else (None, s))"

end
