(* ===== verification/Keep_Alive.thy ===== *)
theory Keep_Alive imports Scale_Manager begin

text \<open>
  The scaler as a state machine. \<open>replica_spec\<close> is the abstract specification of
  \<open>ChangeServiceReplicas\<close>: what it does to the spec of a service. \<open>manager_step\<close> is one
  step of the manager process: a replica change, a timer, the rest of a keep-alive goroutine, the
  port listener's operations, and whatever else happens to the daemon. The invariant says that
  a running goroutine is the one registered for its service; the properties are about what
  becomes of a registered operation whose goroutine has ended.
\<close>

section \<open>What the operations leave alone\<close>

lemma scaleTo_frame [simp]:
  "keepAliveOps (snd (scaleTo D sid n s)) = keepAliveOps s"
  "goroutines (snd (scaleTo D sid n s)) = goroutines s"
  "next_chan (snd (scaleTo D sid n s)) = next_chan s"
  "sent (snd (scaleTo D sid n s)) = sent s"
  "portToServiceID (snd (scaleTo D sid n s)) = portToServiceID s"
  "PortsMap (snd (scaleTo D sid n s)) = PortsMap s"
  "bpfListenerLogs (snd (scaleTo D sid n s)) = bpfListenerLogs s"
  by (simp_all add: scaleTo_def AddServiceLog_def split: sum.split option.split prod.split)

lemma updateServiceConstraints_frame [simp]:
  "keepAliveOps (snd (updateServiceConstraints D svc add s)) = keepAliveOps s"
  "goroutines (snd (updateServiceConstraints D svc add s)) = goroutines s"
  "next_chan (snd (updateServiceConstraints D svc add s)) = next_chan s"
  "sent (snd (updateServiceConstraints D svc add s)) = sent s"
  "portToServiceID (snd (updateServiceConstraints D svc add s)) = portToServiceID s"
  "PortsMap (snd (updateServiceConstraints D svc add s)) = PortsMap s"
  "bpfListenerLogs (snd (updateServiceConstraints D svc add s)) = bpfListenerLogs s"
  by (simp_all add: updateServiceConstraints_def Let_def split: option.split prod.split)

lemma ListenOnPort_frame [simp]:
  fixes s :: "('m, 'd) manager"
  shows "keepAliveOps (snd (ListenOnPort ops port sid s)) = keepAliveOps s"
    "goroutines (snd (ListenOnPort ops port sid s)) = goroutines s"
    "next_chan (snd (ListenOnPort ops port sid s)) = next_chan s"
    "docker (snd (ListenOnPort ops port sid s)) = docker s"
    "sent (snd (ListenOnPort ops port sid s)) = sent s"
  by (simp_all add: ListenOnPort_def AddBPFListenerLog_def Let_def split: sum.split)

lemma RemovePort_frame [simp]:
  fixes s :: "('m, 'd) manager"
  shows "keepAliveOps (snd (RemovePort ops port s)) = keepAliveOps s"
    "goroutines (snd (RemovePort ops port s)) = goroutines s"
    "next_chan (snd (RemovePort ops port s)) = next_chan s"
    "docker (snd (RemovePort ops port s)) = docker s"
    "sent (snd (RemovePort ops port s)) = sent s"
  by (simp_all add: RemovePort_def RemoveBPFListenerLog_def Let_def split: sum.split option.split)

text \<open>The service scaler provides the listener's Scaler interface.\<close>

interpretation service_scaler: scaler "scaleTo D" for D :: "'d docker_ops"
  by unfold_locales simp_all

interpretation hmap_listener: port_listener hmap_ops "scaleTo D" for D :: "'d docker_ops"
  by unfold_locales

lemma scalingLogs_frame [simp]:
  "scalingLogs (snd (RemovePort ops port s)) = scalingLogs s"
  "scalingLogs (snd (scaleTo D sid n m)) = scalingLogs m"
  by (simp_all add: RemovePort_def RemoveBPFListenerLog_def scaleTo_def AddServiceLog_def Let_def
      split: option.split sum.split prod.split)

lemma handle_sample_frame [simp]:
  fixes s :: "('m, 'd) manager"
  shows "keepAliveOps (snd (handle_sample ops net info (scaleTo D) raw s)) = keepAliveOps s"
    "goroutines (snd (handle_sample ops net info (scaleTo D) raw s)) = goroutines s"
    "next_chan (snd (handle_sample ops net info (scaleTo D) raw s)) = next_chan s"
  by (simp_all add: handle_sample_def Let_def split_beta split: option.split)

section \<open>Steps\<close>

inductive manager_step ::
  "'m map_ops \<Rightarrow> 'd docker_ops \<Rightarrow> network \<Rightarrow> SwarmNodeInfo \<Rightarrow>
   ('m, 'd) manager \<Rightarrow> ('m, 'd) manager \<Rightarrow> bool"
  for ops D net info
where
  change: "manager_step ops D net info s (snd (ChangeServiceReplicas D info sid dir s))"
| scale: "manager_step ops D net info s (snd (ScaleService D info cid dir s))"
| timer: "goroutines s ch = Some (sid, Waiting) \<Longrightarrow>
    manager_step ops D net info s (s\<lparr>goroutines := (goroutines s)(ch \<mapsto> (sid, Expired))\<rparr>)"
| finish: "goroutines s ch = Some (sid, Expired) \<Longrightarrow>
    keepAliveAndScaleDown ops D net info sid TimerExpired s = (r, s') \<Longrightarrow>
    manager_step ops D net info s (s'\<lparr>goroutines := (goroutines s')(ch := None)\<rparr>)"
| listen: "manager_step ops D net info s (snd (ListenOnPort ops port sid s))"
| remove: "manager_step ops D net info s (snd (RemovePort ops port s))"
| sample: "manager_step ops D net info s (snd (handle_sample ops net info (scaleTo D) raw s))"
| environment: "manager_step ops D net info s (s\<lparr>docker := d\<rparr>)"

text \<open>What a replica change can do to the keep-alive operations.\<close>

lemma check_cases:
  obtains "check r msg rest = rest (snd r)" "fst r = Returns None"
  | "snd (check r msg rest) = snd r" "fst (check r msg rest) \<noteq> Returns None" "fst r \<noteq> Returns None"
proof (cases "fst r = Returns None")
  case True
  then have "check r msg rest = rest (snd r)" by (cases r) (simp add: check_def)
  with True that(1) show thesis by blast
next
  case False
  then have "snd (check r msg rest) = snd r" "fst (check r msg rest) \<noteq> Returns None"
    by (cases r; auto simp: check_def split: outcome.split option.split)+
  with False that(2) show thesis by blast
qed

text \<open>Two states with the same keep-alive operations.\<close>

definition same_keep_alive :: "('m, 'd) manager \<Rightarrow> ('m, 'd) manager \<Rightarrow> bool" where
  "same_keep_alive s s' \<longleftrightarrow>
     keepAliveOps s' = keepAliveOps s \<and> goroutines s' = goroutines s \<and> next_chan s' = next_chan s"

lemma same_keep_alive_refl [simp]: "same_keep_alive s s"
  by (simp add: same_keep_alive_def)

lemma ChangeServiceReplicas_cases:
  fixes s :: "('m, 'd) manager"
  obtains (same) "same_keep_alive s (snd (ChangeServiceReplicas D info sid dir s))"
  | (cancelled) ch sid' where "keepAliveOps s sid = Some ch" "goroutines s ch = Some (sid', Waiting)"
      "keepAliveOps (snd (ChangeServiceReplicas D info sid dir s)) = (keepAliveOps s)(sid := None)"
      "goroutines (snd (ChangeServiceReplicas D info sid dir s)) = (goroutines s)(ch := None)"
      "next_chan (snd (ChangeServiceReplicas D info sid dir s)) = next_chan s"
  | (started) "keepAliveOps s sid = None" "ChangeServiceReplicas D info sid dir s = (Returns None, start_keep_alive sid s)"
proof -
  let ?r = "ChangeServiceReplicas D info sid dir s"
  have same_check: "same_keep_alive s (snd (check r msg rest))"
    if "same_keep_alive s (snd r)" "\<And>t. same_keep_alive s t \<Longrightarrow> same_keep_alive s (snd (rest t))"
    for r :: "go_error option outcome \<times> ('m, 'd) manager" and msg rest
    by (rule check_cases [of r msg rest]) (use that in auto)
  have same_scale: "same_keep_alive s (snd (scaleTo D sid n t))" if "same_keep_alive s t" for t n
    using that by (simp add: same_keep_alive_def)
  have same_upd: "same_keep_alive s (snd (if b then updateServiceConstraints D svc add s else (Returns None, s)))"
    for b svc add by (simp add: same_keep_alive_def)
  show thesis
  proof (cases "\<exists>svc cur. AutoscalerManager info \<and> service_inspect D (docker s) sid = Inr svc \<and>
      Replicated (Spec svc) = Some (Some cur)")
    case False
    then have "snd ?r = s"
      by (auto simp: ChangeServiceReplicas_def split: sum.split option.split)
    then show thesis by (intro same) simp
  next
    case True
    then obtain svc cur where g: "AutoscalerManager info" "service_inspect D (docker s) sid = Inr svc"
      "Replicated (Spec svc) = Some (Some cur)" by blast
    consider (over) "dir = ''over''" | (down) "dir = ''under''" "1 < cur" | (idle) "dir = ''under''" "\<not> 1 < cur"
      | (bad) "dir \<noteq> ''over''" "dir \<noteq> ''under''" by blast
    then show thesis
    proof cases
      case over
      let ?u = "if cur = 1 then updateServiceConstraints D svc False s else (Returns None, s)"
      let ?rest = "\<lambda>s1. check (cancel_keep_alive sid s1) [] (\<lambda>s2. scaleTo D sid (cur + 1) s2)"
      have r: "?r = check ?u ''error removing constraint from service: '' ?rest"
        using g over by (simp add: ChangeServiceReplicas_def)
      show thesis
      proof (rule check_cases [of ?u "''error removing constraint from service: ''" ?rest])
        assume "snd (check ?u ''error removing constraint from service: '' ?rest) = snd ?u"
        then show thesis using r same_upd [of "cur = 1" svc False] by (intro same) simp
      next
        let ?t = "snd ?u"
        assume "check ?u ''error removing constraint from service: '' ?rest = ?rest ?t"
        with r have r': "?r = ?rest ?t" by simp
        have t: "keepAliveOps ?t = keepAliveOps s" "goroutines ?t = goroutines s" "next_chan ?t = next_chan s"
          by simp_all
        show thesis
        proof (cases "\<exists>ch sid'. keepAliveOps s sid = Some ch \<and> goroutines s ch = Some (sid', Waiting)")
          case True
          then obtain ch sid' where ch: "keepAliveOps s sid = Some ch" "goroutines s ch = Some (sid', Waiting)" by blast
          show thesis
            by (rule cancelled [OF ch]) (simp_all only: r', simp_all add: ch t cancel_keep_alive_def check_def)
        next
          case False
          then have "snd (cancel_keep_alive sid ?t) = ?t"
            unfolding cancel_keep_alive_def t by (auto split: option.split phase.split)
          then have "same_keep_alive s (snd (?rest ?t))"
            by (intro same_check same_scale) (simp_all add: same_keep_alive_def)
          then show thesis unfolding r' [symmetric] by (rule same)
        qed
      qed
    next
      case down
      then have "?r = check (if cur - 1 = 1 then updateServiceConstraints D svc True s else (Returns None, s))
          ''error adding constraint to service: '' (\<lambda>s1. scaleTo D sid (cur - 1) s1)"
        using g by (simp add: ChangeServiceReplicas_def)
      then show thesis by (intro same) (simp only: same_check same_upd same_scale)
    next
      case idle
      then show thesis using g same started by (cases "keepAliveOps s sid") (auto simp: ChangeServiceReplicas_def)
    next
      case bad
      then have "snd ?r = s" using g by (simp add: ChangeServiceReplicas_def)
      then show thesis by (intro same) simp
    qed
  qed
qed

text \<open>What a keep-alive goroutine can do to them.\<close>

lemma keepAliveAndScaleDown_cases:
  fixes s :: "('m, 'd) manager"
  assumes "keepAliveAndScaleDown ops D net info sid c s = (r, s')"
  shows "goroutines s' = goroutines s \<and> next_chan s' = next_chan s \<and>
    (keepAliveOps s' = keepAliveOps s \<or> keepAliveOps s' = (keepAliveOps s)(sid := None))"
proof -
  have listen: "keepAliveOps t = keepAliveOps s \<and> goroutines t = goroutines s \<and> next_chan t = next_chan s"
    if "ListenOnPort ops port sid s = (e, t)" for port e t
    using ListenOnPort_frame [of ops port sid s] unfolding that by simp
  have scale: "keepAliveOps t = keepAliveOps u \<and> goroutines t = goroutines u \<and> next_chan t = next_chan u"
    if "scaleTo D sid 0 u = (e, t)" for u :: "('m, 'd) manager" and e t
    using scaleTo_frame [of D sid 0 u] unfolding that by simp
  show ?thesis
    using assms unfolding keepAliveAndScaleDown_def
    by (auto dest!: listen scale split: select_case.splits option.splits sum.splits prod.splits outcome.splits)
qed

section \<open>The invariant\<close>

text \<open>
  A goroutine is registered for its service; channels in the table have been made, and no two
  services share one.
\<close>

definition keep_alive_inv :: "('m, 'd) manager \<Rightarrow> bool" where
  "keep_alive_inv s \<longleftrightarrow>
     (\<forall>ch sid ph. goroutines s ch = Some (sid, ph) \<longrightarrow> keepAliveOps s sid = Some ch) \<and>
     (\<forall>sid ch. keepAliveOps s sid = Some ch \<longrightarrow> ch < next_chan s) \<and>
     (\<forall>sid sid' ch. keepAliveOps s sid = Some ch \<longrightarrow> keepAliveOps s sid' = Some ch \<longrightarrow> sid = sid')"

lemma keep_alive_invD:
  assumes "keep_alive_inv s"
  shows "goroutines s ch = Some (sid, ph) \<Longrightarrow> keepAliveOps s sid = Some ch"
    and "keepAliveOps s sid = Some ch \<Longrightarrow> ch < next_chan s"
    and "keepAliveOps s sid = Some ch \<Longrightarrow> keepAliveOps s sid' = Some ch \<Longrightarrow> sid = sid'"
  using assms unfolding keep_alive_inv_def by blast+

lemma keep_alive_inv_same: "same_keep_alive s s' \<Longrightarrow> keep_alive_inv s \<Longrightarrow> keep_alive_inv s'"
  by (simp add: same_keep_alive_def keep_alive_inv_def)

lemma keep_alive_inv_cancel:
  assumes "keep_alive_inv s" "keepAliveOps s sid = Some ch"
    "keepAliveOps s' = (keepAliveOps s)(sid := None)" "goroutines s' = (goroutines s)(ch := None)"
    "next_chan s' = next_chan s"
  shows "keep_alive_inv s'"
  using assms(2) keep_alive_invD [OF assms(1)] unfolding keep_alive_inv_def assms(3-5)
  by (auto split: if_splits)

lemma keep_alive_inv_start:
  assumes "keep_alive_inv s" "keepAliveOps s sid = None"
  shows "keep_alive_inv (start_keep_alive sid s)"
  using keep_alive_invD [OF assms(1)] assms(2)
  unfolding keep_alive_inv_def start_keep_alive_def
  by (auto split: if_splits intro: less_SucI) fastforce+

lemma ChangeServiceReplicas_inv:
  assumes "keep_alive_inv s"
  shows "keep_alive_inv (snd (ChangeServiceReplicas D info sid dir s))"
  using assms
  by (cases rule: ChangeServiceReplicas_cases [of s D info sid dir])
    (auto intro: keep_alive_inv_same keep_alive_inv_cancel keep_alive_inv_start)

lemma snd_ScaleService:
  "snd (ScaleService D info cid dir s) = s \<or>
     (\<exists>sid. snd (ScaleService D info cid dir s) = snd (ChangeServiceReplicas D info sid dir s))"
proof (cases "FindServiceIDFromContainer D cid s")
  case (Inl e)
  then show ?thesis by (simp add: ScaleService_def)
next
  case (Inr sid)
  have "snd (check r msg (\<lambda>s1. (Returns None, s1))) = snd r" for r :: "go_error option outcome \<times> ('a, 'b) manager" and msg
    by (rule check_cases [of r msg "\<lambda>s1. (Returns None, s1)"]) simp_all
  with Inr show ?thesis by (auto simp: ScaleService_def)
qed

lemma manager_step_inv:
  assumes "manager_step ops D net info s s'" "keep_alive_inv s"
  shows "keep_alive_inv s'"
  using assms
proof (induction rule: manager_step.induct)
  case (change s sid dir)
  then show ?case by (rule ChangeServiceReplicas_inv)
next
  case (scale s cid dir)
  then show ?case using snd_ScaleService [of D info cid dir s] ChangeServiceReplicas_inv by metis
next
  case (timer s ch sid)
  then show ?case using keep_alive_invD [OF timer.prems] by (auto simp: keep_alive_inv_def split: if_splits)
next
  case (finish s ch sid r s')
  note inv = keep_alive_invD [OF finish.prems]
  from keepAliveAndScaleDown_cases [OF finish.hyps(2)]
  have s': "goroutines s' = goroutines s" "next_chan s' = next_chan s"
    "keepAliveOps s' = keepAliveOps s \<or> keepAliveOps s' = (keepAliveOps s)(sid := None)" by blast+
  from s'(3) show ?case
  proof
    assume "keepAliveOps s' = keepAliveOps s"
    then show ?thesis using s' inv by (auto simp: keep_alive_inv_def split: if_splits)
  next
    assume "keepAliveOps s' = (keepAliveOps s)(sid := None)"
    then show ?thesis
      by (intro keep_alive_inv_cancel [OF finish.prems inv(1) [OF finish.hyps(1)]]) (simp_all add: s')
  qed
qed (simp_all add: keep_alive_inv_def)

lemma manager_steps_inv:
  "(manager_step ops D net info)\<^sup>*\<^sup>* s s' \<Longrightarrow> keep_alive_inv s \<Longrightarrow> keep_alive_inv s'"
  by (induction rule: rtranclp_induct) (auto intro: manager_step_inv)

text \<open>
  A registered operation is stranded when its goroutine has ended. No step frees it: only the
  goroutine itself or a send that it receives would.
\<close>

definition stranded :: "('m, 'd) manager \<Rightarrow> string \<Rightarrow> bool" where
  "stranded s sid \<longleftrightarrow>
     (case keepAliveOps s sid of None \<Rightarrow> False | Some ch \<Rightarrow> goroutines s ch = None)"

lemma strandedE:
  assumes "stranded s sid"
  obtains ch where "keepAliveOps s sid = Some ch" "goroutines s ch = None"
  using assms by (auto simp: stranded_def split: option.splits)

lemma stranded_same: "same_keep_alive s s' \<Longrightarrow> stranded s sid \<Longrightarrow> stranded s' sid"
  by (simp add: same_keep_alive_def stranded_def split: option.splits)

lemma ChangeServiceReplicas_stranded:
  assumes inv: "keep_alive_inv s" and str: "stranded s sid"
  shows "stranded (snd (ChangeServiceReplicas D info sid' dir s)) sid"
proof (cases rule: ChangeServiceReplicas_cases [of s D info sid' dir])
  case same
  then show ?thesis using str by (rule stranded_same)
next
  case (cancelled ch sid'')
  then show ?thesis using str by (auto simp: stranded_def split: option.splits)
next
  case started
  obtain ch where ch: "keepAliveOps s sid = Some ch" "goroutines s ch = None"
    using str by (rule strandedE)
  with started keep_alive_invD(2) [OF inv ch(1)] show ?thesis
    by (auto simp: stranded_def start_keep_alive_def)
qed

lemma manager_step_stranded:
  assumes "manager_step ops D net info s s'" "keep_alive_inv s" "stranded s sid"
  shows "stranded s' sid"
  using assms
proof (induction rule: manager_step.induct)
  case (change s sid' dir)
  then show ?case by (rule ChangeServiceReplicas_stranded)
next
  case (scale s cid dir)
  then show ?case using snd_ScaleService [of D info cid dir s] ChangeServiceReplicas_stranded by metis
next
  case (timer s ch sid')
  then show ?case by (auto simp: stranded_def split: option.splits)
next
  case (finish s ch sid' r s')
  from finish.prems(2) obtain c where c: "keepAliveOps s sid = Some c" "goroutines s c = None"
    by (rule strandedE)
  have "sid \<noteq> sid'"
    using keep_alive_invD(1) [OF finish.prems(1) finish.hyps(1)] finish.hyps(1) c by auto
  with keepAliveAndScaleDown_cases [OF finish.hyps(2)] c show ?case
    by (auto simp: stranded_def)
qed (simp_all add: stranded_def split: option.splits)

lemma manager_steps_stranded:
  assumes "(manager_step ops D net info)\<^sup>*\<^sup>* s s'" "keep_alive_inv s" "stranded s sid"
  shows "stranded s' sid"
  using assms
proof (induction rule: rtranclp_induct)
  case (step t u)
  then show ?case using manager_step_stranded manager_steps_inv by metis
qed

section \<open>The specification of a replica change\<close>

definition pinned :: "bool \<Rightarrow> service_spec \<Rightarrow> service_spec" where
  "pinned add sp =
     (case Labels sp ''autoscaler.handlerNode'' of
        None \<Rightarrow> sp
      | Some h \<Rightarrow> sp\<lparr>Placement := Some (if add then [''node.hostname=='' @ h] else [])\<rparr>)"

definition replica_spec :: "string \<Rightarrow> u64 \<Rightarrow> service_spec \<Rightarrow> service_spec" where
  "replica_spec dir n sp =
     (if dir = ''over'' then (if n = 1 then pinned False sp else sp)\<lparr>Replicated := Some (Some (n + 1))\<rparr>
      else if n > 1 then (if n = 2 then pinned True sp else sp)\<lparr>Replicated := Some (Some (n - 1))\<rparr>
      else sp)"

lemma check_None:
  assumes "check r msg rest = (Returns None, s')"
  obtains s1 where "r = (Returns None, s1)" "rest s1 = (Returns None, s')"
  using assms by (cases r) (auto simp: check_def split: outcome.splits option.splits)

text \<open>A successful request to scale up went through each of its steps.\<close>

lemma change_over:
  assumes run: "ChangeServiceReplicas D info sid ''over'' s = (Returns None, t)"
  obtains svc n s1 s2 where "service_inspect D (docker s) sid = Inr svc" "Replicated (Spec svc) = Some (Some n)"
    "(if n = 1 then updateServiceConstraints D svc False s else (Returns None, s)) = (Returns None, s1)"
    "cancel_keep_alive sid s1 = (Returns None, s2)" "scaleTo D sid (n + 1) s2 = (Returns None, t)"
proof -
  obtain svc n where svc: "AutoscalerManager info" "service_inspect D (docker s) sid = Inr svc"
      "Replicated (Spec svc) = Some (Some n)"
    using run by (auto simp: ChangeServiceReplicas_def split: if_splits sum.splits option.splits)
  then have "check (if n = 1 then updateServiceConstraints D svc False s else (Returns None, s))
      ''error removing constraint from service: ''
      (\<lambda>s1. check (cancel_keep_alive sid s1) [] (\<lambda>s2. scaleTo D sid (n + 1) s2)) = (Returns None, t)"
    using run by (simp add: ChangeServiceReplicas_def)
  then show thesis using that [OF svc(2,3)] by (elim check_None)
qed

lemma Replicated_pinned [simp]: "Replicated (pinned add sp) = Replicated sp"
  by (simp add: pinned_def split: option.split)

context docker_api
begin

lemma updateServiceConstraints_inspect:
  assumes "updateServiceConstraints D svc add s = (Returns None, s1)"
    and svc: "service_inspect D (docker s) sid = Inr svc"
  shows "\<exists>v. service_inspect D (docker s1) sid = Inr (svc\<lparr>Version := v, Spec := pinned add (Spec svc)\<rparr>)"
proof (cases "Labels (Spec svc) ''autoscaler.handlerNode''")
  case None
  then have "s1 = s" using assms(1) by (simp add: updateServiceConstraints_def)
  moreover have "svc = svc\<lparr>Version := Version svc, Spec := pinned add (Spec svc)\<rparr>"
    using None by (simp add: pinned_def)
  ultimately show ?thesis using svc by metis
next
  case (Some h)
  let ?sp = "pinned add (Spec svc)"
  obtain pl where "Placement (Spec svc) = Some pl"
    using assms(1) Some by (auto simp: updateServiceConstraints_def split: option.splits)
  then obtain d' where d': "service_update D (docker s) (ID svc) (Version svc) ?sp = (None, d')" "docker s1 = d'"
    using assms(1) Some by (auto simp: updateServiceConstraints_def pinned_def Let_def split: prod.splits)
  obtain svc' v' where svc': "service_inspect D (docker s) (ID svc) = Inr svc'"
    and all: "\<forall>y. service_inspect D d' y = map_sum id (updated svc' v' ?sp) (service_inspect D (docker s) y)"
    using update_succeeds [OF d'(1)] by blast
  have "svc' = svc" using inspect_by_id [OF svc] svc' by simp
  with all svc d'(2) show ?thesis by (auto simp: updated_def)
qed

lemma scaleTo_inspect:
  assumes "scaleTo D sid n s = (Returns None, s1)"
    and svc: "service_inspect D (docker s) sid = Inr svc"
  shows "\<exists>v. service_inspect D (docker s1) sid =
    Inr (svc\<lparr>Version := v, Spec := (Spec svc)\<lparr>Replicated := Some (Some n)\<rparr>\<rparr>)"
proof -
  obtain d' where "service_update D (docker s) sid (Version svc)
      ((Spec svc)\<lparr>Replicated := Some (Some n)\<rparr>) = (None, d')" "docker s1 = d'"
    using assms by (auto simp: scaleTo_def AddServiceLog_def split: option.splits prod.splits)
  then show ?thesis using update_replicas_inspect [OF _ svc] by metis
qed

lemma cancel_keep_alive_docker: "docker (snd (cancel_keep_alive sid s)) = docker s"
  by (simp add: cancel_keep_alive_def split: option.split prod.split phase.split)

lemma ChangeServiceReplicas_spec:
  assumes svc: "service_inspect D (docker s) sid = Inr svc" "Replicated (Spec svc) = Some (Some n)"
    and run: "ChangeServiceReplicas D info sid dir s = (Returns None, s')"
  shows "\<exists>v. service_inspect D (docker s') sid = Inr (svc\<lparr>Version := v, Spec := replica_spec dir n (Spec svc)\<rparr>)"
proof -
  have mgr: "AutoscalerManager info" using run by (auto simp: ChangeServiceReplicas_def split: if_splits)
  have keep: "\<exists>v. service_inspect D (docker s) sid = Inr (svc\<lparr>Version := v, Spec := Spec svc\<rparr>)"
    using svc(1) by (intro exI [of _ "Version svc"]) simp
  have upd: "\<exists>v. service_inspect D (docker t) sid =
      Inr (svc\<lparr>Version := v, Spec := (if b then pinned add (Spec svc) else Spec svc)\<rparr>)"
    if "(if b then updateServiceConstraints D svc add s else (Returns None, s)) = (Returns None, t)" for b add t
    using that updateServiceConstraints_inspect [of svc add s t sid] svc(1) keep
    by (cases b) simp_all
  have scaled: "\<exists>v. service_inspect D (docker s') sid =
      Inr (svc\<lparr>Version := v, Spec := sp\<lparr>Replicated := Some (Some m)\<rparr>\<rparr>)"
    if "scaleTo D sid m t = (Returns None, s')" "service_inspect D (docker t) sid = Inr (svc\<lparr>Version := v, Spec := sp\<rparr>)"
    for m t v sp
    using scaleTo_inspect [OF that] by simp
  consider "dir = ''over''" | "dir = ''under''" "1 < n" | "dir = ''under''" "\<not> 1 < n"
    using run mgr svc by (auto simp: ChangeServiceReplicas_def split: if_splits)
  then show ?thesis
  proof cases
    case 1
    with run have "ChangeServiceReplicas D info sid ''over'' s = (Returns None, s')" by simp
    then obtain s1 s2 where
      "(if n = 1 then updateServiceConstraints D svc False s else (Returns None, s)) = (Returns None, s1)"
      "cancel_keep_alive sid s1 = (Returns None, s2)" "scaleTo D sid (n + 1) s2 = (Returns None, s')"
      by (rule change_over) (use svc in auto)
    moreover from this(2) have "docker s2 = docker s1"
      using cancel_keep_alive_docker [of sid s1] by simp
    moreover have spec: "replica_spec dir n (Spec svc) =
        (if n = 1 then pinned False (Spec svc) else Spec svc)\<lparr>Replicated := Some (Some (n + 1))\<rparr>"
      using 1 by (simp add: replica_spec_def)
    moreover obtain v where "service_inspect D (docker s1) sid =
        Inr (svc\<lparr>Version := v, Spec := (if n = 1 then pinned False (Spec svc) else Spec svc)\<rparr>)"
      using upd [OF calculation(1)] by blast
    ultimately show ?thesis unfolding spec by (intro scaled [where t = s2]) simp_all
  next
    case 2
    then obtain s1 where
      "(if n - 1 = 1 then updateServiceConstraints D svc True s else (Returns None, s)) = (Returns None, s1)"
      "scaleTo D sid (n - 1) s1 = (Returns None, s')"
      using run mgr svc by (auto simp: ChangeServiceReplicas_def elim!: check_None)
    moreover have spec: "replica_spec dir n (Spec svc) =
        (if n - 1 = 1 then pinned True (Spec svc) else Spec svc)\<lparr>Replicated := Some (Some (n - 1))\<rparr>"
      using 2 by (simp add: replica_spec_def diff_eq_eq)
    moreover obtain v where "service_inspect D (docker s1) sid =
        Inr (svc\<lparr>Version := v, Spec := (if n - 1 = 1 then pinned True (Spec svc) else Spec svc)\<rparr>)"
      using upd [OF calculation(1)] by blast
    ultimately show ?thesis unfolding spec by (intro scaled [where t = s1]) simp_all
  next
    case 3
    then have "docker s' = docker s"
      using run mgr svc by (auto simp: ChangeServiceReplicas_def start_keep_alive_def split: if_splits)
    then show ?thesis using keep 3 by (simp add: replica_spec_def)
  qed
qed

end

section \<open>A completed scale-down\<close>

text \<open>A keep-alive operation that clears itself went through every step.\<close>

lemma scale_down_completes:
  assumes "docker_api D" "bpf_hash ops" "service_inspect D (docker s) sid = Inr svc"
    and "keepAliveAndScaleDown ops D net info sid TimerExpired s = (Returns (), s')"
    and "keepAliveOps s sid \<noteq> None" "keepAliveOps s' sid = None"
  shows "\<exists>port ports. PublishedPorts svc = port # ports \<and> portToServiceID s' port = Some sid \<and>
    map_lookup ops (PortsMap s') port = Some 1 \<and>
    sent s' = sent s @ map (listen_post port sid) (OtherNodes info) \<and>
    (\<exists>svc'. service_inspect D (docker s') sid = Inr svc' \<and> Replicated (Spec svc') = Some (Some 0))"
proof -
  have keep: "keepAliveOps t = keepAliveOps s" if "ListenOnPort ops port sid s = (e, t)" for port e t
    using ListenOnPort_frame(1) [of ops port sid s] unfolding that by simp
  have keep': "keepAliveOps t = keepAliveOps u" if "scaleTo D sid 0 u = (e, t)" for u :: "('b, 'a) manager" and e t
    using scaleTo_frame(1) [of D sid 0 u] unfolding that by simp
  obtain port ports s1 tr s2 where run: "PublishedPorts svc = port # ports"
      "ListenOnPort ops port sid s = (None, s1)"
      "SendListenRequestToAllNodes net info port sid (sent s1) = (None, tr)"
      "scaleTo D sid 0 (s1\<lparr>sent := tr\<rparr>) = (Returns None, s2)"
      "s' = s2\<lparr>keepAliveOps := (keepAliveOps s2)(sid := None)\<rparr>"
    using assms(3-6) unfolding keepAliveAndScaleDown_def
    by (auto simp: GetPublishedPort_def dest!: keep keep' split: option.splits list.splits prod.splits outcome.splits)
  obtain m where m: "map_update ops (PortsMap s) port 1 BPF_ANY = Inr m"
    and s1: "s1 = AddBPFListenerLog sid port (s\<lparr>portToServiceID := (portToServiceID s)(port \<mapsto> sid), PortsMap := m\<rparr>)"
    using run(2) by (auto simp: ListenOnPort_def Let_def split: sum.splits)
  have m1: "map_lookup ops m port = Some 1"
    using bpf_hash.update_inserts [OF assms(2) m] by simp
  have "service_inspect D (docker (s1\<lparr>sent := tr\<rparr>)) sid = Inr svc"
    using assms(3) s1 by (simp add: AddBPFListenerLog_def)
  from docker_api.scaleTo_inspect [OF assms(1) run(4) this]
  have zero: "\<exists>svc'. service_inspect D (docker s') sid = Inr svc' \<and> Replicated (Spec svc') = Some (Some 0)"
    using run(5) by auto
  have "tr = sent s1 @ map (listen_post port sid) (OtherNodes info)"
    using send_to_nodes_prefix [where send = "SendListenRequest net port sid" and net = net
        and mk = "listen_post port sid" and nodes = "OtherNodes info" and sent = "sent s1" and what = "''listen''"]
      run(3) by (auto simp: SendListenRequestToAllNodes_def)
  moreover have "portToServiceID s' = portToServiceID s1" "PortsMap s' = PortsMap s1" "sent s' = tr"
    using scaleTo_frame(4-6) [of D sid 0 "s1\<lparr>sent := tr\<rparr>"] unfolding run(4) by (simp_all add: run(5))
  ultimately show ?thesis
    using run(1) zero m1 s1 by (auto simp: AddBPFListenerLog_def)
qed

section \<open>A manager with one service, for the witnesses\<close>

definition ex_service :: "u64 \<Rightarrow> u32 list \<Rightarrow> service" where
  "ex_service n ports = \<lparr>ID = ''web'', Version = 1,
     Spec = \<lparr>Labels = Map.empty, Placement = Some [], Replicated = Some (Some n)\<rparr>,
     PublishedPorts = ports\<rparr>"

definition ex_manager ::
  "u64 \<Rightarrow> u32 list \<Rightarrow> (string \<Rightarrow> nat option) \<Rightarrow> (nat \<Rightarrow> (string \<times> phase) option) \<Rightarrow> (hmap, daemon) manager"
where
  "ex_manager n ports kas gs = \<lparr>portToServiceID = Map.empty, PortsMap = hmap_empty 256,
     bpfListenerLogs = Map.empty, sent = [], scalingLogs = [],
     docker = \<lparr>services = [ex_service n ports], containers = []\<rparr>,
     serviceLogs = Map.empty, containerLogs = Map.empty, keepAliveOps = kas, goroutines = gs, next_chan = 1\<rparr>"

definition ex_info :: SwarmNodeInfo where
  "ex_info = \<lparr>AutoscalerManager = True,
     OtherNodes = [\<lparr>Hostname = ''w1'', IP = ''10.0.0.2'', Manager = False\<rparr>], KeepAlive = 10000000000\<rparr>"

definition ex_net :: network where
  "ex_net tr p = Inr 200"

lemma ex_inspect [simp]:
  "service_inspect daemon_ops (docker (ex_manager n ports kas gs)) ''web'' = Inr (ex_service n ports)"
  by (simp add: ex_manager_def ex_service_def daemon_defs)

lemma ex_service_simps [simp]:
  "Replicated (Spec (ex_service n ports)) = Some (Some n)"
  "Labels (Spec (ex_service n ports)) x = None"
  "PublishedPorts (ex_service n ports) = ports" "ID (ex_service n ports) = ''web''"
  by (simp_all add: ex_service_def)

lemma ex_manager_simps [simp]:
  "keepAliveOps (ex_manager n ports kas gs) = kas" "goroutines (ex_manager n ports kas gs) = gs"
  "AutoscalerManager ex_info = True"
  by (simp_all add: ex_manager_def ex_info_def)

lemma ex_inv: "keep_alive_inv (ex_manager n ports Map.empty Map.empty)"
  by (simp add: keep_alive_inv_def)

lemma ex_scale_down:
  defines "s \<equiv> ex_manager 1 [80] [''web'' \<mapsto> 0] [0 \<mapsto> (''web'', Expired)]"
  defines "r \<equiv> keepAliveAndScaleDown hmap_ops daemon_ops ex_net ex_info ''web'' TimerExpired s"
  shows "r = (Returns (), snd r)" "keepAliveOps (snd r) ''web'' = None"
proof -
  have "fst r = Returns () \<and> keepAliveOps (snd r) ''web'' = None"
    unfolding r_def s_def
    by (simp add: keepAliveAndScaleDown_def GetPublishedPort_def)
      (simp add: ListenOnPort_def SendListenRequestToAllNodes_def SendListenRequest_def http_Post_def
        scaleTo_def AddBPFListenerLog_def AddServiceLog_def ex_info_def ex_net_def hmap_defs daemon_defs
        ex_manager_def ex_service_def)
  then show "r = (Returns (), snd r)" "keepAliveOps (snd r) ''web'' = None" by (simp_all add: prod_eq_iff)
qed

section \<open>Properties\<close>

text \<open>
  C7 (change_replicas_refines). A replica change that reports success did to the service's spec what
  the specification says: one replica more, or one less but never below one, with the placement
  constraint of a labelled service put in place when it comes down to one replica and lifted when
  it leaves one; everything else of the service is as before.
\<close>

theorem change_replicas_refines:
  assumes "docker_api D"
    and "service_inspect D (docker s) sid = Inr svc" "Replicated (Spec svc) = Some (Some n)"
    and "ChangeServiceReplicas D info sid dir s = (Returns None, s')"
  shows "\<exists>v. service_inspect D (docker s') sid =
    Inr (svc\<lparr>Version := v, Spec := replica_spec dir n (Spec svc)\<rparr>)"
  by (rule docker_api.ChangeServiceReplicas_spec [OF assms])

theorem change_replicas_refines_witness:
  "\<exists>v. service_inspect daemon_ops
      (docker (snd (ChangeServiceReplicas daemon_ops ex_info ''web'' ''over'' (ex_manager 3 [80] Map.empty Map.empty)))) ''web'' =
    Inr ((ex_service 3 [80])\<lparr>Version := v, Spec := (Spec (ex_service 3 [80]))\<lparr>Replicated := Some (Some 4)\<rparr>\<rparr>)"
proof -
  let ?s = "ex_manager 3 [80] Map.empty Map.empty"
  have "fst (ChangeServiceReplicas daemon_ops ex_info ''web'' ''over'' ?s) = Returns None"
    by (simp add: ChangeServiceReplicas_def check_def cancel_keep_alive_def scaleTo_def)
      (simp add: daemon_defs ex_manager_def ex_service_def AddServiceLog_def)
  then have "ChangeServiceReplicas daemon_ops ex_info ''web'' ''over'' ?s =
      (Returns None, snd (ChangeServiceReplicas daemon_ops ex_info ''web'' ''over'' ?s))"
    by (simp add: prod_eq_iff)
  from change_replicas_refines [OF daemon.docker_api_axioms ex_inspect _ this] show ?thesis
    by (simp add: replica_spec_def)
qed



text \<open>
  C17 (stranded_operation_is_permanent). Once a registered keep-alive operation has lost its goroutine,
  no further step of the manager ever repairs it: a request to scale the service up never
  succeeds again, because the handler waits for ever to cancel the operation, and a request to
  scale it down at one replica is ignored.
\<close>

theorem stranded_operation_is_permanent:
  assumes "keep_alive_inv s" "stranded s sid" and "(manager_step ops D net info)\<^sup>*\<^sup>* s s'"
  shows "stranded s' sid \<and> fst (ChangeServiceReplicas D info sid ''over'' s') \<noteq> Returns None \<and>
    (AutoscalerManager info \<longrightarrow> service_inspect D (docker s') sid = Inr svc \<longrightarrow>
     Replicated (Spec svc) = Some (Some n) \<longrightarrow> n \<le> 1 \<longrightarrow>
       ChangeServiceReplicas D info sid ''under'' s' = (Returns None, s'))"
proof -
  have str: "stranded s' sid" using manager_steps_stranded [OF assms(3,1,2)] .
  then obtain ch where ch: "keepAliveOps s' sid = Some ch" "goroutines s' ch = None" by (rule strandedE)
  have "\<not> 1 < n" if "n \<le> 1" using that by simp
  then have under: "AutoscalerManager info \<longrightarrow> service_inspect D (docker s') sid = Inr svc \<longrightarrow>
     Replicated (Spec svc) = Some (Some n) \<longrightarrow> n \<le> 1 \<longrightarrow>
       ChangeServiceReplicas D info sid ''under'' s' = (Returns None, s')"
    using ch by (simp add: ChangeServiceReplicas_def)
  have "stranded t sid" if "ChangeServiceReplicas D info sid ''over'' s' = (r, t)" for r t
    using ChangeServiceReplicas_stranded [OF manager_steps_inv [OF assms(3,1)] str, of D info sid "''over''"] that
    by simp
  have "fst (ChangeServiceReplicas D info sid ''over'' s') \<noteq> Returns None"
  proof
    assume "fst (ChangeServiceReplicas D info sid ''over'' s') = Returns None"
    then obtain t where t: "ChangeServiceReplicas D info sid ''over'' s' = (Returns None, t)"
      by (cases "ChangeServiceReplicas D info sid ''over'' s'") simp
    then obtain svc' s1 s2 and n :: u64 where
      "(if n = 1 then updateServiceConstraints D svc' False s' else (Returns None, s')) = (Returns None, s1)"
      "cancel_keep_alive sid s1 = (Returns None, s2)"
      by (rule change_over)
    moreover from this(1) have "s1 = snd (if n = 1 then updateServiceConstraints D svc' False s' else (Returns None, s'))"
      by simp
    then have "keepAliveOps s1 = keepAliveOps s'" "goroutines s1 = goroutines s'"
      by (cases "n = 1"; simp)+
    ultimately show False using ch by (simp add: cancel_keep_alive_def)
  qed
  with str under show ?thesis by blast
qed

theorem stranded_operation_is_permanent_witness:
  "stranded (ex_manager 1 [80] [''web'' \<mapsto> 0] Map.empty) ''web'' \<and>
   fst (ChangeServiceReplicas daemon_ops ex_info ''web'' ''over'' (ex_manager 1 [80] [''web'' \<mapsto> 0] Map.empty)) \<noteq> Returns None"
proof -
  let ?s = "ex_manager 1 [80] [''web'' \<mapsto> 0] Map.empty"
  have "keep_alive_inv ?s" by (auto simp: keep_alive_inv_def ex_manager_def split: if_splits)
  moreover have "stranded ?s ''web''" by (simp add: stranded_def)
  ultimately show ?thesis
    using stranded_operation_is_permanent [of ?s "''web''" hmap_ops daemon_ops ex_net ex_info ?s] by blast
qed

text \<open>
  A service that publishes no port reaches that state by running
  idle once: its keep-alive operation starts at one replica, its timer expires, and the goroutine
  ends without a port to listen on and without clearing the operation.
\<close>

theorem unpublished_service_strands:
  assumes "AutoscalerManager info" "service_inspect D (docker s) sid = Inr svc"
    and "Replicated (Spec svc) = Some (Some 1)" "PublishedPorts svc = []"
    and "keepAliveOps s sid = None"
  shows "\<exists>s'. (manager_step ops D net info)\<^sup>*\<^sup>* s s' \<and> stranded s' sid \<and> docker s' = docker s"
proof -
  let ?c = "next_chan s" and ?s1 = "start_keep_alive sid s"
  let ?s2 = "?s1\<lparr>goroutines := (goroutines ?s1)(?c \<mapsto> (sid, Expired))\<rparr>"
  let ?s3 = "?s2\<lparr>goroutines := (goroutines ?s2)(?c := None)\<rparr>"
  have "ChangeServiceReplicas D info sid ''under'' s = (Returns None, ?s1)"
    using assms by (simp add: ChangeServiceReplicas_def)
  then have "manager_step ops D net info s ?s1"
    using manager_step.change [of ops D net info s sid "''under''"] by simp
  moreover have "manager_step ops D net info ?s1 ?s2"
    by (rule manager_step.timer) (simp add: start_keep_alive_def)
  moreover have "keepAliveAndScaleDown ops D net info sid TimerExpired ?s2 = (Returns (), ?s2)"
    using assms by (simp add: keepAliveAndScaleDown_def GetPublishedPort_def start_keep_alive_def)
  then have "manager_step ops D net info ?s2 ?s3"
    by (intro manager_step.finish) simp_all
  ultimately have "(manager_step ops D net info)\<^sup>*\<^sup>* s ?s3" by (meson converse_rtranclp_into_rtranclp rtranclp.rtrancl_refl)
  moreover have "stranded ?s3 sid" by (simp add: stranded_def start_keep_alive_def)
  moreover have "docker ?s3 = docker s" by (simp add: start_keep_alive_def)
  ultimately show ?thesis by blast
qed

theorem unpublished_service_strands_witness:
  "\<exists>s'. (manager_step hmap_ops daemon_ops ex_net ex_info)\<^sup>*\<^sup>* (ex_manager 1 [] Map.empty Map.empty) s' \<and>
     stranded s' ''web'' \<and> docker s' = docker (ex_manager 1 [] Map.empty Map.empty)"
  by (rule unpublished_service_strands [OF _ ex_inspect]) simp_all

text \<open>
  A request to scale up that arrives after the keep-alive timer has
  expired and before its goroutine has ended waits for ever and changes nothing: the goroutine is
  past its select, and the scale-down goes on.
\<close>

theorem over_lost_while_scaling_down:
  assumes "AutoscalerManager info" "service_inspect D (docker s) sid = Inr svc"
    and "Replicated (Spec svc) = Some (Some n)"
    and "n = 1 \<longrightarrow> Labels (Spec svc) ''autoscaler.handlerNode'' = None"
    and "keepAliveOps s sid = Some ch" "goroutines s ch = Some (sid, Expired)"
  shows "ChangeServiceReplicas D info sid ''over'' s = (Blocks, s)"
  using assms
  by (simp add: ChangeServiceReplicas_def updateServiceConstraints_def cancel_keep_alive_def check_def)

theorem over_lost_while_scaling_down_witness:
  "ChangeServiceReplicas daemon_ops ex_info ''web'' ''over''
      (ex_manager 1 [80] [''web'' \<mapsto> 0] [0 \<mapsto> (''web'', Expired)]) =
    (Blocks, ex_manager 1 [80] [''web'' \<mapsto> 0] [0 \<mapsto> (''web'', Expired)])"
  by (rule over_lost_while_scaling_down [OF _ ex_inspect]) simp_all

text \<open>
  A request to scale up while the keep-alive timer runs ends the
  goroutine and clears the operation before it adds the replica, so that no scale-down follows.
\<close>

theorem over_cancels_keep_alive:
  assumes "docker_api D" "service_inspect D (docker s) sid = Inr svc"
    and "Replicated (Spec svc) = Some (Some n)"
    and "keepAliveOps s sid = Some ch" "goroutines s ch = Some (sid, Waiting)"
    and "ChangeServiceReplicas D info sid ''over'' s = (Returns None, s')"
  shows "keepAliveOps s' = (keepAliveOps s)(sid := None) \<and> goroutines s' = (goroutines s)(ch := None) \<and>
    (\<exists>svc'. service_inspect D (docker s') sid = Inr svc' \<and> Replicated (Spec svc') = Some (Some (n + 1)))"
proof -
  obtain v where "service_inspect D (docker s') sid = Inr (svc\<lparr>Version := v, Spec := replica_spec ''over'' n (Spec svc)\<rparr>)"
    using docker_api.ChangeServiceReplicas_spec [OF assms(1-3,6)] by blast
  moreover have "keepAliveOps s' = (keepAliveOps s)(sid := None) \<and> goroutines s' = (goroutines s)(ch := None)"
  proof (cases rule: ChangeServiceReplicas_cases [of s D info sid "''over''"])
    case same
    obtain svc' s1 s2 and m :: u64 where
      "(if m = 1 then updateServiceConstraints D svc' False s else (Returns None, s)) = (Returns None, s1)"
      "cancel_keep_alive sid s1 = (Returns None, s2)" "scaleTo D sid (m + 1) s2 = (Returns None, s')"
      using assms(6) by (rule change_over)
    moreover from this(1) have "s1 = snd (if m = 1 then updateServiceConstraints D svc' False s else (Returns None, s))"
      by simp
    then have "keepAliveOps s1 = keepAliveOps s" "goroutines s1 = goroutines s"
      by (cases "m = 1"; simp)+
    moreover have "keepAliveOps s' = keepAliveOps s2"
      using scaleTo_frame(1) [of D sid "m + 1" s2] calculation(3) by simp
    ultimately have "keepAliveOps s' sid = None" using assms(4,5) by (auto simp: cancel_keep_alive_def)
    moreover have "keepAliveOps s' = keepAliveOps s" using same assms(6) by (simp add: same_keep_alive_def)
    ultimately show ?thesis using assms(4) by simp
  next
    case (cancelled c sid')
    then show ?thesis using assms(4,6) by simp
  next
    case started
    then show ?thesis using assms(4) by simp
  qed
  ultimately show ?thesis by (simp add: replica_spec_def)
qed

theorem over_cancels_keep_alive_witness:
  "keepAliveOps (snd (ChangeServiceReplicas daemon_ops ex_info ''web'' ''over''
      (ex_manager 1 [80] [''web'' \<mapsto> 0] [0 \<mapsto> (''web'', Waiting)]))) ''web'' = None"
proof -
  let ?s = "ex_manager 1 [80] [''web'' \<mapsto> 0] [0 \<mapsto> (''web'', Waiting)]"
  let ?r = "ChangeServiceReplicas daemon_ops ex_info ''web'' ''over'' ?s"
  have "fst ?r = Returns None"
    by (simp add: ChangeServiceReplicas_def check_def cancel_keep_alive_def updateServiceConstraints_def scaleTo_def)
      (simp add: daemon_defs ex_manager_def ex_service_def AddServiceLog_def)
  then have "?r = (Returns None, snd ?r)" by (simp add: prod_eq_iff)
  from over_cancels_keep_alive [OF daemon.docker_api_axioms ex_inspect _ _ _ this, of 1 0]
  show ?thesis by simp
qed



end
