(* ===== verification/Conc_Req_Listener.thy ===== *)
theory Conc_Req_Listener imports Probe_Debounce Keep_Alive begin

text \<open>
  The Go side of the connection monitor
  (\<^verbatim>\<open>src/autoscaler/conc_req_monitoring/conc_req_monitoring.go\<close>): the limits it
  writes into the probe's constants map, the decoding of samples, the bookkeeping of network
  namespaces and what a container's monitor does with a signal. It works on the maps of the
  probe and, through \<open>ScaleService\<close> and \<open>SendScaleRequest\<close>, on the manager's state.
  A fatal log ends the process (\<open>Exits\<close>). Printed messages and the pause of five seconds
  before re-arming are left out.
\<close>

section \<open>Limits\<close>

record ConcReqResource =
  LowerLimit :: int
  UpperLimit :: int
  BufferLength :: int

definition map_put :: "'m map_ops \<Rightarrow> 'm \<Rightarrow> u32 \<Rightarrow> u32 \<Rightarrow> errno + 'm" where
  "map_put ops m k v = map_update ops m k v BPF_ANY"

definition write_limits ::
  "'m map_ops \<Rightarrow> ConcReqResource \<Rightarrow> 'm probe_maps \<Rightarrow> 'm probe_maps outcome"
where
  "write_limits ops resource s =
     (case map_put ops (constants_map s) 0 (uint32_of_int64 (LowerLimit resource)) of
        Inl _ \<Rightarrow> Exits
      | Inr m1 \<Rightarrow>
         (case map_put ops m1 1 (uint32_of_int64 (UpperLimit resource)) of
            Inl _ \<Rightarrow> Exits
          | Inr m2 \<Rightarrow>
             (case map_put ops m2 2 (uint32_of_int64 (BufferLength resource)) of
                Inl _ \<Rightarrow> Exits
              | Inr m3 \<Rightarrow> Returns (s\<lparr>constants_map := m3\<rparr>))))"

text \<open>
  Loading and attaching the probe, then the limits. \<open>Inl\<close> is the error that is returned; the
  probe is attached before the limits are written.
\<close>

record probe_handle =
  probe_link :: "string option"
  probe_reader :: bool
  probe_closing :: bool
  probe_closed :: bool

definition InitBPFListener ::
  "'m map_ops \<Rightarrow> bpf_calls \<Rightarrow> ConcReqResource \<Rightarrow> 'm probe_maps \<Rightarrow>
   (go_error + 'm probe_maps \<times> probe_handle) outcome"
where
  "InitBPFListener ops calls resource s =
     (case RemoveMemlock calls of
        Some err \<Rightarrow> Returns (Inl (''failed to remove memlock limit: '' @ err))
      | None \<Rightarrow>
     (case LoadBPFObjects calls of
        Some err \<Rightarrow> Returns (Inl (''loading objects: '' @ err))
      | None \<Rightarrow>
     (case Kprobe calls ''tcp_recvmsg'' of
        Some err \<Rightarrow> Returns (Inl (''attaching tcp_recvmsg kprobe: '' @ err))
      | None \<Rightarrow>
     (case NewReader calls of
        Some err \<Rightarrow> Returns (Inl (''creating perf reader: '' @ err))
      | None \<Rightarrow>
     (case write_limits ops resource s of
        Returns s' \<Rightarrow> Returns (Inr (s', \<lparr>probe_link = Some ''tcp_recvmsg'', probe_reader = True,
          probe_closing = False, probe_closed = False\<rparr>))
      | Panics \<Rightarrow> Panics
      | Exits \<Rightarrow> Exits
      | Blocks \<Rightarrow> Blocks)))))"

text \<open>Closing, under the listener's mutex, is done once.\<close>

definition Close_probe :: "probe_handle \<Rightarrow> probe_handle" where
  "Close_probe h =
     (if \<not> probe_closed h
      then h\<lparr>probe_closing := True, probe_link := None, probe_reader := False, probe_closed := True\<rparr>
      else h)"

lemma Close_probe_idem: "Close_probe (Close_probe h) = Close_probe h"
  by (simp add: Close_probe_def)

section \<open>Samples\<close>

text \<open>\<^verbatim>\<open>binary.Read\<close> into \<open>Data\<close>: four bytes, then six; extra bytes are not read.\<close>

definition decode_data :: "byte list \<Rightarrow> data_t option" where
  "decode_data raw =
     (if length raw < 10 then None
      else Some \<lparr>netns = le_u32 (take 4 raw), message = take 6 (drop 4 raw)\<rparr>)"

definition threshold_direction :: "string \<Rightarrow> string" where
  "threshold_direction threshold =
     (let t = strings_Trim threshold [CHR 0x00] in
      if t = ''Lower'' then ''under'' else if t = ''Upper'' then ''over'' else [])"

section \<open>Namespaces\<close>

text \<open>
  A namespace context: the channel on which the monitor of the namespace receives signals, made
  anew for every monitor, and whether the monitor has been cancelled.
\<close>

record NamespaceContext =
  Signal :: nat
  Done :: bool

record 'm conc_req =
  probe :: "'m probe_maps"
  namespaceToContext :: "u32 \<Rightarrow> NamespaceContext option"

definition addNamespaceToScalingMap :: "'m map_ops \<Rightarrow> u32 \<Rightarrow> 'm conc_req \<Rightarrow> 'm conc_req" where
  "addNamespaceToScalingMap ops ns s =
     (case map_put ops (scaling_map (probe s)) ns 0 of
        Inl _ \<Rightarrow> s
      | Inr m \<Rightarrow> s\<lparr>probe := (probe s)\<lparr>scaling_map := m\<rparr>\<rparr>)"

definition addNamespace ::
  "'m map_ops \<Rightarrow> u32 \<Rightarrow> NamespaceContext \<Rightarrow> 'm conc_req \<Rightarrow> go_error option outcome \<times> 'm conc_req"
where
  "addNamespace ops ns nsCtx s =
     (case map_put ops (conn_count_map (probe s)) ns 0 of
        Inl _ \<Rightarrow> (Exits, s)
      | Inr m1 \<Rightarrow>
         (let s1 = s\<lparr>probe := (probe s)\<lparr>conn_count_map := m1\<rparr>\<rparr> in
          case map_put ops (valid_netns_map (probe s1)) ns 1 of
            Inl _ \<Rightarrow> (Exits, s1)
          | Inr m2 \<Rightarrow>
             (let s2 = addNamespaceToScalingMap ops ns (s1\<lparr>probe := (probe s1)\<lparr>valid_netns_map := m2\<rparr>\<rparr>)
              in (Returns None, s2\<lparr>namespaceToContext := (namespaceToContext s2)(ns \<mapsto> nsCtx)\<rparr>))))"

definition removeNamespace ::
  "'m map_ops \<Rightarrow> u32 \<Rightarrow> 'm conc_req \<Rightarrow> go_error option \<times> 'm conc_req"
where
  "removeNamespace ops ns s =
     (case map_delete ops (conn_count_map (probe s)) ns of
        Inl err \<Rightarrow> (Some (errno_text err), s)
      | Inr m1 \<Rightarrow>
         (let s1 = s\<lparr>probe := (probe s)\<lparr>conn_count_map := m1\<rparr>\<rparr> in
          case map_delete ops (buffer_map (probe s1)) ns of
            Inl err \<Rightarrow> (Some (errno_text err), s1)
          | Inr m2 \<Rightarrow>
             (let s2 = s1\<lparr>probe := (probe s1)\<lparr>buffer_map := m2\<rparr>\<rparr> in
              case map_delete ops (valid_netns_map (probe s2)) ns of
                Inl err \<Rightarrow> (Some (errno_text err), s2)
              | Inr m3 \<Rightarrow>
                 (let s3 = s2\<lparr>probe := (probe s2)\<lparr>valid_netns_map := m3\<rparr>\<rparr>
                  in (None, s3\<lparr>namespaceToContext := (namespaceToContext s3)(ns := None)\<rparr>)))))"

text \<open>
  One sample of the event loop: the channel it sends a signal on, and the signal.
\<close>

definition dispatch_sample :: "'m conc_req \<Rightarrow> byte list \<Rightarrow> (nat \<times> string) option" where
  "dispatch_sample s raw =
     (case decode_data raw of
        None \<Rightarrow> None
      | Some d \<Rightarrow>
         (case namespaceToContext s (netns d) of
            None \<Rightarrow> None
          | Some ctx \<Rightarrow> if Done ctx then None else Some (Signal ctx, bytes_string (message d))))"

text \<open>
  The event loop. Each turn sees whether the listener is closing, the state it dispatches on, and
  what its read returns: that the reader is closed, another error, or a record with the number of
  samples lost before it and its bytes. What the loop sends, in order; a send that no monitor
  receives is the matter of \<open>Signal_Delivery\<close>.
\<close>

datatype probe_read = ReaderClosed | ReaderError | Record nat "byte list"

fun listen_probe :: "(bool \<times> 'm conc_req \<times> probe_read) list \<Rightarrow> (nat \<times> string) list" where
  "listen_probe [] = []"
| "listen_probe ((closing, s, record) # turns) =
     (if closing then []
      else case record of
        ReaderClosed \<Rightarrow> []
      | ReaderError \<Rightarrow> listen_probe turns
      | Record lost raw \<Rightarrow>
          if lost > 0 then listen_probe turns
          else (case dispatch_sample s raw of
              None \<Rightarrow> listen_probe turns
            | Some direction \<Rightarrow> direction # listen_probe turns))"

section \<open>The start of a monitor\<close>

text \<open>
  What a monitor does before its loop; \<open>ch\<close> is the channel it makes. It yields the service
  and the namespace the loop works with. The result of \<open>addNamespace\<close> is not looked at.
\<close>

definition monitor_start ::
  "'m map_ops \<Rightarrow> go_error option \<Rightarrow> 'd docker_ops \<Rightarrow> (string \<Rightarrow> go_error + u64) \<Rightarrow> string \<Rightarrow> nat \<Rightarrow>
   'm conc_req \<times> ('m, 'd) manager \<Rightarrow> (string \<times> u32) outcome \<times> 'm conc_req"
where
  "monitor_start ops client D stat containerID ch st =
     (let (c, s) = st in
      case FindServiceIDFromContainer D containerID s of
        Inl _ \<Rightarrow> (Exits, c)
      | Inr serviceID \<Rightarrow>
         (case GetContainerNamespace client D stat containerID (docker s) of
            Inl _ \<Rightarrow> (Exits, c)
          | Inr ns \<Rightarrow>
             (case addNamespace ops ns \<lparr>Signal = ch, Done = False\<rparr> c of
                (Returns _, c') \<Rightarrow> (Returns (serviceID, ns), c')
              | (Panics, c') \<Rightarrow> (Panics, c')
              | (Exits, c') \<Rightarrow> (Exits, c')
              | (Blocks, c') \<Rightarrow> (Blocks, c'))))"

section \<open>A signal in the monitor\<close>

text \<open>
  The body of the monitor's loop for one signal. The result says whether the loop goes on.
\<close>

definition monitor_signal ::
  "'m map_ops \<Rightarrow> 'd docker_ops \<Rightarrow> network \<Rightarrow> SwarmNodeInfo \<Rightarrow> string \<Rightarrow> string \<Rightarrow> u32 \<Rightarrow> string \<Rightarrow>
   'm conc_req \<times> ('m, 'd) manager \<Rightarrow> bool outcome \<times> 'm conc_req \<times> ('m, 'd) manager"
where
  "monitor_signal ops D net info containerID serviceID ns threshold st =
     (let (c, s) = st; direction = threshold_direction threshold in
      if AutoscalerManager info then
        (case ScaleService D info containerID direction s of
           (Returns _, s1) \<Rightarrow> (Returns True, addNamespaceToScalingMap ops ns c, s1)
         | (Panics, s1) \<Rightarrow> (Panics, c, s1)
         | (Exits, s1) \<Rightarrow> (Exits, c, s1)
         | (Blocks, s1) \<Rightarrow> (Blocks, c, s1))
      else
        (case GetManagerNode (OtherNodes info) of
           (_, Some _) \<Rightarrow> (Returns False, c, s)
         | (managerNode, None) \<Rightarrow>
             (Returns True, addNamespaceToScalingMap ops ns c,
              s\<lparr>sent := snd (SendScaleRequest net serviceID direction (IP managerNode) (sent s))\<rparr>)))"

section \<open>Lemmas\<close>

lemma decode_data_bytes:
  assumes "length (message d) = 6"
  shows "decode_data (data_bytes d @ pad) = Some d"
  using assms by (cases d) (simp add: decode_data_def data_bytes_def struct_data_t_layout)

lemma bytes_string_zero [simp]: "bytes_string [0] = [CHR 0x00]"
  by (simp add: bytes_string_def char_of_def)

lemma trim_signal:
  "strings_Trim (''Lower'' @ [CHR 0x00]) [CHR 0x00] = ''Lower''"
  "strings_Trim (''Upper'' @ [CHR 0x00]) [CHR 0x00] = ''Upper''"
  by (simp_all add: strings_Trim_def)

definition signal_direction :: "signal \<Rightarrow> string" where
  "signal_direction sg = (case sg of Lower \<Rightarrow> ''under'' | Upper \<Rightarrow> ''over'')"

lemma threshold_direction_signal:
  "threshold_direction (bytes_string (message (signal_event k sg))) = signal_direction sg"
  using trim_signal
  by (cases sg) (simp_all add: threshold_direction_def signal_event_def signal_direction_def)

lemma length_signal_event [simp]: "length (message (signal_event k sg)) = 6"
  by (cases sg) (simp_all add: signal_event_def)

lemma netns_signal_event [simp]: "netns (signal_event k sg) = k"
  by (simp add: signal_event_def)

lemma signal_data_event:
  "signal_data k v lo = signal_event k (if v \<le> lo then Lower else Upper)"
  by (simp add: signal_data_def signal_event_def)

text \<open>Every sample of the probe is a signal for the namespace of its event.\<close>

lemma kprobe_sample:
  assumes "d \<in> set (snd (kprobe_tcp_recvmsg ops rd task ctx p))"
  obtains v lo where "map_lookup ops (constants_map p) 0 = Some lo"
    "d = signal_data (get_netns_from_task rd task) v lo"
  using assms
  by (auto simp: kprobe_tcp_recvmsg_def scale_event_def Let_def split: if_splits option.splits prod.splits)

context bpf_hash
begin

lemma InitBPFListener_limits:
  assumes "InitBPFListener ops calls r p = Returns (Inr (p', h))"
  shows "map_lookup ops (constants_map p') 0 = Some (uint32_of_int64 (LowerLimit r))"
    "map_lookup ops (constants_map p') 1 = Some (uint32_of_int64 (UpperLimit r))"
    "map_lookup ops (constants_map p') 2 = Some (uint32_of_int64 (BufferLength r))"
proof -
  have "write_limits ops r p = Returns p'"
    using assms by (auto simp: InitBPFListener_def split: option.splits outcome.splits)
  then show "map_lookup ops (constants_map p') 0 = Some (uint32_of_int64 (LowerLimit r))"
    "map_lookup ops (constants_map p') 1 = Some (uint32_of_int64 (UpperLimit r))"
    "map_lookup ops (constants_map p') 2 = Some (uint32_of_int64 (BufferLength r))"
    by (auto simp: write_limits_def map_put_def update_inserts split: sum.splits)
qed

lemma rearm_view:
  "view ops (probe (addNamespaceToScalingMap ops k s)) k = (view ops (probe s) k)\<lparr>suppressed := False\<rparr>"
proof (cases "map_update ops (scaling_map (probe s)) k 0 BPF_ANY")
  case (Inl e)
  then have "map_lookup ops (scaling_map (probe s)) k = None" by (rule update_fails_absent)
  with Inl show ?thesis by (simp add: addNamespaceToScalingMap_def map_put_def view_def)
next
  case (Inr m)
  then show ?thesis
    by (simp add: addNamespaceToScalingMap_def map_put_def view_def update_inserts)
qed

lemma rearm_frame:
  "valid_netns_map (probe (addNamespaceToScalingMap ops k s)) = valid_netns_map (probe s)"
  "conn_count_map (probe (addNamespaceToScalingMap ops k s)) = conn_count_map (probe s)"
  "buffer_map (probe (addNamespaceToScalingMap ops k s)) = buffer_map (probe s)"
  "constants_map (probe (addNamespaceToScalingMap ops k s)) = constants_map (probe s)"
  "namespaceToContext (addNamespaceToScalingMap ops k s) = namespaceToContext s"
  by (simp_all add: addNamespaceToScalingMap_def split: sum.split)

lemma rearm_other:
  "k' \<noteq> k \<Longrightarrow> view ops (probe (addNamespaceToScalingMap ops k s)) k' = view ops (probe s) k'"
  by (simp add: addNamespaceToScalingMap_def map_put_def view_def update_inserts split: sum.split)

end

text \<open>
  The loop sends what its turns dispatch, up to the first turn that ends it: a read that failed, a
  record after lost samples and a sample of no monitor cost nothing but themselves.
\<close>

fun ends_loop :: "bool \<times> 'm conc_req \<times> probe_read \<Rightarrow> bool" where
  "ends_loop (closing, _, record) \<longleftrightarrow> closing \<or> record = ReaderClosed"

fun turn_message :: "bool \<times> 'm conc_req \<times> probe_read \<Rightarrow> (nat \<times> string) option" where
  "turn_message (_, s, Record 0 raw) = dispatch_sample s raw"
| "turn_message _ = None"

lemma listen_probe_turns: "listen_probe turns = List.map_filter turn_message (takeWhile (\<lambda>t. \<not> ends_loop t) turns)"
proof (induction turns)
  case (Cons turn turns)
  obtain closing s rd where turn: "turn = (closing, s, rd)" by (cases turn) auto
  show ?case
  proof (cases rd)
    case (Record lost raw)
    with Cons turn show ?thesis by (cases lost) (simp_all add: List.map_filter_simps split: option.split)
  qed (use Cons turn in \<open>simp_all add: List.map_filter_simps\<close>)
qed (simp add: List.map_filter_simps)

section \<open>Properties\<close>

definition ex_calls :: bpf_calls where
  "ex_calls = \<lparr>RemoveMemlock = None, LoadBPFObjects = None, LinkByName = (\<lambda>_. Inr 2),
     AttachTCX = (\<lambda>_. None), Kprobe = (\<lambda>_. None), NewReader = None\<rparr>"

definition ex_container :: container where
  "ex_container = \<lparr>ContainerLabels = [''com.docker.swarm.service.id'' \<mapsto> ''web''], Pid = 4711\<rparr>"

definition ex_context :: NamespaceContext where
  "ex_context = \<lparr>Signal = 0, Done = False\<rparr>"

text \<open>Namespace 77 of container c1, about to signal at its next event, or suppressed.\<close>

definition ex_conc :: "u32 \<Rightarrow> hmap conc_req" where
  "ex_conc sc = \<lparr>probe = ex_maps 1 9 0 sc, namespaceToContext = [77 \<mapsto> ex_context]\<rparr>"

lemma ex_conc_simps [simp]:
  "probe (ex_conc sc) = ex_maps 1 9 0 sc" "namespaceToContext (ex_conc sc) = [77 \<mapsto> ex_context]"
  "Signal ex_context = 0" "\<not> Done ex_context"
  by (simp_all add: ex_conc_def ex_context_def)

lemma ex_updates [simp]:
  "map_update hmap_ops (ex_map es) k v BPF_ANY =
     (if map_of es k = None \<and> 1024 \<le> length es then Inl E2BIG else Inr (ex_map (AList.update k v es)))"
  "map_delete hmap_ops (ex_map es) k =
     (if map_of es k = None then Inl ENOENT else Inr (ex_map (AList.delete k es)))"
  by (simp_all add: hmap_defs ex_map_def split: option.split)

text \<open>
  C22 (signal_reaches_its_monitor). Whatever sample the probe emits, padded by the kernel or not, the
  loop decodes it and sends it on the channel of the monitor whose namespace the event was in,
  and the monitor turns the kernel's Lower into under and its Upper into over.
\<close>

theorem signal_reaches_its_monitor:
  assumes "d \<in> set (snd (kprobe_tcp_recvmsg ops rd task ctx p))"
    and "namespaceToContext s (get_netns_from_task rd task) = Some c" "\<not> Done c"
  shows "\<exists>sg msg. d = signal_event (get_netns_from_task rd task) sg \<and>
    dispatch_sample s (data_bytes d @ pad) = Some (Signal c, msg) \<and>
    threshold_direction msg = signal_direction sg"
proof -
  let ?k = "get_netns_from_task rd task"
  from assms(1) obtain v lo where "d = signal_data ?k v lo" by (rule kprobe_sample)
  then obtain sg where d: "d = signal_event ?k sg" by (simp add: signal_data_event)
  then have "decode_data (data_bytes d @ pad) = Some d" by (simp add: decode_data_bytes)
  then have "dispatch_sample s (data_bytes d @ pad) = Some (Signal c, bytes_string (message d))"
    using assms(2,3) d by (simp add: dispatch_sample_def)
  with d threshold_direction_signal show ?thesis by blast
qed

theorem signal_reaches_its_monitor_witness:
  "\<exists>msg. dispatch_sample (ex_conc 1) (data_bytes (signal_data 77 10 3) @ [0, 0, 0, 0]) = Some (0, msg)"
proof -
  let ?run = "kprobe_tcp_recvmsg hmap_ops (ex_memory 77 1) 0x10000 0x40000 (ex_maps 1 9 0 0)"
  have "signal_data 77 10 3 \<in> set (snd ?run)"
    by (simp add: kprobe_tcp_recvmsg_def count_event_def scale_event_def buffer_event_def
        load_cell_def tcp_state_defs)
  from signal_reaches_its_monitor [OF this, of "ex_conc 1" ex_context "[0, 0, 0, 0]"]
  show ?thesis by auto
qed

text \<open>
  With the lower limit left at its default of -1, as when only
  an upper limit is configured, the conversion to uint32 makes it the largest count: every signal
  the probe sends is Lower, so the service is scaled down and never up.
\<close>

theorem lower_limit_disabled_always_lower:
  assumes "bpf_hash ops" "InitBPFListener ops calls r p0 = Returns (Inr (p1, h))" "LowerLimit r = -1"
    and "constants_map p = constants_map p1"
    and "d \<in> set (snd (kprobe_tcp_recvmsg ops rd task ctx p))"
  shows "d = signal_event (get_netns_from_task rd task) Lower"
proof -
  from assms(5) obtain v lo where d: "map_lookup ops (constants_map p) 0 = Some lo"
      "d = signal_data (get_netns_from_task rd task) v lo" by (rule kprobe_sample)
  have "map_lookup ops (constants_map p) 0 = Some (-1)"
    using bpf_hash.InitBPFListener_limits(1) [OF assms(1,2)] assms(3,4) by (simp add: uint32_of_int64_def)
  with d have "v \<le> lo" by (auto simp: word_order.extremum)
  with d show ?thesis by (simp add: signal_data_event)
qed

theorem lower_limit_disabled_always_lower_witness:
  "snd (kprobe_tcp_recvmsg hmap_ops (ex_memory 77 1) 0x10000 0x40000
     ((ex_maps 1 9 0 0)\<lparr>constants_map := ex_map [(0, -1), (1, 10), (2, 1)]\<rparr>)) = [signal_event 77 Lower]"
proof -
  let ?r = "\<lparr>LowerLimit = -1, UpperLimit = 10, BufferLength = 1\<rparr>"
  let ?c = "ex_map [(0, -1), (1, 10), (2, 1)]"
  let ?p0 = "(ex_maps 1 9 0 0)\<lparr>constants_map := ex_map []\<rparr>"
  let ?p = "(ex_maps 1 9 0 0)\<lparr>constants_map := ?c\<rparr>"
  let ?out = "snd (kprobe_tcp_recvmsg hmap_ops (ex_memory 77 1) 0x10000 0x40000 ?p)"
  have init: "InitBPFListener hmap_ops ex_calls ?r ?p0 = Returns (Inr (?p, \<lparr>probe_link = Some ''tcp_recvmsg'',
      probe_reader = True, probe_closing = False, probe_closed = False\<rparr>))"
    by (simp add: InitBPFListener_def ex_calls_def write_limits_def map_put_def uint32_of_int64_def)
  have out: "?out = [signal_data 77 10 (-1)]"
    by (simp add: kprobe_tcp_recvmsg_def count_event_def scale_event_def buffer_event_def
        load_cell_def tcp_state_defs word_order.extremum)
  then have "signal_data 77 10 (-1) = signal_event (get_netns_from_task (ex_memory 77 1) 0x10000) Lower"
    by (intro lower_limit_disabled_always_lower [OF hmap.bpf_hash_axioms init, where p = ?p and ctx = "0x40000"]) simp_all
  with out show ?thesis by simp
qed

text \<open>
  A namespace that has been added is tracked with no connections
  and is not suppressed, even if an earlier container with the same namespace left it suppressed;
  the namespaces already there are as before.
\<close>

theorem added_namespace_starts_afresh:
  assumes "bpf_hash ops" "addNamespace ops k c s = (Returns None, s')"
  shows "map_lookup ops (valid_netns_map (probe s')) k = Some 1 \<and>
    map_lookup ops (conn_count_map (probe s')) k = Some 0 \<and>
    \<not> suppressed (view ops (probe s') k) \<and> namespaceToContext s' k = Some c \<and>
    constants_map (probe s') = constants_map (probe s) \<and>
    (k' \<noteq> k \<longrightarrow> view ops (probe s') k' = view ops (probe s) k' \<and>
       map_lookup ops (valid_netns_map (probe s')) k' = map_lookup ops (valid_netns_map (probe s)) k')"
proof -
  obtain m1 m2 where m: "map_update ops (conn_count_map (probe s)) k 0 BPF_ANY = Inr m1"
      "map_update ops (valid_netns_map (probe s)) k 1 BPF_ANY = Inr m2"
    and s': "s' = (let s2 = addNamespaceToScalingMap ops k
        (s\<lparr>probe := (probe s)\<lparr>conn_count_map := m1, valid_netns_map := m2\<rparr>\<rparr>)
      in s2\<lparr>namespaceToContext := (namespaceToContext s2)(k \<mapsto> c)\<rparr>)"
    using assms(2) by (auto simp: addNamespace_def map_put_def Let_def split: sum.splits)
  note ins = bpf_hash.update_inserts [OF assms(1) m(1)] bpf_hash.update_inserts [OF assms(1) m(2)]
  have "view ops (probe s') k = (view ops ((probe s)\<lparr>conn_count_map := m1, valid_netns_map := m2\<rparr>) k)\<lparr>suppressed := False\<rparr>"
    by (simp add: s' Let_def bpf_hash.rearm_view [OF assms(1)])
  moreover have "view ops (probe s') k' = view ops (probe s) k'" if "k' \<noteq> k"
    using that by (simp add: s' Let_def bpf_hash.rearm_other [OF assms(1)]) (simp add: view_def ins)
  ultimately show ?thesis
    by (simp add: s' Let_def bpf_hash.rearm_frame [OF assms(1)] ins)
qed

theorem added_namespace_starts_afresh_witness:
  "\<not> suppressed (view hmap_ops (probe (snd (addNamespace hmap_ops 77 ex_context (ex_conc 1)))) 77)"
proof -
  have "addNamespace hmap_ops 77 ex_context (ex_conc 1) =
      (Returns None, snd (addNamespace hmap_ops 77 ex_context (ex_conc 1)))"
    by (simp add: addNamespace_def map_put_def Let_def prod_eq_iff)
  from added_namespace_starts_afresh [OF hmap.bpf_hash_axioms this] show ?thesis by blast
qed

text \<open>
  A namespace in which no event was buffered has no entry in
  buffer_map, and removing it fails there: its counter is gone, but the probe goes on tracking it
  and its context stays registered.
\<close>

theorem remove_without_buffer_keeps_tracking:
  assumes "bpf_hash ops" "map_lookup ops (buffer_map (probe s)) k = None"
    and "map_lookup ops (conn_count_map (probe s)) k = Some n"
  shows "let (err, s') = removeNamespace ops k s in
    err \<noteq> None \<and> map_lookup ops (conn_count_map (probe s')) k = None \<and>
    valid_netns_map (probe s') = valid_netns_map (probe s) \<and> namespaceToContext s' = namespaceToContext s"
proof -
  obtain m where "map_delete ops (conn_count_map (probe s)) k = Inr m" "map_lookup ops m k = None"
    using bpf_hash.delete_present [OF assms(1,3)] by auto
  then show ?thesis
    using bpf_hash.delete_absent [OF assms(1,2)] by (simp add: removeNamespace_def)
qed

theorem remove_without_buffer_keeps_tracking_witness:
  "let (err, s') = removeNamespace hmap_ops 77 ((ex_conc 0)\<lparr>probe := (ex_maps 1 9 0 0)\<lparr>buffer_map := ex_map []\<rparr>\<rparr>)
   in err \<noteq> None \<and> namespaceToContext s' 77 = Some ex_context"
  using remove_without_buffer_keeps_tracking [OF hmap.bpf_hash_axioms,
      of "(ex_conc 0)\<lparr>probe := (ex_maps 1 9 0 0)\<lparr>buffer_map := ex_map []\<rparr>\<rparr>" 77 9]
  by (simp add: split_beta)

text \<open>
  Removing a namespace with entries in all three maps makes the probe
  ignore it: no event of the namespace changes a map or sends a sample any more.
\<close>

theorem removed_namespace_is_silent:
  assumes "bpf_hash ops" "removeNamespace ops k s = (None, s')" "get_netns_from_task rd task = k"
  shows "kprobe_tcp_recvmsg ops rd task ctx (probe s') = (probe s', []) \<and> namespaceToContext s' k = None"
proof -
  obtain m3 where "map_delete ops (valid_netns_map (probe s)) k = Inr m3" "valid_netns_map (probe s') = m3"
    "namespaceToContext s' k = None"
    using assms(2) by (auto simp: removeNamespace_def Let_def split: sum.splits)
  moreover from this(1) have "map_lookup ops m3 k = None" by (rule bpf_hash.delete_removes [OF assms(1)])
  ultimately show ?thesis using assms(3) by (simp add: kprobe_tcp_recvmsg_def Let_def)
qed

theorem removed_namespace_is_silent_witness:
  "namespaceToContext (snd (removeNamespace hmap_ops 77 (ex_conc 0))) 77 = None"
proof -
  have "removeNamespace hmap_ops 77 (ex_conc 0) = (None, snd (removeNamespace hmap_ops 77 (ex_conc 0)))"
    by (simp add: removeNamespace_def prod_eq_iff)
  from removed_namespace_is_silent [OF hmap.bpf_hash_axioms this ex_netns [of 77 1]] show ?thesis by blast
qed

text \<open>
  A monitor whose loop goes on after a signal has re-armed its namespace, whether
  or not the scaling succeeded: the probe can signal it again, and its counter is untouched.
\<close>

theorem monitor_rearms:
  assumes "bpf_hash ops"
    and "monitor_signal ops D net info cid sid k threshold (c, s) = (Returns True, c', s')"
  shows "view ops (probe c') k = (view ops (probe c) k)\<lparr>suppressed := False\<rparr>"
proof -
  have "c' = addNamespaceToScalingMap ops k c"
    using assms(2)
    by (auto simp: monitor_signal_def Let_def split: if_splits prod.splits outcome.splits option.splits)
  then show ?thesis by (simp add: bpf_hash.rearm_view [OF assms(1)])
qed

theorem monitor_rearms_witness:
  "let (r, c', s') = monitor_signal hmap_ops daemon_ops ex_net ex_info ''c1'' ''web'' 77 ''Upper''
      (ex_conc 1, ex_manager 3 [80] Map.empty Map.empty)
   in \<not> suppressed (view hmap_ops (probe c') 77)"
proof -
  let ?m = "monitor_signal hmap_ops daemon_ops ex_net ex_info ''c1'' ''web'' 77 ''Upper''
      (ex_conc 1, ex_manager 3 [80] Map.empty Map.empty)"
  have "fst ?m = Returns True"
    by (simp add: monitor_signal_def ScaleService_def FindServiceIDFromContainer_def daemon_ops_def ex_manager_def)
  then have "?m = (Returns True, fst (snd ?m), snd (snd ?m))" by (simp add: prod_eq_iff)
  from monitor_rearms [OF hmap.bpf_hash_axioms this] show ?thesis by (simp add: split_beta)
qed

text \<open>
  When the service of a container has a keep-alive operation
  that nobody receives for, the monitor of the container waits for ever on the next Upper signal,
  and its namespace stays suppressed: the probe never signals it again.
\<close>

theorem blocked_monitor_stays_suppressed:
  assumes "AutoscalerManager info" "threshold_direction threshold = ''over''"
    and "FindServiceIDFromContainer D cid s = Inr sid"
    and "service_inspect D (docker s) sid = Inr svc" "Replicated (Spec svc) = Some (Some n)" "n \<noteq> 1"
    and "stranded s sid"
  shows "monitor_signal ops D net info cid sid k threshold (c, s) = (Blocks, c, s)"
proof -
  obtain ch where "keepAliveOps s sid = Some ch" "goroutines s ch = None" using assms(7) by (rule strandedE)
  with assms(1,4-6) have "ChangeServiceReplicas D info sid ''over'' s = (Blocks, s)"
    by (simp add: ChangeServiceReplicas_def cancel_keep_alive_def check_def)
  with assms(1-3) show ?thesis by (simp add: monitor_signal_def ScaleService_def check_def)
qed

theorem blocked_monitor_stays_suppressed_witness:
  "let s = (ex_manager 2 [80] [''web'' \<mapsto> 0] Map.empty)
      \<lparr>docker := \<lparr>services = [ex_service 2 [80]], containers = [(''c1'', ex_container)]\<rparr>\<rparr>
   in monitor_signal hmap_ops daemon_ops ex_net ex_info ''c1'' ''web'' 77 ''Upper'' (ex_conc 1, s) = (Blocks, ex_conc 1, s)"
  unfolding Let_def
  by (rule blocked_monitor_stays_suppressed [where svc = "ex_service 2 [80]" and n = 2])
    (simp_all add: threshold_direction_def strings_Trim_def FindServiceIDFromContainer_def daemon_ops_def
      daemon_inspect_def ex_container_def stranded_def)

end
