(* ===== verification/Signal_Delivery.thy ===== *)
theory Signal_Delivery imports Conc_Req_Listener begin

text \<open>
  The event loop and the monitors of
  \<^verbatim>\<open>src/autoscaler/conc_req_monitoring/conc_req_monitoring.go\<close> as goroutines that
  meet on unbuffered channels: the loop checks a monitor's context and then sends, the monitor
  waits for its context or a signal, works on a signal, and waits again. One step is one
  goroutine's progress to its next channel operation. The scaling itself is left to
  \<open>monitor_signal\<close>; here only that it takes time, and may end the monitor, matters.
\<close>

section \<open>States\<close>

datatype monitor_phase = AtSelect | Working string | Ended

datatype loop_phase = Reading | Sending nat string

record 'm delivery =
  conc :: "'m conc_req"
  monitor :: "nat \<Rightarrow> (u32 \<times> monitor_phase) option"
  cancelled :: "nat \<Rightarrow> bool"
  loop :: loop_phase
  next_channel :: nat

text \<open>Cancelling a monitor's context, which its namespace's entry refers to.\<close>

definition cancel_context :: "nat \<Rightarrow> 'm conc_req \<Rightarrow> 'm conc_req" where
  "cancel_context ch s = s\<lparr>namespaceToContext :=
     (\<lambda>ns. map_option (\<lambda>c. if Signal c = ch then c\<lparr>Done := True\<rparr> else c) (namespaceToContext s ns))\<rparr>"

section \<open>Steps\<close>

inductive delivery_step :: "'m map_ops \<Rightarrow> 'm delivery \<Rightarrow> 'm delivery \<Rightarrow> bool" for ops where
  ignore: "loop s = Reading \<Longrightarrow> dispatch_sample (conc s) raw = None \<Longrightarrow> delivery_step ops s s"
| send: "loop s = Reading \<Longrightarrow> dispatch_sample (conc s) raw = Some (ch, msg) \<Longrightarrow>
    delivery_step ops s (s\<lparr>loop := Sending ch msg\<rparr>)"
| receive: "loop s = Sending ch msg \<Longrightarrow> monitor s ch = Some (ns, AtSelect) \<Longrightarrow>
    delivery_step ops s (s\<lparr>loop := Reading, monitor := (monitor s)(ch \<mapsto> (ns, Working msg))\<rparr>)"
| rearm: "monitor s ch = Some (ns, Working msg) \<Longrightarrow>
    delivery_step ops s (s\<lparr>conc := addNamespaceToScalingMap ops ns (conc s),
      monitor := (monitor s)(ch \<mapsto> (ns, AtSelect))\<rparr>)"
| give_up: "monitor s ch = Some (ns, Working msg) \<Longrightarrow>
    delivery_step ops s (s\<lparr>monitor := (monitor s)(ch \<mapsto> (ns, Ended))\<rparr>)"
| cancel: "delivery_step ops s (s\<lparr>conc := cancel_context ch (conc s), cancelled := (cancelled s)(ch := True)\<rparr>)"
| stop: "monitor s ch = Some (ns, AtSelect) \<Longrightarrow> cancelled s ch \<Longrightarrow>
    delivery_step ops s (s\<lparr>conc := snd (removeNamespace ops ns (conc s)),
      monitor := (monitor s)(ch \<mapsto> (ns, Ended))\<rparr>)"
| start: "addNamespace ops ns \<lparr>Signal = next_channel s, Done = False\<rparr> (conc s) = (Returns None, c) \<Longrightarrow>
    delivery_step ops s (s\<lparr>conc := c, monitor := (monitor s)(next_channel s \<mapsto> (ns, AtSelect)),
      next_channel := Suc (next_channel s)\<rparr>)"

inductive_cases delivery_stepE: "delivery_step ops s s'"

section \<open>A send to a monitor that has ended\<close>

definition loop_stuck :: "'m delivery \<Rightarrow> bool" where
  "loop_stuck s \<longleftrightarrow>
     (case loop s of
        Reading \<Rightarrow> False
      | Sending ch msg \<Rightarrow>
          ch < next_channel s \<and> (case monitor s ch of Some (_, Ended) \<Rightarrow> True | _ \<Rightarrow> False))"

lemma loop_stuckE:
  assumes "loop_stuck s"
  obtains ch msg ns where "loop s = Sending ch msg" "ch < next_channel s" "monitor s ch = Some (ns, Ended)"
  using assms by (auto simp: loop_stuck_def split: loop_phase.splits option.splits prod.splits monitor_phase.splits)

lemma loop_stuck_step:
  assumes "delivery_step ops s s'" "loop_stuck s"
  shows "loop_stuck s' \<and> loop s' = loop s"
proof -
  obtain ch msg ns where st: "loop s = Sending ch msg" "ch < next_channel s" "monitor s ch = Some (ns, Ended)"
    using assms(2) by (rule loop_stuckE)
  from assms(1) show ?thesis
    by (cases rule: delivery_stepE) (use st in \<open>auto simp: loop_stuck_def\<close>)
qed

section \<open>Properties\<close>

text \<open>
  C30 (stopped_monitor_stops_the_loop). A container that stops while the loop is sending to its monitor
  takes down the monitoring of the whole node: from a state in which the loop is about to
  dispatch a sample to a waiting monitor, the loop may send, the monitor may be cancelled and
  choose its context over the signal, and from then on the loop waits for ever, so that no
  sample of any namespace is dispatched again.
\<close>

theorem stopped_monitor_stops_the_loop:
  assumes "loop s = Reading" "dispatch_sample (conc s) raw = Some (ch, msg)"
    and "monitor s ch = Some (ns, AtSelect)" "ch < next_channel s"
  shows "\<exists>s'. (delivery_step ops)\<^sup>*\<^sup>* s s' \<and>
    (\<forall>s''. (delivery_step ops)\<^sup>*\<^sup>* s' s'' \<longrightarrow> loop s'' = Sending ch msg)"
proof -
  let ?s1 = "s\<lparr>loop := Sending ch msg\<rparr>"
  let ?s2 = "?s1\<lparr>conc := cancel_context ch (conc ?s1), cancelled := (cancelled ?s1)(ch := True)\<rparr>"
  let ?s3 = "?s2\<lparr>conc := snd (removeNamespace ops ns (conc ?s2)), monitor := (monitor ?s2)(ch \<mapsto> (ns, Ended))\<rparr>"
  have "delivery_step ops s ?s1" using assms(1,2) by (rule delivery_step.send)
  moreover have "delivery_step ops ?s1 ?s2" by (rule delivery_step.cancel)
  moreover have "delivery_step ops ?s2 ?s3" by (rule delivery_step.stop) (simp_all add: assms(3))
  ultimately have reach: "(delivery_step ops)\<^sup>*\<^sup>* s ?s3"
    by (meson converse_rtranclp_into_rtranclp rtranclp.rtrancl_refl)
  have stuck: "loop_stuck ?s3" "loop ?s3 = Sending ch msg" using assms(4) by (simp_all add: loop_stuck_def)
  have "loop_stuck s'' \<and> loop s'' = Sending ch msg" if "(delivery_step ops)\<^sup>*\<^sup>* ?s3 s''" for s''
    using that
  proof (induction rule: rtranclp_induct)
    case base
    then show ?case using stuck by simp
  next
    case (step t u)
    then show ?case using loop_stuck_step by metis
  qed
  with reach show ?thesis by blast
qed

definition ex_delivery :: "hmap delivery" where
  "ex_delivery = \<lparr>conc = ex_conc 0, monitor = [0 \<mapsto> (77, AtSelect)],
     cancelled = (\<lambda>_. False), loop = Reading, next_channel = 1\<rparr>"

theorem stopped_monitor_stops_the_loop_witness:
  "\<exists>s' msg. (delivery_step hmap_ops)\<^sup>*\<^sup>* ex_delivery s' \<and>
     (\<forall>s''. (delivery_step hmap_ops)\<^sup>*\<^sup>* s' s'' \<longrightarrow> loop s'' = Sending 0 msg)"
proof -
  have "decode_data (data_bytes (signal_event 77 Upper)) = Some (signal_event 77 Upper)"
    using decode_data_bytes [of "signal_event 77 Upper" "[]"] by simp
  then have "dispatch_sample (conc ex_delivery) (data_bytes (signal_event 77 Upper)) =
      Some (0, bytes_string (message (signal_event 77 Upper)))"
    by (simp add: dispatch_sample_def ex_delivery_def)
  moreover have "loop ex_delivery = Reading" "monitor ex_delivery 0 = Some (77, AtSelect)"
    "0 < next_channel ex_delivery" by (simp_all add: ex_delivery_def)
  ultimately show ?thesis
    using stopped_monitor_stops_the_loop [of ex_delivery, where ops = hmap_ops] by meson
qed

end
