(* ===== verification/Wake_Up.thy ===== *)
theory Wake_Up imports Keep_Alive begin

text \<open>
  Scaling to zero and back, across the components: the packet that the kernel's classifier sees
  for the published port of a service at zero makes it emit a sample, whose first four bytes the
  Go loop reads back as the port; the loop removes the port everywhere and scales the service
  to one. The classifier, the perf sample, the listener, the requests and the scaler are those of
  the component theories; the properties connect them.
\<close>

section \<open>A port through the perf buffer\<close>

lemma le_nat_take: "le_nat (take n bs) = le_nat bs mod 256 ^ n"
proof (induction bs arbitrary: n)
  case (Cons b bs)
  show ?case
  proof (cases n)
    case (Suc k)
    have b: "unat b < 256" using unsigned_less [of b, where ?'a = nat] by simp
    then have "(unat b + 256 * le_nat bs) mod (256 * 256 ^ k) = unat b + 256 * (le_nat bs mod 256 ^ k)"
      by (simp add: mod_mult2_eq)
    with Cons Suc show ?thesis by simp
  qed simp
qed simp

text \<open>
  The program passes the port as an 8-byte little-endian value and the loop decodes the first
  four bytes of the sample, which the kernel may pad.
\<close>

lemma sample_port [simp]: "le_u32 (take 4 (u64_bytes (ucast (p :: u16)))) = ucast p"
proof -
  have p: "unat p < 65536" using unsigned_less [of p, where ?'a = nat] by simp
  have "(ucast p :: u64) = of_nat (unat p)" by simp
  then have "unat (ucast p :: u64) = unat p" using p by (simp add: unat_of_nat del: of_nat_unat)
  then have "le_nat (take 4 (u64_bytes (ucast p))) = unat p"
    using p by (simp add: le_nat_take u64_bytes_def)
  then show ?thesis by (simp add: le_u32_def)
qed

section \<open>Handling the sample of a monitored port\<close>

context port_listener
begin

lemma handle_sample_monitored:
  fixes net :: network
  assumes "4 \<le> length raw" "le_u32 (take 4 raw) = port" "portToServiceID s port = Some sid"
    and "AutoscalerManager info"
  defines "s1 \<equiv> snd (RemovePort ops port (s\<lparr>scalingLogs := scalingLogs s @ [''up'']\<rparr>))"
  defines "s2 \<equiv> s1\<lparr>sent := snd (SendRemoveRequestToAllNodes net info port (sent s1))\<rparr>"
  shows "handle_sample ops net info ScaleTo raw s =
    (ignore_result (fst (ScaleTo sid 1 s2)), snd (ScaleTo sid 1 s2))"
  using assms by (simp add: handle_sample_def Let_def split_beta)

lemma handle_sample_unmonitored:
  "portToServiceID s (le_u32 (take 4 raw)) = None \<Longrightarrow> handle_sample ops net info ScaleTo raw s = (Returns (), s)"
  by (simp add: handle_sample_def)

end

lemma scaleTo_accepted:
  assumes "accepts_updates D" "service_inspect D (docker s) sid = Inr svc" "Replicated (Spec svc) \<noteq> None"
  shows "fst (scaleTo D sid n s) = Returns None"
proof -
  have "fst (service_update D (docker s) sid (Version svc) sp) = None" for sp
    using assms(1,2) by (auto simp: accepts_updates_def)
  moreover obtain e d where "service_update D (docker s) sid (Version svc)
      ((Spec svc)\<lparr>Replicated := Some (Some n)\<rparr>) = (e, d)" by fastforce
  ultimately have "service_update D (docker s) sid (Version svc)
      ((Spec svc)\<lparr>Replicated := Some (Some n)\<rparr>) = (None, d)" by (metis fst_conv)
  with assms(2,3) show ?thesis by (auto simp: scaleTo_def)
qed

section \<open>Tables under every step\<close>

lemma ChangeServiceReplicas_tables:
  "portToServiceID (snd (ChangeServiceReplicas D info sid dir s)) = portToServiceID s \<and>
   PortsMap (snd (ChangeServiceReplicas D info sid dir s)) = PortsMap s \<and>
   bpfListenerLogs (snd (ChangeServiceReplicas D info sid dir s)) = bpfListenerLogs s"
proof -
  define same where "same = (\<lambda>t :: ('a, 'b) manager. portToServiceID t = portToServiceID s \<and>
    PortsMap t = PortsMap s \<and> bpfListenerLogs t = bpfListenerLogs s)"
  have chk: "same (snd (check r msg rest))"
    if "same (snd r)" "\<And>t. same t \<Longrightarrow> same (snd (rest t))" for r msg rest
    by (rule check_cases [of r msg rest]) (use that in auto)
  have ops: "same (snd (scaleTo D sid n t))" "same (snd (updateServiceConstraints D svc add t))"
    "same (snd (cancel_keep_alive sid t))" "same (start_keep_alive sid t)" if "same t" for t n svc add
    using that by (simp_all add: same_def cancel_keep_alive_def start_keep_alive_def
        split: option.split prod.split phase.split)
  have s: "same s" by (simp add: same_def)
  have upd: "same (snd (if b then updateServiceConstraints D svc add s else (Returns None, s)))" for b svc add
    using s ops(2) [OF s] by simp
  have over: "same (snd (check (if b then updateServiceConstraints D svc add s else (Returns None, s)) m
      (\<lambda>s1. check (cancel_keep_alive sid s1) m' (\<lambda>s2. scaleTo D sid n s2))))" for b svc add m m' n
    by (intro chk upd ops)
  have down: "same (snd (check (if b then updateServiceConstraints D svc add s else (Returns None, s)) m
      (\<lambda>s1. scaleTo D sid n s1)))" for b svc add m n
    by (intro chk upd ops)
  let ?r = "ChangeServiceReplicas D info sid dir s"
  have "same (snd ?r)"
  proof (cases "\<exists>svc n. AutoscalerManager info \<and> service_inspect D (docker s) sid = Inr svc \<and>
      Replicated (Spec svc) = Some (Some n)")
    case False
    then have "snd ?r = s" by (auto simp: ChangeServiceReplicas_def split: sum.split option.split)
    then show ?thesis by (simp add: s)
  next
    case True
    then obtain svc n where g: "AutoscalerManager info" "service_inspect D (docker s) sid = Inr svc"
      "Replicated (Spec svc) = Some (Some n)" by blast
    show ?thesis
    proof (cases "dir = ''over''")
      case True
      then show ?thesis using g over [of "n = 1" svc False] by (simp add: ChangeServiceReplicas_def)
    next
      case False
      then show ?thesis
        using g s ops(4) [OF s] down [of "n - 1 = 1" svc True]
        by (cases "1 < n") (simp_all add: ChangeServiceReplicas_def)
    qed
  qed
  then show ?thesis by (simp add: same_def)
qed

context bpf_hash
begin

lemma keepAliveAndScaleDown_consistent:
  fixes D :: "'d docker_ops" and s s' :: "('m, 'd) manager"
  assumes "keepAliveAndScaleDown ops D net info sid c s = (r, s')" "ports_consistent ops s"
  shows "ports_consistent ops s'"
proof -
  have upd: "ports_consistent ops (u\<lparr>sent := tr\<rparr>) = ports_consistent ops u"
    "ports_consistent ops (u\<lparr>keepAliveOps := k\<rparr>) = ports_consistent ops u"
    for u :: "('m, 'd) manager" and tr k by (simp_all add: ports_consistent_def)
  show ?thesis
  proof (cases "c = TimerExpired \<and> keepAliveOps s sid \<noteq> None \<and> (\<exists>port. GetPublishedPort D sid s = Inr port)")
    case False
    then have "s' = s"
      using assms(1) unfolding keepAliveAndScaleDown_def
      by (cases c; cases "keepAliveOps s sid"; cases "GetPublishedPort D sid s") auto
    then show ?thesis using assms(2) by simp
  next
    case True
    then obtain port where port: "GetPublishedPort D sid s = Inr port" by blast
    obtain e1 s1 where s1: "ListenOnPort ops port sid s = (e1, s1)" by fastforce
    obtain e2 tr where tr: "SendListenRequestToAllNodes net info port sid (sent s1) = (e2, tr)" by fastforce
    obtain r3 s2 where s2: "scaleTo D sid 0 (s1\<lparr>sent := tr\<rparr>) = (r3, s2)" by fastforce
    have "ports_consistent ops s1"
      using ListenOnPort_consistent [OF assms(2), of port sid] s1 by simp
    moreover from this have "ports_consistent ops s2"
      using ports_consistent_cong [OF scaleTo_frame(5-7) [of D sid 0 "s1\<lparr>sent := tr\<rparr>"], of ops] upd(1) s2 by simp
    moreover have "s' \<in> {s1, s1\<lparr>sent := tr\<rparr>, s2, s2\<lparr>keepAliveOps := (keepAliveOps s2)(sid := None)\<rparr>}"
      using assms(1) True s1 tr s2 port unfolding keepAliveAndScaleDown_def
      by (auto split: option.splits outcome.splits)
    ultimately show ?thesis using upd by auto
  qed
qed

lemma ports_consistent_step:
  fixes D :: "'d docker_ops" and s s' :: "('m, 'd) manager"
  assumes "manager_step ops D net info s s'" "ports_consistent ops s"
  shows "ports_consistent ops s'"
  using assms
proof (induction rule: manager_step.induct)
  case (change s sid dir)
  then show ?case
    using ChangeServiceReplicas_tables [of D info sid dir s] ports_consistent_cong by blast
next
  case (scale s cid dir)
  then show ?case
    using snd_ScaleService [of D info cid dir s] ChangeServiceReplicas_tables ports_consistent_cong
    by metis
next
  case (finish s ch sid r s')
  have "ports_consistent ops s'"
    by (rule keepAliveAndScaleDown_consistent [OF finish.hyps(2) finish.prems])
  then show ?case by (simp add: ports_consistent_def)
next
  case (listen s port sid)
  then show ?case by (rule ListenOnPort_consistent)
next
  case (remove s port)
  then show ?case by (rule RemovePort_consistent)
next
  case (sample s raw)
  show ?case
    using port_listener.handle_sample_consistent
      [OF port_listener.intro [OF bpf_hash_axioms service_scaler.scaler_axioms] sample] .
qed (simp_all add: ports_consistent_def)

end

text \<open>
  A goroutine whose timer has expired succeeds for a service that publishes a port, if there is
  room for the port and every node takes the request.
\<close>

lemma scale_down_succeeds:
  assumes "accepts_updates D" "bpf_hash ops"
    and svc: "service_inspect D (docker s) sid = Inr svc" "PublishedPorts svc = port # ports"
      "Replicated (Spec svc) \<noteq> None"
    and ka: "keepAliveOps s sid \<noteq> None" and room: "has_room ops (PortsMap s) port"
    and net: "SendListenRequestToAllNodes net info port sid (sent s) = (None, tr)"
  shows "\<exists>s'. keepAliveAndScaleDown ops D net info sid TimerExpired s = (Returns (), s') \<and> keepAliveOps s' sid = None"
proof -
  define s1 where "s1 = snd (ListenOnPort ops port sid s)"
  define s2 where "s2 = snd (scaleTo D sid 0 (s1\<lparr>sent := tr\<rparr>))"
  have l: "ListenOnPort ops port sid s = (None, s1)"
    using bpf_hash.ListenOnPort_listens(1) [OF assms(2) room, of sid] by (simp add: s1_def prod_eq_iff)
  have "service_inspect D (docker (s1\<lparr>sent := tr\<rparr>)) sid = Inr svc" using svc(1) by (simp add: s1_def)
  from scaleTo_accepted [OF assms(1) this svc(3), of 0]
  have "scaleTo D sid 0 (s1\<lparr>sent := tr\<rparr>) = (Returns None, s2)" by (simp add: s2_def prod_eq_iff)
  moreover have "sent s1 = sent s" by (simp add: s1_def)
  ultimately have "keepAliveAndScaleDown ops D net info sid TimerExpired s =
      (Returns (), s2\<lparr>keepAliveOps := (keepAliveOps s2)(sid := None)\<rparr>)"
    using ka svc(1,2) net by (auto simp: keepAliveAndScaleDown_def GetPublishedPort_def l)
  then show ?thesis by simp
qed

text \<open>A packet for a port that a service at the manager is listened on wakes the service up.\<close>

lemma packet_wakes:
  fixes s' :: "('m, 'd) manager" and p :: u16
  assumes D: "docker_api D" "accepts_updates D" and ops: "bpf_hash ops" "ports_consistent ops s'"
    and mgr: "AutoscalerManager info"
    and svc: "service_inspect D (docker s') sid = Inr svc0" "Replicated (Spec svc0) \<noteq> None"
    and listening: "portToServiceID s' (ucast p) = Some sid" "map_lookup ops (PortsMap s') (ucast p) = Some 1"
    and pkt: "length macs = 12" "length iph = 9" "length ipt = 10" "length src = 2" "16 \<le> length rest"
  shows "port_classifier ops (PortsMap s') \<lparr>data = a, linear = packet_bytes macs ETH_P_IP iph 6 ipt src p rest\<rparr>
      = Some (TC_ACT_OK, [ucast p]) \<and>
    (let (r, s'') = handle_sample ops net info (scaleTo D) (u64_bytes (ucast p) @ pad) s' in
       r = Returns () \<and> portToServiceID s'' (ucast p) = None \<and>
       map_lookup ops (PortsMap s'') (ucast p) = None \<and>
       sent s'' = snd (SendRemoveRequestToAllNodes net info (ucast p) (sent s')) \<and>
       scalingLogs s'' = scalingLogs s' @ [''up''] \<and>
       (\<exists>svc'. service_inspect D (docker s'') sid = Inr svc' \<and> Replicated (Spec svc') = Some (Some 1)))"
proof -
  let ?port = "ucast p :: u32" and ?raw = "u64_bytes (ucast p) @ pad"
  define s1 where "s1 = snd (RemovePort ops ?port (s'\<lparr>scalingLogs := scalingLogs s' @ [''up'']\<rparr>))"
  define s2 where "s2 = s1\<lparr>sent := snd (SendRemoveRequestToAllNodes net info ?port (sent s1))\<rparr>"
  define s3 where "s3 = snd (scaleTo D sid 1 s2)"
  have "docker s2 = docker s'" by (simp add: s2_def s1_def)
  with svc(1) have d2: "service_inspect D (docker s2) sid = Inr svc0" by simp
  then have ok: "fst (scaleTo D sid 1 s2) = Returns None"
    by (rule scaleTo_accepted [OF D(2)]) (rule svc(2))
  then have "scaleTo D sid 1 s2 = (Returns None, s3)" by (simp add: s3_def prod_eq_iff)
  from docker_api.scaleTo_inspect [OF D(1) this d2]
  have one: "\<exists>svc'. service_inspect D (docker s3) sid = Inr svc' \<and> Replicated (Spec svc') = Some (Some 1)"
    by auto
  have removed: "portToServiceID s3 ?port = None" "map_lookup ops (PortsMap s3) ?port = None"
    using bpf_hash.RemovePort_removes [OF ops, of ?port] by (simp_all add: s3_def s2_def s1_def)
  have sent: "sent s3 = snd (SendRemoveRequestToAllNodes net info ?port (sent s'))"
    and log: "scalingLogs s3 = scalingLogs s' @ [''up'']"
    by (simp_all add: s3_def s2_def s1_def)
  have "port_listener ops (scaleTo D :: string \<Rightarrow> u64 \<Rightarrow> ('m, 'd) manager operation)"
    by (rule port_listener.intro [OF ops(1) service_scaler.scaler_axioms])
  from port_listener.handle_sample_monitored [OF this, of ?raw ?port s' sid info net]
  have "handle_sample ops net info (scaleTo D) ?raw s' = (Returns (), s3)"
    using listening(1) mgr ok
    by (simp add: ignore_result_def s3_def s2_def s1_def)
  moreover have "port_classifier ops (PortsMap s')
      \<lparr>data = a, linear = packet_bytes macs ETH_P_IP iph 6 ipt src p rest\<rparr> = Some (TC_ACT_OK, [ucast p])"
    using listening(2) by (simp add: port_classifier_packet [OF pkt])
  ultimately show ?thesis using removed sent log one by simp
qed

section \<open>Properties\<close>

text \<open>
  C23 (ports_tables_agree). Whatever steps the manager takes from a state with empty tables, every port
  in the kernel's ports_map has a service to wake up, and the listener table shows exactly the
  ports in ports_map, each with that service.
\<close>

theorem ports_tables_agree:
  assumes "bpf_hash ops" and "ports_consistent ops s" and "(manager_step ops D net info)\<^sup>*\<^sup>* s s'"
  shows "ports_consistent ops s'"
  using assms(3)
proof (induction rule: rtranclp_induct)
  case base
  show ?case by (rule assms(2))
next
  case (step t u)
  show ?case by (rule bpf_hash.ports_consistent_step [OF assms(1) step.hyps(2) step.IH])
qed

theorem ports_tables_agree_witness:
  "ports_consistent hmap_ops (snd (ListenOnPort hmap_ops 80 ''web'' (ex_manager 1 [80] Map.empty Map.empty)))"
proof -
  let ?s = "ex_manager 1 [80] Map.empty Map.empty"
  have "ports_consistent hmap_ops ?s" by (simp add: ports_consistent_def ex_manager_def hmap_defs)
  moreover have "manager_step hmap_ops daemon_ops ex_net ex_info ?s (snd (ListenOnPort hmap_ops 80 ''web'' ?s))"
    by (rule manager_step.listen)
  ultimately show ?thesis
    by (rule ports_tables_agree [OF hmap.bpf_hash_axioms _ r_into_rtranclp])
qed

text \<open>
  C3 (wake_up_after_scale_to_zero). The first packet for a service at zero brings it back: after a
  keep-alive operation has scaled the service to zero, a TCP packet for its published port passes,
  makes the classifier emit one event, and the sample of that event, padded or not, makes the
  manager record the scaling, stop listening on the port, tell every other node, and scale the
  service to one.
\<close>

theorem wake_up_after_scale_to_zero:
  fixes s s' :: "('m, 'd) manager" and p :: u16
  assumes D: "docker_api D" "accepts_updates D" and ops: "bpf_hash ops" "ports_consistent ops s"
    and mgr: "AutoscalerManager info"
    and svc: "service_inspect D (docker s) sid = Inr svc" "PublishedPorts svc = ucast p # ports"
    and run: "keepAliveAndScaleDown ops D net info sid TimerExpired s = (Returns (), s')"
      "keepAliveOps s sid \<noteq> None" "keepAliveOps s' sid = None"
    and pkt: "length macs = 12" "length iph = 9" "length ipt = 10" "length src = 2" "16 \<le> length rest"
  shows "port_classifier ops (PortsMap s') \<lparr>data = a, linear = packet_bytes macs ETH_P_IP iph 6 ipt src p rest\<rparr>
      = Some (TC_ACT_OK, [ucast p]) \<and>
    (let (r, s'') = handle_sample ops net info (scaleTo D) (u64_bytes (ucast p) @ pad) s' in
       r = Returns () \<and> portToServiceID s'' (ucast p) = None \<and>
       map_lookup ops (PortsMap s'') (ucast p) = None \<and>
       sent s'' = snd (SendRemoveRequestToAllNodes net info (ucast p) (sent s')) \<and>
       scalingLogs s'' = scalingLogs s' @ [''up''] \<and>
       (\<exists>svc'. service_inspect D (docker s'') sid = Inr svc' \<and> Replicated (Spec svc') = Some (Some 1)))"
proof -
  from scale_down_completes [OF D(1) ops(1) svc(1) run] svc(2) obtain svc0 where
    listening: "portToServiceID s' (ucast p) = Some sid" "map_lookup ops (PortsMap s') (ucast p) = Some 1"
    and zero: "service_inspect D (docker s') sid = Inr svc0" "Replicated (Spec svc0) = Some (Some 0)"
    by auto
  have cons: "ports_consistent ops s'"
    by (rule bpf_hash.keepAliveAndScaleDown_consistent [OF ops(1) run(1) ops(2)])
  show ?thesis by (rule packet_wakes [OF D ops(1) cons mgr zero(1) _ listening pkt]) (simp add: zero)
qed

theorem wake_up_after_scale_to_zero_witness:
  "portToServiceID (snd (handle_sample hmap_ops ex_net ex_info (scaleTo daemon_ops) (u64_bytes (ucast (80 :: u16)) @ [0, 0, 0, 0])
      (snd (keepAliveAndScaleDown hmap_ops daemon_ops ex_net ex_info ''web'' TimerExpired
        (ex_manager 1 [80] [''web'' \<mapsto> 0] [0 \<mapsto> (''web'', Expired)]))))) 80 = None"
proof -
  let ?s = "ex_manager 1 [80] [''web'' \<mapsto> 0] [0 \<mapsto> (''web'', Expired)]"
  have "ports_consistent hmap_ops ?s" by (simp add: ports_consistent_def ex_manager_def hmap_defs)
  from wake_up_after_scale_to_zero [OF daemon.docker_api_axioms daemon_accepts_updates hmap.bpf_hash_axioms
      this _ ex_inspect _ ex_scale_down(1) _ ex_scale_down(2),
      where p = 80 and ports = "[]" and macs = "replicate 12 0" and iph = "replicate 9 0"
        and ipt = "replicate 10 0" and src = "replicate 2 0" and rest = "replicate 16 0"
        and pad = "[0, 0, 0, 0]"]
  show ?thesis by (simp add: split_beta)
qed

text \<open>
  Further samples for a port that has been handled, which the kernel queued
  before the port was removed, do nothing: however many packets arrive, a node asks once for its
  service to be scaled up.
\<close>

theorem burst_wakes_once:
  fixes s :: "('m, 'd) manager"
  assumes "bpf_hash ops" "ports_consistent ops s" "4 \<le> length raw" "take 4 raw' = take 4 raw"
    and "handle_sample ops net info (scaleTo D) raw s = (r, s')"
  shows "handle_sample ops net info (scaleTo D) raw' s' = (Returns (), s')"
proof -
  have pl: "port_listener ops (scaleTo D :: string \<Rightarrow> u64 \<Rightarrow> ('m, 'd) manager operation)"
    by (rule port_listener.intro [OF assms(1) service_scaler.scaler_axioms])
  let ?port = "le_u32 (take 4 raw)"
  have "portToServiceID s' ?port = None"
  proof (cases "portToServiceID s ?port")
    case None
    then show ?thesis using port_listener.handle_sample_unmonitored [OF pl None] assms(5) by auto
  next
    case (Some sid)
    from port_listener.handle_sample_tables(1) [OF pl assms(3) Some, of net info]
    show ?thesis
      using bpf_hash.RemovePort_removes(1) [OF assms(1,2), of ?port] assms(5) by simp
  qed
  then show ?thesis
    using port_listener.handle_sample_unmonitored [OF pl, of s' raw'] assms(4) by simp
qed

theorem burst_wakes_once_witness:
  "let s = snd (ListenOnPort hmap_ops 80 ''web'' (ex_manager 0 [80] Map.empty Map.empty));
       s' = snd (handle_sample hmap_ops ex_net ex_info (scaleTo daemon_ops) (u64_bytes 80) s)
   in handle_sample hmap_ops ex_net ex_info (scaleTo daemon_ops) (u64_bytes 80) s' = (Returns (), s')"
proof -
  let ?s = "ex_manager 0 [80] Map.empty Map.empty"
  have "ports_consistent hmap_ops ?s" by (simp add: ports_consistent_def ex_manager_def hmap_defs)
  then have cons: "ports_consistent hmap_ops (snd (ListenOnPort hmap_ops 80 ''web'' ?s))"
    by (rule hmap.ListenOnPort_consistent)
  show ?thesis
    unfolding Let_def
    by (rule burst_wakes_once [OF hmap.bpf_hash_axioms cons _ _ surjective_pairing]) simp_all
qed

text \<open>
  On a worker whose node list names no manager, the loop goes on
  after the failed lookup: it removes the port, so that no later packet wakes the service up, and
  posts the request to scale up to an empty host name.
\<close>

theorem worker_posts_without_manager:
  fixes s :: "('m, 'd) manager"
  assumes "\<not> AutoscalerManager info" "list_all (\<lambda>n. \<not> Manager n) (OtherNodes info)"
    and "4 \<le> length raw" "portToServiceID s (le_u32 (take 4 raw)) = Some sid"
    and "bpf_hash ops" "ports_consistent ops s"
  shows "let s' = snd (handle_sample ops net info (scaleTo D) raw s) in
    last (sent s') = scale_post sid ''over'' [] \<and> host_port (last (sent s')) = '':4567'' \<and>
    portToServiceID s' (le_u32 (take 4 raw)) = None \<and>
    map_lookup ops (PortsMap s') (le_u32 (take 4 raw)) = None"
proof -
  have "GetManagerNode nodes = (no_node, Some ''no manager node found'')" if "list_all (\<lambda>n. \<not> Manager n) nodes"
    for nodes :: "SwarmNode list"
    using that by (induction nodes) auto
  from this [OF assms(2)] have mgr: "GetManagerNode (OtherNodes info) = (no_node, Some ''no manager node found'')" .
  show ?thesis
    using assms(1,3,4) bpf_hash.RemovePort_removes [OF assms(5,6), of "le_u32 (take 4 raw)"]
    by (simp add: handle_sample_def Let_def mgr scale_post_def no_node_def)
qed

theorem worker_posts_without_manager_witness:
  "let s = snd (ListenOnPort hmap_ops 80 ''web'' (ex_manager 0 [80] Map.empty Map.empty));
       info = ex_info\<lparr>AutoscalerManager := False\<rparr>
   in host_port (last (sent (snd (handle_sample hmap_ops ex_net info (scaleTo daemon_ops) (u64_bytes 80) s)))) = '':4567''"
proof -
  let ?s = "ex_manager 0 [80] Map.empty Map.empty"
  let ?info = "ex_info\<lparr>AutoscalerManager := False\<rparr>"
  have "ports_consistent hmap_ops ?s" by (simp add: ports_consistent_def ex_manager_def hmap_defs)
  then have cons: "ports_consistent hmap_ops (snd (ListenOnPort hmap_ops 80 ''web'' ?s))"
    by (rule hmap.ListenOnPort_consistent)
  have port: "le_u32 (take 4 (u64_bytes 80)) = 80" using sample_port [of 80] by simp
  have "portToServiceID (snd (ListenOnPort hmap_ops 80 ''web'' ?s)) 80 = Some ''web''"
    by (rule hmap.ListenOnPort_listens) (simp add: has_room_def ex_manager_def hmap_defs)
  then show ?thesis
    using worker_posts_without_manager [OF _ _ _ _ hmap.bpf_hash_axioms cons,
        of ?info "u64_bytes 80" "''web''" ex_net daemon_ops]
    by (simp add: port ex_info_def Let_def scale_post_def)
qed

end
