(* ===== verification/Interleaving.thy ===== *)
theory Interleaving imports Prelude begin

text \<open>
  Threads that take turns: a thread is at a statement, which it executes in one step or where it
  has to wait. Two interfaces for what is executed statement by statement in the development: one
  whose statements make progress (\<open>ending_statements\<close>), and one whose threads wait only
  when they are over (\<open>unhindered_statements\<close>). The requests of \<open>Replica_Change_Steps\<close>
  provide the first; the goroutine of \<open>Scale_Down_Steps\<close>, the handler of \<open>Kprobe_CPUs\<close> and
  the removal of \<open>Removal_Steps\<close> provide the second.
\<close>

section \<open>Turns\<close>

inductive interleave :: "('t \<Rightarrow> 's \<Rightarrow> ('t \<times> 's) option) \<Rightarrow> 't list \<times> 's \<Rightarrow> 't list \<times> 's \<Rightarrow> bool"
  for code
where
  turn: "i < length ts \<Longrightarrow> code (ts ! i) s = Some (t, s') \<Longrightarrow> interleave code (ts, s) (ts[i := t], s')"

inductive_cases interleaveE: "interleave code (ts, s) (ts', s')"

lemma interleave_stuck: "(\<forall>c. \<not> interleave code (ts, s) c) \<longleftrightarrow> (\<forall>t \<in> set ts. code t s = None)"
proof
  assume stop: "\<forall>c. \<not> interleave code (ts, s) c"
  show "\<forall>t \<in> set ts. code t s = None"
  proof (rule ballI, rule ccontr)
    fix t assume "t \<in> set ts" "code t s \<noteq> None"
    then obtain i t' s' where "i < length ts" "code (ts ! i) s = Some (t', s')" by (auto simp: in_set_conv_nth)
    with stop show False by (blast intro: turn)
  qed
next
  assume "\<forall>t \<in> set ts. code t s = None"
  then show "\<forall>c. \<not> interleave code (ts, s) c" by (auto elim!: interleave.cases dest: nth_mem)
qed

text \<open>One thread, with something else before each of its statements.\<close>

definition driven :: "('t \<Rightarrow> 's \<Rightarrow> ('t \<times> 's) option) \<Rightarrow> ('s \<Rightarrow> 's) list \<Rightarrow> 't \<times> 's \<Rightarrow> 't \<times> 's" where
  "driven code = fold (\<lambda>other (t, s). case code t (other s) of None \<Rightarrow> (t, other s) | Some c \<Rightarrow> c)"

lemma driven_simps [simp]:
  "driven code [] c = c"
  "driven code (other # others) (t, s) =
     driven code others (case code t (other s) of None \<Rightarrow> (t, other s) | Some c \<Rightarrow> c)"
  by (simp_all add: driven_def)

section \<open>Statements that make progress\<close>

locale ending_statements =
  fixes code :: "'t \<Rightarrow> 's \<Rightarrow> ('t \<times> 's) option" and togo :: "'t \<Rightarrow> nat"
  assumes progress: "code t s = Some (t', s') \<Longrightarrow> togo t' < togo t"
begin

lemma turn_to_go:
  assumes "interleave code (ts, s) (ts', s')"
  shows "sum_list (map togo ts') < sum_list (map togo ts)"
proof -
  obtain i t where st: "ts' = ts[i := t]" "i < length ts" "code (ts ! i) s = Some (t, s')"
    using assms by (rule interleaveE)
  have "togo (ts ! i) \<le> sum_list (map togo ts)"
    using elem_le_sum_list [of i "map togo ts"] st(2) by simp
  then show ?thesis
    using progress [OF st(3)] st(2) by (simp add: st(1) map_update sum_list_update)
qed

lemma turns_to_go:
  "(interleave code ^^ n) (ts, s) (ts', s') \<Longrightarrow> n + sum_list (map togo ts') \<le> sum_list (map togo ts)"
proof (induction n arbitrary: ts' s')
  case (Suc n)
  then obtain ts1 s1 where "(interleave code ^^ n) (ts, s) (ts1, s1)" "interleave code (ts1, s1) (ts', s')"
    by auto
  with Suc.IH turn_to_go show ?case by fastforce
qed simp

text \<open>The statements that remain bound the turns, also with a common bound for all threads.\<close>

lemma turns_bounded:
  assumes "(interleave code ^^ n) (ts, s) c" "\<forall>t \<in> set ts. togo t \<le> b"
  shows "n \<le> b * length ts"
proof -
  have "sum_list (map togo ts) \<le> b * length ts"
    using assms(2) sum_list_mono [of ts togo "\<lambda>_. b"] by (simp add: sum_list_triv mult.commute)
  with turns_to_go [of n ts s "fst c" "snd c"] assms(1) show ?thesis by simp
qed

text \<open>Threads that take turns get to where none of them can go on.\<close>

lemma turns_come_to_rest:
  "\<exists>ts' s'. (interleave code)\<^sup>*\<^sup>* (ts, s) (ts', s') \<and> (\<forall>t \<in> set ts'. code t s' = None)"
proof (induction "sum_list (map togo ts)" arbitrary: ts s rule: less_induct)
  case less
  show ?case
  proof (cases "\<forall>t \<in> set ts. code t s = None")
    case False
    then obtain ts1 s1 where st: "interleave code (ts, s) (ts1, s1)"
      using interleave_stuck by (metis surj_pair)
    from less [OF turn_to_go [OF st], of s1] st show ?thesis by (meson converse_rtranclp_into_rtranclp)
  qed blast
qed

end

section \<open>Threads that wait for nothing\<close>

locale unhindered_statements = ending_statements +
  assumes waits_at_end: "code t s = None \<Longrightarrow> togo t = 0"
begin

lemma driven_to_go: "togo (fst (driven code others (t, s))) \<le> togo t - length others"
proof (induction others arbitrary: t s)
  case (Cons other others)
  show ?case
  proof (cases "code t (other s)")
    case None
    then show ?thesis using Cons [of t "other s"] waits_at_end [OF None] by simp
  next
    case (Some c)
    then obtain t' s' where c: "code t (other s) = Some (t', s')" by (cases c) simp
    from Cons [of t' s'] progress [OF c] show ?thesis by (simp add: c)
  qed
qed simp

text \<open>Whatever else happens before its statements, a thread is over after as many as it has to go.\<close>

lemma driven_ends: "togo t \<le> length others \<Longrightarrow> togo (fst (driven code others (t, s))) = 0"
  using driven_to_go [of others t s] by simp

end

end
