(* ===== verification/Scale_Down_Steps.thy ===== *)
theory Scale_Down_Steps imports Wake_Up Interleaving begin

text \<open>
  The body of a keep-alive goroutine statement by statement
  (\<^verbatim>\<open>keepAliveAndScaleDown\<close> in
  \<^verbatim>\<open>src/autoscaler/scale/scale.go\<close>), so that the event loop of the port
  listener and the request handlers can run in between. Run alone the statements are the
  goroutine of \<open>Scale_Manager\<close>; interleaved with a packet for the port they lose its wake-up.
\<close>

section \<open>The statements of the goroutine\<close>

text \<open>Where a goroutine whose timer has expired stands, and how it ended.\<close>

datatype pc = AtCheck | AtPort | AtListen u32 | AtBroadcast u32 | AtScale | AtDelete | Over "unit outcome"

fun scale_down_statement ::
  "'m map_ops \<Rightarrow> 'd docker_ops \<Rightarrow> network \<Rightarrow> SwarmNodeInfo \<Rightarrow> string \<Rightarrow> pc \<Rightarrow>
   ('m, 'd) manager \<Rightarrow> pc \<times> ('m, 'd) manager"
where
  "scale_down_statement ops D net info sid AtCheck s =
     (case keepAliveOps s sid of None \<Rightarrow> (Over (Returns ()), s) | Some _ \<Rightarrow> (AtPort, s))"
| "scale_down_statement ops D net info sid AtPort s =
     (case GetPublishedPort D sid s of Inl _ \<Rightarrow> (Over (Returns ()), s) | Inr port \<Rightarrow> (AtListen port, s))"
| "scale_down_statement ops D net info sid (AtListen port) s =
     (case ListenOnPort ops port sid s of
        (Some _, s1) \<Rightarrow> (Over (Returns ()), s1)
      | (None, s1) \<Rightarrow> (AtBroadcast port, s1))"
| "scale_down_statement ops D net info sid (AtBroadcast port) s =
     (case SendListenRequestToAllNodes net info port sid (sent s) of
        (Some _, tr) \<Rightarrow> (Over (Returns ()), s\<lparr>sent := tr\<rparr>)
      | (None, tr) \<Rightarrow> (AtScale, s\<lparr>sent := tr\<rparr>))"
| "scale_down_statement ops D net info sid AtScale s =
     (case scaleTo D sid 0 s of
        (Returns None, s1) \<Rightarrow> (AtDelete, s1)
      | (r, s1) \<Rightarrow> (Over (ignore_result r), s1))"
| "scale_down_statement ops D net info sid AtDelete s =
     (Over (Returns ()), s\<lparr>keepAliveOps := (keepAliveOps s)(sid := None)\<rparr>)"
| "scale_down_statement ops D net info sid (Over r) s = (Over r, s)"

text \<open>How many statements are left at most.\<close>

fun statements_left :: "pc \<Rightarrow> nat" where
  "statements_left AtCheck = 6"
| "statements_left AtPort = 5"
| "statements_left (AtListen _) = 4"
| "statements_left (AtBroadcast _) = 3"
| "statements_left AtScale = 2"
| "statements_left AtDelete = 1"
| "statements_left (Over _) = 0"

lemma statements_left_0: "statements_left pc = 0 \<Longrightarrow> \<exists>r. pc = Over r"
  by (cases pc) auto

lemma statement_Over: "statements_left pc = 0 \<Longrightarrow> scale_down_statement ops D net info sid pc s = (pc, s)"
  by (cases pc) auto

lemma statement_progress:
  "statements_left pc \<noteq> 0 \<Longrightarrow>
   statements_left (fst (scale_down_statement ops D net info sid pc s)) < statements_left pc"
  by (cases pc) (auto split: option.split sum.split prod.split outcome.split)

text \<open>The goroutine as a thread; it waits for nothing.\<close>

fun scale_down_thread ::
  "'m map_ops \<Rightarrow> 'd docker_ops \<Rightarrow> network \<Rightarrow> SwarmNodeInfo \<Rightarrow> string \<Rightarrow> pc \<Rightarrow>
   ('m, 'd) manager \<Rightarrow> (pc \<times> ('m, 'd) manager) option"
where
  "scale_down_thread ops D net info sid (Over r) s = None"
| "scale_down_thread ops D net info sid pc s = Some (scale_down_statement ops D net info sid pc s)"

lemma scale_down_thread_alt:
  "scale_down_thread ops D net info sid pc s =
     (if statements_left pc = 0 then None else Some (scale_down_statement ops D net info sid pc s))"
  by (cases pc) simp_all

interpretation goroutine: unhindered_statements "scale_down_thread ops D net info sid" statements_left
  for ops D net info sid
proof
  show "statements_left pc' < statements_left pc" if "scale_down_thread ops D net info sid pc s = Some (pc', s')" for pc s pc' s'
    using that statement_progress [of pc ops D net info sid s] by (simp add: scale_down_thread_alt split: if_splits)
qed (simp add: scale_down_thread_alt split: if_splits)

lemma driven_scale_down:
  fixes ops :: "'m map_ops" and D :: "'d docker_ops"
  shows "driven (scale_down_thread ops D net info sid) others =
     fold (\<lambda>other (pc, s). scale_down_statement ops D net info sid pc (other s)) others"
proof -
  have "(\<lambda>(other :: ('m, 'd) manager \<Rightarrow> _) (pc, s). case scale_down_thread ops D net info sid pc (other s) of None \<Rightarrow> (pc, other s) | Some c \<Rightarrow> c) =
      (\<lambda>other (pc, s). scale_down_statement ops D net info sid pc (other s))"
    by (intro ext) (simp add: scale_down_thread_alt statement_Over split: prod.split)
  then show ?thesis by (simp only: driven_def)
qed

function run_scale_down ::
  "'m map_ops \<Rightarrow> 'd docker_ops \<Rightarrow> network \<Rightarrow> SwarmNodeInfo \<Rightarrow> string \<Rightarrow> pc \<Rightarrow>
   ('m, 'd) manager \<Rightarrow> unit outcome \<times> ('m, 'd) manager"
where
  "run_scale_down ops D net info sid pc s =
     (case pc of
        Over r \<Rightarrow> (r, s)
      | _ \<Rightarrow> (case scale_down_statement ops D net info sid pc s of
           (pc', s') \<Rightarrow> run_scale_down ops D net info sid pc' s'))"
  by pat_completeness auto
termination
proof (relation "measure (\<lambda>(_, _, _, _, _, pc, _). statements_left pc)")
qed (auto split: option.splits sum.splits prod.splits outcome.splits)

declare run_scale_down.simps [simp del]

lemma run_Over: "run_scale_down ops D net info sid (Over r) s = (r, s)"
  by (subst run_scale_down.simps) simp

lemma run_statement:
  "statements_left pc \<noteq> 0 \<Longrightarrow> run_scale_down ops D net info sid pc s =
     (case scale_down_statement ops D net info sid pc s of
        (pc', s') \<Rightarrow> run_scale_down ops D net info sid pc' s')"
  by (subst run_scale_down.simps) (auto split: pc.split)

section \<open>Interleaving\<close>

text \<open>
  The goroutine with everything else that runs in the process at the same time, each of which
  may take a step between two of its statements.
\<close>

inductive concurrent_step ::
  "'m map_ops \<Rightarrow> 'd docker_ops \<Rightarrow> network \<Rightarrow> SwarmNodeInfo \<Rightarrow> string \<Rightarrow>
   pc \<times> ('m, 'd) manager \<Rightarrow> pc \<times> ('m, 'd) manager \<Rightarrow> bool"
  for ops D net info sid
where
  goroutine: "concurrent_step ops D net info sid (pc, s) (scale_down_statement ops D net info sid pc s)"
| sample: "concurrent_step ops D net info sid (pc, s) (pc, snd (handle_sample ops net info (scaleTo D) raw s))"
| change: "concurrent_step ops D net info sid (pc, s) (pc, snd (ChangeServiceReplicas D info sid' dir s))"
| listen: "concurrent_step ops D net info sid (pc, s) (pc, snd (ListenOnPort ops port sid' s))"
| remove: "concurrent_step ops D net info sid (pc, s) (pc, snd (RemovePort ops port s))"

text \<open>
  From the end of the broadcast on: the service runs one replica, every node listens on its port.
\<close>

lemma sample_before_scale:
  fixes s :: "('m, 'd) manager"
  assumes D: "docker_api D" "accepts_updates D" and ops: "bpf_hash ops" "ports_consistent ops s"
    and mgr: "AutoscalerManager info"
    and svc: "service_inspect D (docker s) sid = Inr svc" "Replicated (Spec svc) \<noteq> None"
    and port: "4 \<le> length raw" "le_u32 (take 4 raw) = port" "portToServiceID s port = Some sid"
  obtains s' svc' where "concurrent_step ops D net info sid (AtScale, s) (AtScale, s')"
    "sent s' = snd (SendRemoveRequestToAllNodes net info port (sent s))"
    "portToServiceID s' port = None" "map_lookup ops (PortsMap s') port = None"
    "service_inspect D (docker s') sid = Inr svc'" "Replicated (Spec svc') = Some (Some 1)"
proof -
  define s1 where "s1 = snd (RemovePort ops port (s\<lparr>scalingLogs := scalingLogs s @ [''up'']\<rparr>))"
  define s2 where "s2 = s1\<lparr>sent := snd (SendRemoveRequestToAllNodes net info port (sent s1))\<rparr>"
  define s3 where "s3 = snd (scaleTo D sid 1 s2)"
  have d2: "service_inspect D (docker s2) sid = Inr svc" using svc(1) by (simp add: s2_def s1_def)
  then have "scaleTo D sid 1 s2 = (Returns None, s3)"
    using scaleTo_accepted [OF D(2) d2 svc(2), of 1] by (simp add: s3_def prod_eq_iff)
  from docker_api.scaleTo_inspect [OF D(1) this d2] obtain svc' where
    one: "service_inspect D (docker s3) sid = Inr svc'" "Replicated (Spec svc') = Some (Some 1)" by auto
  have pl: "port_listener ops (scaleTo D :: string \<Rightarrow> u64 \<Rightarrow> ('m, 'd) manager operation)"
    by (rule port_listener.intro [OF ops(1) service_scaler.scaler_axioms])
  have "snd (handle_sample ops net info (scaleTo D) raw s) = s3"
    using port_listener.handle_sample_monitored [OF pl port mgr, of net] by (simp add: s3_def s2_def s1_def)
  then have "concurrent_step ops D net info sid (AtScale, s) (AtScale, s3)"
    using concurrent_step.sample [of ops D net info sid AtScale s raw] by simp
  moreover have "sent s3 = snd (SendRemoveRequestToAllNodes net info port (sent s))"
    by (simp add: s3_def s2_def s1_def)
  moreover have "portToServiceID s3 port = None" "map_lookup ops (PortsMap s3) port = None"
    using bpf_hash.RemovePort_removes [OF ops, of port] by (simp_all add: s3_def s2_def s1_def)
  ultimately show thesis using one that by blast
qed

lemma finish_scale_down:
  fixes s :: "('m, 'd) manager"
  assumes D: "docker_api D" "accepts_updates D"
    and svc: "service_inspect D (docker s) sid = Inr svc" "Replicated (Spec svc) \<noteq> None"
  obtains s' svc' where "(concurrent_step ops D net info sid)\<^sup>*\<^sup>* (AtScale, s) (Over (Returns ()), s')"
    "portToServiceID s' = portToServiceID s" "PortsMap s' = PortsMap s" "sent s' = sent s"
    "keepAliveOps s' = (keepAliveOps s)(sid := None)"
    "service_inspect D (docker s') sid = Inr svc'" "Replicated (Spec svc') = Some (Some 0)"
proof -
  define t where "t = snd (scaleTo D sid 0 s)"
  have t: "scaleTo D sid 0 s = (Returns None, t)"
    using scaleTo_accepted [OF D(2) svc, of 0] by (simp add: t_def prod_eq_iff)
  from docker_api.scaleTo_inspect [OF D(1) t svc(1)] obtain svc' where
    zero: "service_inspect D (docker t) sid = Inr svc'" "Replicated (Spec svc') = Some (Some 0)" by auto
  let ?u = "t\<lparr>keepAliveOps := (keepAliveOps t)(sid := None)\<rparr>"
  have "concurrent_step ops D net info sid (AtScale, s) (AtDelete, t)"
    using concurrent_step.goroutine [of ops D net info sid AtScale s] by (simp add: t)
  moreover have "concurrent_step ops D net info sid (AtDelete, t) (Over (Returns ()), ?u)"
    using concurrent_step.goroutine [of ops D net info sid AtDelete t] by simp
  ultimately have run: "(concurrent_step ops D net info sid)\<^sup>*\<^sup>* (AtScale, s) (Over (Returns ()), ?u)"
    by (meson converse_rtranclp_into_rtranclp rtranclp.rtrancl_refl)
  show thesis
  proof (rule that [OF run])
    show "service_inspect D (docker ?u) sid = Inr svc'" using zero(1) by simp
  qed (simp_all add: t_def zero(2))
qed

lemma start_scale_down:
  fixes s :: "('m, 'd) manager"
  assumes ops: "bpf_hash ops" "ports_consistent ops s"
    and svc: "service_inspect D (docker s) sid = Inr svc" "PublishedPorts svc = port # ports"
    and ka: "keepAliveOps s sid \<noteq> None" and room: "has_room ops (PortsMap s) port"
    and net: "SendListenRequestToAllNodes net info port sid (sent s) = (None, tr)"
  obtains s' where "(concurrent_step ops D net info sid)\<^sup>*\<^sup>* (AtCheck, s) (AtScale, s')"
    "portToServiceID s' port = Some sid" "map_lookup ops (PortsMap s') port = Some 1"
    "ports_consistent ops s'" "sent s' = tr" "docker s' = docker s" "keepAliveOps s' = keepAliveOps s"
proof -
  define s1 where "s1 = snd (ListenOnPort ops port sid s)"
  note listens = bpf_hash.ListenOnPort_listens [OF ops(1) room, of sid]
  have l: "ListenOnPort ops port sid s = (None, s1)" using listens(1) by (simp add: s1_def prod_eq_iff)
  let ?s2 = "s1\<lparr>sent := tr\<rparr>"
  note step = concurrent_step.goroutine [of ops D net info sid]
  have "concurrent_step ops D net info sid (AtCheck, s) (AtPort, s)"
    using step [of AtCheck s] ka by auto
  moreover have "concurrent_step ops D net info sid (AtPort, s) (AtListen port, s)"
    using step [of AtPort s] svc by (simp add: GetPublishedPort_def)
  moreover have "concurrent_step ops D net info sid (AtListen port, s) (AtBroadcast port, s1)"
    using step [of "AtListen port" s] by (simp add: l)
  moreover have "concurrent_step ops D net info sid (AtBroadcast port, s1) (AtScale, ?s2)"
    using step [of "AtBroadcast port" s1] net by (simp add: s1_def)
  ultimately have run: "(concurrent_step ops D net info sid)\<^sup>*\<^sup>* (AtCheck, s) (AtScale, ?s2)"
    by (meson converse_rtranclp_into_rtranclp rtranclp.rtrancl_refl)
  have "ports_consistent ops s1" unfolding s1_def by (rule bpf_hash.ListenOnPort_consistent [OF ops])
  then have "ports_consistent ops ?s2" by (simp add: ports_consistent_def)
  with run listens show thesis by (intro that [of ?s2]) (simp_all add: s1_def)
qed

section \<open>Properties\<close>






end
