(* ===== verification/Replica_Change_Steps.thy ===== *)
theory Replica_Change_Steps imports Wake_Up Interleaving begin

text \<open>
  A replica change statement by statement (\<^verbatim>\<open>ChangeServiceReplicas\<close> and
  \<^verbatim>\<open>scaleTo\<close> in \<^verbatim>\<open>src/autoscaler/scale/scale.go\<close>). The
  manager serves every HTTP request and every monitor in a goroutine of its own and no lock is
  taken, so several changes may be under way at once. Run alone the statements are the operation
  of \<open>Scale_Manager\<close>. Together they keep the replicas within bounds, but they lose changes,
  start keep-alive operations that nobody can cancel, and wait for ever for one that another
  request has cancelled.

  A statement is one access to the Docker daemon, to the table of keep-alive operations or to a
  channel. The table is a Go map; accesses to it that overlap in time, which the Go runtime may
  answer by ending the process, are not modelled.
\<close>

section \<open>The statements of a replica change\<close>

text \<open>
  Where a request stands; the arguments are its local variables: the service it has read, the
  number of replicas it is going to set, the channel it has taken from the table or made.
\<close>

datatype request_pc =
    AtInspect
  | AtUnpin service u64
  | AtCancel u64
  | AtSend nat u64
  | AtForget u64
  | AtPin service u64
  | AtExists
  | AtRegister
  | AtGo nat
  | AtReinspect u64
  | AtUpdate service u64
  | AtLog u64
  | Ended "go_error option outcome"

text \<open>\<^verbatim>\<open>if err := f(); err != nil { return wrap(err) }\<close>, then on to \<open>pc\<close>.\<close>

definition then_at ::
  "go_error option outcome \<times> 's \<Rightarrow> string \<Rightarrow> request_pc \<Rightarrow> request_pc \<times> 's"
where
  "then_at r msg pc =
     (case r of
        (Returns None, s) \<Rightarrow> (pc, s)
      | (Returns (Some err), s) \<Rightarrow> (Ended (Returns (Some (msg @ err))), s)
      | (stop, s) \<Rightarrow> (Ended stop, s))"

text \<open>One statement; \<open>None\<close> while it has to wait, and when the request has ended.\<close>

fun request_statement ::
  "'d docker_ops \<Rightarrow> SwarmNodeInfo \<Rightarrow> string \<Rightarrow> string \<Rightarrow> request_pc \<Rightarrow> ('m, 'd) manager \<Rightarrow>
   (request_pc \<times> ('m, 'd) manager) option"
where
  "request_statement D info sid dir AtInspect s =
     (if \<not> AutoscalerManager info then
        Some (Ended (Returns (Some ''changeServiceReplicas should only be called on manager node'')), s)
      else case service_inspect D (docker s) sid of
        Inl err \<Rightarrow> Some (Ended (Returns (Some err)), s)
      | Inr service \<Rightarrow>
         (case Replicated (Spec service) of
            Some (Some currentReplicas) \<Rightarrow>
              if dir = ''over'' then
                Some (if currentReplicas = 1 then AtUnpin service (currentReplicas + 1)
                      else AtCancel (currentReplicas + 1), s)
              else if dir = ''under'' then
                (if currentReplicas > 1 then
                   Some (if currentReplicas - 1 = 1 then AtPin service (currentReplicas - 1)
                         else AtReinspect (currentReplicas - 1), s)
                 else Some (AtExists, s))
              else Some (Ended (Returns (Some (''invalid direction: '' @ dir))), s)
          | _ \<Rightarrow> Some (Ended (Returns (Some ''service mode is not replicated or replicas are not set'')), s)))"
| "request_statement D info sid dir (AtUnpin service newReplicas) s =
     Some (then_at (updateServiceConstraints D service False s)
       ''error removing constraint from service: '' (AtCancel newReplicas))"
| "request_statement D info sid dir (AtCancel newReplicas) s =
     (case keepAliveOps s sid of
        None \<Rightarrow> Some (AtReinspect newReplicas, s)
      | Some ch \<Rightarrow> Some (AtSend ch newReplicas, s))"
| "request_statement D info sid dir (AtSend ch newReplicas) s =
     (case goroutines s ch of
        Some (_, Waiting) \<Rightarrow> Some (AtForget newReplicas, s\<lparr>goroutines := (goroutines s)(ch := None)\<rparr>)
      | _ \<Rightarrow> None)"
| "request_statement D info sid dir (AtForget newReplicas) s =
     Some (AtReinspect newReplicas, s\<lparr>keepAliveOps := (keepAliveOps s)(sid := None)\<rparr>)"
| "request_statement D info sid dir (AtPin service newReplicas) s =
     Some (then_at (updateServiceConstraints D service True s)
       ''error adding constraint to service: '' (AtReinspect newReplicas))"
| "request_statement D info sid dir AtExists s =
     Some (if keepAliveOps s sid \<noteq> None then Ended (Returns None) else AtRegister, s)"
| "request_statement D info sid dir AtRegister s =
     Some (AtGo (next_chan s),
       s\<lparr>keepAliveOps := (keepAliveOps s)(sid \<mapsto> next_chan s), next_chan := Suc (next_chan s)\<rparr>)"
| "request_statement D info sid dir (AtGo ch) s =
     Some (Ended (Returns None), s\<lparr>goroutines := (goroutines s)(ch \<mapsto> (sid, Waiting))\<rparr>)"
| "request_statement D info sid dir (AtReinspect replicas) s =
     (case service_inspect D (docker s) sid of
        Inl err \<Rightarrow> Some (Ended (Returns (Some err)), s)
      | Inr service \<Rightarrow>
         (case Replicated (Spec service) of
            None \<Rightarrow> Some (Ended Panics, s)
          | Some _ \<Rightarrow> Some (AtUpdate service replicas, s)))"
| "request_statement D info sid dir (AtUpdate service replicas) s =
     (case service_update D (docker s) sid (Version service)
         ((Spec service)\<lparr>Replicated := Some (Some replicas)\<rparr>) of
        (Some err, d) \<Rightarrow> Some (Ended (Returns (Some err)), s\<lparr>docker := d\<rparr>)
      | (None, d) \<Rightarrow> Some (AtLog replicas, s\<lparr>docker := d\<rparr>))"
| "request_statement D info sid dir (AtLog replicas) s =
     Some (Ended (Returns None), AddServiceLog sid (ucast replicas) s)"
| "request_statement D info sid dir (Ended r) s = None"

text \<open>How many statements are left at most.\<close>

fun request_left :: "request_pc \<Rightarrow> nat" where
  "request_left AtInspect = 9"
| "request_left (AtUnpin _ _) = 8"
| "request_left (AtCancel _) = 7"
| "request_left (AtSend _ _) = 6"
| "request_left (AtForget _) = 5"
| "request_left (AtPin _ _) = 4"
| "request_left AtExists = 3"
| "request_left AtRegister = 2"
| "request_left (AtGo _) = 1"
| "request_left (AtReinspect _) = 3"
| "request_left (AtUpdate _ _) = 2"
| "request_left (AtLog _) = 1"
| "request_left (Ended _) = 0"

lemma then_at_left: "then_at r msg pc = (pc', s') \<Longrightarrow> request_left pc' \<le> request_left pc"
  by (auto simp: then_at_def split: prod.splits outcome.splits option.splits)

lemma request_progress:
  "request_statement D info sid dir pc s = Some (pc', s') \<Longrightarrow> request_left pc' < request_left pc"
  by (cases pc)
    (auto dest!: then_at_left split: option.splits sum.splits prod.splits phase.splits if_splits)

function run_request ::
  "'d docker_ops \<Rightarrow> SwarmNodeInfo \<Rightarrow> string \<Rightarrow> string \<Rightarrow> request_pc \<Rightarrow> ('m, 'd) manager operation"
where
  "run_request D info sid dir pc s =
     (if request_left pc = 0 then (case pc of Ended r \<Rightarrow> (r, s) | _ \<Rightarrow> (Blocks, s))
      else case request_statement D info sid dir pc s of
        None \<Rightarrow> (Blocks, s)
      | Some (pc', s') \<Rightarrow> run_request D info sid dir pc' s')"
  by pat_completeness auto
termination
  by (relation "measure (\<lambda>(_, _, _, _, pc, _). request_left pc)") (auto dest: request_progress)

declare run_request.simps [simp del]

lemma run_Ended [simp]: "run_request D info sid dir (Ended r) s = (r, s)"
  by (subst run_request.simps) simp

lemma run_request_statement:
  "request_left pc \<noteq> 0 \<Longrightarrow> run_request D info sid dir pc s =
     (case request_statement D info sid dir pc s of
        None \<Rightarrow> (Blocks, s)
      | Some (pc', s') \<Rightarrow> run_request D info sid dir pc' s')"
  by (subst run_request.simps) simp

section \<open>One request alone\<close>

lemma run_then_at:
  "(case then_at r msg pc of (pc', s') \<Rightarrow> run_request D info sid dir pc' s') =
   check r msg (run_request D info sid dir pc)"
  by (auto simp: then_at_def check_def split: prod.split outcome.split option.split)

lemma run_reinspect: "run_request D info sid dir (AtReinspect n) s = scaleTo D sid n s"
  by (auto simp: run_request_statement scaleTo_def split: sum.split option.split prod.split)

lemma run_cancel:
  "run_request D info sid dir (AtCancel n) s = check (cancel_keep_alive sid s) [] (\<lambda>s1. scaleTo D sid n s1)"
proof -
  have swap: "t\<lparr>goroutines := g, keepAliveOps := k\<rparr> = t\<lparr>keepAliveOps := k, goroutines := g\<rparr>"
    for t :: "('a, 'b) manager" and g k by simp
  show ?thesis
    by (auto simp: run_request_statement run_reinspect cancel_keep_alive_def check_def swap
        split: option.split phase.split)
qed

lemma run_exists:
  "run_request D info sid dir AtExists s =
     (if keepAliveOps s sid \<noteq> None then (Returns None, s) else (Returns None, start_keep_alive sid s))"
  by (simp add: run_request_statement start_keep_alive_def)

text \<open>Alone, the statements are the operation: the same result and the same state on every path.\<close>

lemma run_inspect:
  "run_request D info sid dir AtInspect s = ChangeServiceReplicas D info sid dir s"
  unfolding ChangeServiceReplicas_def
  by (auto simp: run_request_statement [of AtInspect] run_request_statement [of "AtUnpin svc n" for svc n]
      run_request_statement [of "AtPin svc n" for svc n] run_then_at run_exists run_reinspect run_cancel check_def
      split: sum.split option.split prod.split outcome.split)

section \<open>Requests at once\<close>

text \<open>
  The requests under way, each for a service in a direction, and the manager's state. A request
  that has not arrived yet is one at its first statement.
\<close>

type_synonym request = "string \<times> string \<times> request_pc"

type_synonym ('m, 'd) requests = "request list \<times> ('m, 'd) manager"

inductive requests_step ::
  "'d docker_ops \<Rightarrow> SwarmNodeInfo \<Rightarrow> ('m, 'd) requests \<Rightarrow> ('m, 'd) requests \<Rightarrow> bool"
  for D info
where
  statement: "i < length ts \<Longrightarrow> ts ! i = (sid, dir, pc) \<Longrightarrow>
    request_statement D info sid dir pc s = Some (pc', s') \<Longrightarrow>
    requests_step D info (ts, s) (ts[i := (sid, dir, pc')], s')"

text \<open>Between two statements everything else in the process may run.\<close>

inductive process_step ::
  "'m map_ops \<Rightarrow> 'd docker_ops \<Rightarrow> network \<Rightarrow> SwarmNodeInfo \<Rightarrow> ('m, 'd) requests \<Rightarrow> ('m, 'd) requests \<Rightarrow> bool"
  for ops D net info
where
  request: "requests_step D info c c' \<Longrightarrow> process_step ops D net info c c'"
| other: "manager_step ops D net info s s' \<Longrightarrow> process_step ops D net info (ts, s) (ts, s')"

section \<open>Requests end or wait\<close>

text \<open>A request as a thread: its service and its direction stay, and it waits at its send.\<close>

fun request_thread ::
  "'d docker_ops \<Rightarrow> SwarmNodeInfo \<Rightarrow> request \<Rightarrow> ('m, 'd) manager \<Rightarrow> (request \<times> ('m, 'd) manager) option"
where
  "request_thread D info (sid, dir, pc) s =
     map_option (\<lambda>(pc', s'). ((sid, dir, pc'), s')) (request_statement D info sid dir pc s)"

fun request_to_go :: "request \<Rightarrow> nat" where
  "request_to_go (sid, dir, pc) = request_left pc"

lemma request_to_go_le: "request_to_go t \<le> 9"
proof (cases t)
  case (fields sid dir pc)
  then show ?thesis by (cases pc) simp_all
qed

lemma requests_interleave: "requests_step D info = interleave (request_thread D info)"
proof (intro ext iffI)
  show "interleave (request_thread D info) c c'" if "requests_step D info c c'" for c c'
    using that
  proof cases
    case (statement i ts sid dir pc s pc' s')
    then show ?thesis using turn [of i ts "request_thread D info" s "(sid, dir, pc')" s'] by simp
  qed
  show "requests_step D info c c'" if "interleave (request_thread D info) c c'" for c c'
    using that
  proof cases
    case (turn i ts s t s')
    moreover obtain sid dir pc where "ts ! i = (sid, dir, pc)" by (cases "ts ! i")
    ultimately show ?thesis by (auto intro: statement)
  qed
qed

interpretation requests: ending_statements "request_thread D info" request_to_go for D info
proof
  show "request_to_go t' < request_to_go t" if "request_thread D info t s = Some (t', s')" for t s t' s'
    using that by (cases t) (auto dest: request_progress)
qed

lemma statement_None:
  "request_statement D info sid dir pc s = None \<longleftrightarrow>
     (\<exists>r. pc = Ended r) \<or> (\<exists>ch m. pc = AtSend ch m \<and> (\<forall>x. goroutines s ch \<noteq> Some (x, Waiting)))"
  by (cases pc) (auto split: option.split sum.split prod.split phase.split)

section \<open>The replicas stay within bounds\<close>

text \<open>
  The name \<open>y\<close> stands for the service with the identifier \<open>x\<close>. \<open>B\<close> is the bound so far;
  each request to scale up raises it by one when it has read the replicas.
\<close>

definition names :: "'d docker_ops \<Rightarrow> 'd \<Rightarrow> string \<Rightarrow> string \<Rightarrow> bool" where
  "names D d x y \<longleftrightarrow> (\<exists>svc. service_inspect D d y = Inr svc \<and> ID svc = x)"

definition replicas_in :: "nat \<Rightarrow> service \<Rightarrow> bool" where
  "replicas_in B svc \<longleftrightarrow> (\<exists>n. Replicated (Spec svc) = Some (Some n) \<and> unat n \<in> {1..B})"

fun target_in :: "'d docker_ops \<Rightarrow> 'd \<Rightarrow> string \<Rightarrow> nat \<Rightarrow> string \<Rightarrow> request_pc \<Rightarrow> bool" where
  "target_in D d x B y (AtUnpin svc m) \<longleftrightarrow>
     names D d (ID svc) (ID svc) \<and> (ID svc = x \<longrightarrow> replicas_in B svc) \<and> (names D d x y \<longrightarrow> unat m \<in> {1..B})"
| "target_in D d x B y (AtPin svc m) \<longleftrightarrow>
     names D d (ID svc) (ID svc) \<and> (ID svc = x \<longrightarrow> replicas_in B svc) \<and> (names D d x y \<longrightarrow> unat m \<in> {1..B})"
| "target_in D d x B y (AtCancel m) \<longleftrightarrow> (names D d x y \<longrightarrow> unat m \<in> {1..B})"
| "target_in D d x B y (AtSend _ m) \<longleftrightarrow> (names D d x y \<longrightarrow> unat m \<in> {1..B})"
| "target_in D d x B y (AtForget m) \<longleftrightarrow> (names D d x y \<longrightarrow> unat m \<in> {1..B})"
| "target_in D d x B y (AtReinspect m) \<longleftrightarrow> (names D d x y \<longrightarrow> unat m \<in> {1..B})"
| "target_in D d x B y (AtUpdate _ m) \<longleftrightarrow> (names D d x y \<longrightarrow> unat m \<in> {1..B})"
| "target_in D d x B y _ \<longleftrightarrow> True"

lemma target_in_mono:
  "target_in D d x B y pc \<Longrightarrow> B \<le> B' \<Longrightarrow> names D d' = names D d \<Longrightarrow> target_in D d' x B' y pc"
  by (cases pc) (auto simp: replicas_in_def)

definition service_in :: "'d docker_ops \<Rightarrow> 'd \<Rightarrow> string \<Rightarrow> nat \<Rightarrow> bool" where
  "service_in D d x B \<longleftrightarrow> (\<exists>svc. service_inspect D d x = Inr svc \<and> ID svc = x \<and> replicas_in B svc)"

lemma service_in_mono: "service_in D d x B \<Longrightarrow> B \<le> B' \<Longrightarrow> service_in D d x B'"
  by (force simp: service_in_def replicas_in_def)

text \<open>The requests that have read the replicas in order to scale up, and all that want to.\<close>

definition overs :: "request list \<Rightarrow> nat" where
  "overs ts = length (filter (\<lambda>(_, dir, pc). dir = ''over'' \<and> pc \<noteq> AtInspect) ts)"

definition all_overs :: "request list \<Rightarrow> nat" where
  "all_overs ts = length (filter (\<lambda>(_, dir, _). dir = ''over'') ts)"

definition bounds_inv :: "'d docker_ops \<Rightarrow> string \<Rightarrow> string \<Rightarrow> nat \<Rightarrow> nat \<Rightarrow> ('m, 'd) requests \<Rightarrow> bool" where
  "bounds_inv D x sid n k c \<longleftrightarrow>
     (case c of (ts, s) \<Rightarrow>
       service_in D (docker s) x (n + overs ts) \<and> names D (docker s) x sid \<and>
       (\<forall>(y, dir, pc) \<in> set ts. target_in D (docker s) x (n + overs ts) y pc) \<and>
       all_overs ts = k \<and> n + k < 2 ^ 64)"

lemma overs_le: "overs ts \<le> all_overs ts"
  unfolding overs_def all_overs_def by (induction ts) auto

context docker_api
begin

lemma names_inspect: "names D d x y \<Longrightarrow> service_inspect D d y = service_inspect D d x"
  using inspect_by_id by (auto simp: names_def)

lemma names_self: "service_inspect D d y = Inr svc \<Longrightarrow> names D d (ID svc) (ID svc)"
  using inspect_by_id by (auto simp: names_def)

lemma update_names:
  assumes "service_update D d y v sp = (r, d')"
  shows "names D d' = names D d"
proof (cases r)
  case None
  then obtain svc v' where "\<forall>z. service_inspect D d' z = map_sum id (updated svc v' sp) (service_inspect D d z)"
    using update_succeeds assms by blast
  then have "names D d' x z = names D d x z" for x z
    by (cases "service_inspect D d z") (auto simp: names_def updated_def)
  then show ?thesis by blast
next
  case (Some e)
  then show ?thesis using update_fails assms by metis
qed

lemma update_in:
  assumes "service_update D d y v sp = (r, d')" "service_in D d x B"
    and sp: "names D d x y \<Longrightarrow> \<exists>n. Replicated sp = Some (Some n) \<and> unat n \<in> {1..B}"
  shows "service_in D d' x B"
proof (cases r)
  case None
  then obtain svc v' where u: "service_inspect D d y = Inr svc"
      "service_inspect D d' x = map_sum id (updated svc v' sp) (service_inspect D d x)"
    using update_succeeds assms(1) by blast
  then show ?thesis
    using assms(2) sp by (auto simp: service_in_def replicas_in_def updated_def names_def)
next
  case (Some e)
  then show ?thesis using update_fails assms by metis
qed

lemma constraints_in:
  assumes "updateServiceConstraints D svc add s = (r, s')" "service_in D (docker s) x B"
    and svc: "names D (docker s) (ID svc) (ID svc)" "ID svc = x \<longrightarrow> replicas_in B svc"
  shows "service_in D (docker s') x B \<and> names D (docker s') = names D (docker s)"
proof -
  let ?sp = "\<lambda>c. (Spec svc)\<lparr>Placement := Some c\<rparr>"
  have self: "ID svc = x" if "names D (docker s) x (ID svc)" using that svc(1) by (auto simp: names_def)
  have up: "service_in D d x B \<and> names D d = names D (docker s)"
    if "service_update D (docker s) (ID svc) (Version svc) (?sp c) = (e, d)" for c e d
    using update_in [OF that assms(2)] update_names [OF that] svc(2) self by (auto simp: replicas_in_def)
  show ?thesis
    using assms(1,2)
    by (auto simp: updateServiceConstraints_def Let_def split: option.splits prod.splits dest!: up)
qed

lemma then_at_in:
  assumes "then_at r msg pc = (pc', s')" "target_in D d x B y pc"
  shows "snd r = s' \<and> target_in D d x B y pc'"
  using assms by (cases r) (auto simp: then_at_def split: outcome.splits option.splits)

text \<open>What a request reads raises the bound by one if it scales up.\<close>

lemma inspect_in:
  assumes st: "request_statement D info y dir AtInspect s = Some (pc', s')" and svc: "service_in D (docker s) x B"
    and B: "B + of_bool (dir = ''over'') < 2 ^ 64"
  shows "s' = s \<and> target_in D (docker s) x (B + of_bool (dir = ''over'')) y pc'"
proof -
  have held: "names D (docker s) (ID svc) (ID svc) \<and> (ID svc = x \<longrightarrow> unat n \<in> {1..B}) \<and> (names D (docker s) x y \<longrightarrow> ID svc = x)"
    if "service_inspect D (docker s) y = Inr svc" "Replicated (Spec svc) = Some (Some n)" for svc n
  proof (intro conjI impI)
    show "names D (docker s) (ID svc) (ID svc)" using names_self that(1) .
    show "ID svc = x" if "names D (docker s) x y"
      using that \<open>service_inspect D (docker s) y = Inr svc\<close> by (auto simp: names_def)
    assume "ID svc = x"
    then have "service_inspect D (docker s) x = Inr svc" using inspect_by_id [OF that(1)] by simp
    then show "unat n \<in> {1..B}" using assms(2) that(2) by (auto simp: service_in_def replicas_in_def)
  qed
  have up: "unat (n + 1) = unat n + 1" if "unat n \<in> {1..B}" "dir = ''over''" for n :: u64
    using that B by (simp add: unat_word_ariths)
  have down: "unat (n - 1) = unat n - 1" if "1 < n" for n :: u64
    using that by (simp add: unat_sub word_le_nat_alt word_less_nat_alt)
  show ?thesis
  proof (cases "\<exists>svc n. AutoscalerManager info \<and> service_inspect D (docker s) y = Inr svc \<and>
      Replicated (Spec svc) = Some (Some n) \<and> (dir = ''over'' \<or> dir = ''under'')")
    case False
    then show ?thesis using st by (auto split: if_splits sum.splits option.splits)
  next
    case True
    then obtain svc n where read: "AutoscalerManager info" "service_inspect D (docker s) y = Inr svc"
      "Replicated (Spec svc) = Some (Some n)" and dir: "dir = ''over'' \<or> dir = ''under''" by blast
    note h = held [OF read(2,3)]
    have n: "unat n \<in> {1..B}" if "names D (docker s) x y" using h that by blast
    from dir show ?thesis
    proof
      assume "dir = ''over''"
      then show ?thesis using st read h n up by (auto simp: replicas_in_def split: if_splits)
    next
      assume "dir = ''under''"
      then show ?thesis
        using st read h n down by (auto simp: replicas_in_def word_less_nat_alt split: if_splits)
    qed
  qed
qed

lemma statement_in:
  assumes st: "request_statement D info y dir pc s = Some (pc', s')"
    and inv: "service_in D (docker s) x B" "target_in D (docker s) x B y pc"
  defines "B' \<equiv> B + of_bool (dir = ''over'' \<and> pc = AtInspect)"
  assumes "B' < 2 ^ 64"
  shows "service_in D (docker s') x B' \<and> target_in D (docker s') x B' y pc' \<and> names D (docker s') = names D (docker s)"
proof (cases "pc = AtInspect")
  case True
  then show ?thesis
    using inspect_in [OF st [unfolded True] inv(1)] assms(5) service_in_mono [OF inv(1), of B'] by (simp add: B'_def)
next
  case False
  then have B': "B' = B" by (simp add: B'_def)
  show ?thesis
  proof (cases pc)
    case (AtUnpin svc m)
    with st obtain r where r: "updateServiceConstraints D svc False s = r"
      "then_at r ''error removing constraint from service: '' (AtCancel m) = (pc', s')" by simp
    with constraints_in [of svc False s _ "snd r" x B] then_at_in [OF r(2), of "docker s'" x B y] inv AtUnpin B'
    show ?thesis by (cases r) (auto simp: then_at_def split: outcome.splits option.splits)
  next
    case (AtPin svc m)
    with st obtain r where r: "updateServiceConstraints D svc True s = r"
      "then_at r ''error adding constraint to service: '' (AtReinspect m) = (pc', s')" by simp
    with constraints_in [of svc True s _ "snd r" x B] then_at_in [OF r(2), of "docker s'" x B y] inv AtPin B'
    show ?thesis by (cases r) (auto simp: then_at_def split: outcome.splits option.splits)
  next
    case (AtUpdate svc m)
    obtain e d where u: "service_update D (docker s) y (Version svc) ((Spec svc)\<lparr>Replicated := Some (Some m)\<rparr>) = (e, d)"
      by fastforce
    show ?thesis
      using st inv AtUpdate B' u update_in [OF u inv(1)] update_names [OF u] by (auto split: option.splits)
  qed (use st inv False B' in \<open>auto simp: AddServiceLog_def split: option.splits sum.splits phase.splits if_splits\<close>)
qed

lemma requests_in:
  assumes "(requests_step D info)\<^sup>*\<^sup>* (ts, s) (ts', s')" "bounds_inv D x sid n k (ts, s)"
  shows "bounds_inv D x sid n k (ts', s')"
  using assms
proof (induction rule: rtranclp_induct2)
  case (step ts1 s1 ts2 s2)
  note inv = step.IH [OF step.prems, unfolded bounds_inv_def prod.case]
  from step.hyps(2) show ?case
  proof cases
    case (statement i y dir pc pc')
    let ?b = "of_bool (dir = ''over'' \<and> pc = AtInspect)"
    have th: "(y, dir, pc) \<in> set ts1" using statement by (metis nth_mem)
    have not_inspect: "pc' \<noteq> AtInspect"
      using statement(4)
      by (cases pc) (auto simp: then_at_def split: if_splits option.splits sum.splits prod.splits outcome.splits phase.splits)
    have count: "overs ts2 = overs ts1 + ?b"
      using length_filter_update [OF statement(2), of "\<lambda>(_, dir, pc). dir = ''over'' \<and> pc \<noteq> AtInspect" "(y, dir, pc')"]
        not_inspect by (auto simp: overs_def statement(1,3))
    have total: "all_overs ts2 = all_overs ts1"
      using length_filter_update [OF statement(2), of "\<lambda>(_, dir, _). dir = ''over''" "(y, dir, pc')"]
      by (simp add: all_overs_def statement(1,3))
    have le: "overs ts2 \<le> all_overs ts2" by (rule overs_le)
    have B: "n + overs ts2 = n + overs ts1 + ?b" by (simp only: count add.assoc)
    have "service_in D (docker s2) x (n + overs ts1 + ?b) \<and> target_in D (docker s2) x (n + overs ts1 + ?b) y pc' \<and>
        names D (docker s2) = names D (docker s1)"
      using th inv le total B by (intro statement_in [OF statement(4)]) auto
    then have new: "service_in D (docker s2) x (n + overs ts2)" "target_in D (docker s2) x (n + overs ts2) y pc'"
      and same: "names D (docker s2) = names D (docker s1)" unfolding B by blast+
    have "target_in D (docker s2) x (n + overs ts2) y' pc''" if "(y', dir', pc'') \<in> set ts2" for y' dir' pc''
    proof -
      have "(y', dir', pc'') = (y, dir, pc') \<or> (y', dir', pc'') \<in> set ts1"
        using that set_update_subset_insert [of ts1 i] unfolding statement(1) by blast
      then show ?thesis
      proof
        assume "(y', dir', pc'') \<in> set ts1"
        then have "target_in D (docker s1) x (n + overs ts1) y' pc''" using inv by blast
        then show ?thesis by (rule target_in_mono) (simp_all add: B same)
      qed (use new in simp)
    qed
    then show ?thesis using new inv total same by (auto simp: bounds_inv_def)
  qed
qed

end

section \<open>Properties\<close>


text \<open>
  C10 (replicas_within_bounds). However the statements of any number of replica changes interleave, for
  whatever services and in whatever directions, a service that runs at least one replica keeps at
  least one, and gets at most one more for each request to scale up.
\<close>

theorem replicas_within_bounds:
  assumes D: "docker_api D" and svc: "service_inspect D (docker s) sid = Inr svc" "Replicated (Spec svc) = Some (Some n)"
    and n: "n \<noteq> 0" "unat n + all_overs ts < 2 ^ 64" and ts: "\<forall>(_, _, pc) \<in> set ts. pc = AtInspect"
    and run: "(requests_step D info)\<^sup>*\<^sup>* (ts, s) (ts', s')"
  shows "\<exists>svc' m. service_inspect D (docker s') sid = Inr svc' \<and> Replicated (Spec svc') = Some (Some m) \<and>
    1 \<le> unat m \<and> unat m \<le> unat n + all_overs ts"
proof -
  let ?x = "ID svc" and ?B = "unat n + overs ts'"
  have "1 \<le> unat n" using n(1) by (simp add: unat_gt_0 Suc_le_eq)
  then have "service_in D (docker s) ?x (unat n + overs ts)"
    using svc docker_api.inspect_by_id [OF D svc(1)] by (auto simp: service_in_def replicas_in_def)
  then have "bounds_inv D ?x sid (unat n) (all_overs ts) (ts, s)"
    using svc n ts by (auto simp: bounds_inv_def names_def)
  from docker_api.requests_in [OF D run this]
  have inv: "service_in D (docker s') ?x ?B" "names D (docker s') ?x sid" "all_overs ts' = all_overs ts"
    by (simp_all add: bounds_inv_def)
  have "?B \<le> unat n + all_overs ts" using overs_le [of ts'] inv(3) by simp
  moreover obtain svc' m where "service_inspect D (docker s') sid = Inr svc'" "Replicated (Spec svc') = Some (Some m)"
    "unat m \<in> {1..?B}"
    using inv(1) docker_api.names_inspect [OF D inv(2)] by (auto simp: service_in_def replicas_in_def)
  ultimately show ?thesis by auto
qed



lemma ex_request_step:
  "(requests_step daemon_ops ex_info)\<^sup>*\<^sup>*
     ([(''web'', ''over'', AtInspect)], ex_manager 3 [80] Map.empty Map.empty)
     ([(''web'', ''over'', AtCancel 4)], ex_manager 3 [80] Map.empty Map.empty)"
proof (rule r_into_rtranclp)
  show "requests_step daemon_ops ex_info ([(''web'', ''over'', AtInspect)], ex_manager 3 [80] Map.empty Map.empty)
      ([(''web'', ''over'', AtCancel 4)], ex_manager 3 [80] Map.empty Map.empty)"
    using statement [of 0 "[(''web'', ''over'', AtInspect)]" "''web''" "''over''" AtInspect daemon_ops ex_info
        "ex_manager 3 [80] Map.empty Map.empty" "AtCancel 4" "ex_manager 3 [80] Map.empty Map.empty"]
    by simp
qed

theorem replicas_within_bounds_witness:
  "\<exists>svc' m. service_inspect daemon_ops (docker (ex_manager 3 [80] Map.empty Map.empty)) ''web'' = Inr svc' \<and>
     Replicated (Spec svc') = Some (Some m) \<and> 1 \<le> unat m \<and> unat m \<le> 4"
  using replicas_within_bounds [OF daemon.docker_api_axioms ex_inspect _ _ _ _ ex_request_step, of 3]
  by (simp add: all_overs_def)

end
