(* ===== verification/Racing_Requests.thy ===== *)
theory Racing_Requests imports Replica_Change_Steps begin

text \<open>
  Two replica changes at once, on the statements of \<open>Replica_Change_Steps\<close>: a change that is
  lost, a keep-alive goroutine that no request can end, and a request that waits for ever, each
  where the same requests one after the other do what they are meant to.
\<close>

section \<open>Requests that run to their end\<close>

lemma requests_run:
  assumes "run_request D info sid dir pc s = (Returns e, s')" "i < length ts" "ts ! i = (sid, dir, pc)"
  shows "(requests_step D info)\<^sup>*\<^sup>* (ts, s) (ts[i := (sid, dir, Ended (Returns e))], s')"
  using assms
proof (induction "request_left pc" arbitrary: pc s ts rule: less_induct)
  case less
  show ?case
  proof (cases "request_left pc = 0")
    case True
    then have "pc = Ended (Returns e)" "s' = s"
      using less.prems(1) by (cases pc; auto simp: run_request.simps [of D info sid dir pc s])+
    then show ?thesis using less.prems by (metis list_update_id rtranclp.rtrancl_refl)
  next
    case False
    then obtain pc1 s1 where st: "request_statement D info sid dir pc s = Some (pc1, s1)"
      "run_request D info sid dir pc1 s1 = (Returns e, s')"
      using less.prems(1) by (auto simp: run_request_statement split: option.splits)
    have "requests_step D info (ts, s) (ts[i := (sid, dir, pc1)], s1)"
      by (rule statement [OF less.prems(2,3) st(1)])
    moreover have "(requests_step D info)\<^sup>*\<^sup>* (ts[i := (sid, dir, pc1)], s1) (ts[i := (sid, dir, Ended (Returns e))], s')"
      using less.hyps [OF request_progress [OF st(1)] st(2), of "ts[i := (sid, dir, pc1)]"] less.prems by simp
    ultimately show ?thesis by (rule converse_rtranclp_into_rtranclp)
  qed
qed

text \<open>Two requests in one direction reach their statements \<open>a\<close> and \<open>b\<close> without changing the state.\<close>

definition two :: "string \<Rightarrow> string \<Rightarrow> request_pc \<Rightarrow> request_pc \<Rightarrow> request list" where
  "two sid dir a b = [(sid, dir, a), (sid, dir, b)]"

lemma two_step:
  "request_statement D info sid dir a s = Some (a', s') \<Longrightarrow>
     requests_step D info (two sid dir a b, s) (two sid dir a' b, s')"
  "request_statement D info sid dir b s = Some (b', s') \<Longrightarrow>
     requests_step D info (two sid dir a b, s) (two sid dir a b', s')"
  using statement [of 0 "two sid dir a b" sid dir a D info s a' s']
    statement [of 1 "two sid dir a b" sid dir b D info s b' s']
  by (simp_all add: two_def)

lemma two_both:
  assumes "request_statement D info sid dir a s = Some (a', s)" "(requests_step D info)\<^sup>*\<^sup>* (two sid dir a' a', s) c"
  shows "(requests_step D info)\<^sup>*\<^sup>* (two sid dir a a, s) c"
  using two_step(1) [OF assms(1)] two_step(2) [OF assms(1)] assms(2)
  by (meson converse_rtranclp_into_rtranclp)

lemma two_run:
  assumes "run_request D info sid dir a s = (Returns e, s1)" "run_request D info sid dir b s1 = (Returns e', s2)"
  shows "(requests_step D info)\<^sup>*\<^sup>* (two sid dir a b, s) (two sid dir (Ended (Returns e)) (Ended (Returns e')), s2)"
proof -
  have "(requests_step D info)\<^sup>*\<^sup>* (two sid dir a b, s) (two sid dir (Ended (Returns e)) b, s1)"
    using requests_run [OF assms(1), of 0 "two sid dir a b"] by (simp add: two_def)
  moreover have "(requests_step D info)\<^sup>*\<^sup>* (two sid dir (Ended (Returns e)) b, s1)
      (two sid dir (Ended (Returns e)) (Ended (Returns e')), s2)"
    using requests_run [OF assms(2), of 1 "two sid dir (Ended (Returns e)) b"] by (simp add: two_def)
  ultimately show ?thesis by (rule rtranclp_trans)
qed

section \<open>Keep-alive goroutines that nobody can cancel\<close>

definition orphan :: "('m, 'd) manager \<Rightarrow> nat \<Rightarrow> string \<Rightarrow> bool" where
  "orphan s ch sid \<longleftrightarrow>
     goroutines s ch = Some (sid, Waiting) \<and> (\<forall>x. keepAliveOps s x \<noteq> Some ch) \<and> ch < next_chan s"

lemma orphan_same: "same_keep_alive s s' \<Longrightarrow> orphan s ch sid \<Longrightarrow> orphan s' ch sid"
  by (simp add: same_keep_alive_def orphan_def)

lemma ChangeServiceReplicas_orphan:
  assumes "orphan s ch sid"
  shows "orphan (snd (ChangeServiceReplicas D info x dir s)) ch sid"
proof (cases rule: ChangeServiceReplicas_cases [of s D info x dir])
  case same
  then show ?thesis using assms by (rule orphan_same)
next
  case (cancelled ch' sid')
  then show ?thesis using assms by (auto simp: orphan_def)
next
  case started
  then show ?thesis using assms by (auto simp: orphan_def start_keep_alive_def)
qed

lemma manager_step_orphan:
  assumes "manager_step ops D net info s s'" "orphan s ch sid"
  shows "orphan s' ch sid \<or> goroutines s' ch = Some (sid, Expired)"
  using assms
proof (induction rule: manager_step.induct)
  case (change s x dir)
  then show ?case by (simp add: ChangeServiceReplicas_orphan)
next
  case (scale s cid dir)
  then show ?case using snd_ScaleService [of D info cid dir s] by (metis ChangeServiceReplicas_orphan)
next
  case (timer s ch' x)
  then show ?case by (auto simp: orphan_def)
next
  case (finish s ch' x r s')
  from keepAliveAndScaleDown_cases [OF finish.hyps(2)] finish.hyps(1) finish.prems
  show ?case by (auto simp: orphan_def split: if_splits)
qed (simp_all add: orphan_def)

section \<open>A request that waits for ever\<close>

text \<open>Nobody receives from the channel \<open>ch\<close> any more.\<close>

definition dead_channel :: "('m, 'd) manager \<Rightarrow> nat \<Rightarrow> bool" where
  "dead_channel s ch \<longleftrightarrow> goroutines s ch = None \<and> ch < next_chan s"

lemma ChangeServiceReplicas_dead_channel:
  assumes "dead_channel s ch"
  shows "dead_channel (snd (ChangeServiceReplicas D info x dir s)) ch"
  using assms
  by (cases rule: ChangeServiceReplicas_cases [of s D info x dir])
    (auto simp: dead_channel_def same_keep_alive_def start_keep_alive_def)

lemma manager_step_dead_channel:
  assumes "manager_step ops D net info s s'" "dead_channel s ch"
  shows "dead_channel s' ch"
  using assms
proof (induction rule: manager_step.induct)
  case (change s x dir)
  then show ?case by (simp add: ChangeServiceReplicas_dead_channel)
next
  case (scale s cid dir)
  then show ?case using snd_ScaleService [of D info cid dir s] by (metis ChangeServiceReplicas_dead_channel)
next
  case (timer s ch' x)
  then show ?case by (auto simp: dead_channel_def)
next
  case (finish s ch' x r s')
  from keepAliveAndScaleDown_cases [OF finish.hyps(2)] finish.hyps(1) finish.prems
  show ?case by (auto simp: dead_channel_def split: if_splits)
qed (simp_all add: dead_channel_def)

lemma blocked_for_ever:
  assumes "(process_step ops D net info)\<^sup>*\<^sup>* (two sid dir (Ended r) (AtSend ch m), s) (ts', s')" "dead_channel s ch"
  shows "ts' = two sid dir (Ended r) (AtSend ch m) \<and> dead_channel s' ch"
  using assms
proof (induction rule: rtranclp_induct2)
  case (step ts1 s1 ts2 s2)
  note at = step.IH [OF step.prems]
  from step.hyps(2) show ?case
  proof cases
    case request
    then obtain i y d pc pc' where st: "i < length ts1" "ts1 ! i = (y, d, pc)" "ts2 = ts1[i := (y, d, pc')]"
      "request_statement D info y d pc s1 = Some (pc', s2)" by (auto elim: requests_step.cases)
    then have "i = 0 \<or> i = 1" using at by (auto simp: two_def less_2_cases)
    then show ?thesis using st at by (auto simp: two_def dead_channel_def)
  next
    case other
    then show ?thesis using at manager_step_dead_channel by blast
  qed
qed simp

section \<open>Properties\<close>

text \<open>
  Two requests to scale one service up that come at once both report
  success and add one replica between them, since each sets the number that it has computed from
  its own first look at the service; one after the other they add two.
\<close>

theorem racing_overs_lose_a_replica:
  assumes D: "docker_api D" "accepts_updates D" and info: "AutoscalerManager info"
    and svc: "service_inspect D (docker s) sid = Inr svc" "Replicated (Spec svc) = Some (Some n)" "1 < n" "n + 1 \<noteq> 0"
    and ops: "keepAliveOps s sid = None"
  shows "(\<exists>s' v. (requests_step D info)\<^sup>*\<^sup>* (two sid ''over'' AtInspect AtInspect, s)
        (two sid ''over'' (Ended (Returns None)) (Ended (Returns None)), s') \<and>
      service_inspect D (docker s') sid =
        Inr (svc\<lparr>Version := v, Spec := (Spec svc)\<lparr>Replicated := Some (Some (n + 1))\<rparr>\<rparr>)) \<and>
    (let over = (\<lambda>t. snd (ChangeServiceReplicas D info sid ''over'' t)) in
     \<exists>v. service_inspect D (docker (over (over s))) sid =
       Inr (svc\<lparr>Version := v, Spec := (Spec svc)\<lparr>Replicated := Some (Some (n + 2))\<rparr>\<rparr>))"
proof
  have ok: "\<exists>t v. scaleTo D sid m u = (Returns None, t) \<and> keepAliveOps t = keepAliveOps u \<and>
      service_inspect D (docker t) sid = Inr (svc'\<lparr>Version := v, Spec := (Spec svc')\<lparr>Replicated := Some (Some m)\<rparr>\<rparr>)"
    if "service_inspect D (docker u) sid = Inr svc'" "Replicated (Spec svc') \<noteq> None" for u :: "('b, 'a) manager" and svc' m
  proof -
    have "scaleTo D sid m u = (Returns None, snd (scaleTo D sid m u))"
      using scaleTo_accepted [OF D(2) that] by (simp add: prod_eq_iff)
    with docker_api.scaleTo_inspect [OF D(1) this that(1)] show ?thesis by (metis scaleTo_frame(1))
  qed
  obtain s1 v1 where s1: "scaleTo D sid (n + 1) s = (Returns None, s1)" "keepAliveOps s1 = keepAliveOps s"
      "service_inspect D (docker s1) sid =
        Inr (svc\<lparr>Version := v1, Spec := (Spec svc)\<lparr>Replicated := Some (Some (n + 1))\<rparr>\<rparr>)"
    using ok [OF svc(1), of "n + 1"] svc(2) by auto
  let ?svc1 = "svc\<lparr>Version := v1, Spec := (Spec svc)\<lparr>Replicated := Some (Some (n + 1))\<rparr>\<rparr>"
  obtain s2 v2 where s2: "scaleTo D sid (n + 1) s1 = (Returns None, s2)"
      "service_inspect D (docker s2) sid =
        Inr (svc\<lparr>Version := v2, Spec := (Spec svc)\<lparr>Replicated := Some (Some (n + 1))\<rparr>\<rparr>)"
    using ok [OF s1(3), of "n + 1"] by auto
  have "request_statement D info sid ''over'' AtInspect s = Some (AtCancel (n + 1), s)"
    "request_statement D info sid ''over'' (AtCancel (n + 1)) s = Some (AtReinspect (n + 1), s)"
    using info svc ops by auto
  from two_both [OF this(1) two_both [OF this(2) two_run]] s1(1) s2(1)
  have "(requests_step D info)\<^sup>*\<^sup>* (two sid ''over'' AtInspect AtInspect, s)
      (two sid ''over'' (Ended (Returns None)) (Ended (Returns None)), s2)"
    by (simp add: run_reinspect)
  then show "\<exists>s' v. (requests_step D info)\<^sup>*\<^sup>* (two sid ''over'' AtInspect AtInspect, s)
        (two sid ''over'' (Ended (Returns None)) (Ended (Returns None)), s') \<and>
      service_inspect D (docker s') sid =
        Inr (svc\<lparr>Version := v, Spec := (Spec svc)\<lparr>Replicated := Some (Some (n + 1))\<rparr>\<rparr>)"
    using s2(2) by blast
  obtain s3 v3 where s3: "scaleTo D sid (n + 2) s1 = (Returns None, s3)"
      "service_inspect D (docker s3) sid =
        Inr (svc\<lparr>Version := v3, Spec := (Spec svc)\<lparr>Replicated := Some (Some (n + 2))\<rparr>\<rparr>)"
    using ok [OF s1(3), of "n + 2"] by auto
  have "n \<noteq> 1" "n + 1 \<noteq> 1" using svc(3) by auto
  then have "ChangeServiceReplicas D info sid ''over'' s = (Returns None, s1)"
    "ChangeServiceReplicas D info sid ''over'' s1 = (Returns None, s3)"
    using info svc ops s1 s3 by (simp_all add: ChangeServiceReplicas_def check_def cancel_keep_alive_def add.assoc)
  then show "let over = (\<lambda>t. snd (ChangeServiceReplicas D info sid ''over'' t)) in
     \<exists>v. service_inspect D (docker (over (over s))) sid =
       Inr (svc\<lparr>Version := v, Spec := (Spec svc)\<lparr>Replicated := Some (Some (n + 2))\<rparr>\<rparr>)"
    using s3(2) by (auto simp: Let_def)
qed

theorem racing_overs_lose_a_replica_witness:
  "\<exists>s' v. (requests_step daemon_ops ex_info)\<^sup>*\<^sup>*
      (two ''web'' ''over'' AtInspect AtInspect, ex_manager 3 [80] Map.empty Map.empty)
      (two ''web'' ''over'' (Ended (Returns None)) (Ended (Returns None)), s') \<and>
    service_inspect daemon_ops (docker s') ''web'' =
      Inr ((ex_service 3 [80])\<lparr>Version := v, Spec := (Spec (ex_service 3 [80]))\<lparr>Replicated := Some (Some 4)\<rparr>\<rparr>)"
proof -
  have "service_inspect daemon_ops (docker (ex_manager 3 [80] Map.empty Map.empty)) ''web'' = Inr (ex_service 3 [80])"
    by simp
  from racing_overs_lose_a_replica [OF daemon.docker_api_axioms daemon_accepts_updates _ this, of ex_info 3]
  show ?thesis by simp
qed

text \<open>
  Two requests to scale an idle service down that come at once can
  both find no keep-alive operation: two goroutines are started, and the table keeps the channel
  of the second only. No request can end the first any more; it waits for its timer whatever
  happens.
\<close>

theorem racing_unders_leave_an_orphan:
  fixes s :: "('m, 'd) manager"
  assumes info: "AutoscalerManager info"
    and svc: "service_inspect D (docker s) sid = Inr svc" "Replicated (Spec svc) = Some (Some n)" "\<not> 1 < n"
    and ops: "keepAliveOps s sid = None" "\<forall>x ch. keepAliveOps s x = Some ch \<longrightarrow> ch < next_chan s"
  shows "\<exists>s'. (requests_step D info)\<^sup>*\<^sup>* (two sid ''under'' AtInspect AtInspect, s)
      (two sid ''under'' (Ended (Returns None)) (Ended (Returns None)), s') \<and>
    keepAliveOps s' sid = Some (Suc (next_chan s)) \<and> goroutines s' (Suc (next_chan s)) = Some (sid, Waiting) \<and>
    orphan s' (next_chan s) sid \<and>
    (\<forall>(kops :: 'm map_ops) net s''. (manager_step kops D net info)\<^sup>*\<^sup>* s' s'' \<longrightarrow>
       orphan s'' (next_chan s) sid \<or>
       (\<exists>t. (manager_step kops D net info)\<^sup>*\<^sup>* s' t \<and> goroutines t (next_chan s) = Some (sid, Expired)))"
proof -
  let ?c = "next_chan s" and ?s' = "start_keep_alive sid (start_keep_alive sid s)"
  have "request_statement D info sid ''under'' AtInspect s = Some (AtExists, s)"
    "request_statement D info sid ''under'' AtExists s = Some (AtRegister, s)"
    using info svc ops by auto
  note find = this
  have go: "run_request D info sid ''under'' AtRegister t = (Returns None, start_keep_alive sid t)" for t :: "('m, 'd) manager"
    by (simp add: run_request_statement start_keep_alive_def)
  have run: "(requests_step D info)\<^sup>*\<^sup>* (two sid ''under'' AtInspect AtInspect, s)
      (two sid ''under'' (Ended (Returns None)) (Ended (Returns None)), ?s')"
    by (rule two_both [OF find(1) two_both [OF find(2) two_run [OF go go]]])
  have orphan: "orphan ?s' ?c sid" using ops by (auto simp: orphan_def start_keep_alive_def)
  have "orphan s'' ?c sid \<or> (\<exists>t. (manager_step kops D net info)\<^sup>*\<^sup>* ?s' t \<and> goroutines t ?c = Some (sid, Expired))"
    if "(manager_step kops D net info)\<^sup>*\<^sup>* ?s' s''" for kops :: "'m map_ops" and net s''
    using that
  proof (induction rule: rtranclp_induct)
    case (step t u)
    then show ?case using manager_step_orphan [OF step.hyps(2)] by (meson rtranclp.rtrancl_into_rtrancl)
  qed (use orphan in blast)
  moreover have "keepAliveOps ?s' sid = Some (Suc ?c)" "goroutines ?s' (Suc ?c) = Some (sid, Waiting)"
    by (simp_all add: start_keep_alive_def)
  ultimately show ?thesis using run orphan by blast
qed

theorem racing_unders_leave_an_orphan_witness:
  "\<exists>s'. (requests_step daemon_ops ex_info)\<^sup>*\<^sup>*
      (two ''web'' ''under'' AtInspect AtInspect, ex_manager 1 [80] Map.empty Map.empty)
      (two ''web'' ''under'' (Ended (Returns None)) (Ended (Returns None)), s') \<and>
    keepAliveOps s' ''web'' = Some 2 \<and> orphan s' 1 ''web''"
proof -
  have "next_chan (ex_manager 1 [80] Map.empty Map.empty) = 1" by (simp add: ex_manager_def)
  moreover have "service_inspect daemon_ops (docker (ex_manager 1 [80] Map.empty Map.empty)) ''web'' = Inr (ex_service 1 [80])"
    by simp
  from racing_unders_leave_an_orphan [OF _ this, of ex_info 1]
  have "\<exists>s'. (requests_step daemon_ops ex_info)\<^sup>*\<^sup>*
      (two ''web'' ''under'' AtInspect AtInspect, ex_manager 1 [80] Map.empty Map.empty)
      (two ''web'' ''under'' (Ended (Returns None)) (Ended (Returns None)), s') \<and>
    keepAliveOps s' ''web'' = Some (Suc (next_chan (ex_manager 1 [80] Map.empty Map.empty))) \<and>
    orphan s' (next_chan (ex_manager 1 [80] Map.empty Map.empty)) ''web''" by simp blast
  ultimately show ?thesis by (simp add: numeral_2_eq_2)
qed

text \<open>
  C11 (racing_overs_block). Two requests to scale an idle service up that come at once can both find
  its keep-alive operation and take its channel. The goroutine receives from one of them and ends;
  the other waits for ever at its send, whatever happens in the process, and its change is never
  made.
\<close>

theorem racing_overs_block:
  fixes s :: "('m, 'd) manager"
  assumes D: "docker_api D" "accepts_updates D" and info: "AutoscalerManager info"
    and svc: "service_inspect D (docker s) sid = Inr svc" "Replicated (Spec svc) = Some (Some 1)"
      "Labels (Spec svc) ''autoscaler.handlerNode'' = None"
    and ops: "keepAliveOps s sid = Some ch" "goroutines s ch = Some (sid, Waiting)" "ch < next_chan s"
  shows "\<exists>s'. (requests_step D info)\<^sup>*\<^sup>* (two sid ''over'' AtInspect AtInspect, s)
      (two sid ''over'' (Ended (Returns None)) (AtSend ch 2), s') \<and>
    (\<forall>(kops :: 'm map_ops) net ts s''.
       (process_step kops D net info)\<^sup>*\<^sup>* (two sid ''over'' (Ended (Returns None)) (AtSend ch 2), s') (ts, s'') \<longrightarrow>
       ts = two sid ''over'' (Ended (Returns None)) (AtSend ch 2))"
proof -
  let ?t = "s\<lparr>goroutines := (goroutines s)(ch := None), keepAliveOps := (keepAliveOps s)(sid := None)\<rparr>"
  let ?s' = "snd (scaleTo D sid 2 ?t)"
  have scaled: "scaleTo D sid 2 ?t = (Returns None, ?s')"
    using scaleTo_accepted [OF D(2), of ?t sid svc 2] svc by (simp add: prod_eq_iff)
  have "request_statement D info sid ''over'' AtInspect s = Some (AtUnpin svc 2, s)"
    "request_statement D info sid ''over'' (AtUnpin svc 2) s = Some (AtCancel 2, s)"
    "request_statement D info sid ''over'' (AtCancel 2) s = Some (AtSend ch 2, s)"
    using info svc ops by (simp_all add: updateServiceConstraints_def then_at_def)
  note find = this
  have "run_request D info sid ''over'' (AtSend ch 2) s = (Returns None, ?s')"
    using ops scaled by (simp add: run_request_statement run_reinspect)
  from requests_run [OF this, of 0 "two sid ''over'' (AtSend ch 2) (AtSend ch 2)"]
  have go: "(requests_step D info)\<^sup>*\<^sup>* (two sid ''over'' (AtSend ch 2) (AtSend ch 2), s)
      (two sid ''over'' (Ended (Returns None)) (AtSend ch 2), ?s')" by (simp add: two_def)
  have run: "(requests_step D info)\<^sup>*\<^sup>* (two sid ''over'' AtInspect AtInspect, s)
      (two sid ''over'' (Ended (Returns None)) (AtSend ch 2), ?s')"
    by (rule two_both [OF find(1) two_both [OF find(2) two_both [OF find(3) go]]])
  have "dead_channel ?s' ch" using ops by (simp add: dead_channel_def)
  then show ?thesis using run blocked_for_ever by blast
qed

theorem racing_overs_block_witness:
  "\<exists>s'. (requests_step daemon_ops ex_info)\<^sup>*\<^sup>*
      (two ''web'' ''over'' AtInspect AtInspect, ex_manager 1 [80] [''web'' \<mapsto> 0] [0 \<mapsto> (''web'', Waiting)])
      (two ''web'' ''over'' (Ended (Returns None)) (AtSend 0 2), s')"
proof -
  have "0 < next_chan (ex_manager 1 [80] [''web'' \<mapsto> 0] [0 \<mapsto> (''web'', Waiting)])" by (simp add: ex_manager_def)
  moreover have "service_inspect daemon_ops (docker (ex_manager 1 [80] [''web'' \<mapsto> 0] [0 \<mapsto> (''web'', Waiting)])) ''web''
      = Inr (ex_service 1 [80])" by simp
  from racing_overs_block [OF daemon.docker_api_axioms daemon_accepts_updates _ this, of ex_info 0] calculation
  show ?thesis by simp blast
qed

end
