(* ===== verification/Swarm.thy ===== *)
theory Swarm imports Wake_Up begin

text \<open>
  Several nodes together. Every node runs the two HTTP servers on its own operations, as
  \<open>main\<close> starts them, and a request goes to the node it is addressed to; the state of the
  swarm maps an address to the state of the node there. The properties follow a service at zero
  from the manager's broadcast to the packet on any node that brings it back.
\<close>

section \<open>The servers of a node\<close>

definition returning :: "('s \<Rightarrow> 'e \<times> 's) \<Rightarrow> 's \<Rightarrow> 'e outcome \<times> 's" where
  "returning f s = (let (e, s') = f s in (Returns e, s'))"

definition node_server ::
  "'m map_ops \<Rightarrow> 'd docker_ops \<Rightarrow> SwarmNodeInfo \<Rightarrow> http_request \<Rightarrow> ('m, 'd) manager \<Rightarrow>
   http_response outcome \<times> ('m, 'd) manager"
where
  "node_server ops D info =
     serve (AutoscalerManager info) (ChangeServiceReplicas D info)
       (\<lambda>port serviceID. returning (ListenOnPort ops port serviceID)) (\<lambda>port. returning (RemovePort ops port))"

section \<open>Delivery\<close>

type_synonym ('m, 'd) swarm = "string \<Rightarrow> ('m, 'd) manager option"

text \<open>The address a request is posted to, without the five characters of its port.\<close>

definition target :: "post \<Rightarrow> string" where
  "target p = take (length (host_port p) - 5) (host_port p)"

definition deliver ::
  "'m map_ops \<Rightarrow> 'd docker_ops \<Rightarrow> (string \<Rightarrow> SwarmNodeInfo) \<Rightarrow> post \<Rightarrow> ('m, 'd) swarm \<Rightarrow> ('m, 'd) swarm"
where
  "deliver ops D infos p w =
     (case w (target p) of
        None \<Rightarrow> w
      | Some s \<Rightarrow> w(target p \<mapsto> snd (node_server ops D (infos (target p)) (received p) s)))"

lemma target_posts [simp]:
  "target (listen_post port sid node) = IP node" "target (remove_post port node) = IP node"
  "target (scale_post sid dir ip) = ip"
  by (simp_all add: target_def listen_post_def remove_post_def scale_post_def)

lemma deliver_listen:
  "w (IP node) = Some s \<Longrightarrow> deliver ops D infos (listen_post port sid node) w =
     w(IP node \<mapsto> snd (ListenOnPort ops port sid s))"
  by (simp add: deliver_def node_server_def serve_listen_post returning_def split_beta)

lemma deliver_scale:
  "w ip = Some s \<Longrightarrow> AutoscalerManager (infos ip) \<Longrightarrow>
   deliver ops D infos (scale_post sid dir ip) w = w(ip \<mapsto> snd (ChangeServiceReplicas D (infos ip) sid dir s))"
  by (simp add: deliver_def node_server_def serve_scale_post split_beta)

text \<open>A node whose address is not in the list keeps its state.\<close>

lemma deliver_listens_other:
  "ip \<notin> IP ` set nodes \<Longrightarrow> fold (deliver ops D infos) (map (listen_post port sid) nodes) w ip = w ip"
proof (induction nodes arbitrary: w)
  case (Cons n nodes)
  then have "fold (deliver ops D infos) (map (listen_post port sid) nodes) v ip = v ip" for v by simp
  moreover have "deliver ops D infos (listen_post port sid n) w ip = w ip"
    using Cons.prems by (auto simp: deliver_def split: option.split)
  ultimately show ?case by simp
qed simp

lemma deliver_listens:
  assumes "bpf_hash ops" "distinct (map IP nodes)" "n \<in> set nodes"
    and "w (IP n) = Some s" "has_room ops (PortsMap s) port"
  obtains s' where "fold (deliver ops D infos) (map (listen_post port sid) nodes) w (IP n) = Some s'"
    "portToServiceID s' port = Some sid" "map_lookup ops (PortsMap s') port = Some 1"
    "docker s' = docker s" "ports_consistent ops s \<Longrightarrow> ports_consistent ops s'"
proof -
  let ?s' = "snd (ListenOnPort ops port sid s)"
  have "fold (deliver ops D infos) (map (listen_post port sid) nodes) w (IP n) = Some ?s'"
    using assms(2-4)
  proof (induction nodes arbitrary: w)
    case (Cons m nodes)
    show ?case
    proof (cases "m = n")
      case True
      with Cons.prems have "IP n \<notin> IP ` set nodes" by simp
      then show ?thesis using True Cons.prems(3) by (simp add: deliver_listen deliver_listens_other)
    next
      case False
      then have n: "n \<in> set nodes" using Cons.prems(2) by simp
      then have "IP n \<noteq> IP m" using Cons.prems(1) by (metis distinct.simps(2) image_eqI list.simps(9) set_map)
      then have "deliver ops D infos (listen_post port sid m) w (IP n) = Some s"
        using Cons.prems(3) by (simp add: deliver_def split: option.split)
      then show ?thesis using Cons n by simp
    qed
  qed simp
  then show thesis
    by (rule that) (simp_all add: bpf_hash.ListenOnPort_listens [OF assms(1,5)] bpf_hash.ListenOnPort_consistent [OF assms(1)])
qed

section \<open>Waking up\<close>

text \<open>On the manager the two ways to wake a service at zero are one.\<close>

lemma over_from_zero:
  assumes "AutoscalerManager info" "keepAliveOps s sid = None"
    and "service_inspect D (docker s) sid = Inr svc" "Replicated (Spec svc) = Some (Some 0)"
  shows "ChangeServiceReplicas D info sid ''over'' s = scaleTo D sid 1 s"
  using assms by (simp add: ChangeServiceReplicas_def cancel_keep_alive_def check_def)

lemma worker_posts_over:
  fixes s :: "('m, 'd) manager" and net :: network
  assumes "\<not> AutoscalerManager info" "GetManagerNode (OtherNodes info) = (m, None)"
    and "4 \<le> length raw" "portToServiceID s (le_u32 (take 4 raw)) = Some sid"
  shows "last (sent (snd (handle_sample ops net info (scaleTo D) raw s))) = scale_post sid ''over'' (IP m)"
  using assms by (simp add: handle_sample_def Let_def)

section \<open>Properties\<close>

text \<open>
  A service at zero wakes up the same way wherever its packet is
  seen: the request that a worker posts for a sample, served by the manager, changes the manager's
  state and fails or succeeds exactly as the manager's own handling of the sample, which calls
  the scaler directly.
\<close>

theorem worker_wake_equals_manager_wake:
  fixes sw sm :: "('m, 'd) manager"
  assumes "\<not> AutoscalerManager info" "GetManagerNode (OtherNodes info) = (m, None)"
    and "4 \<le> length raw" "portToServiceID sw (le_u32 (take 4 raw)) = Some sid"
    and "AutoscalerManager info_m" "keepAliveOps sm sid = None"
    and "service_inspect D (docker sm) sid = Inr svc" "Replicated (Spec svc) = Some (Some 0)"
  shows "let p = last (sent (snd (handle_sample ops net info (scaleTo D) raw sw))) in
    target p = IP m \<and>
    node_server ops D info_m (received p) sm =
      (answer ''Scaling successful.'' (fst (scaleTo D sid 1 sm)), snd (scaleTo D sid 1 sm))"
  unfolding worker_posts_over [OF assms(1-4), of ops net D] Let_def
  using assms(5) over_from_zero [OF assms(5-8)] by (simp add: node_server_def serve_scale_post split_beta)

definition ex_worker_info :: SwarmNodeInfo where
  "ex_worker_info = \<lparr>AutoscalerManager = False,
     OtherNodes = [\<lparr>Hostname = ''m1'', IP = ''10.0.0.1'', Manager = True\<rparr>], KeepAlive = 0\<rparr>"

lemma ex_worker_info_simps [simp]:
  "\<not> AutoscalerManager ex_worker_info"
  "GetManagerNode (OtherNodes ex_worker_info) = (\<lparr>Hostname = ''m1'', IP = ''10.0.0.1'', Manager = True\<rparr>, None)"
  by (simp_all add: ex_worker_info_def)

lemma sample_80: "le_u32 (take 4 (u64_bytes 80)) = 80"
  using sample_port [of 80] by simp

theorem worker_wake_equals_manager_wake_witness:
  "let sw = snd (ListenOnPort hmap_ops 80 ''web'' (ex_manager 0 [80] Map.empty Map.empty));
       sm = ex_manager 0 [80] Map.empty Map.empty;
       p = last (sent (snd (handle_sample hmap_ops ex_net ex_worker_info (scaleTo daemon_ops) (u64_bytes 80) sw)))
   in target p = ''10.0.0.1'' \<and>
      snd (node_server hmap_ops daemon_ops ex_info (received p) sm) = snd (scaleTo daemon_ops ''web'' 1 sm)"
proof -
  let ?s = "ex_manager 0 [80] Map.empty Map.empty"
  have "portToServiceID (snd (ListenOnPort hmap_ops 80 ''web'' ?s)) (le_u32 (take 4 (u64_bytes 80))) = Some ''web''"
    unfolding sample_80
    by (rule hmap.ListenOnPort_listens) (simp add: has_room_def ex_manager_def hmap_defs)
  from worker_wake_equals_manager_wake [OF _ _ _ this _ _ ex_inspect, where info = ex_worker_info
      and info_m = ex_info and net = ex_net and ops = hmap_ops]
  show ?thesis by (simp add: Let_def)
qed

text \<open>
  C13 (packet_on_any_node_wakes). Once the manager's broadcast has reached the other nodes, a service at
  zero is woken by a packet on any of them: the classifier there emits the port, the loop there
  posts to the manager, and the manager that receives the request has the service at one replica.
\<close>

theorem packet_on_any_node_wakes:
  fixes w :: "('m, 'd) swarm" and p :: u16
  assumes D: "docker_api D" "accepts_updates D" and ops: "bpf_hash ops"
    and nodes: "distinct (map IP nodes)" "n \<in> set nodes" "IP m \<notin> IP ` set nodes"
    and n: "w (IP n) = Some s" "has_room ops (PortsMap s) (ucast p)" "\<not> AutoscalerManager (infos (IP n))"
      "GetManagerNode (OtherNodes (infos (IP n))) = (m, None)"
    and m: "w (IP m) = Some sm" "AutoscalerManager (infos (IP m))" "keepAliveOps sm sid = None"
      "service_inspect D (docker sm) sid = Inr svc" "Replicated (Spec svc) = Some (Some 0)"
    and pkt: "length macs = 12" "length iph = 9" "length ipt = 10" "length src = 2" "16 \<le> length rest"
  defines "w1 \<equiv> fold (deliver ops D infos) (map (listen_post (ucast p) sid) nodes) w"
  shows "\<exists>s1 sm'. w1 (IP n) = Some s1 \<and>
    port_classifier ops (PortsMap s1) \<lparr>data = a, linear = packet_bytes macs ETH_P_IP iph 6 ipt src p rest\<rparr>
      = Some (TC_ACT_OK, [ucast p]) \<and>
    deliver ops D infos (last (sent (snd (handle_sample ops net (infos (IP n)) (scaleTo D) (u64_bytes (ucast p) @ pad) s1)))) w1
      (IP m) = Some sm' \<and>
    (\<exists>svc'. service_inspect D (docker sm') sid = Inr svc' \<and> Replicated (Spec svc') = Some (Some 1))"
proof -
  obtain s1 where s1: "w1 (IP n) = Some s1" "portToServiceID s1 (ucast p) = Some sid"
      "map_lookup ops (PortsMap s1) (ucast p) = Some 1"
    unfolding w1_def by (rule deliver_listens [where w = w and s = s and port = "ucast p" and D = D and infos = infos and sid = sid,
        OF ops nodes(1,2) n(1,2)])
  have m1: "w1 (IP m) = Some sm" unfolding w1_def deliver_listens_other [OF nodes(3)] by (rule m(1))
  define sm' where "sm' = snd (scaleTo D sid 1 sm)"
  have "scaleTo D sid 1 sm = (Returns None, sm')"
    using scaleTo_accepted [OF D(2) m(4), of 1] m(5) by (simp add: sm'_def prod_eq_iff)
  from docker_api.scaleTo_inspect [OF D(1) this m(4)]
  have one: "\<exists>svc'. service_inspect D (docker sm') sid = Inr svc' \<and> Replicated (Spec svc') = Some (Some 1)" by auto
  have "last (sent (snd (handle_sample ops net (infos (IP n)) (scaleTo D) (u64_bytes (ucast p) @ pad) s1))) =
      scale_post sid ''over'' (IP m)"
    by (rule worker_posts_over [OF n(3,4)]) (simp_all add: s1(2))
  moreover have "deliver ops D infos (scale_post sid ''over'' (IP m)) w1 (IP m) = Some sm'"
    using deliver_scale [of w1 "IP m" sm infos] m1 m(2) over_from_zero [OF m(2-5)] by (simp add: sm'_def)
  moreover have "port_classifier ops (PortsMap s1)
      \<lparr>data = a, linear = packet_bytes macs ETH_P_IP iph 6 ipt src p rest\<rparr> = Some (TC_ACT_OK, [ucast p])"
    using s1(3) by (simp add: port_classifier_packet [OF pkt])
  ultimately show ?thesis using s1(1) one by auto
qed

definition ex_swarm :: "(hmap, daemon) swarm" where
  "ex_swarm = [''10.0.0.1'' \<mapsto> ex_manager 0 [80] Map.empty Map.empty,
     ''10.0.0.2'' \<mapsto> ex_manager 0 [80] Map.empty Map.empty]"

theorem packet_on_any_node_wakes_witness:
  "\<exists>sm'. (let infos = (\<lambda>ip. if ip = ''10.0.0.1'' then ex_info else ex_worker_info);
        w1 = fold (deliver hmap_ops daemon_ops infos) (map (listen_post 80 ''web'') (OtherNodes ex_info)) ex_swarm
      in deliver hmap_ops daemon_ops infos (scale_post ''web'' ''over'' ''10.0.0.1'') w1 ''10.0.0.1'' = Some sm') \<and>
     (\<exists>svc'. service_inspect daemon_ops (docker sm') ''web'' = Inr svc' \<and> Replicated (Spec svc') = Some (Some 1))"
proof -
  let ?infos = "\<lambda>ip. if ip = ''10.0.0.1'' then ex_info else ex_worker_info"
  let ?n = "\<lparr>Hostname = ''w1'', IP = ''10.0.0.2'', Manager = False\<rparr>"
  let ?s = "ex_manager 0 [80] Map.empty Map.empty"
  let ?w1 = "fold (deliver hmap_ops daemon_ops ?infos) (map (listen_post (ucast (80 :: u16)) ''web'') [?n]) ex_swarm"
  have room: "has_room hmap_ops (PortsMap ?s) (ucast (80 :: u16))" by (simp add: has_room_def ex_manager_def hmap_defs)
  have w: "ex_swarm ''10.0.0.2'' = Some ?s" "ex_swarm ''10.0.0.1'' = Some ?s" by (simp_all add: ex_swarm_def)
  obtain s1 sm' where s1: "?w1 ''10.0.0.2'' = Some s1"
    and d: "deliver hmap_ops daemon_ops ?infos (last (sent (snd (handle_sample hmap_ops ex_net ex_worker_info (scaleTo daemon_ops)
        (u64_bytes (ucast (80 :: u16)) @ []) s1)))) ?w1 ''10.0.0.1'' = Some sm'"
    and one: "\<exists>svc'. service_inspect daemon_ops (docker sm') ''web'' = Inr svc' \<and> Replicated (Spec svc') = Some (Some 1)"
    using packet_on_any_node_wakes [OF daemon.docker_api_axioms daemon_accepts_updates hmap.bpf_hash_axioms,
        of "[?n]" ?n "\<lparr>Hostname = ''m1'', IP = ''10.0.0.1'', Manager = True\<rparr>" ex_swarm ?s 80 ?infos ?s "''web''" "ex_service 0 [80]"
          "replicate 12 0" "replicate 9 0" "replicate 10 0" "replicate 2 0" "replicate 16 0" 0 ex_net "[]"] room w
    by auto
  have "portToServiceID s1 (le_u32 (take 4 (u64_bytes (ucast (80 :: u16)) @ []))) = Some ''web''"
  proof -
    have "s1 = snd (ListenOnPort hmap_ops 80 ''web'' ?s)"
      using s1 w(1) deliver_listen [of ex_swarm ?n ?s hmap_ops daemon_ops ?infos 80 "''web''"] by simp
    moreover have "portToServiceID (snd (ListenOnPort hmap_ops 80 ''web'' ?s)) 80 = Some ''web''"
      by (rule hmap.ListenOnPort_listens) (use room in simp)
    ultimately show ?thesis by (simp add: sample_80)
  qed
  from worker_posts_over [OF _ _ _ this, where info = ex_worker_info and net = ex_net]
  have "last (sent (snd (handle_sample hmap_ops ex_net ex_worker_info (scaleTo daemon_ops)
      (u64_bytes (ucast (80 :: u16)) @ []) s1))) = scale_post ''web'' ''over'' ''10.0.0.1''" by simp
  with d one show ?thesis by (auto simp: ex_info_def Let_def)
qed

end
