(* ===== verification/Map_Capacity.thy ===== *)
theory Map_Capacity imports Conc_Req_Listener begin

text \<open>
  The maps as the two kernel programs declare them, and how full the probe's maps can get. The
  system of the probe and its Go process is a step relation: an event in the kernel, a namespace
  added, removed or re-armed by a monitor, each as one step (\<open>Removal_Steps\<close> takes the removal
  apart). Every reachable state keeps the maps within their
  declarations and the counters among the tracked namespaces, so the probe always has room for
  a tracked namespace. What the removals leave behind is what exhausts the maps.
\<close>

section \<open>The declarations\<close>

text \<open>
  A map definition of a \<^verbatim>\<open>SEC(".maps")\<close> structure; the type is an enumerator
  of \<^verbatim>\<open>enum bpf_map_type\<close>, and a perf event array may leave out its key and
  value.
\<close>

record map_decl =
  decl_type :: string
  decl_key :: "ctype option"
  decl_value :: "ctype option"
  decl_entries :: nat

definition conn_count_map_decl :: map_decl where
  "conn_count_map_decl = \<lparr>decl_type = ''BPF_MAP_TYPE_HASH'', decl_key = Some typedef_u32,
     decl_value = Some typedef_u32, decl_entries = 1024\<rparr>"

definition constants_map_decl :: map_decl where
  "constants_map_decl = \<lparr>decl_type = ''BPF_MAP_TYPE_HASH'', decl_key = Some typedef_u32,
     decl_value = Some typedef_u32, decl_entries = 1024\<rparr>"

definition buffer_map_decl :: map_decl where
  "buffer_map_decl = \<lparr>decl_type = ''BPF_MAP_TYPE_HASH'', decl_key = Some typedef_u32,
     decl_value = Some typedef_u32, decl_entries = 1024\<rparr>"

definition scaling_map_decl :: map_decl where
  "scaling_map_decl = \<lparr>decl_type = ''BPF_MAP_TYPE_HASH'', decl_key = Some typedef_u32,
     decl_value = Some typedef_u32, decl_entries = 1024\<rparr>"

definition valid_netns_map_decl :: map_decl where
  "valid_netns_map_decl = \<lparr>decl_type = ''BPF_MAP_TYPE_HASH'', decl_key = Some typedef_u32,
     decl_value = Some typedef_u32, decl_entries = 1024\<rparr>"

definition events_decl :: map_decl where
  "events_decl = \<lparr>decl_type = ''BPF_MAP_TYPE_PERF_EVENT_ARRAY'', decl_key = None,
     decl_value = None, decl_entries = 8\<rparr>"

text \<open>The classifier defines its own \<^verbatim>\<open>u32\<close>.\<close>

definition ports_map_decl :: map_decl where
  "ports_map_decl = \<lparr>decl_type = ''BPF_MAP_TYPE_HASH'', decl_key = Some (CBase CUInt),
     decl_value = Some (CBase CUInt), decl_entries = 256\<rparr>"

definition port_events_decl :: map_decl where
  "port_events_decl = \<lparr>decl_type = ''BPF_MAP_TYPE_PERF_EVENT_ARRAY'', decl_key = Some (CBase CUInt),
     decl_value = Some (CBase CUInt), decl_entries = 8\<rparr>"

lemmas decl_defs = conn_count_map_decl_def constants_map_decl_def buffer_map_decl_def
  scaling_map_decl_def valid_netns_map_decl_def

text \<open>The maps of the probe when its objects have been loaded.\<close>

definition created_maps :: "(nat \<Rightarrow> 'm) \<Rightarrow> 'm probe_maps" where
  "created_maps create =
     \<lparr>conn_count_map = create (decl_entries conn_count_map_decl),
      constants_map = create (decl_entries constants_map_decl),
      buffer_map = create (decl_entries buffer_map_decl),
      scaling_map = create (decl_entries scaling_map_decl),
      valid_netns_map = create (decl_entries valid_netns_map_decl)\<rparr>"

text \<open>
  The types are enumerators of the kernel's header, and every hash map has keys and values of the
  four bytes that both sides read and write.
\<close>

fun enumerators :: "ctype \<Rightarrow> string set" where
  "enumerators (CEnum es) = fst ` set es"
| "enumerators _ = {}"

lemma decls_typed:
  assumes "d \<in> {conn_count_map_decl, constants_map_decl, buffer_map_decl, scaling_map_decl,
    valid_netns_map_decl, events_decl, ports_map_decl, port_events_decl}"
  shows "decl_type d \<in> enumerators enum_bpf_map_type"
    and "decl_type d = ''BPF_MAP_TYPE_HASH'' \<Longrightarrow>
      \<exists>k v. decl_key d = Some k \<and> decl_value d = Some v \<and> csize k = 4 \<and> csize v = 4"
  using assms
  by (auto simp: decl_defs events_decl_def ports_map_decl_def port_events_decl_def
      enum_bpf_map_type_def layout)

section \<open>The probe and its Go process\<close>

inductive conc_step :: "'m map_ops \<Rightarrow> 'm conc_req \<Rightarrow> 'm conc_req \<Rightarrow> bool" for ops where
  Event: "conc_step ops s (s\<lparr>probe := fst (kprobe_tcp_recvmsg ops rd task ctx (probe s))\<rparr>)"
| Add: "addNamespace ops k c s = (Returns r, s') \<Longrightarrow> conc_step ops s s'"
| Remove: "conc_step ops s (snd (removeNamespace ops k s))"
| Rearm: "conc_step ops s (addNamespaceToScalingMap ops k s)"

inductive_cases conc_stepE: "conc_step ops s s'"

inductive conc_reachable :: "'m map_ops \<Rightarrow> (nat \<Rightarrow> 'm) \<Rightarrow> 'm conc_req \<Rightarrow> bool" for ops create where
  Start: "InitBPFListener ops calls resource (created_maps create) = Returns (Inr (p, h)) \<Longrightarrow>
    conc_reachable ops create \<lparr>probe = p, namespaceToContext = (\<lambda>_. None)\<rparr>"
| Step: "conc_reachable ops create s \<Longrightarrow> conc_step ops s s' \<Longrightarrow> conc_reachable ops create s'"

text \<open>A map within its declaration, and all five of them.\<close>

definition fits :: "('m \<Rightarrow> nat) \<Rightarrow> ('m \<Rightarrow> bool) \<Rightarrow> map_decl \<Rightarrow> 'm \<Rightarrow> bool" where
  "fits capacity valid d m \<longleftrightarrow> valid m \<and> capacity m = decl_entries d"

definition declared :: "('m \<Rightarrow> nat) \<Rightarrow> ('m \<Rightarrow> bool) \<Rightarrow> 'm probe_maps \<Rightarrow> bool" where
  "declared capacity valid p \<longleftrightarrow>
     fits capacity valid conn_count_map_decl (conn_count_map p) \<and>
     fits capacity valid constants_map_decl (constants_map p) \<and>
     fits capacity valid buffer_map_decl (buffer_map p) \<and>
     fits capacity valid scaling_map_decl (scaling_map p) \<and>
     fits capacity valid valid_netns_map_decl (valid_netns_map p)"

text \<open>Only tracked namespaces have a counter or a buffer.\<close>

definition only_tracked :: "'m map_ops \<Rightarrow> 'm probe_maps \<Rightarrow> bool" where
  "only_tracked ops p \<longleftrightarrow>
     (\<forall>k. map_lookup ops (valid_netns_map p) k = None \<longrightarrow>
        map_lookup ops (conn_count_map p) k = None \<and> map_lookup ops (buffer_map p) k = None)"

lemma only_tracked_dom:
  "only_tracked ops p \<Longrightarrow> dom (map_lookup ops (conn_count_map p)) \<subseteq> dom (map_lookup ops (valid_netns_map p))"
  "only_tracked ops p \<Longrightarrow> dom (map_lookup ops (buffer_map p)) \<subseteq> dom (map_lookup ops (valid_netns_map p))"
  by (auto simp: only_tracked_def domIff)

section \<open>Each operation keeps the maps within their declarations\<close>

context bounded_hash
begin

lemma fits_update: "fits capacity valid d m \<Longrightarrow> fits capacity valid d (update_ignore ops m k v f)"
  by (simp add: fits_def update_ignore_valid)

lemma fits_put: "fits capacity valid d m \<Longrightarrow> map_put ops m k v = Inr m' \<Longrightarrow> fits capacity valid d m'"
  using update_valid [of m k v BPF_ANY m'] by (simp add: fits_def map_put_def)

lemma fits_delete: "fits capacity valid d m \<Longrightarrow> map_delete ops m k = Inr m' \<Longrightarrow> fits capacity valid d m'"
  using delete_valid [of m k m'] by (simp add: fits_def)

lemma fits_cell:
  assumes "fits capacity valid d m" "load_cell ops k m = (c, i, m')"
  shows "fits capacity valid d (write_cell ops k i m' v)" "fits capacity valid d m'"
  using assms fits_update [OF assms(1)] store_valid [of m k]
  by (auto simp: load_cell_def write_cell_def fits_def split: option.splits)

lemma fits_count_event:
  "fits capacity valid d m \<Longrightarrow> fits capacity valid d (snd (count_event ops k st m))"
  by (cases "load_cell ops k m") (auto simp: count_event_def fits_cell)

lemma fits_buffer_event:
  "fits capacity valid d m \<Longrightarrow> fits capacity valid d (snd (buffer_event ops k b m))"
  by (cases "load_cell ops k m") (auto simp: buffer_event_def Let_def fits_cell fits_update)

lemma declared_scale_event:
  assumes "declared capacity valid p"
  shows "declared capacity valid (fst (scale_event ops k c lo hi len p))"
  using assms fits_buffer_event [of buffer_map_decl "buffer_map p" k "c \<le> lo \<or> c \<ge> hi"]
  by (auto simp: declared_def scale_event_def split_beta Let_def fits_update)

lemma declared_kprobe:
  assumes "declared capacity valid p"
  shows "declared capacity valid (fst (kprobe_tcp_recvmsg ops rd task ctx p))"
proof (cases rule: kprobe_cases [of rd task ctx p])
  case (counted st lo hi len)
  have "declared capacity valid
      (p\<lparr>conn_count_map := snd (count_event ops (get_netns_from_task rd task) st (conn_count_map p))\<rparr>)"
    using assms by (simp add: declared_def fits_count_event)
  then show ?thesis unfolding counted by (rule declared_scale_event)
qed (use assms in simp)

lemma declared_rearm:
  "declared capacity valid (probe s) \<Longrightarrow> declared capacity valid (probe (addNamespaceToScalingMap ops k s))"
  by (auto simp: addNamespaceToScalingMap_def declared_def fits_put split: sum.split)

lemma declared_add:
  assumes "declared capacity valid (probe s)" "addNamespace ops k c s = (Returns r, s')"
  shows "declared capacity valid (probe s')"
proof -
  obtain m1 m2 where m: "map_put ops (conn_count_map (probe s)) k 0 = Inr m1"
      "map_put ops (valid_netns_map (probe s)) k 1 = Inr m2"
    and s': "probe s' = probe (addNamespaceToScalingMap ops k
        (s\<lparr>probe := (probe s)\<lparr>conn_count_map := m1, valid_netns_map := m2\<rparr>\<rparr>))"
    using assms(2) by (auto simp: addNamespace_def Let_def split: sum.splits)
  show ?thesis unfolding s' using assms(1) fits_put [OF _ m(1)] fits_put [OF _ m(2)]
    by (intro declared_rearm) (simp add: declared_def)
qed

lemma declared_remove:
  assumes "declared capacity valid (probe s)"
  shows "declared capacity valid (probe (snd (removeNamespace ops k s)))"
  using assms by (auto simp: removeNamespace_def declared_def Let_def fits_delete split: sum.split)

lemma declared_write_limits:
  assumes "declared capacity valid p" "write_limits ops r p = Returns p'"
  shows "declared capacity valid p'"
  using assms by (auto simp: write_limits_def declared_def split: sum.splits) (blast intro: fits_put)

lemma declared_step: "conc_step ops s s' \<Longrightarrow> declared capacity valid (probe s) \<Longrightarrow> declared capacity valid (probe s')"
  by (erule conc_stepE)
    (auto intro: declared_kprobe declared_rearm declared_add declared_remove)

lemma declared_created: "declared capacity valid (created_maps create)"
  by (simp add: declared_def fits_def created_maps_def create)

section \<open>Counters belong to tracked namespaces\<close>

lemma kprobe_untracked:
  "map_lookup ops (valid_netns_map p) (get_netns_from_task rd task) = None \<Longrightarrow>
   kprobe_tcp_recvmsg ops rd task ctx p = (p, [])"
  by (simp add: kprobe_tcp_recvmsg_def Let_def)

lemma only_tracked_kprobe:
  assumes "only_tracked ops p"
  shows "only_tracked ops (fst (kprobe_tcp_recvmsg ops rd task ctx p))"
proof (cases "map_lookup ops (valid_netns_map p) (get_netns_from_task rd task)")
  case None
  then show ?thesis using assms by (simp add: kprobe_untracked)
next
  case (Some w)
  then have "k \<noteq> get_netns_from_task rd task" if "map_lookup ops (valid_netns_map p) k = None" for k
    using that by auto
  then show ?thesis using assms by (simp add: only_tracked_def kprobe_frame kprobe_cells_other)
qed

lemma addNamespace_cases:
  obtains (count_full) e where "map_update ops (conn_count_map (probe s)) k 0 BPF_ANY = Inl e"
      "fst (addNamespace ops k c s) = Exits"
  | (valid_full) e where "map_update ops (valid_netns_map (probe s)) k 1 BPF_ANY = Inl e"
      "fst (addNamespace ops k c s) = Exits"
  | (added) m1 m2 where "map_update ops (conn_count_map (probe s)) k 0 BPF_ANY = Inr m1"
      "map_update ops (valid_netns_map (probe s)) k 1 BPF_ANY = Inr m2"
      "fst (addNamespace ops k c s) = Returns None"
      "conn_count_map (probe (snd (addNamespace ops k c s))) = m1"
      "valid_netns_map (probe (snd (addNamespace ops k c s))) = m2"
      "buffer_map (probe (snd (addNamespace ops k c s))) = buffer_map (probe s)"
proof (cases "map_update ops (conn_count_map (probe s)) k 0 BPF_ANY")
  case (Inl e)
  then show thesis by (intro count_full [of e]) (simp_all add: addNamespace_def map_put_def)
next
  case (Inr m1)
  then show thesis
    by (cases "map_update ops (valid_netns_map (probe s)) k 1 BPF_ANY")
      (auto simp: addNamespace_def map_put_def Let_def rearm_frame intro: valid_full added)
qed

lemma only_tracked_add:
  assumes "only_tracked ops (probe s)" "addNamespace ops k c s = (Returns r, s')"
  shows "only_tracked ops (probe s')"
  using addNamespace_cases [where s = s and k = k and c = c]
proof cases
  case (added m1 m2)
  have "map_lookup ops m1 = (map_lookup ops (conn_count_map (probe s)))(k \<mapsto> 0)"
    "map_lookup ops m2 = (map_lookup ops (valid_netns_map (probe s)))(k \<mapsto> 1)"
    using update_inserts added(1,2) by blast+
  then show ?thesis using added assms by (auto simp: only_tracked_def)
qed (use assms(2) in simp_all)

lemma only_tracked_remove:
  assumes "only_tracked ops (probe s)"
  shows "only_tracked ops (probe (snd (removeNamespace ops k s)))"
  using assms
  by (auto simp: removeNamespace_def only_tracked_def Let_def split: sum.split dest!: delete_lookup)

lemma only_tracked_rearm:
  "only_tracked ops (probe s) \<Longrightarrow> only_tracked ops (probe (addNamespaceToScalingMap ops k s))"
  by (simp add: only_tracked_def rearm_frame)

lemma only_tracked_step:
  "conc_step ops s s' \<Longrightarrow> only_tracked ops (probe s) \<Longrightarrow> only_tracked ops (probe s')"
  by (erule conc_stepE)
    (auto intro: only_tracked_kprobe only_tracked_add only_tracked_remove only_tracked_rearm)

lemma InitBPFListener_writes:
  "InitBPFListener ops calls r p = Returns (Inr (p', h)) \<Longrightarrow> write_limits ops r p = Returns p'"
  by (auto simp: InitBPFListener_def split: option.splits outcome.splits)

lemma write_limits_frame:
  "write_limits ops r p = Returns p' \<Longrightarrow> conn_count_map p' = conn_count_map p \<and>
     buffer_map p' = buffer_map p \<and> valid_netns_map p' = valid_netns_map p"
  by (auto simp: write_limits_def split: sum.splits)

lemma reachable_inv:
  "conc_reachable ops create s \<Longrightarrow> declared capacity valid (probe s) \<and> only_tracked ops (probe s)"
proof (induction rule: conc_reachable.induct)
  case (Start calls resource p h)
  note w = InitBPFListener_writes [OF Start]
  show ?case
    using declared_write_limits [OF declared_created w] write_limits_frame [OF w]
    by (auto simp: only_tracked_def created_maps_def create)
qed (auto intro: declared_step only_tracked_step)

section \<open>Room\<close>

lemma reachable_sizes:
  assumes "conc_reachable ops create s"
  shows "valid (conn_count_map (probe s))" "capacity (conn_count_map (probe s)) = 1024"
    "valid (buffer_map (probe s))" "capacity (buffer_map (probe s)) = 1024"
    "valid (scaling_map (probe s))" "capacity (scaling_map (probe s)) = 1024"
    "valid (valid_netns_map (probe s))" "capacity (valid_netns_map (probe s)) = 1024"
  using reachable_inv [OF assms] by (simp_all add: declared_def fits_def decl_defs)

lemma tracked_room:
  assumes "conc_reachable ops create s" "map_lookup ops (valid_netns_map (probe s)) k = Some w"
  shows "has_room ops (conn_count_map (probe s)) k" "has_room ops (buffer_map (probe s)) k"
  using reachable_inv [OF assms(1)] assms(2) reachable_sizes [OF assms(1)]
  by (auto intro!: has_room_subset [where m' = "valid_netns_map (probe s)"] dest: only_tracked_dom)

lemma add_exits_iff:
  assumes "conc_reachable ops create s"
  shows "fst (addNamespace ops k c s) = Exits \<longleftrightarrow>
    map_lookup ops (valid_netns_map (probe s)) k = None \<and>
    card (dom (map_lookup ops (valid_netns_map (probe s)))) = 1024"
proof (cases "map_lookup ops (valid_netns_map (probe s)) k = None \<and>
    card (dom (map_lookup ops (valid_netns_map (probe s)))) = 1024")
  case True
  then obtain e where "map_update ops (valid_netns_map (probe s)) k 1 BPF_ANY = Inl e"
    using update_full [of "valid_netns_map (probe s)" k 1 BPF_ANY] reachable_sizes [OF assms] by auto
  then have "fst (addNamespace ops k c s) = Exits"
    by (cases rule: addNamespace_cases [where s = s and k = k and c = c]) auto
  with True show ?thesis by simp
next
  case False
  let ?m = "conn_count_map (probe s)" and ?v = "valid_netns_map (probe s)"
  note sizes = reachable_sizes [OF assms]
  have le: "card (dom (map_lookup ops ?m)) \<le> card (dom (map_lookup ops ?v))"
    using reachable_inv [OF assms] valid_bound(1) [OF sizes(7)]
    by (intro card_mono only_tracked_dom) simp_all
  have "has_room ops ?m k \<and> has_room ops ?v k"
  proof (cases "map_lookup ops ?v k")
    case None
    then have "card (dom (map_lookup ops ?v)) < 1024"
      using False valid_bound(2) [OF sizes(7)] sizes(8) by simp
    then show ?thesis using le sizes by (simp add: has_room_iff)
  next
    case (Some w)
    then show ?thesis using tracked_room [OF assms Some] has_room_present by blast
  qed
  then obtain m1 m2 where "map_update ops ?m k 0 BPF_ANY = Inr m1" "map_update ops ?v k 1 BPF_ANY = Inr m2"
    using update_present [of ?m k] update_present [of ?v k]
    unfolding has_room_def by (metis not_None_eq update_flag.distinct(3))
  then have "fst (addNamespace ops k c s) \<noteq> Exits"
    by (cases rule: addNamespace_cases [where s = s and k = k and c = c]) auto
  with False show ?thesis by simp
qed

section \<open>What removals leave behind\<close>

text \<open>No step ever deletes an entry of scaling_map.\<close>

lemma present_kprobe_scaling:
  "map_lookup ops (scaling_map p) k \<noteq> None \<Longrightarrow>
   map_lookup ops (scaling_map (fst (kprobe_tcp_recvmsg ops rd task ctx p))) k \<noteq> None"
  by (cases rule: kprobe_cases [of rd task ctx p]) (simp_all add: present_scale_event del: not_None_eq)

lemma scaling_grows:
  assumes "conc_step ops s s'"
  shows "dom (map_lookup ops (scaling_map (probe s))) \<subseteq> dom (map_lookup ops (scaling_map (probe s')))"
  using assms
proof (cases rule: conc_step.cases)
  case (Event rd task ctx)
  then show ?thesis
    using present_kprobe_scaling [of "probe s" _ rd task ctx]
    by (simp add: subset_iff domIff del: not_None_eq)
next
  case (Add k c r)
  then show ?thesis
    by (auto simp: addNamespace_def addNamespaceToScalingMap_def map_put_def Let_def update_inserts split: sum.splits)
next
  case (Remove k)
  then show ?thesis by (auto simp: removeNamespace_def Let_def split: sum.split)
next
  case (Rearm k)
  then show ?thesis by (auto simp: addNamespaceToScalingMap_def map_put_def update_inserts split: sum.split)
qed

lemma scaling_stays_full:
  assumes "conc_step ops s s'" "declared capacity valid (probe s)"
    and "card (dom (map_lookup ops (scaling_map (probe s)))) = 1024"
  shows "dom (map_lookup ops (scaling_map (probe s'))) = dom (map_lookup ops (scaling_map (probe s)))"
proof -
  have "valid (scaling_map (probe s'))" "capacity (scaling_map (probe s')) = 1024"
    using declared_step [OF assms(1,2)] by (simp_all add: declared_def fits_def decl_defs)
  then have "finite (dom (map_lookup ops (scaling_map (probe s'))))"
    "card (dom (map_lookup ops (scaling_map (probe s')))) \<le> 1024"
    using valid_bound by metis+
  with assms(3) scaling_grows [OF assms(1)] show ?thesis by (metis card_seteq)
qed

text \<open>A namespace that is added and removed without an event in between stays tracked.\<close>

lemma come_and_go:
  fixes c :: NamespaceContext
  assumes "conc_reachable ops create s" "map_lookup ops (valid_netns_map (probe s)) k = None"
    and "card (dom (map_lookup ops (valid_netns_map (probe s)))) < 1024"
  defines "s' \<equiv> snd (removeNamespace ops k (snd (addNamespace ops k c s)))"
  shows "conc_reachable ops create s'"
    and "map_lookup ops (valid_netns_map (probe s')) = (map_lookup ops (valid_netns_map (probe s)))(k \<mapsto> 1)"
proof -
  let ?t = "snd (addNamespace ops k c s)"
  have go: "fst (addNamespace ops k c s) \<noteq> Exits" using add_exits_iff [OF assms(1)] assms(3) by simp
  show "conc_reachable ops create s'"
  proof -
    obtain r where "addNamespace ops k c s = (Returns r, ?t)"
      using go by (cases rule: addNamespace_cases [where s = s and k = k and c = c]) (auto simp: prod_eq_iff)
    then show ?thesis unfolding s'_def by (blast intro: conc_reachable.Step [OF conc_reachable.Step [OF assms(1)]] Add Remove)
  qed
  show "map_lookup ops (valid_netns_map (probe s')) = (map_lookup ops (valid_netns_map (probe s)))(k \<mapsto> 1)"
    using addNamespace_cases [where s = s and k = k and c = c]
  proof cases
    case (added m1 m2)
    have "map_lookup ops (buffer_map (probe ?t)) k = None"
      using added(6) reachable_inv [OF assms(1)] assms(2) by (simp add: only_tracked_def)
    then have "valid_netns_map (probe s') = valid_netns_map (probe ?t)"
      by (simp add: s'_def removeNamespace_def Let_def delete_absent split: sum.split)
    then show ?thesis using added(5) update_inserts [OF added(2)] by simp
  qed (use go in simp_all)
qed

end

section \<open>The 257th port\<close>

text \<open>
  When ports_map is full, listening on a further port fails, yet the Go map keeps the port; a
  keep-alive goroutine that gets there ends without scaling and leaves its operation behind.
\<close>

lemma ListenOnPort_full:
  assumes "bounded_hash ops create capacity valid" "fits capacity valid ports_map_decl (PortsMap s)"
    and "card (dom (map_lookup ops (PortsMap s))) = 256" "map_lookup ops (PortsMap s) port = None"
  obtains err s' where "ListenOnPort ops port sid s = (Some err, s')" "PortsMap s' = PortsMap s"
    "portToServiceID s' port = Some sid"
  using bounded_hash.update_full [OF assms(1), of "PortsMap s" port 1 BPF_ANY] assms(2-4)
  by (auto simp: fits_def ports_map_decl_def ListenOnPort_def)

lemma full_ports_map_ends_keep_alive:
  fixes s :: "('m, 'd) manager"
  assumes "bounded_hash ops create capacity valid" "fits capacity valid ports_map_decl (PortsMap s)"
    and "card (dom (map_lookup ops (PortsMap s))) = 256" "map_lookup ops (PortsMap s) port = None"
    and "GetPublishedPort D sid s = Inr port" "keepAliveOps s sid = Some ch"
  shows "let (r, s') = keepAliveAndScaleDown ops D net info sid TimerExpired s in
    r = Returns () \<and> keepAliveOps s' sid = Some ch \<and> docker s' = docker s"
proof (rule ListenOnPort_full [OF assms(1-4), of sid])
  fix err s'
  assume l: "ListenOnPort ops port sid s = (Some err, s')"
  have "keepAliveOps s' = keepAliveOps s" "docker s' = docker s"
    using l by (auto simp: ListenOnPort_def AddBPFListenerLog_def Let_def split: sum.splits)
  then show ?thesis using assms(5,6) l by (simp add: keepAliveAndScaleDown_def)
qed

section \<open>Properties\<close>


text \<open>The maps of the witnesses: as loaded, with the limits 3, 10 and 2.\<close>

definition ex_resource :: ConcReqResource where
  "ex_resource = \<lparr>LowerLimit = 3, UpperLimit = 10, BufferLength = 2\<rparr>"

definition ex_loaded :: "hmap probe_maps" where
  "ex_loaded = \<lparr>conn_count_map = ex_map [], constants_map = ex_map [(0, 3), (1, 10), (2, 2)],
     buffer_map = ex_map [], scaling_map = ex_map [], valid_netns_map = ex_map []\<rparr>"

definition ex_start :: "hmap conc_req" where
  "ex_start = \<lparr>probe = ex_loaded, namespaceToContext = (\<lambda>_. None)\<rparr>"

lemma ex_reachable: "conc_reachable hmap_ops hmap_empty ex_start"
proof -
  have "created_maps hmap_empty = \<lparr>conn_count_map = ex_map [], constants_map = ex_map [],
      buffer_map = ex_map [], scaling_map = ex_map [], valid_netns_map = ex_map []\<rparr>"
    by (simp add: created_maps_def decl_defs hmap_empty_def ex_map_def)
  then have "InitBPFListener hmap_ops ex_calls ex_resource (created_maps hmap_empty) =
      Returns (Inr (ex_loaded, \<lparr>probe_link = Some ''tcp_recvmsg'', probe_reader = True,
        probe_closing = False, probe_closed = False\<rparr>))"
    by (simp add: InitBPFListener_def ex_calls_def write_limits_def map_put_def ex_resource_def
        ex_loaded_def uint32_of_int64_def)
  then show ?thesis unfolding ex_start_def by (rule Start)
qed

lemma distinct_namespaces: "distinct ((0 :: u32) # map of_nat [1..<1025])"
proof -
  have "unat (of_nat i :: u32) = i" if "i < 1025" for i using that by (simp add: unat_of_nat)
  then have "inj_on (of_nat :: nat \<Rightarrow> u32) {0..<1025}"
    by (intro inj_on_inverseI [where g = unat]) simp
  then have "distinct (map (of_nat :: nat \<Rightarrow> u32) [0..<1025])" by (simp add: distinct_map del: upt_Suc)
  moreover have "[0..<1025] = 0 # [1..<1025]" by (subst upt_rec) simp
  ultimately show ?thesis by (simp del: upt_Suc)
qed




text \<open>A container that is added and removed with nothing in between.\<close>

definition come_and_go :: "'m map_ops \<Rightarrow> NamespaceContext \<Rightarrow> u32 \<Rightarrow> 'm conc_req \<Rightarrow> 'm conc_req" where
  "come_and_go ops c k s = snd (removeNamespace ops k (snd (addNamespace ops k c s)))"

text \<open>
  C28 (idle_containers_exhaust_maps). A container that comes and goes without an event of its namespace
  leaves its namespace tracked: removing it stops at the missing buffer entry. After enough of
  them the next new container ends the whole process, although no container is running.
\<close>

theorem idle_containers_exhaust_maps:
  assumes "bounded_hash ops create capacity valid" "conc_reachable ops create s"
    and "distinct (k # ks)" "\<forall>i \<in> set (k # ks). map_lookup ops (valid_netns_map (probe s)) i = None"
    and "card (dom (map_lookup ops (valid_netns_map (probe s)))) + length ks = 1024"
  shows "fst (addNamespace ops k c (fold (come_and_go ops c) ks s)) = Exits"
  using assms(2-)
proof (induction ks arbitrary: s)
  case Nil
  then show ?case using bounded_hash.add_exits_iff [OF assms(1), of s k c] by simp
next
  case (Cons i ks)
  let ?s = "come_and_go ops c i s" and ?d = "\<lambda>s. dom (map_lookup ops (valid_netns_map (probe s)))"
  have "map_lookup ops (valid_netns_map (probe s)) i = None" "card (?d s) < 1024" using Cons.prems by auto
  note one = bounded_hash.come_and_go [OF assms(1) Cons.prems(1) this, of c, folded come_and_go_def]
  have "finite (?d s)"
    using bounded_hash.reachable_sizes(7) [OF assms(1) Cons.prems(1)] bounded_hash.valid_bound(1) [OF assms(1)] by blast
  then have "card (?d ?s) + length ks = 1024" using one(2) Cons.prems(3,4) by (simp add: domIff)
  moreover have "\<forall>j \<in> set (k # ks). map_lookup ops (valid_netns_map (probe ?s)) j = None"
    using one(2) Cons.prems(2,3) by auto
  ultimately show ?case using Cons.IH [OF one(1)] Cons.prems(2) by simp
qed

theorem idle_containers_exhaust_maps_witness:
  "fst (addNamespace hmap_ops 0 ex_context
     (fold (come_and_go hmap_ops ex_context) (map of_nat [1..<1025]) ex_start)) = Exits"
  by (rule idle_containers_exhaust_maps [OF hmap.bounded_hash_axioms ex_reachable distinct_namespaces])
    (simp_all add: ex_start_def ex_loaded_def del: upt_Suc)

text \<open>
  No step deletes an entry of scaling_map, so the namespaces of
  all containers there ever were stay in it. Once it is full, a new namespace is never suppressed,
  whatever happens: the probe can signal it again right after it has signalled.
\<close>

theorem full_scaling_map_never_suppresses:
  assumes "bounded_hash ops create capacity valid" "declared capacity valid (probe s)"
    and "card (dom (map_lookup ops (scaling_map (probe s)))) = 1024"
    and "map_lookup ops (scaling_map (probe s)) k = None" "(conc_step ops)\<^sup>*\<^sup>* s s'"
  shows "\<not> suppressed (view ops (probe s') k)"
proof -
  from assms(5) have "declared capacity valid (probe s') \<and>
    dom (map_lookup ops (scaling_map (probe s'))) = dom (map_lookup ops (scaling_map (probe s)))"
  proof induction
    case (step t u)
    then show ?case
      using bounded_hash.scaling_stays_full [OF assms(1) step.hyps(2)] assms(3)
        bounded_hash.declared_step [OF assms(1) step.hyps(2)] by simp
  qed (use assms(2) in simp)
  then have "map_lookup ops (scaling_map (probe s')) k = None" using assms(4) by (metis domIff)
  then show ?thesis by (simp add: view_def)
qed

text \<open>The namespaces 1 to 1024, all of which have been added and removed again.\<close>

definition ex_full :: "hmap conc_req" where
  "ex_full = \<lparr>probe = ex_loaded\<lparr>scaling_map := ex_map (map (\<lambda>i. (of_nat i, 0)) [1..<1025])\<rparr>,
     namespaceToContext = (\<lambda>_. None)\<rparr>"

theorem full_scaling_map_never_suppresses_witness:
  "\<not> suppressed (view hmap_ops (probe (snd (addNamespace hmap_ops 0 ex_context ex_full))) 0)"
proof -
  let ?es = "map (\<lambda>i. (of_nat i, 0)) [1..<1025] :: (u32 \<times> u32) list"
  have d: "distinct (map fst ?es)" and z: "map_of ?es 0 = None"
    using distinct_namespaces by (simp_all add: comp_def map_of_eq_None_iff image_image del: upt_Suc)
  have full: "card (dom (map_lookup hmap_ops (scaling_map (probe ex_full)))) = 1024"
    using hmap_card [of "ex_map ?es"] d by (simp add: ex_full_def hmap_ops_def ex_map_def del: upt_Suc)
  have "declared max_entries hmap_valid (probe ex_full)"
    using d by (simp add: declared_def fits_def decl_defs hmap_valid_def ex_full_def ex_loaded_def ex_map_def del: upt_Suc)
  moreover have "addNamespace hmap_ops 0 ex_context ex_full =
      (Returns None, snd (addNamespace hmap_ops 0 ex_context ex_full))"
    by (simp add: addNamespace_def map_put_def Let_def prod_eq_iff ex_full_def ex_loaded_def del: upt_Suc)
  then have "(conc_step hmap_ops)\<^sup>*\<^sup>* ex_full (snd (addNamespace hmap_ops 0 ex_context ex_full))"
    by (blast intro: Add)
  ultimately show ?thesis
    using full z
    by (intro full_scaling_map_never_suppresses [OF hmap.bounded_hash_axioms _ full])
      (simp_all add: ex_full_def ex_loaded_def del: upt_Suc)
qed

end
