(* ===== verification/Kprobe_CPUs.thy ===== *)
theory Kprobe_CPUs imports Probe_Debounce Interleaving begin

text \<open>
  The kprobe on several CPUs
  (\<^verbatim>\<open>src/autoscaler/conc_req_monitoring/bpf/conc_req_monitoring.c\<close>). The handler
  runs on every CPU that receives, without a lock, on the same maps; here it is cut into its
  accesses to them, in the order of the source, and the CPUs take turns between any two. Alone the
  statements are the handler of \<open>Conc_Req_Kprobe\<close>, although it goes on using a pointer to an
  element that its own update has replaced. Together they may lose connections and
  signal more than once, but never more often than there are CPUs.
\<close>

section \<open>The statements of the handler\<close>

text \<open>
  The maps, and what has become of the elements of \<open>buffer_map\<close>: an update with
  \<^verbatim>\<open>BPF_ANY\<close> puts a new element in the place of the old one, and who holds a pointer
  to the old one goes on reading and writing it. \<open>replaced\<close> has, for each key, the last value
  of every element that has been replaced, the oldest first. Elements of the counter map are only
  inserted.
\<close>

record 'm cpu_maps = "'m probe_maps" +
  replaced :: "u32 \<Rightarrow> u32 list"

definition maps_of :: "'m cpu_maps \<Rightarrow> 'm probe_maps" where
  "maps_of s = \<lparr>conn_count_map = conn_count_map s, constants_map = constants_map s,
     buffer_map = buffer_map s, scaling_map = scaling_map s, valid_netns_map = valid_netns_map s\<rparr>"

definition on_cpus :: "'m probe_maps \<Rightarrow> 'm cpu_maps" where
  "on_cpus s = probe_maps.extend s \<lparr>replaced = (\<lambda>_. [])\<rparr>"

lemma maps_of_simps [simp]:
  "conn_count_map (maps_of s) = conn_count_map s" "constants_map (maps_of s) = constants_map s"
  "buffer_map (maps_of s) = buffer_map s" "scaling_map (maps_of s) = scaling_map s"
  "valid_netns_map (maps_of s) = valid_netns_map s"
  "maps_of (s\<lparr>conn_count_map := m\<rparr>) = (maps_of s)\<lparr>conn_count_map := m\<rparr>"
  "maps_of (s\<lparr>buffer_map := m\<rparr>) = (maps_of s)\<lparr>buffer_map := m\<rparr>"
  "maps_of (s\<lparr>scaling_map := m\<rparr>) = (maps_of s)\<lparr>scaling_map := m\<rparr>"
  "maps_of (s\<lparr>replaced := r\<rparr>) = maps_of s"
  "(maps_of s)\<lparr>conn_count_map := conn_count_map s\<rparr> = maps_of s"
  "maps_of (on_cpus p) = p"
  by (simp_all add: maps_of_def on_cpus_def probe_maps.defs)

lemma on_cpus_simps [simp]:
  "conn_count_map (on_cpus p) = conn_count_map p" "constants_map (on_cpus p) = constants_map p"
  "buffer_map (on_cpus p) = buffer_map p" "scaling_map (on_cpus p) = scaling_map p"
  "valid_netns_map (on_cpus p) = valid_netns_map p" "replaced (on_cpus p) = (\<lambda>_. [])"
  by (simp_all add: on_cpus_def probe_maps.defs)

definition replace_buffer :: "'m map_ops \<Rightarrow> u32 \<Rightarrow> u32 \<Rightarrow> 'm cpu_maps \<Rightarrow> 'm cpu_maps" where
  "replace_buffer ops k v s =
     s\<lparr>buffer_map := update_ignore ops (buffer_map s) k v BPF_ANY,
       replaced := (case map_lookup ops (buffer_map s) k of
          None \<Rightarrow> replaced s
        | Some old \<Rightarrow> (replaced s)(k := replaced s k @ [old]))\<rparr>"

lemma replace_buffer_simps [simp]:
  "conn_count_map (replace_buffer ops k v s) = conn_count_map s"
  "constants_map (replace_buffer ops k v s) = constants_map s"
  "buffer_map (replace_buffer ops k v s) = update_ignore ops (buffer_map s) k v BPF_ANY"
  "scaling_map (replace_buffer ops k v s) = scaling_map s"
  "valid_netns_map (replace_buffer ops k v s) = valid_netns_map s"
  "maps_of (replace_buffer ops k v s) =
     (maps_of s)\<lparr>buffer_map := update_ignore ops (buffer_map s) k v BPF_ANY\<rparr>"
  by (simp_all add: replace_buffer_def)

text \<open>
  A C pointer to a counter points to the \<open>g\<close>th element the key has had, which is the one in
  the map while \<open>g\<close> of them have been replaced, or to the handler's own zero
  (\<^verbatim>\<open>count = &zero32\<close>, \<^verbatim>\<open>buffer = &initial\<close>).
\<close>

datatype counter_ptr = Element nat | Own u32

definition read_counter :: "'m map_ops \<Rightarrow> u32 \<Rightarrow> counter_ptr \<Rightarrow> 'm \<Rightarrow> u32 list \<Rightarrow> u32" where
  "read_counter ops k p m old =
     (case p of
        Own v \<Rightarrow> v
      | Element g \<Rightarrow>
          (if g < length old then old ! g else case map_lookup ops m k of Some v \<Rightarrow> v | None \<Rightarrow> 0))"

definition write_counter ::
  "'m map_ops \<Rightarrow> u32 \<Rightarrow> counter_ptr \<Rightarrow> u32 \<Rightarrow> 'm \<Rightarrow> u32 list \<Rightarrow> counter_ptr \<times> 'm \<times> u32 list"
where
  "write_counter ops k p v m old =
     (case p of
        Own _ \<Rightarrow> (Own v, m, old)
      | Element g \<Rightarrow>
          if g < length old then (Element g, m, old[g := v]) else (Element g, map_store ops m k v, old))"

datatype statement = CheckValid | LoadLimits | FindCount | InsertCount | TestCount | LoadCount
  | StoreCount | ReadCount | FindScaling | FindBuffer | InsertBuffer | LoadBuffer | StoreBuffer
  | UpdateBuffer | TestBuffer | SetScaling | EmitSample | ResetBuffer | Finished

text \<open>
  A handler under way: its next statement and its local variables; \<open>h_tmp\<close> is the value
  between the load and the store of a \<^verbatim>\<open>++\<close> or \<^verbatim>\<open>--\<close>. The limits are
  read through pointers in the source; nobody writes them once the probe is set up.
\<close>

record handler =
  stmt :: statement
  h_netns :: u32
  h_state :: u8
  h_limits :: limits
  h_count :: counter_ptr
  h_new :: u32
  h_buffer :: counter_ptr
  h_tmp :: u32

definition start_handler :: "probe_event \<Rightarrow> handler" where
  "start_handler e =
     \<lparr>stmt = (if event_sock e = 0 then Finished else CheckValid), h_netns = event_netns e,
      h_state = event_state e, h_limits = \<lparr>lower = 0, upper = 0, buffer_length = 0\<rparr>,
      h_count = Own 0, h_new = 0, h_buffer = Own 0, h_tmp = 0\<rparr>"

text \<open>The branch on the state of the socket, with the constant disjunct of the source.\<close>

definition count_branch :: "u8 \<Rightarrow> statement" where
  "count_branch state =
     (if state = TCP_ESTABLISHED then LoadCount
      else if state = TCP_CLOSE \<or> state = TCP_CLOSE_WAIT \<or> TCP_LAST_ACK \<noteq> 0 then TestCount
      else FindScaling)"

definition handler_statement ::
  "'m map_ops \<Rightarrow> handler \<Rightarrow> 'm cpu_maps \<Rightarrow> handler \<times> 'm cpu_maps \<times> data_t list"
where
  "handler_statement ops h s =
     (let k = h_netns h; l = h_limits h in
      case stmt h of
        CheckValid \<Rightarrow>
          (h\<lparr>stmt := (if map_lookup ops (valid_netns_map s) k = None then Finished else LoadLimits)\<rparr>, s, [])
      | LoadLimits \<Rightarrow>
          (case (map_lookup ops (constants_map s) 0, map_lookup ops (constants_map s) 1,
                 map_lookup ops (constants_map s) 2) of
             (Some lo, Some hi, Some len) \<Rightarrow>
               (h\<lparr>h_limits := \<lparr>lower = lo, upper = hi, buffer_length = len\<rparr>, stmt := FindCount\<rparr>, s, [])
           | _ \<Rightarrow> (h\<lparr>stmt := Finished\<rparr>, s, []))
      | FindCount \<Rightarrow>
          (case map_lookup ops (conn_count_map s) k of
             None \<Rightarrow> (h\<lparr>stmt := InsertCount\<rparr>, s, [])
           | Some _ \<Rightarrow> (h\<lparr>h_count := Element 0, stmt := count_branch (h_state h)\<rparr>, s, []))
      | InsertCount \<Rightarrow>
          (h\<lparr>h_count := Own 0, stmt := count_branch (h_state h)\<rparr>,
           s\<lparr>conn_count_map := update_ignore ops (conn_count_map s) k 0 BPF_NOEXIST\<rparr>, [])
      | TestCount \<Rightarrow>
          (h\<lparr>stmt := (if read_counter ops k (h_count h) (conn_count_map s) [] > 0 then LoadCount else FindScaling)\<rparr>, s, [])
      | LoadCount \<Rightarrow>
          (let c = read_counter ops k (h_count h) (conn_count_map s) [] in
           (h\<lparr>h_tmp := (if h_state h = TCP_ESTABLISHED then c + 1 else c - 1), stmt := StoreCount\<rparr>, s, []))
      | StoreCount \<Rightarrow>
          (let (p, m, _) = write_counter ops k (h_count h) (h_tmp h) (conn_count_map s) [] in
           (h\<lparr>h_count := p, stmt := ReadCount\<rparr>, s\<lparr>conn_count_map := m\<rparr>, []))
      | ReadCount \<Rightarrow>
          (h\<lparr>h_new := read_counter ops k (h_count h) (conn_count_map s) [], stmt := FindScaling\<rparr>, s, [])
      | FindScaling \<Rightarrow>
          (h\<lparr>stmt := (if map_lookup ops (scaling_map s) k = Some 1 then Finished else FindBuffer)\<rparr>, s, [])
      | FindBuffer \<Rightarrow>
          (case map_lookup ops (buffer_map s) k of
             None \<Rightarrow> (h\<lparr>stmt := InsertBuffer\<rparr>, s, [])
           | Some _ \<Rightarrow> (h\<lparr>h_buffer := Element (length (replaced s k)), stmt := LoadBuffer\<rparr>, s, []))
      | InsertBuffer \<Rightarrow>
          (h\<lparr>h_buffer := Own 0, stmt := LoadBuffer\<rparr>,
           s\<lparr>buffer_map := update_ignore ops (buffer_map s) k 0 BPF_NOEXIST\<rparr>, [])
      | LoadBuffer \<Rightarrow>
          (h\<lparr>h_tmp := (if h_new h \<le> lower l \<or> h_new h \<ge> upper l
              then read_counter ops k (h_buffer h) (buffer_map s) (replaced s k) + 1 else 0), stmt := StoreBuffer\<rparr>, s, [])
      | StoreBuffer \<Rightarrow>
          (let (p, m, old) = write_counter ops k (h_buffer h) (h_tmp h) (buffer_map s) (replaced s k) in
           (h\<lparr>h_buffer := p, stmt := UpdateBuffer\<rparr>,
            s\<lparr>buffer_map := m, replaced := (replaced s)(k := old)\<rparr>, []))
      | UpdateBuffer \<Rightarrow>
          (h\<lparr>stmt := TestBuffer\<rparr>,
           replace_buffer ops k (read_counter ops k (h_buffer h) (buffer_map s) (replaced s k)) s, [])
      | TestBuffer \<Rightarrow>
          (h\<lparr>stmt := (if read_counter ops k (h_buffer h) (buffer_map s) (replaced s k) = buffer_length l
             then SetScaling else Finished)\<rparr>, s, [])
      | SetScaling \<Rightarrow>
          (h\<lparr>stmt := EmitSample\<rparr>, s\<lparr>scaling_map := update_ignore ops (scaling_map s) k 1 BPF_ANY\<rparr>, [])
      | EmitSample \<Rightarrow> (h\<lparr>stmt := ResetBuffer\<rparr>, s, [signal_data k (h_new h) (lower l)])
      | ResetBuffer \<Rightarrow>
          (h\<lparr>stmt := Finished\<rparr>, replace_buffer ops k 0 s, [])
      | Finished \<Rightarrow> (h, s, []))"

text \<open>How many statements are left at most.\<close>

fun left :: "statement \<Rightarrow> nat" where
  "left CheckValid = 18"
| "left LoadLimits = 17"
| "left FindCount = 16"
| "left InsertCount = 15"
| "left TestCount = 14"
| "left LoadCount = 13"
| "left StoreCount = 12"
| "left ReadCount = 11"
| "left FindScaling = 10"
| "left FindBuffer = 9"
| "left InsertBuffer = 8"
| "left LoadBuffer = 7"
| "left StoreBuffer = 6"
| "left UpdateBuffer = 5"
| "left TestBuffer = 4"
| "left SetScaling = 3"
| "left EmitSample = 2"
| "left ResetBuffer = 1"
| "left Finished = 0"

lemma left_0 [simp]: "left st = 0 \<longleftrightarrow> st = Finished"
  by (cases st) simp_all

lemma left_inject [simp]: "left st = left st' \<longleftrightarrow> st = st'"
  by (cases st; cases st') simp_all

text \<open>Statements in the order of the source; a handler only goes forward.\<close>

instantiation statement :: linorder
begin

definition less_eq_statement :: "statement \<Rightarrow> statement \<Rightarrow> bool" where
  "st \<le> st' \<longleftrightarrow> left st' \<le> left st"

definition less_statement :: "statement \<Rightarrow> statement \<Rightarrow> bool" where
  "st < st' \<longleftrightarrow> left st' < left st"

instance
  by standard (auto simp: less_eq_statement_def less_statement_def)

end

lemma statement_advances:
  "stmt h \<noteq> Finished \<Longrightarrow> stmt h < stmt (fst (handler_statement ops h s))"
  by (cases "stmt h")
    (auto simp: handler_statement_def count_branch_def Let_def write_counter_def less_statement_def
      split: option.split counter_ptr.split)

lemma statement_decreases:
  "stmt h \<noteq> Finished \<Longrightarrow> left (stmt (fst (handler_statement ops h s))) < left (stmt h)"
  using statement_advances by (simp add: less_statement_def)

text \<open>A handler as a thread on the maps and the samples so far; it waits for nothing.\<close>

definition handler_thread ::
  "'m map_ops \<Rightarrow> handler \<Rightarrow> 'm cpu_maps \<times> data_t list \<Rightarrow> (handler \<times> 'm cpu_maps \<times> data_t list) option"
where
  "handler_thread ops h c =
     (if stmt h = Finished then None
      else case handler_statement ops h (fst c) of (h', s', new) \<Rightarrow> Some (h', s', snd c @ new))"

interpretation cpu: unhindered_statements "handler_thread ops" "\<lambda>h. left (stmt h)" for ops
proof
  show "left (stmt h') < left (stmt h)" if "handler_thread ops h c = Some (h', c')" for h c h' c'
    using that statement_decreases [of h ops "fst c"] by (auto simp: handler_thread_def split: if_splits prod.splits)
qed (simp add: handler_thread_def split: if_splits prod.splits)

function run_handler :: "'m map_ops \<Rightarrow> handler \<Rightarrow> 'm cpu_maps \<Rightarrow> 'm cpu_maps \<times> data_t list" where
  "run_handler ops h s =
     (if stmt h = Finished then (s, [])
      else case handler_statement ops h s of
        (h', s', out) \<Rightarrow> (case run_handler ops h' s' of (s'', out') \<Rightarrow> (s'', out @ out')))"
  by pat_completeness auto
termination
  by (relation "measure (\<lambda>(_, h, _). left (stmt h))")
    (auto, metis fst_conv statement_decreases)

declare run_handler.simps [simp del]

section \<open>One CPU alone\<close>

lemma run_finished: "stmt h = Finished \<Longrightarrow> run_handler ops h s = (s, [])"
  by (subst run_handler.simps) simp

lemma run_next:
  "stmt h \<noteq> Finished \<Longrightarrow> run_handler ops h s =
     (case handler_statement ops h s of
        (h', s', out) \<Rightarrow> (case run_handler ops h' s' of (s'', out') \<Rightarrow> (s'', out @ out')))"
  by (subst run_handler.simps) simp

text \<open>What the handler leaves of the maps, and its samples.\<close>

definition alone :: "'m map_ops \<Rightarrow> handler \<Rightarrow> 'm cpu_maps \<Rightarrow> 'm probe_maps \<times> data_t list" where
  "alone ops h s = (case run_handler ops h s of (s', out) \<Rightarrow> (maps_of s', out))"

lemma alone_next:
  "stmt h \<noteq> Finished \<Longrightarrow> handler_statement ops h s = (h', s', []) \<Longrightarrow> alone ops h s = alone ops h' s'"
  by (simp add: alone_def run_next [of h] split_beta)

lemma alone_finished: "stmt h = Finished \<Longrightarrow> alone ops h s = (maps_of s, [])"
  by (simp add: alone_def run_finished)

lemma alone_signal:
  "stmt h = SetScaling \<Longrightarrow> alone ops h s =
     ((maps_of s)\<lparr>scaling_map := update_ignore ops (scaling_map s) (h_netns h) 1 BPF_ANY,
        buffer_map := update_ignore ops (buffer_map s) (h_netns h) 0 BPF_ANY\<rparr>,
      [signal_data (h_netns h) (h_new h) (lower (h_limits h))])"
  by (simp add: alone_def run_next run_finished handler_statement_def Let_def)

lemma kprobe_by_event:
  "kprobe_tcp_recvmsg ops rd task ctx s =
     (if event_sock (rd, task, ctx) = 0 then (s, [])
      else case map_lookup ops (valid_netns_map s) (get_netns_from_task rd task) of
        None \<Rightarrow> (s, [])
      | Some _ \<Rightarrow>
         (case (map_lookup ops (constants_map s) 0, map_lookup ops (constants_map s) 1,
                map_lookup ops (constants_map s) 2) of
            (Some lo, Some hi, Some len) \<Rightarrow>
              (let (nv, cm) = count_event ops (get_netns_from_task rd task) (event_state (rd, task, ctx)) (conn_count_map s)
               in scale_event ops (get_netns_from_task rd task) nv lo hi len (s\<lparr>conn_count_map := cm\<rparr>))
          | _ \<Rightarrow> (s, [])))"
  unfolding kprobe_tcp_recvmsg_def event_sock_def event_state_def Let_def prod.case ..

text \<open>The pointer holds an element the key has or has had.\<close>

definition points :: "'m map_ops \<Rightarrow> u32 \<Rightarrow> counter_ptr \<Rightarrow> 'm \<Rightarrow> u32 list \<Rightarrow> bool" where
  "points ops k p m old =
     (case p of Own _ \<Rightarrow> True | Element g \<Rightarrow> g \<le> length old \<and> map_lookup ops m k \<noteq> None)"

lemma points_simps [simp]:
  "points ops k (Own v) m old"
  "points ops k (Element g) m old \<longleftrightarrow> g \<le> length old \<and> map_lookup ops m k \<noteq> None"
  by (simp_all add: points_def)

context bpf_hash
begin

lemma read_after_write:
  assumes "points ops k p m old" "write_counter ops k p v m old = (p', m', old')"
  shows "read_counter ops k p' m' old' = v"
    and "read_counter ops k p' m'' (case map_lookup ops m' k of None \<Rightarrow> old' | Some w \<Rightarrow> old' @ [w]) = v"
proof -
  have "read_counter ops k p' m' old' = v \<and>
      read_counter ops k p' m'' (case map_lookup ops m' k of None \<Rightarrow> old' | Some w \<Rightarrow> old' @ [w]) = v"
  proof (cases p)
    case (Element g)
    then obtain w where "map_lookup ops m k = Some w" using assms(1) by auto
    then have "map_lookup ops (map_store ops m k v) k = Some v" by (simp add: store_present)
    then show ?thesis
      using Element assms \<open>map_lookup ops m k = Some w\<close>
      by (auto simp: write_counter_def read_counter_def nth_append split: if_splits)
  qed (use assms(2) in \<open>auto simp: write_counter_def read_counter_def\<close>)
  then show "read_counter ops k p' m' old' = v"
    "read_counter ops k p' m'' (case map_lookup ops m' k of None \<Rightarrow> old' | Some w \<Rightarrow> old' @ [w]) = v" by auto
qed

text \<open>From the store of the buffer on; \<open>b\<close> is its new value.\<close>

lemma alone_store_buffer:
  assumes "stmt h = StoreBuffer" "points ops (h_netns h) (h_buffer h) (buffer_map s) (replaced s (h_netns h))"
  defines "b \<equiv> h_tmp h" and "k \<equiv> h_netns h" and "l \<equiv> h_limits h"
  defines "m \<equiv> update_ignore ops
      (fst (snd (write_counter ops k (h_buffer h) b (buffer_map s) (replaced s k)))) k b BPF_ANY"
  shows "alone ops h s =
    (if b = buffer_length l
     then ((maps_of s)\<lparr>scaling_map := update_ignore ops (scaling_map s) k 1 BPF_ANY,
             buffer_map := update_ignore ops m k 0 BPF_ANY\<rparr>, [signal_data k (h_new h) (lower l)])
     else ((maps_of s)\<lparr>buffer_map := m\<rparr>, []))"
proof -
  obtain p m' old where w: "write_counter ops k (h_buffer h) b (buffer_map s) (replaced s k) = (p, m', old)"
    using prod_cases3 by blast
  note rw = read_after_write [OF assms(2) [folded k_def] w]
  let ?h = "h\<lparr>h_buffer := p, stmt := UpdateBuffer\<rparr>"
  let ?s = "s\<lparr>buffer_map := m', replaced := (replaced s)(k := old)\<rparr>" and ?t = "h\<lparr>h_buffer := p, stmt := TestBuffer\<rparr>"
  let ?e = "h\<lparr>h_buffer := p, stmt := (if b = buffer_length l then SetScaling else Finished)\<rparr>"
  have m: "m = update_ignore ops m' k b BPF_ANY" by (simp add: m_def w)
  have "handler_statement ops h s = (?h, ?s, [])"
    using w assms(1) by (simp add: handler_statement_def Let_def b_def k_def)
  then have 1: "alone ops h s = alone ops ?h ?s" using assms(1) by (simp add: alone_next)
  have "handler_statement ops ?h ?s = (?t, replace_buffer ops k b ?s, [])"
    using rw(1) by (simp add: handler_statement_def Let_def k_def [symmetric])
  then have 2: "alone ops ?h ?s = alone ops ?t (replace_buffer ops k b ?s)" by (simp add: alone_next)
  have "read_counter ops k p (buffer_map (replace_buffer ops k b ?s)) (replaced (replace_buffer ops k b ?s) k) = b"
    using rw(2) [of "update_ignore ops m' k b BPF_ANY"]
    by (cases "map_lookup ops m' k") (simp_all add: replace_buffer_def)
  then have "handler_statement ops ?t (replace_buffer ops k b ?s) = (?e, replace_buffer ops k b ?s, [])"
    by (simp add: handler_statement_def Let_def k_def [symmetric] l_def)
  then have "alone ops ?t (replace_buffer ops k b ?s) = alone ops ?e (replace_buffer ops k b ?s)"
    by (simp add: alone_next)
  then show ?thesis
    unfolding 1 2 by (simp add: alone_signal alone_finished k_def l_def m)
qed

lemma alone_scaling:
  assumes "stmt h = FindScaling"
  shows "alone ops h s = scale_event ops (h_netns h) (h_new h) (lower (h_limits h)) (upper (h_limits h))
    (buffer_length (h_limits h)) (maps_of s)" (is "_ = ?event")
proof (cases "map_lookup ops (scaling_map s) (h_netns h) = Some 1")
  case True
  then have "handler_statement ops h s = (h\<lparr>stmt := Finished\<rparr>, s, [])"
    using assms by (simp add: handler_statement_def Let_def)
  then show ?thesis using assms True by (simp add: alone_next alone_finished scale_event_def)
next
  case False
  let ?l = "h_limits h"
  let ?b = "\<lambda>b. if h_new h \<le> lower ?l \<or> h_new h \<ge> upper ?l then b + 1 else 0"
  have "handler_statement ops h s = (h\<lparr>stmt := FindBuffer\<rparr>, s, [])"
    using assms False by (simp add: handler_statement_def Let_def)
  then have f: "alone ops h s = alone ops (h\<lparr>stmt := FindBuffer\<rparr>) s" using assms by (simp add: alone_next)
  note event = scale_event_def buffer_event_def load_cell_def write_cell_def write_counter_def
  show ?thesis
  proof (cases "map_lookup ops (buffer_map s) (h_netns h)")
    case None
    let ?s = "s\<lparr>buffer_map := update_ignore ops (buffer_map s) (h_netns h) 0 BPF_NOEXIST\<rparr>"
    let ?h = "h\<lparr>h_buffer := Own 0, h_tmp := ?b 0, stmt := StoreBuffer\<rparr>"
    have "handler_statement ops (h\<lparr>stmt := FindBuffer\<rparr>) s = (h\<lparr>stmt := InsertBuffer\<rparr>, s, [])"
      "handler_statement ops (h\<lparr>stmt := InsertBuffer\<rparr>) s = (h\<lparr>h_buffer := Own 0, stmt := LoadBuffer\<rparr>, ?s, [])"
      "handler_statement ops (h\<lparr>h_buffer := Own 0, stmt := LoadBuffer\<rparr>) ?s = (?h, ?s, [])"
      using None by (simp_all add: handler_statement_def Let_def read_counter_def)
    then have "alone ops h s = alone ops ?h ?s" unfolding f by (simp add: alone_next)
    also have "\<dots> = ?event"
      using None False by (subst alone_store_buffer) (simp_all add: event Let_def)
    finally show ?thesis .
  next
    case (Some b)
    let ?p = "Element (length (replaced s (h_netns h)))"
    let ?h = "h\<lparr>h_buffer := ?p, h_tmp := ?b b, stmt := StoreBuffer\<rparr>"
    have "handler_statement ops (h\<lparr>stmt := FindBuffer\<rparr>) s = (h\<lparr>h_buffer := ?p, stmt := LoadBuffer\<rparr>, s, [])"
      "handler_statement ops (h\<lparr>h_buffer := ?p, stmt := LoadBuffer\<rparr>) s = (?h, s, [])"
      using Some by (simp_all add: handler_statement_def Let_def read_counter_def)
    then have "alone ops h s = alone ops ?h s" unfolding f by (simp add: alone_next)
    also have "\<dots> = ?event"
      using Some False by (subst alone_store_buffer) (simp_all add: event Let_def)
    finally show ?thesis .
  qed
qed

lemma alone_store_count:
  assumes "stmt h = StoreCount" "points ops (h_netns h) (h_count h) (conn_count_map s) []"
  defines "k \<equiv> h_netns h" and "l \<equiv> h_limits h"
  shows "alone ops h s = scale_event ops k (h_tmp h) (lower l) (upper l) (buffer_length l)
    ((maps_of s)\<lparr>conn_count_map := fst (snd (write_counter ops k (h_count h) (h_tmp h) (conn_count_map s) []))\<rparr>)"
proof -
  obtain p m old where w: "write_counter ops k (h_count h) (h_tmp h) (conn_count_map s) [] = (p, m, old)"
    using prod_cases3 by blast
  then have "old = []" by (auto simp: write_counter_def split: counter_ptr.splits)
  with read_after_write(1) [OF assms(2) [folded k_def] w] have r: "read_counter ops k p m [] = h_tmp h" by simp
  let ?s = "s\<lparr>conn_count_map := m\<rparr>" and ?r = "h\<lparr>h_count := p, stmt := ReadCount\<rparr>"
  have "handler_statement ops h s = (?r, ?s, [])"
    using w assms(1) by (simp add: handler_statement_def Let_def k_def)
  moreover have "handler_statement ops ?r ?s = (h\<lparr>h_count := p, h_new := h_tmp h, stmt := FindScaling\<rparr>, ?s, [])"
    using r by (simp add: handler_statement_def Let_def k_def)
  ultimately have "alone ops h s = alone ops (h\<lparr>h_count := p, h_new := h_tmp h, stmt := FindScaling\<rparr>) ?s"
    using assms(1) by (simp add: alone_next)
  then show ?thesis by (simp add: alone_scaling w [unfolded k_def] k_def l_def)
qed

lemma alone_load_count:
  assumes "stmt h = LoadCount" "points ops (h_netns h) (h_count h) (conn_count_map s) []"
  defines "k \<equiv> h_netns h" and "l \<equiv> h_limits h"
  defines "c \<equiv> read_counter ops k (h_count h) (conn_count_map s) []"
  defines "c' \<equiv> (if h_state h = TCP_ESTABLISHED then c + 1 else c - 1)"
  shows "alone ops h s = scale_event ops k c' (lower l) (upper l) (buffer_length l)
    ((maps_of s)\<lparr>conn_count_map := fst (snd (write_counter ops k (h_count h) c' (conn_count_map s) []))\<rparr>)"
proof -
  have "handler_statement ops h s = (h\<lparr>h_tmp := c', stmt := StoreCount\<rparr>, s, [])"
    using assms(1) by (simp add: handler_statement_def Let_def c'_def c_def k_def)
  then have "alone ops h s = alone ops (h\<lparr>h_tmp := c', stmt := StoreCount\<rparr>) s"
    using assms(1) by (simp add: alone_next)
  then show ?thesis using assms(2) by simp (subst alone_store_count; simp add: k_def l_def)
qed

text \<open>From the branch on the state on, with the pointer that the lookup has given.\<close>

lemma alone_branch:
  assumes "stmt h = count_branch (h_state h)" "h_new h = 0"
    and "points ops (h_netns h) (h_count h) (conn_count_map s) []"
  defines "c \<equiv> read_counter ops (h_netns h) (h_count h) (conn_count_map s) []" and "l \<equiv> h_limits h"
  defines "store \<equiv> (\<lambda>c'. (maps_of s)\<lparr>conn_count_map :=
      fst (snd (write_counter ops (h_netns h) (h_count h) c' (conn_count_map s) []))\<rparr>)"
  shows "alone ops h s =
    (if h_state h = TCP_ESTABLISHED \<or> 0 < c
     then let c' = (if h_state h = TCP_ESTABLISHED then c + 1 else c - 1) in
       scale_event ops (h_netns h) c' (lower l) (upper l) (buffer_length l) (store c')
     else scale_event ops (h_netns h) 0 (lower l) (upper l) (buffer_length l) (maps_of s))"
proof (cases "h_state h = TCP_ESTABLISHED")
  case True
  then have "stmt h = LoadCount" using assms(1) by (simp add: count_branch_def)
  then show ?thesis using True assms(3) by (simp add: alone_load_count Let_def c_def l_def store_def)
next
  case False
  then have t: "stmt h = TestCount" using assms(1) by (simp add: count_branch_def TCP_LAST_ACK_def)
  then have "handler_statement ops h s = (h\<lparr>stmt := (if 0 < c then LoadCount else FindScaling)\<rparr>, s, [])"
    by (simp add: handler_statement_def Let_def c_def)
  then have "alone ops h s = alone ops (h\<lparr>stmt := (if 0 < c then LoadCount else FindScaling)\<rparr>) s"
    using t by (simp add: alone_next)
  also have "\<dots> = (if 0 < c
     then scale_event ops (h_netns h) (c - 1) (lower l) (upper l) (buffer_length l) (store (c - 1))
     else scale_event ops (h_netns h) 0 (lower l) (upper l) (buffer_length l) (maps_of s))"
  proof (cases "0 < c")
    case True
    then show ?thesis using False assms(3) by simp (subst alone_load_count; simp add: c_def l_def store_def)
  next
    case False
    then show ?thesis using assms(2) by (simp add: alone_scaling l_def)
  qed
  finally show ?thesis using False by (simp add: Let_def)
qed

lemma alone_count:
  assumes "stmt h = FindCount" "h_new h = 0"
  shows "alone ops h s = (let (nv, cm) = count_event ops (h_netns h) (h_state h) (conn_count_map s) in
    scale_event ops (h_netns h) nv (lower (h_limits h)) (upper (h_limits h)) (buffer_length (h_limits h))
      ((maps_of s)\<lparr>conn_count_map := cm\<rparr>))" (is "_ = ?event")
proof -
  note event = read_counter_def write_counter_def count_event_def load_cell_def write_cell_def TCP_LAST_ACK_def
  show ?thesis
  proof (cases "map_lookup ops (conn_count_map s) (h_netns h)")
    case None
    let ?s = "s\<lparr>conn_count_map := update_ignore ops (conn_count_map s) (h_netns h) 0 BPF_NOEXIST\<rparr>"
    let ?h = "h\<lparr>h_count := Own 0, stmt := count_branch (h_state h)\<rparr>"
    have "handler_statement ops h s = (h\<lparr>stmt := InsertCount\<rparr>, s, [])"
      "handler_statement ops (h\<lparr>stmt := InsertCount\<rparr>) s = (?h, ?s, [])"
      using None assms(1) by (simp_all add: handler_statement_def Let_def)
    then have "alone ops h s = alone ops ?h ?s" using assms(1) by (simp add: alone_next)
    also have "\<dots> = ?event"
      using None assms(2) by (subst alone_branch) (simp_all add: event Let_def)
    finally show ?thesis .
  next
    case (Some c)
    let ?h = "h\<lparr>h_count := Element 0, stmt := count_branch (h_state h)\<rparr>"
    have "handler_statement ops h s = (?h, s, [])" using Some assms(1) by (simp add: handler_statement_def Let_def)
    then have "alone ops h s = alone ops ?h s" using assms(1) by (simp add: alone_next)
    also have "\<dots> = ?event"
      using Some assms(2) by (subst alone_branch) (simp_all add: event Let_def)
    finally show ?thesis .
  qed
qed

lemma alone_start:
  fixes rd :: memory and task ctx :: u64
  shows "alone ops (start_handler (rd, task, ctx)) s = kprobe_tcp_recvmsg ops rd task ctx (maps_of s)"
proof -
  let ?h = "start_handler (rd, task, ctx)" and ?k = "get_netns_from_task rd task"
  have k: "h_netns ?h = ?k" "h_state ?h = event_state (rd, task, ctx)" "h_new ?h = 0"
    by (simp_all add: start_handler_def event_netns_def)
  note handler = kprobe_by_event [of ops rd task ctx "maps_of s"]
  consider (sock) "event_sock (rd, task, ctx) = 0"
    | (untracked) "event_sock (rd, task, ctx) \<noteq> 0" "map_lookup ops (valid_netns_map s) ?k = None"
    | (tracked) w where "event_sock (rd, task, ctx) \<noteq> 0" "map_lookup ops (valid_netns_map s) ?k = Some w"
    by (cases "map_lookup ops (valid_netns_map s) ?k") auto
  then show ?thesis
  proof cases
    case sock
    then show ?thesis by (simp add: alone_finished start_handler_def handler)
  next
    case untracked
    then have c: "stmt ?h = CheckValid" by (simp add: start_handler_def)
    then have "handler_statement ops ?h s = (?h\<lparr>stmt := Finished\<rparr>, s, [])"
      using untracked k by (simp add: handler_statement_def Let_def)
    then show ?thesis using untracked c by (simp add: alone_next alone_finished handler)
  next
    case tracked
    then have c: "stmt ?h = CheckValid" by (simp add: start_handler_def)
    let ?l = "?h\<lparr>stmt := LoadLimits\<rparr>"
    have "handler_statement ops ?h s = (?l, s, [])" using tracked c k by (simp add: handler_statement_def Let_def)
    then have l: "alone ops ?h s = alone ops ?l s" using c by (simp add: alone_next)
    show ?thesis
    proof (cases "map_lookup ops (constants_map s) 0 = None \<or> map_lookup ops (constants_map s) 1 = None \<or>
        map_lookup ops (constants_map s) 2 = None")
      case True
      then have "handler_statement ops ?l s = (?h\<lparr>stmt := Finished\<rparr>, s, [])"
        by (auto simp: handler_statement_def Let_def split: option.split)
      then have "alone ops ?l s = (maps_of s, [])" by (simp add: alone_next alone_finished)
      then show ?thesis unfolding l using tracked True by (auto simp: handler split: option.split)
    next
      case False
      then obtain lo hi len where lims: "map_lookup ops (constants_map s) 0 = Some lo"
        "map_lookup ops (constants_map s) 1 = Some hi" "map_lookup ops (constants_map s) 2 = Some len" by auto
      let ?f = "?h\<lparr>h_limits := \<lparr>lower = lo, upper = hi, buffer_length = len\<rparr>, stmt := FindCount\<rparr>"
      have "handler_statement ops ?l s = (?f, s, [])" by (simp add: handler_statement_def Let_def lims)
      then have "alone ops ?h s = alone ops ?f s" unfolding l by (simp add: alone_next)
      then show ?thesis
        using tracked k by (simp add: alone_count handler lims Let_def)
    qed
  qed
qed

end

section \<open>Several CPUs\<close>

text \<open>
  The handlers under way, one for each CPU, the maps they share and the samples sent so far. A CPU
  whose handler has finished starts one for the next event it sees.
\<close>

type_synonym 'm cpus = "handler list \<times> 'm cpu_maps \<times> data_t list"

inductive cpus_step :: "'m map_ops \<Rightarrow> 'm cpus \<Rightarrow> 'm cpus \<Rightarrow> bool" for ops where
  receive: "i < length hs \<Longrightarrow> stmt (hs ! i) = Finished \<Longrightarrow>
    cpus_step ops (hs, s, out) (hs[i := start_handler e], s, out)"
| execute: "i < length hs \<Longrightarrow> handler_statement ops (hs ! i) s = (h, s', new) \<Longrightarrow>
    cpus_step ops (hs, s, out) (hs[i := h], s', out @ new)"

text \<open>Statements of one CPU in a row.\<close>

inductive handler_steps ::
  "'m map_ops \<Rightarrow> handler \<Rightarrow> 'm cpu_maps \<Rightarrow> handler \<Rightarrow> 'm cpu_maps \<Rightarrow> data_t list \<Rightarrow> bool"
  for ops
where
  steps_none: "handler_steps ops h s h s []"
| steps_more: "handler_statement ops h s = (h1, s1, new) \<Longrightarrow> handler_steps ops h1 s1 h2 s2 out \<Longrightarrow>
    handler_steps ops h s h2 s2 (new @ out)"

lemma steps_cpus:
  "handler_steps ops h s h' s' new \<Longrightarrow> i < length hs \<Longrightarrow> hs ! i = h \<Longrightarrow>
   (cpus_step ops)\<^sup>*\<^sup>* (hs, s, out) (hs[i := h'], s', out @ new)"
proof (induction arbitrary: hs out rule: handler_steps.induct)
  case (steps_more h s h1 s1 new h2 s2 out')
  have "cpus_step ops (hs, s, out) (hs[i := h1], s1, out @ new)"
    using execute [of i hs ops s h1 s1 new out] steps_more by simp
  moreover have "(cpus_step ops)\<^sup>*\<^sup>* (hs[i := h1], s1, out @ new) (hs[i := h2], s2, (out @ new) @ out')"
    using steps_more.IH [of "hs[i := h1]" "out @ new"] steps_more.prems by simp
  ultimately show ?case by (simp add: converse_rtranclp_into_rtranclp)
qed (metis append_Nil2 list_update_id rtranclp.rtrancl_refl)

lemma steps_silent:
  "handler_statement ops h s = (h1, s1, []) \<Longrightarrow> handler_steps ops h1 s1 h2 s2 out \<Longrightarrow>
   handler_steps ops h s h2 s2 out"
  using steps_more [of ops h s h1 s1 "[]"] by simp

lemma steps_run: "\<exists>h'. stmt h' = Finished \<and>
   handler_steps ops h s h' (fst (run_handler ops h s)) (snd (run_handler ops h s))"
proof (induction "left (stmt h)" arbitrary: h s rule: less_induct)
  case less
  show ?case
  proof (cases "stmt h = Finished")
    case True
    then show ?thesis by (auto simp: run_finished intro: steps_none)
  next
    case False
    obtain h1 s1 new where st: "handler_statement ops h s = (h1, s1, new)" by (cases "handler_statement ops h s")
    then have "left (stmt h1) < left (stmt h)" using statement_decreases [OF False, of ops s] by simp
    from less [OF this, of s1] obtain h' where "stmt h' = Finished"
      "handler_steps ops h1 s1 h' (fst (run_handler ops h1 s1)) (snd (run_handler ops h1 s1))" by blast
    moreover have "run_handler ops h s = (fst (run_handler ops h1 s1), new @ snd (run_handler ops h1 s1))"
      using False by (simp add: run_next [of h] st split_beta)
    ultimately show ?thesis using steps_more [OF st] by auto
  qed
qed

section \<open>At most one signal for each CPU\<close>

text \<open>Past the test of the scaling flag, with the sample still to come.\<close>

definition past_test :: "u32 \<Rightarrow> handler \<Rightarrow> bool" where
  "past_test k h \<longleftrightarrow> h_netns h = k \<and> stmt h \<in> {FindBuffer..EmitSample}"

lemma statement_effect:
  assumes "handler_statement ops h s = (h', s', new)"
  shows "scaling_map s' = (if stmt h = SetScaling
      then update_ignore ops (scaling_map s) (h_netns h) 1 BPF_ANY else scaling_map s)"
    and "new = (if stmt h = EmitSample then [signal_data (h_netns h) (h_new h) (lower (h_limits h))] else [])"
    and "past_test k h' \<Longrightarrow> past_test k h \<and> stmt h \<noteq> EmitSample \<or>
      stmt h = FindScaling \<and> h_netns h = k \<and> map_lookup ops (scaling_map s) k \<noteq> Some 1"
    and "stmt h' = EmitSample \<Longrightarrow> h_netns h' = k \<Longrightarrow> stmt h = SetScaling \<and> h_netns h = k"
  using assms
  by (cases "stmt h";
      auto simp: handler_statement_def Let_def write_counter_def past_test_def less_eq_statement_def count_branch_def
        split: option.splits counter_ptr.splits if_splits)+

text \<open>
  The CPUs with everything else: between two statements the Go process may add, remove or re-arm
  other namespaces, delete and insert counters, and freed elements of the maps may be used again;
  only the scaling flag of \<open>k\<close> stays as it is.
\<close>

inductive disturbed_step :: "'m map_ops \<Rightarrow> u32 \<Rightarrow> 'm cpus \<Rightarrow> 'm cpus \<Rightarrow> bool" for ops k where
  cpu: "cpus_step ops c c' \<Longrightarrow> disturbed_step ops k c c'"
| others: "map_lookup ops (scaling_map s') k = map_lookup ops (scaling_map s) k \<Longrightarrow>
    disturbed_step ops k (hs, s, out) (hs, s', out)"

lemma cpus_disturbed: "(cpus_step ops)\<^sup>*\<^sup>* c c' \<Longrightarrow> (disturbed_step ops k)\<^sup>*\<^sup>* c c'"
  by (induction rule: rtranclp_induct) (auto intro: disturbed_step.cpu rtranclp.rtrancl_into_rtrancl)

definition signals_inv :: "'m map_ops \<Rightarrow> u32 \<Rightarrow> nat \<Rightarrow> 'm cpus \<Rightarrow> bool" where
  "signals_inv ops k n c \<longleftrightarrow>
     (case c of (hs, s, out) \<Rightarrow>
       length hs = n \<and> map_lookup ops (scaling_map s) k \<noteq> None \<and>
       (map_lookup ops (scaling_map s) k \<noteq> Some 1 \<longrightarrow>
          filter (\<lambda>d. netns d = k) out = [] \<and> (\<forall>h \<in> set hs. stmt h = EmitSample \<longrightarrow> h_netns h \<noteq> k)) \<and>
       length (filter (\<lambda>d. netns d = k) out) + length (filter (past_test k) hs) \<le> n)"

text \<open>Starting a handler, or any statement but a signal, does not bring the bound nearer.\<close>

lemma past_start [simp]: "\<not> past_test k (start_handler e)" "stmt (start_handler e) \<noteq> EmitSample"
  by (simp_all add: past_test_def less_eq_statement_def start_handler_def)

context bpf_hash
begin

lemma signals_inv_receive:
  assumes "signals_inv ops k n (hs, s, out)" "i < length hs" "stmt (hs ! i) = Finished"
  shows "signals_inv ops k n (hs[i := start_handler e], s, out)"
proof -
  have "length (filter (past_test k) (hs[i := start_handler e])) \<le> length (filter (past_test k) hs)"
    using length_filter_update [OF assms(2), of "past_test k" "start_handler e"] by simp
  then show ?thesis
    using assms(1) by (auto simp: signals_inv_def dest!: set_update_subset_insert [THEN subsetD])
qed

lemma signals_inv_execute:
  assumes inv: "signals_inv ops k n (hs, s, out)" and i: "i < length hs"
    and st: "handler_statement ops (hs ! i) s = (h', s', new)"
  shows "signals_inv ops k n (hs[i := h'], s', out @ new)"
proof -
  let ?h = "hs ! i" and ?own = "filter (\<lambda>d. netns d = k)" and ?past = "\<lambda>hs. length (filter (past_test k) hs)"
  note eff = statement_effect [OF st]
  have h: "?h \<in> set hs" using i by simp
  have present: "map_lookup ops (scaling_map s) k \<noteq> None" using inv by (simp add: signals_inv_def)
  have scaling: "map_lookup ops (scaling_map s') k =
      (if stmt ?h = SetScaling \<and> h_netns ?h = k then Some 1 else map_lookup ops (scaling_map s) k)"
    using eff(1) present by (auto simp: lookup_update_other lookup_update_any has_room_present)
  have new: "length (?own new) = of_bool (stmt ?h = EmitSample \<and> h_netns ?h = k)"
    using eff(2) by (simp add: signal_data_def)
  have past: "?past (hs[i := h']) + of_bool (past_test k ?h) = ?past hs + of_bool (past_test k h')"
    by (rule length_filter_update [OF i])
  show ?thesis
  proof (cases "map_lookup ops (scaling_map s) k = Some 1")
    case True
    then have "length (?own new) + of_bool (past_test k h') \<le> (of_bool (past_test k ?h) :: nat)"
      using new eff(3) [of k] by (auto simp: past_test_def less_eq_statement_def)
    then have "length (?own new) + ?past (hs[i := h']) \<le> ?past hs" using past by linarith
    then show ?thesis using inv True scaling by (simp add: signals_inv_def)
  next
    case False
    then have quiet: "?own out = []" "\<forall>h \<in> set hs. stmt h = EmitSample \<longrightarrow> h_netns h \<noteq> k" "length hs = n"
      using inv by (auto simp: signals_inv_def)
    then have none: "?own (out @ new) = []" using new h by auto
    have few: "?past (hs[i := h']) \<le> n" using quiet(3) length_filter_le [of "past_test k" "hs[i := h']"] by simp
    have no_emit: "\<forall>h \<in> set (hs[i := h']). stmt h = EmitSample \<longrightarrow> h_netns h \<noteq> k"
      if "map_lookup ops (scaling_map s') k \<noteq> Some 1"
    proof -
      have "\<not> (stmt ?h = SetScaling \<and> h_netns ?h = k)" using that scaling by auto
      then show ?thesis
        using eff(4) [of k] quiet(2) by (auto dest!: set_update_subset_insert [THEN subsetD])
    qed
    show ?thesis
      unfolding signals_inv_def prod.case none
    proof (intro conjI impI)
      show "length (hs[i := h']) = n" using quiet(3) by simp
      show "map_lookup ops (scaling_map s') k \<noteq> None" unfolding scaling using present by simp
      show "length [] + ?past (hs[i := h']) \<le> n" using few by simp
    qed (use no_emit in blast)+
  qed
qed

lemma signals_inv_steps:
  "(disturbed_step ops k)\<^sup>*\<^sup>* c c' \<Longrightarrow> signals_inv ops k n c \<Longrightarrow> signals_inv ops k n c'"
proof (induction rule: rtranclp_induct)
  case (step c1 c2)
  from step.hyps(2) show ?case
  proof cases
    case cpu
    then show ?thesis
      using step.IH [OF step.prems] by cases (auto intro: signals_inv_receive signals_inv_execute)
  next
    case (others s' s hs out)
    then show ?thesis using step.IH [OF step.prems] by (simp add: signals_inv_def)
  qed
qed

end

section \<open>Two CPUs at once\<close>

text \<open>
  The handler of a tracked namespace up to the store of its counter, and from there to its end.
\<close>

context bpf_hash
begin

lemma steps_to_limits:
  assumes "tracked ops (maps_of s) l (event_netns e)" "event_sock e \<noteq> 0"
    and "handler_steps ops ((start_handler e)\<lparr>h_limits := l, h_count := Element 0, stmt := count_branch (event_state e)\<rparr>) s h' s' out"
  shows "handler_steps ops (start_handler e) s h' s' out"
proof -
  have l: "\<lparr>lower = lower l, upper = upper l, buffer_length = buffer_length l\<rparr> = l" by simp
  have k: "h_netns (start_handler e) = event_netns e" "h_state (start_handler e) = event_state e"
    "stmt (start_handler e) = CheckValid"
    using assms(2) by (simp_all add: start_handler_def)
  note t = assms(1) [unfolded tracked_def maps_of_simps]
  have 1: "handler_statement ops (start_handler e) s = ((start_handler e)\<lparr>stmt := LoadLimits\<rparr>, s, [])"
    using t k by (simp add: handler_statement_def Let_def)
  have 2: "handler_statement ops ((start_handler e)\<lparr>stmt := LoadLimits\<rparr>) s =
      ((start_handler e)\<lparr>h_limits := l, stmt := FindCount\<rparr>, s, [])"
    using t l by (simp add: handler_statement_def Let_def)
  have 3: "handler_statement ops ((start_handler e)\<lparr>h_limits := l, stmt := FindCount\<rparr>) s =
      ((start_handler e)\<lparr>h_limits := l, h_count := Element 0, stmt := count_branch (event_state e)\<rparr>, s, [])"
    using t k by (auto simp: handler_statement_def Let_def)
  show ?thesis
    by (rule steps_silent [OF 1 steps_silent [OF 2 steps_silent [OF 3 assms(3)]]])
qed

lemma steps_to_store_count:
  assumes "tracked ops (maps_of s) l (event_netns e)" "event_sock e \<noteq> 0" "event_state e = TCP_ESTABLISHED"
    and "map_lookup ops (conn_count_map s) (event_netns e) = Some c"
  obtains h where "handler_steps ops (start_handler e) s h s []" "stmt h = StoreCount"
    "h_netns h = event_netns e" "h_count h = Element 0" "h_tmp h = c + 1"
proof -
  let ?h = "(start_handler e)\<lparr>h_limits := l, h_count := Element 0, stmt := count_branch (event_state e)\<rparr>"
  have k: "h_netns (start_handler e) = event_netns e" "h_state (start_handler e) = event_state e"
    by (simp_all add: start_handler_def)
  have "handler_statement ops ?h s = (?h\<lparr>h_tmp := c + 1, stmt := StoreCount\<rparr>, s, [])"
    using assms(3,4) k by (simp add: handler_statement_def Let_def count_branch_def read_counter_def)
  then have "handler_steps ops ?h s (?h\<lparr>h_tmp := c + 1, stmt := StoreCount\<rparr>) s []"
    using steps_silent steps_none by blast
  from steps_to_limits [OF assms(1,2) this] show thesis by (rule that) (simp_all add: k)
qed

text \<open>Up to the test of the scaling flag: the count is stored, \<open>h_new\<close> holds it.\<close>

lemma steps_count:
  assumes h: "stmt h = count_branch (h_state h)" "h_count h = Element 0" "h_new h = 0"
    and c: "map_lookup ops (conn_count_map s) (h_netns h) = Some c"
  defines "c' \<equiv> next_count (h_state h) c"
  obtains h' m where "handler_steps ops h s (h'\<lparr>stmt := FindScaling\<rparr>) (s\<lparr>conn_count_map := m\<rparr>) []"
    "h_netns h' = h_netns h" "h_limits h' = h_limits h" "h_new h' = c'"
    "map_lookup ops m = (map_lookup ops (conn_count_map s))(h_netns h \<mapsto> c')"
proof (cases "h_state h = TCP_ESTABLISHED \<or> 0 < c")
  case True
  let ?k = "h_netns h" and ?m = "map_store ops (conn_count_map s) (h_netns h) c'"
  let ?l = "h\<lparr>stmt := LoadCount\<rparr>" and ?g = "h\<lparr>h_tmp := c', stmt := StoreCount\<rparr>"
  let ?r = "h\<lparr>h_tmp := c', h_count := Element 0, stmt := ReadCount\<rparr>"
  let ?e = "h\<lparr>h_tmp := c', h_count := Element 0, h_new := c'\<rparr>"
  have m: "map_lookup ops ?m = (map_lookup ops (conn_count_map s))(?k \<mapsto> c')" using c by (rule store_present)
  have load: "handler_statement ops ?l s = (?g, s, [])"
    using True c h by (auto simp: handler_statement_def Let_def read_counter_def c'_def next_count_def)
  have store: "handler_statement ops ?g s = (?r, s\<lparr>conn_count_map := ?m\<rparr>, [])"
    using h by (simp add: handler_statement_def Let_def write_counter_def)
  have reread: "handler_statement ops ?r (s\<lparr>conn_count_map := ?m\<rparr>) = (?e\<lparr>stmt := FindScaling\<rparr>, s\<lparr>conn_count_map := ?m\<rparr>, [])"
    using m by (simp add: handler_statement_def Let_def read_counter_def)
  have steps: "handler_steps ops ?l s (?e\<lparr>stmt := FindScaling\<rparr>) (s\<lparr>conn_count_map := ?m\<rparr>) []"
    by (rule steps_silent [OF load steps_silent [OF store steps_silent [OF reread steps_none]]])
  have "handler_steps ops h s (?e\<lparr>stmt := FindScaling\<rparr>) (s\<lparr>conn_count_map := ?m\<rparr>) []"
  proof (cases "h_state h = TCP_ESTABLISHED")
    case True
    then have "?l = h" using h(1) by (simp add: count_branch_def)
    then show ?thesis using steps by metis
  next
    case False
    then have "handler_statement ops h s = (?l, s, [])"
      using True c h by (simp add: handler_statement_def Let_def count_branch_def TCP_LAST_ACK_def read_counter_def)
    from steps_silent [OF this steps] show ?thesis .
  qed
  from this _ _ _ m show thesis by (rule that) simp_all
next
  case False
  then have c': "c' = 0" "c = 0" by (auto simp: c'_def next_count_def word_greater_zero_iff)
  let ?m = "conn_count_map s"
  have "handler_statement ops h s = (h\<lparr>stmt := FindScaling\<rparr>, s, [])"
    using False c h by (simp add: handler_statement_def Let_def count_branch_def TCP_LAST_ACK_def read_counter_def)
  then have "handler_steps ops h s (h\<lparr>stmt := FindScaling\<rparr>) (s\<lparr>conn_count_map := ?m\<rparr>) []"
    by (simp add: steps_silent [OF _ steps_none])
  from this _ _ _ _ show thesis by (rule that) (use c c' h in \<open>simp_all add: fun_upd_idem\<close>)
qed

lemma steps_buffer:
  assumes "h_netns h = k" "breaches (h_limits h) (h_new h)"
    and "map_lookup ops (buffer_map s) k = Some b" "map_lookup ops (scaling_map s) k \<noteq> Some 1"
  defines "p \<equiv> Element (length (replaced s k))"
  shows "handler_steps ops (h\<lparr>stmt := FindScaling\<rparr>) s (h\<lparr>h_buffer := p, h_tmp := b + 1, stmt := StoreBuffer\<rparr>) s []"
proof -
  have "handler_statement ops (h\<lparr>stmt := FindScaling\<rparr>) s = (h\<lparr>stmt := FindBuffer\<rparr>, s, [])"
    using assms by (simp add: handler_statement_def Let_def)
  moreover have "handler_statement ops (h\<lparr>stmt := FindBuffer\<rparr>) s = (h\<lparr>h_buffer := p, stmt := LoadBuffer\<rparr>, s, [])"
    using assms by (simp add: handler_statement_def Let_def)
  moreover have "handler_statement ops (h\<lparr>h_buffer := p, stmt := LoadBuffer\<rparr>) s =
      (h\<lparr>h_buffer := p, h_tmp := b + 1, stmt := StoreBuffer\<rparr>, s, [])"
    using assms by (auto simp: handler_statement_def Let_def read_counter_def breaches_def p_def)
  ultimately show ?thesis by (meson steps_silent steps_none)
qed

lemma steps_append:
  "handler_steps ops h s h1 s1 out1 \<Longrightarrow> handler_steps ops h1 s1 h2 s2 out2 \<Longrightarrow>
   handler_steps ops h s h2 s2 (out1 @ out2)"
  by (induction rule: handler_steps.induct) (auto intro: steps_more)

lemma steps_to_store_buffer:
  assumes tr: "tracked ops (maps_of s) l (event_netns e)" "event_sock e \<noteq> 0"
    and c: "map_lookup ops (conn_count_map s) (event_netns e) = Some c"
      "c' = next_count (event_state e) c" "breaches l c'"
    and b: "map_lookup ops (buffer_map s) (event_netns e) = Some b"
    and scaling: "map_lookup ops (scaling_map s) (event_netns e) \<noteq> Some 1"
  obtains h m where "handler_steps ops (start_handler e) s h (s\<lparr>conn_count_map := m\<rparr>) []" "stmt h = StoreBuffer"
    "h_netns h = event_netns e" "h_limits h = l" "h_new h = c'" "h_buffer h = Element (length (replaced s (event_netns e)))" "h_tmp h = b + 1"
    "map_lookup ops m = (map_lookup ops (conn_count_map s))(event_netns e \<mapsto> c')"
proof -
  let ?p = "Element (length (replaced s (event_netns e)))"
  let ?h = "(start_handler e)\<lparr>h_limits := l, h_count := Element 0, stmt := count_branch (event_state e)\<rparr>"
  have k: "h_netns ?h = event_netns e" "h_state ?h = event_state e" "h_new ?h = 0" "h_limits ?h = l"
    "stmt ?h = count_branch (h_state ?h)" "h_count ?h = Element 0"
    by (simp_all add: start_handler_def)
  from steps_count [OF k(5,6,3), of s c] c(1,2) k obtain h m where
    h: "handler_steps ops ?h s (h\<lparr>stmt := FindScaling\<rparr>) (s\<lparr>conn_count_map := m\<rparr>) []"
      "h_netns h = event_netns e" "h_limits h = l" "h_new h = c'"
    and m: "map_lookup ops m = (map_lookup ops (conn_count_map s))(event_netns e \<mapsto> c')" by metis
  have "handler_steps ops (h\<lparr>stmt := FindScaling\<rparr>) (s\<lparr>conn_count_map := m\<rparr>)
      (h\<lparr>h_buffer := ?p, h_tmp := b + 1, stmt := StoreBuffer\<rparr>) (s\<lparr>conn_count_map := m\<rparr>) []"
    using h b scaling c(3) steps_buffer [of h "event_netns e" "s\<lparr>conn_count_map := m\<rparr>" b] by simp
  from steps_append [OF steps_to_limits [OF tr h(1)] this]
  have "handler_steps ops (start_handler e) s (h\<lparr>h_buffer := ?p, h_tmp := b + 1, stmt := StoreBuffer\<rparr>)
      (s\<lparr>conn_count_map := m\<rparr>) []" by simp
  then show thesis by (rule that) (use h m in simp_all)
qed

text \<open>What the rest of a handler does to the counter, from its store on.\<close>

lemma alone_store_count_conn:
  assumes "stmt h = StoreCount" "h_count h = Element 0" "map_lookup ops (conn_count_map s) (h_netns h) = Some c"
  shows "map_lookup ops (conn_count_map (fst (run_handler ops h s))) =
     (map_lookup ops (conn_count_map s))(h_netns h \<mapsto> h_tmp h)"
proof -
  have "map_lookup ops (conn_count_map (fst (alone ops h s))) =
      (map_lookup ops (conn_count_map s))(h_netns h \<mapsto> h_tmp h)"
    using assms by (simp add: alone_store_count write_counter_def store_present)
  then show ?thesis by (simp add: alone_def split_beta)
qed

text \<open>
  A handler about to store the buffer length sends its signal, whatever has happened meanwhile: it
  reads back what it has written, be its element still in the map or not.
\<close>

lemma alone_store_buffer_signals:
  assumes "stmt h = StoreBuffer" "h_tmp h = buffer_length (h_limits h)"
    and p: "points ops (h_netns h) (h_buffer h) (buffer_map s) (replaced s (h_netns h))"
    and b: "map_lookup ops (buffer_map s) (h_netns h) \<noteq> None"
  shows "snd (run_handler ops h s) = [signal_data (h_netns h) (h_new h) (lower (h_limits h))]"
    and "map_lookup ops (buffer_map (fst (run_handler ops h s))) (h_netns h) = Some 0"
proof -
  let ?m = "fst (snd (write_counter ops (h_netns h) (h_buffer h) (h_tmp h) (buffer_map s) (replaced s (h_netns h))))"
  have m: "map_lookup ops ?m (h_netns h) \<noteq> None"
    using b by (cases "h_buffer h") (auto simp: write_counter_def store_present)
  then have put: "map_lookup ops (update_ignore ops (update_ignore ops ?m (h_netns h) v BPF_ANY) (h_netns h) w BPF_ANY)
      (h_netns h) = Some w" for v w
    by (auto simp: lookup_update_any has_room_present)
  have "snd (alone ops h s) = [signal_data (h_netns h) (h_new h) (lower (h_limits h))] \<and>
      map_lookup ops (buffer_map (fst (alone ops h s))) (h_netns h) = Some 0"
    using assms(1,2) put by (simp add: alone_store_buffer [OF assms(1) p])
  then show "snd (run_handler ops h s) = [signal_data (h_netns h) (h_new h) (lower (h_limits h))]"
    "map_lookup ops (buffer_map (fst (run_handler ops h s))) (h_netns h) = Some 0"
    by (simp_all add: alone_def split_beta)
qed

text \<open>An element once replaced stays replaced.\<close>

lemma replaced_grows:
  "handler_statement ops h s = (h', s', new) \<Longrightarrow> length (replaced s k) \<le> length (replaced s' k)"
  by (cases "stmt h")
    (auto simp: handler_statement_def Let_def write_counter_def replace_buffer_def
      split: option.splits counter_ptr.splits if_splits)

lemma replaced_grows_run: "length (replaced s k) \<le> length (replaced (fst (run_handler ops h s)) k)"
proof -
  obtain h' where "handler_steps ops h s h' (fst (run_handler ops h s)) (snd (run_handler ops h s))"
    using steps_run by blast
  then show ?thesis by induction (auto dest: replaced_grows [of _ _ _ _ _ k])
qed

end

section \<open>Properties\<close>

text \<open>
  C19 (handler_is_its_statements). The statements of the handler, executed by one CPU alone, are the
  handler: the same maps and the same samples for every event and every state of the maps.
\<close>

theorem handler_is_its_statements:
  assumes "bpf_hash ops"
  shows "(case run_handler ops (start_handler (rd, task, ctx)) s of (s', out) \<Rightarrow> (maps_of s', out)) =
    kprobe_tcp_recvmsg ops rd task ctx (maps_of s)"
  using bpf_hash.alone_start [OF assms] by (simp add: alone_def)

lemma ex_probe_signal:
  "snd (kprobe_tcp_recvmsg hmap_ops (ex_memory 77 1) 0x10000 0x40000 (ex_maps 1 9 0 0)) = [signal_event 77 Upper]"
  by (simp add: kprobe_tcp_recvmsg_def count_event_def scale_event_def buffer_event_def
      load_cell_def tcp_state_defs signal_data_def signal_event_def)

theorem handler_is_its_statements_witness:
  "snd (run_handler hmap_ops (start_handler (ex_event 77 1)) (on_cpus (ex_maps 1 9 0 0))) = [signal_event 77 Upper]"
  using ex_probe_signal
    handler_is_its_statements [OF hmap.bpf_hash_axioms, of "ex_memory 77 1" "0x10000" "0x40000" "on_cpus (ex_maps 1 9 0 0)"]
  by (simp add: ex_event_def split_beta prod_eq_iff)

text \<open>
  C9 (one_signal_per_cpu). However the CPUs interleave, whatever events they see, and whatever happens
  to the maps between their statements, a namespace that is not re-armed meanwhile is signalled at
  most once for each CPU.
\<close>

theorem one_signal_per_cpu:
  assumes "bpf_hash ops" "\<forall>h \<in> set hs. stmt h = Finished"
    and "map_lookup ops (scaling_map s) k \<noteq> None" "(disturbed_step ops k)\<^sup>*\<^sup>* (hs, s, []) (hs', s', out)"
  shows "length (filter (\<lambda>d. netns d = k) out) \<le> length hs"
proof -
  have "filter (past_test k) hs = []" using assms(2) by (auto simp: past_test_def less_eq_statement_def filter_empty_conv)
  then have "signals_inv ops k (length hs) (hs, s, [])" using assms(2,3) by (auto simp: signals_inv_def)
  from bpf_hash.signals_inv_steps [OF assms(1,4) this] show ?thesis by (simp add: signals_inv_def)
qed

definition ex_idle :: handler where
  "ex_idle = (start_handler (ex_event 77 1))\<lparr>stmt := Finished\<rparr>"

lemma ex_handler:
  "\<exists>hs' s'. (cpus_step hmap_ops)\<^sup>*\<^sup>* ([ex_idle], on_cpus (ex_maps 1 9 0 0), []) (hs', s', [signal_event 77 Upper])"
proof -
  let ?h = "start_handler (ex_event 77 1)" and ?s = "on_cpus (ex_maps 1 9 0 0)"
  have "cpus_step hmap_ops ([ex_idle], ?s, []) ([?h], ?s, [])"
    using receive [of 0 "[ex_idle]" hmap_ops ?s "[]" "ex_event 77 1"] by (simp add: ex_idle_def)
  obtain h' where "handler_steps hmap_ops ?h ?s h' (fst (run_handler hmap_ops ?h ?s)) (snd (run_handler hmap_ops ?h ?s))"
    using steps_run by blast
  moreover have "snd (run_handler hmap_ops ?h ?s) = [signal_event 77 Upper]"
    using hmap.alone_start [of "ex_memory 77 1" "0x10000" "0x40000" "on_cpus (ex_maps 1 9 0 0)"] ex_probe_signal
    by (simp add: ex_event_def alone_def split_beta prod_eq_iff)
  ultimately have "(cpus_step hmap_ops)\<^sup>*\<^sup>* ([?h], ?s, []) ([h'], fst (run_handler hmap_ops ?h ?s), [signal_event 77 Upper])"
    using steps_cpus [of hmap_ops ?h ?s h' _ _ 0 "[?h]" "[]"] by simp
  with \<open>cpus_step hmap_ops ([ex_idle], ?s, []) ([?h], ?s, [])\<close> show ?thesis
    by (blast intro: converse_rtranclp_into_rtranclp)
qed

theorem one_signal_per_cpu_witness:
  "\<exists>hs' s' out. (cpus_step hmap_ops)\<^sup>*\<^sup>* ([ex_idle], on_cpus (ex_maps 1 9 0 0), []) (hs', s', out) \<and> out \<noteq> [] \<and>
     length (filter (\<lambda>d. netns d = 77) out) \<le> 1"
proof -
  obtain hs' s' where r: "(cpus_step hmap_ops)\<^sup>*\<^sup>* ([ex_idle], on_cpus (ex_maps 1 9 0 0), []) (hs', s', [signal_event 77 Upper])"
    using ex_handler by blast
  from one_signal_per_cpu [OF hmap.bpf_hash_axioms _ _ cpus_disturbed [OF this], of 77]
  have "length (filter (\<lambda>d. netns d = 77) [signal_event 77 Upper]) \<le> 1" by (simp add: ex_idle_def)
  with r show ?thesis by blast
qed

lemma ex_tracked_cpus: "tracked hmap_ops (maps_of (on_cpus (ex_maps len c b sc))) (ex_limits len) 77"
  by (simp add: ex_tracked)

text \<open>Two idle CPUs start their handlers; each runs to a point, then each runs to its end.\<close>

lemma two_cpus:
  assumes idle: "stmt h1 = Finished" "stmt h2 = Finished"
    and a: "handler_steps ops (start_handler e1) s g1 s1 []" and b: "handler_steps ops (start_handler e2) s1 g2 s2 []"
  defines "r1 \<equiv> run_handler ops g1 s2" and "r2 \<equiv> run_handler ops g2 (fst (run_handler ops g1 s2))"
  obtains hs' where "(cpus_step ops)\<^sup>*\<^sup>* ([h1, h2], s, []) (hs', fst r2, snd r1 @ snd r2)"
    "\<forall>h \<in> set hs'. stmt h = Finished"
proof -
  have 0: "cpus_step ops ([h1, h2], s, []) ([start_handler e1, h2], s, [])"
    using receive [of 0 "[h1, h2]" ops s "[]" e1] idle by simp
  have 1: "(cpus_step ops)\<^sup>*\<^sup>* ([start_handler e1, h2], s, []) ([g1, h2], s1, [])"
    using steps_cpus [OF a, of 0 "[start_handler e1, h2]" "[]"] by simp
  have 2: "cpus_step ops ([g1, h2], s1, []) ([g1, start_handler e2], s1, [])"
    using receive [of 1 "[g1, h2]" ops s1 "[]" e2] idle by simp
  have 3: "(cpus_step ops)\<^sup>*\<^sup>* ([g1, start_handler e2], s1, []) ([g1, g2], s2, [])"
    using steps_cpus [OF b, of 1 "[g1, start_handler e2]" "[]"] by simp
  obtain f1 where f1: "stmt f1 = Finished" "handler_steps ops g1 s2 f1 (fst r1) (snd r1)"
    using steps_run unfolding r1_def by blast
  have 4: "(cpus_step ops)\<^sup>*\<^sup>* ([g1, g2], s2, []) ([f1, g2], fst r1, snd r1)"
    using steps_cpus [OF f1(2), of 0 "[g1, g2]" "[]"] by simp
  obtain f2 where f2: "stmt f2 = Finished" "handler_steps ops g2 (fst r1) f2 (fst r2) (snd r2)"
    using steps_run unfolding r2_def r1_def by blast
  have 5: "(cpus_step ops)\<^sup>*\<^sup>* ([f1, g2], fst r1, snd r1) ([f1, f2], fst r2, snd r1 @ snd r2)"
    using steps_cpus [OF f2(2), of 1 "[f1, g2]" "snd r1"] by simp
  have "(cpus_step ops)\<^sup>*\<^sup>* ([h1, h2], s, []) ([f1, f2], fst r2, snd r1 @ snd r2)"
    using converse_rtranclp_into_rtranclp [OF 0 1] converse_rtranclp_into_rtranclp [OF 2 3] 4 5
    by (meson rtranclp_trans)
  then show thesis by (rule that) (use f1 f2 in simp)
qed

lemma view_tracked:
  assumes "tracked ops s l k" "view ops s k = v"
  shows "map_lookup ops (conn_count_map s) k = Some (count v)" "map_lookup ops (buffer_map s) k = Some (buffer v)"
    "map_lookup ops (scaling_map s) k = Some 1 \<longleftrightarrow> suppressed v"
  using assms by (auto simp: tracked_def view_def)

text \<open>
  Two CPUs that see an event of the same namespace at once can both pass the
  test of the scaling flag before either sets it: the streak that ends with these events is
  signalled twice, where the same two events one after the other are signalled once.
\<close>

theorem two_cpus_signal_twice:
  fixes ops :: "'m map_ops"
  assumes ops: "bpf_hash ops" and tr: "tracked ops (maps_of s) l k"
    and e: "event_netns e1 = k" "event_sock e1 \<noteq> 0" "event_netns e2 = k" "event_sock e2 \<noteq> 0"
    and v: "view ops (maps_of s) k = \<lparr>count = c, buffer = buffer_length l - 1, suppressed = False\<rparr>"
    and c1: "c1 = next_count (event_state e1) c" "breaches l c1"
    and c2: "c2 = next_count (event_state e2) c1" "breaches l c2"
    and idle: "stmt h1 = Finished" "stmt h2 = Finished"
  shows "(\<exists>hs' s'. (cpus_step ops)\<^sup>*\<^sup>* ([h1, h2], s, [])
      (hs', s', [signal_data k c1 (lower l), signal_data k c2 (lower l)])) \<and>
    length (filter (\<lambda>d. netns d = k) (snd (kprobe_run ops [e1, e2] (maps_of s)))) = 1"
proof
  note cells = view_tracked [OF tr v, unfolded maps_of_simps netns_view.simps]
  obtain g1 m1 where g1: "handler_steps ops (start_handler e1) s g1 (s\<lparr>conn_count_map := m1\<rparr>) []" "stmt g1 = StoreBuffer"
    "h_netns g1 = k" "h_limits g1 = l" "h_new g1 = c1" "h_buffer g1 = Element (length (replaced s k))" "h_tmp g1 = buffer_length l"
    and m1: "map_lookup ops m1 = (map_lookup ops (conn_count_map s))(k \<mapsto> c1)"
    by (rule bpf_hash.steps_to_store_buffer [OF ops, of s l e1 c c1 "buffer_length l - 1"]) (use tr e cells c1 in auto)
  let ?s1 = "s\<lparr>conn_count_map := m1\<rparr>"
  have t1: "tracked ops (maps_of ?s1) l k" using tr m1 by (simp add: tracked_def)
  obtain g2 m2 where g2: "handler_steps ops (start_handler e2) ?s1 g2 (s\<lparr>conn_count_map := m2\<rparr>) []" "stmt g2 = StoreBuffer"
    "h_netns g2 = k" "h_limits g2 = l" "h_new g2 = c2" "h_buffer g2 = Element (length (replaced s k))" "h_tmp g2 = buffer_length l"
    by (rule bpf_hash.steps_to_store_buffer [OF ops, of ?s1 l e2 c1 c2 "buffer_length l - 1"]) (use t1 m1 e cells c2 in auto)
  let ?s2 = "s\<lparr>conn_count_map := m2\<rparr>"
  have r1: "snd (run_handler ops g1 ?s2) = [signal_data k c1 (lower l)]"
    "map_lookup ops (buffer_map (fst (run_handler ops g1 ?s2))) k = Some 0"
    using bpf_hash.alone_store_buffer_signals [OF ops g1(2), of ?s2] g1 cells by simp_all
  have "length (replaced s k) \<le> length (replaced (fst (run_handler ops g1 ?s2)) k)"
    using bpf_hash.replaced_grows_run [OF ops, of ?s2 k g1] by simp
  then have r2: "snd (run_handler ops g2 (fst (run_handler ops g1 ?s2))) = [signal_data k c2 (lower l)]"
    using bpf_hash.alone_store_buffer_signals(1) [OF ops g2(2)] g2 r1(2) by simp
  obtain hs' where "(cpus_step ops)\<^sup>*\<^sup>* ([h1, h2], s, [])
      (hs', fst (run_handler ops g2 (fst (run_handler ops g1 ?s2))), snd (run_handler ops g1 ?s2) @
        snd (run_handler ops g2 (fst (run_handler ops g1 ?s2))))"
    by (rule two_cpus [OF idle g1(1) g2(1)])
  then show "\<exists>hs' s'. (cpus_step ops)\<^sup>*\<^sup>* ([h1, h2], s, [])
      (hs', s', [signal_data k c1 (lower l), signal_data k c2 (lower l)])"
    unfolding r1 r2 by auto
  have "snd (probe_run l [event_state e1, event_state e2] (view ops (maps_of s) k)) = [if c1 \<le> lower l then Lower else Upper]"
    using c1 by (simp add: v probe_step_def)
  then show "length (filter (\<lambda>d. netns d = k) (snd (kprobe_run ops [e1, e2] (maps_of s)))) = 1"
    using bpf_hash.kprobe_run_follows [OF ops tr, of "[e1, e2]"] e by (simp add: own_states_def)
qed

theorem two_cpus_signal_twice_witness:
  "\<exists>hs' s'. (cpus_step hmap_ops)\<^sup>*\<^sup>* ([ex_idle, ex_idle], on_cpus (ex_maps 1 9 0 0), [])
     (hs', s', [signal_data 77 10 3, signal_data 77 11 3])"
  using two_cpus_signal_twice [OF hmap.bpf_hash_axioms ex_tracked_cpus [of 1 9 0 0], of "ex_event 77 1" "ex_event 77 1"
      9 10 11 ex_idle ex_idle]
  by (simp add: ex_view next_count_def breaches_def tcp_state_defs ex_idle_def)

text \<open>
  Whatever the other CPUs and the Go process do to the maps before each of its statements, the
  handler of an event is over after at most eighteen of them.
\<close>

theorem handler_ends:
  assumes "18 \<le> length others"
  shows "stmt (fst (driven (handler_thread ops) others (start_handler e, s, out))) = Finished"
proof -
  have "left (stmt (start_handler e)) \<le> length others" using assms by (simp add: start_handler_def)
  from cpu.driven_ends [OF this, of ops "(s, out)"] show ?thesis by simp
qed

theorem handler_ends_witness:
  "stmt (fst (driven (handler_thread hmap_ops) (replicate 18 (\<lambda>(s, out). (s\<lparr>replaced := \<lambda>_. []\<rparr>, out)))
     (start_handler (ex_event 77 1), on_cpus (ex_maps 1 9 0 0), []))) = Finished"
  by (rule handler_ends) simp

text \<open>
  Two CPUs that count a new connection of the same namespace at once can
  both load the counter before either stores it: one of the two connections is lost, where the
  same events one after the other count two.
\<close>

theorem racing_opens_lose_a_count:
  fixes ops :: "'m map_ops"
  assumes ops: "bpf_hash ops" and tr: "tracked ops (maps_of s) l k"
    and e: "event_netns e1 = k" "event_sock e1 \<noteq> 0" "event_state e1 = TCP_ESTABLISHED"
      "event_netns e2 = k" "event_sock e2 \<noteq> 0" "event_state e2 = TCP_ESTABLISHED"
    and c: "map_lookup ops (conn_count_map s) k = Some c" and idle: "stmt h1 = Finished" "stmt h2 = Finished"
  shows "(\<exists>hs' s' out. (cpus_step ops)\<^sup>*\<^sup>* ([h1, h2], s, []) (hs', s', out) \<and>
      (\<forall>h \<in> set hs'. stmt h = Finished) \<and> map_lookup ops (conn_count_map s') k = Some (c + 1)) \<and>
    map_lookup ops (conn_count_map (fst (kprobe_run ops [e1, e2] (maps_of s)))) k = Some (c + 2)"
proof
  obtain g1 where g1: "handler_steps ops (start_handler e1) s g1 s []" "stmt g1 = StoreCount" "h_netns g1 = k"
    "h_count g1 = Element 0" "h_tmp g1 = c + 1"
    by (rule bpf_hash.steps_to_store_count [OF ops, of s l e1 c]) (use tr e c in auto)
  obtain g2 where g2: "handler_steps ops (start_handler e2) s g2 s []" "stmt g2 = StoreCount" "h_netns g2 = k"
    "h_count g2 = Element 0" "h_tmp g2 = c + 1"
    by (rule bpf_hash.steps_to_store_count [OF ops, of s l e2 c]) (use tr e c in auto)
  let ?r1 = "run_handler ops g1 s"
  have "map_lookup ops (conn_count_map (fst ?r1)) k = Some (c + 1)"
    using bpf_hash.alone_store_count_conn [OF ops g1(2,4), of s c] g1 c by simp
  then have "map_lookup ops (conn_count_map (fst (run_handler ops g2 (fst ?r1)))) k = Some (c + 1)"
    using bpf_hash.alone_store_count_conn [OF ops g2(2,4), of "fst ?r1" "c + 1"] g2 by simp
  moreover obtain hs' where "(cpus_step ops)\<^sup>*\<^sup>* ([h1, h2], s, [])
      (hs', fst (run_handler ops g2 (fst ?r1)), snd ?r1 @ snd (run_handler ops g2 (fst ?r1)))"
    "\<forall>h \<in> set hs'. stmt h = Finished"
    by (rule two_cpus [OF idle g1(1) g2(1)])
  ultimately show "\<exists>hs' s' out. (cpus_step ops)\<^sup>*\<^sup>* ([h1, h2], s, []) (hs', s', out) \<and>
      (\<forall>h \<in> set hs'. stmt h = Finished) \<and> map_lookup ops (conn_count_map s') k = Some (c + 1)" by blast
  note run = bpf_hash.kprobe_run_follows [OF ops tr, of "[e1, e2]"]
  have "count (view ops (maps_of s) k) = c" using c by (simp add: view_def)
  then have "count (fst (probe_run l [TCP_ESTABLISHED, TCP_ESTABLISHED] (view ops (maps_of s) k))) = c + 2"
    by (simp add: split_beta count_probe_step next_count_def)
  then have "count (view ops (fst (kprobe_run ops [e1, e2] (maps_of s))) k) = c + 2"
    using run e by (simp add: own_states_def)
  then show "map_lookup ops (conn_count_map (fst (kprobe_run ops [e1, e2] (maps_of s)))) k = Some (c + 2)"
    using view_tracked(1) [OF _ refl] run by metis
qed

theorem racing_opens_lose_a_count_witness:
  "\<exists>hs' s' out. (cpus_step hmap_ops)\<^sup>*\<^sup>* ([ex_idle, ex_idle], on_cpus (ex_maps 1 5 0 0), []) (hs', s', out) \<and>
     map_lookup hmap_ops (conn_count_map s') 77 = Some 6"
proof -
  have "(5 :: u32) + 1 = 6" by simp
  with racing_opens_lose_a_count [OF hmap.bpf_hash_axioms ex_tracked_cpus [of 1 5 0 0], of "ex_event 77 1" "ex_event 77 1"
      5 ex_idle ex_idle]
  show ?thesis by (auto simp: tcp_state_defs ex_idle_def)
qed

end
