(* ===== verification/Removal_Steps.thy ===== *)
theory Removal_Steps imports Map_Capacity Kprobe_CPUs begin

text \<open>
  The removal of a namespace statement by statement (\<^verbatim>\<open>removeNamespace\<close> in
  \<^verbatim>\<open>src/autoscaler/conc_req_monitoring/conc_req_monitoring.go\<close>). Its three
  deletions are three system calls, and the probe handles events in between. Run alone the
  statements are the operation of \<open>Conc_Req_Listener\<close>. With an event in between they leave
  entries behind that nothing removes any more, so what \<open>Map_Capacity\<close> shows of the sizes
  of the maps rests on removals that no event interrupts.
\<close>

section \<open>The statements of a removal\<close>

datatype removal_pc = AtCountEntry | AtBufferEntry | AtValidEntry | AtContext | RemovalEnded "go_error option"

fun removal_statement :: "'m map_ops \<Rightarrow> u32 \<Rightarrow> removal_pc \<Rightarrow> 'm conc_req \<Rightarrow> removal_pc \<times> 'm conc_req" where
  "removal_statement ops ns AtCountEntry s =
     (case map_delete ops (conn_count_map (probe s)) ns of
        Inl err \<Rightarrow> (RemovalEnded (Some (errno_text err)), s)
      | Inr m \<Rightarrow> (AtBufferEntry, s\<lparr>probe := (probe s)\<lparr>conn_count_map := m\<rparr>\<rparr>))"
| "removal_statement ops ns AtBufferEntry s =
     (case map_delete ops (buffer_map (probe s)) ns of
        Inl err \<Rightarrow> (RemovalEnded (Some (errno_text err)), s)
      | Inr m \<Rightarrow> (AtValidEntry, s\<lparr>probe := (probe s)\<lparr>buffer_map := m\<rparr>\<rparr>))"
| "removal_statement ops ns AtValidEntry s =
     (case map_delete ops (valid_netns_map (probe s)) ns of
        Inl err \<Rightarrow> (RemovalEnded (Some (errno_text err)), s)
      | Inr m \<Rightarrow> (AtContext, s\<lparr>probe := (probe s)\<lparr>valid_netns_map := m\<rparr>\<rparr>))"
| "removal_statement ops ns AtContext s =
     (RemovalEnded None, s\<lparr>namespaceToContext := (namespaceToContext s)(ns := None)\<rparr>)"
| "removal_statement ops ns (RemovalEnded r) s = (RemovalEnded r, s)"

text \<open>Four statements at most, one after the other.\<close>

definition run_removal :: "'m map_ops \<Rightarrow> u32 \<Rightarrow> 'm conc_req \<Rightarrow> removal_pc \<times> 'm conc_req" where
  "run_removal ops ns s = ((\<lambda>(pc, s). removal_statement ops ns pc s) ^^ 4) (AtCountEntry, s)"

text \<open>Events of the probe come between any two statements.\<close>

inductive removal_step ::
  "'m map_ops \<Rightarrow> u32 \<Rightarrow> removal_pc \<times> 'm conc_req \<Rightarrow> removal_pc \<times> 'm conc_req \<Rightarrow> bool"
  for ops ns
where
  removal: "removal_step ops ns (pc, s) (removal_statement ops ns pc s)"
| event: "removal_step ops ns (pc, s) (pc, s\<lparr>probe := fst (kprobe_tcp_recvmsg ops rd task ctx (probe s))\<rparr>)"

section \<open>A removal as a thread\<close>

fun removal_thread :: "'m map_ops \<Rightarrow> u32 \<Rightarrow> removal_pc \<Rightarrow> 'm conc_req \<Rightarrow> (removal_pc \<times> 'm conc_req) option" where
  "removal_thread ops ns (RemovalEnded r) s = None"
| "removal_thread ops ns pc s = Some (removal_statement ops ns pc s)"

fun removal_left :: "removal_pc \<Rightarrow> nat" where
  "removal_left AtCountEntry = 4"
| "removal_left AtBufferEntry = 3"
| "removal_left AtValidEntry = 2"
| "removal_left AtContext = 1"
| "removal_left (RemovalEnded _) = 0"

interpretation namespace_removal: unhindered_statements "removal_thread ops ns" removal_left for ops ns
proof
  show "removal_left pc' < removal_left pc" if "removal_thread ops ns pc s = Some (pc', s')" for pc s pc' s'
    using that by (cases pc) (auto split: sum.splits)
  show "removal_left pc = 0" if "removal_thread ops ns pc s = None" for pc s
    using that by (cases pc) auto
qed

section \<open>Lemmas\<close>

context bpf_hash
begin

text \<open>An event of a namespace whose counter and buffer are gone puts both back.\<close>

lemma kprobe_puts_back:
  assumes e: "event_netns (rd, task, ctx) = k" "event_sock (rd, task, ctx) \<noteq> 0"
    and p: "map_lookup ops (valid_netns_map p) k \<noteq> None" "map_lookup ops (constants_map p) 0 = Some (lower l)"
      "map_lookup ops (constants_map p) 1 = Some (upper l)" "map_lookup ops (constants_map p) 2 = Some (buffer_length l)"
    and gone: "map_lookup ops (conn_count_map p) k = None" "map_lookup ops (buffer_map p) k = None"
    and scaling: "map_lookup ops (scaling_map p) k \<noteq> Some 1"
    and room: "has_room ops (conn_count_map p) k" "has_room ops (buffer_map p) k"
  defines "p' \<equiv> fst (kprobe_tcp_recvmsg ops rd task ctx p)"
  shows "map_lookup ops (conn_count_map p') k = Some 0 \<and> map_lookup ops (buffer_map p') k \<noteq> None"
proof -
  have k: "get_netns_from_task rd task = k" using e(1) by (simp add: event_netns_def)
  let ?c = "count_event ops k (event_state (rd, task, ctx)) (conn_count_map p)"
  have c: "snd ?c = update_ignore ops (conn_count_map p) k 0 BPF_NOEXIST"
    using gone(1) by (simp add: count_event_def load_cell_def write_cell_def)
  have "p' = fst (scale_event ops k (fst ?c) (lower l) (upper l) (buffer_length l) (p\<lparr>conn_count_map := snd ?c\<rparr>))"
    using e(2) p k by (auto simp: p'_def kprobe_by_event split_beta)
  moreover have put: "map_lookup ops (update_ignore ops m k v BPF_ANY) k = Some v" if "map_lookup ops m k \<noteq> None" for m v
    using that by (auto simp: lookup_update_any has_room_present)
  moreover have "map_lookup ops (update_ignore ops (buffer_map p) k 0 BPF_NOEXIST) k = Some 0"
    using lookup_update_noexist_absent [OF room(2) gone(2)] by simp
  ultimately have "conn_count_map p' = snd ?c" "map_lookup ops (buffer_map p') k \<noteq> None"
    using scaling gone(2)
    by (simp_all add: scale_event_def buffer_event_def load_cell_def write_cell_def Let_def)
  then show ?thesis
    using lookup_update_noexist_absent [OF room(1) gone(1)] c by simp
qed

end

text \<open>Once the entry of \<open>valid_netns_map\<close> is gone no event brings it back.\<close>

lemma removal_untracks:
  assumes "bpf_hash ops" "(removal_step ops k)\<^sup>*\<^sup>* (AtCountEntry, s) (pc, s')"
  shows "pc = AtContext \<or> pc = RemovalEnded None \<Longrightarrow> map_lookup ops (valid_netns_map (probe s')) k = None"
  using assms(2)
proof (induction rule: rtranclp_induct2)
  case (step pc1 s1 pc2 s2)
  from step.hyps(2) show ?case
  proof cases
    case removal
    then show ?thesis
      using step.IH step.prems
      by (cases pc1) (auto dest: bpf_hash.delete_removes [OF assms(1)] split: sum.splits)
  next
    case (event rd task ctx)
    then show ?thesis using step.IH step.prems by (simp add: bpf_hash.kprobe_frame [OF assms(1)])
  qed
qed simp

text \<open>The four statements in a row are steps.\<close>

lemma run_removal_steps: "(removal_step ops ns)\<^sup>*\<^sup>* (AtCountEntry, s) (run_removal ops ns s)"
proof -
  let ?st = "\<lambda>(pc, s). removal_statement ops ns pc s"
  have "(removal_step ops ns)\<^sup>*\<^sup>* c ((?st ^^ n) c)" for n c
  proof (induction n)
    case (Suc n)
    moreover obtain pc t where "(?st ^^ n) c = (pc, t)" by (cases "(?st ^^ n) c")
    ultimately show ?case
      by (auto intro: rtranclp.rtrancl_into_rtrancl removal_step.removal)
  qed simp
  then show ?thesis by (simp only: run_removal_def)
qed

section \<open>Properties\<close>

text \<open>
  The statements of a removal, run one after the other without an event
  in between, are the operation: the same error and the same state on every path.
\<close>

theorem removal_is_its_statements:
  "run_removal ops ns s = (RemovalEnded (fst (removeNamespace ops ns s)), snd (removeNamespace ops ns s))"
  by (simp add: run_removal_def removeNamespace_def Let_def numeral_eq_Suc split: sum.split)

text \<open>
  Whatever happens before each of its statements, a removal is over after four of them.
\<close>

theorem removal_ends: "\<exists>r s'. driven (removal_thread ops k) [e1, e2, e3, e4] (AtCountEntry, s) = (RemovalEnded r, s')"
proof -
  obtain pc s' where c: "driven (removal_thread ops k) [e1, e2, e3, e4] (AtCountEntry, s) = (pc, s')"
    by (cases "driven (removal_thread ops k) [e1, e2, e3, e4] (AtCountEntry, s)")
  then have "removal_left pc = 0"
    using namespace_removal.driven_ends [of AtCountEntry "[e1, e2, e3, e4]" ops k s] by simp
  with c show ?thesis by (cases pc) auto
qed

text \<open>
  Whatever events come between the deletions of a removal, once it has
  succeeded the probe changes no map for the namespace and sends no sample for it any more.
\<close>

theorem interrupted_removal_silences:
  assumes "bpf_hash ops" "(removal_step ops k)\<^sup>*\<^sup>* (AtCountEntry, s) (RemovalEnded None, s')"
    and "event_netns (rd, task, ctx) = k"
  shows "kprobe_tcp_recvmsg ops rd task ctx (probe s') = (probe s', [])"
proof -
  have "map_lookup ops (valid_netns_map (probe s')) (get_netns_from_task rd task) = None"
    using removal_untracks [OF assms(1,2)] assms(3) by (simp add: event_netns_def)
  then show ?thesis by (simp add: kprobe_tcp_recvmsg_def Let_def)
qed

lemma ex_run_removal:
  "(removal_step hmap_ops 77)\<^sup>*\<^sup>* (AtCountEntry, ex_conc 0) (RemovalEnded None, snd (removeNamespace hmap_ops 77 (ex_conc 0)))"
  using run_removal_steps [of hmap_ops 77 "ex_conc 0"]
  by (simp add: run_removal_def removeNamespace_def Let_def numeral_eq_Suc)

theorem interrupted_removal_silences_witness:
  "let s = probe (snd (removeNamespace hmap_ops 77 (ex_conc 0)))
   in kprobe_tcp_recvmsg hmap_ops (ex_memory 77 1) 0x10000 0x40000 s = (s, [])"
  unfolding Let_def
  by (rule interrupted_removal_silences [OF hmap.bpf_hash_axioms ex_run_removal]) (simp add: event_netns_def)



end
