(* ===== verification/Cgroup_Monitor.thy ===== *)
theory Cgroup_Monitor imports Keep_Alive begin

text \<open>
  The CPU and the memory monitor
  (\<^verbatim>\<open>src/autoscaler/cgroup_monitoring/cgroup_monitoring.go\<close>): reading the
  usage from the cgroup file system, the utilisation of the CPU in float64 arithmetic, the
  comparison with the thresholds, and the scaling action. The file system is a parameter, the
  content of a path or an error. One tick of a monitor is one definition; the loops are in
  \<open>Monitor_Loops\<close>, the
  event messages are left out.
\<close>

section \<open>Reading the usage\<close>

type_synonym file_system = "string \<Rightarrow> go_error + string"

definition cgroupDir :: string where
  "cgroupDir = ''/sys/fs/cgroup/system.slice''"

definition scope_file :: "string \<Rightarrow> string \<Rightarrow> string" where
  "scope_file containerID file = cgroupDir @ ''/docker-'' @ containerID @ ''.scope/'' @ file"

text \<open>Go divides integers towards zero.\<close>

definition readMemoryUsage :: "file_system \<Rightarrow> string \<Rightarrow> go_error + int" where
  "readMemoryUsage fs containerID =
     (case fs (scope_file containerID ''memory.current'') of
        Inl err \<Rightarrow> Inl err
      | Inr content \<Rightarrow>
         (case ParseInt64 (strings_TrimSpace content) of
            None \<Rightarrow> Inl ''invalid number''
          | Some memUsageBytes \<Rightarrow> Inr (memUsageBytes sdiv (1024 * 1024))))"

fun usage_line :: "string list \<Rightarrow> go_error + int" where
  "usage_line [] = Inl ''usage_usec not found in cpu.stat''"
| "usage_line (line # lines) =
     (if strings_HasPrefix line ''usage_usec'' then
        (let parts = strings_Fields line in
         if length parts = 2 then
           (case ParseInt64 (parts ! 1) of None \<Rightarrow> Inl ''invalid number'' | Some usageUsec \<Rightarrow> Inr usageUsec)
         else usage_line lines)
      else usage_line lines)"

definition readCPUUsage :: "file_system \<Rightarrow> string \<Rightarrow> go_error + int" where
  "readCPUUsage fs containerID =
     (case fs (scope_file containerID ''cpu.stat'') of
        Inl err \<Rightarrow> Inl err
      | Inr content \<Rightarrow> usage_line (split_lines content))"

section \<open>Scaling\<close>

definition determineScalingDirection :: "float64 \<Rightarrow> float64 \<Rightarrow> float64 \<Rightarrow> string" where
  "determineScalingDirection currentValue lowerThreshold upperThreshold =
     (if fless upperThreshold currentValue then ''over''
      else if fless currentValue lowerThreshold then ''under''
      else [])"

record CPUResource =
  LowerUtil :: float64
  UpperUtil :: float64

record MemoryResource =
  MemLowerLimit :: int
  MemUpperLimit :: int

text \<open>The action for a direction; the result says whether the monitor's loop goes on.\<close>

definition scale_action ::
  "'d docker_ops \<Rightarrow> network \<Rightarrow> SwarmNodeInfo \<Rightarrow> string \<Rightarrow> string \<Rightarrow>
   ('m, 'd) manager \<Rightarrow> bool outcome \<times> ('m, 'd) manager"
where
  "scale_action D net info containerID direction s =
     (if AutoscalerManager info then
        (case ScaleService D info containerID direction s of
           (Returns _, s1) \<Rightarrow> (Returns True, s1)
         | (Panics, s1) \<Rightarrow> (Panics, s1)
         | (Exits, s1) \<Rightarrow> (Exits, s1)
         | (Blocks, s1) \<Rightarrow> (Blocks, s1))
      else
        (case GetManagerNode (OtherNodes info) of
           (_, Some _) \<Rightarrow> (Returns False, s)
         | (managerNode, None) \<Rightarrow>
            (case FindServiceIDFromContainer D containerID s of
               Inl _ \<Rightarrow> (Returns False, s)
             | Inr serviceId \<Rightarrow>
                 (Returns True,
                  s\<lparr>sent := snd (SendScaleRequest net serviceId direction (IP managerNode) (sent s))\<rparr>))))"

text \<open>One tick of the memory monitor; the result says whether its loop goes on.\<close>

definition memory_tick ::
  "'d docker_ops \<Rightarrow> network \<Rightarrow> SwarmNodeInfo \<Rightarrow> MemoryResource \<Rightarrow> file_system \<Rightarrow> string \<Rightarrow>
   ('m, 'd) manager \<Rightarrow> bool outcome \<times> ('m, 'd) manager"
where
  "memory_tick D net info mem fs containerID s =
     (case readMemoryUsage fs containerID of
        Inl _ \<Rightarrow> (Returns True, s)
      | Inr memUsage \<Rightarrow>
         (let direction = determineScalingDirection (float64_of_int memUsage)
                (float64_of_int (MemLowerLimit mem)) (float64_of_int (MemUpperLimit mem)) in
          if direction \<noteq> [] then
            scale_action D net info containerID direction
              (AddContainerLog containerID (float64_of_int memUsage) s)
          else (Returns True, s)))"

section \<open>The CPU monitor\<close>

text \<open>64-bit arithmetic on signed values wraps around.\<close>

definition int64 :: "int \<Rightarrow> int" where
  "int64 x = sint (of_int x :: 64 word)"

text \<open>Percent of one CPU: the usage in microseconds over the period in nanoseconds.\<close>

definition cpu_utilization :: "int \<Rightarrow> int \<Rightarrow> float64" where
  "cpu_utilization usageDeltaUsec collectionPeriod =
     fmul (fdiv (fdiv (float64_of_int usageDeltaUsec) (Seconds collectionPeriod)) (Finite (10 ^ 6))) (Finite 100)"

text \<open>
  The first reading; without it there is no monitor. Making the ticker panics on a period that
  is not positive.
\<close>

definition cpu_start :: "file_system \<Rightarrow> string \<Rightarrow> int \<Rightarrow> int option outcome" where
  "cpu_start fs containerID collectionPeriod =
     (case readCPUUsage fs containerID of
        Inl _ \<Rightarrow> Returns None
      | Inr lastUsageUsec \<Rightarrow> if collectionPeriod \<le> 0 then Panics else Returns (Some lastUsageUsec))"

text \<open>
  After the action the loop goes on with the new reading, or ends (\<open>None\<close>).
\<close>

definition keep_reading :: "int \<Rightarrow> bool outcome \<times> 's \<Rightarrow> int option outcome \<times> 's" where
  "keep_reading currentUsageUsec r =
     (case r of
        (Returns goes_on, s) \<Rightarrow> (Returns (if goes_on then Some currentUsageUsec else None), s)
      | (Panics, s) \<Rightarrow> (Panics, s)
      | (Exits, s) \<Rightarrow> (Exits, s)
      | (Blocks, s) \<Rightarrow> (Blocks, s))"

text \<open>One tick: the usage to compare the next reading with. A failed reading keeps the old one.\<close>

definition cpu_tick ::
  "'d docker_ops \<Rightarrow> network \<Rightarrow> SwarmNodeInfo \<Rightarrow> CPUResource \<Rightarrow> file_system \<Rightarrow> string \<Rightarrow> int \<Rightarrow>
   int \<Rightarrow> ('m, 'd) manager \<Rightarrow> int option outcome \<times> ('m, 'd) manager"
where
  "cpu_tick D net info cpu fs containerID collectionPeriod lastUsageUsec s =
     (case readCPUUsage fs containerID of
        Inl _ \<Rightarrow> (Returns (Some lastUsageUsec), s)
      | Inr currentUsageUsec \<Rightarrow>
         (let util = cpu_utilization (int64 (currentUsageUsec - lastUsageUsec)) collectionPeriod;
              direction = determineScalingDirection util (LowerUtil cpu) (UpperUtil cpu)
          in keep_reading currentUsageUsec
               (if direction \<noteq> [] then
                  scale_action D net info containerID direction (AddContainerLog containerID util s)
                else (Returns True, s))))"

section \<open>Lemmas\<close>

lemma is_space_newline [simp]: "is_space CHR 0x0A"
  by (simp add: is_space_def)

lemma digit_not_space: "is_digit c \<Longrightarrow> \<not> is_space c"
  by (auto simp: is_digit_def is_space_def)

lemma TrimSpace_number:
  assumes "ds \<noteq> []" "list_all is_digit ds"
  shows "strings_TrimSpace (ds @ [CHR 0x0A]) = ds"
proof -
  obtain d ds' where ds: "ds = d # ds'" using assms(1) by (cases ds) auto
  have "\<not> is_space d" using assms(2) ds by (simp add: digit_not_space)
  then have "dropWhile is_space (ds @ [CHR 0x0A]) = ds @ [CHR 0x0A]" using ds by simp
  moreover obtain e es where es: "rev ds = e # es" using assms(1) by (cases "rev ds") auto
  then have "e \<in> set ds" by (metis list.set_intros(1) set_rev)
  then have "\<not> is_space e" using assms(2) by (auto simp: list_all_iff digit_not_space)
  then have "dropWhile is_space (rev ds) = rev ds" using es by simp
  ultimately show ?thesis by (simp add: strings_TrimSpace_def)
qed

text \<open>What the kernel writes, a decimal number and a newline, is read back in whole megabytes.\<close>

lemma readMemoryUsage_number:
  assumes "fs (scope_file cid ''memory.current'') = Inr (dec_digits n @ [CHR 0x0A])" "n < 2 ^ 63"
  shows "readMemoryUsage fs cid = Inr (int (n div (1024 * 1024)))"
proof -
  have "strings_TrimSpace (dec_digits n @ [CHR 0x0A]) = dec_digits n"
    by (rule TrimSpace_number) (simp_all add: dec_digits_digits)
  moreover have "int n sdiv (1024 * 1024) = int (n div (1024 * 1024))"
    by (cases "n = 0") (simp_all add: signed_divide_int_def zdiv_int)
  ultimately show ?thesis
    using assms by (simp add: readMemoryUsage_def ParseInt64_dec_digits)
qed

text \<open>The first line of the kernel's \<^verbatim>\<open>cpu.stat\<close> is the one that is read.\<close>

lemma split_lines_first:
  "CHR 0x0A \<notin> set l \<Longrightarrow> split_lines (l @ CHR 0x0A # rest) = l # split_lines rest"
  by (induction l) auto

lemma Fields_two:
  assumes "list_all (\<lambda>c. \<not> is_space c) w" "w \<noteq> []" "list_all (\<lambda>c. \<not> is_space c) v" "v \<noteq> []"
  shows "strings_Fields (w @ CHR '' '' # v) = [w, v]"
proof -
  have space: "is_space CHR '' ''" by (simp add: is_space_def)
  have last: "strings_Fields u = [u]" if "list_all (\<lambda>c. \<not> is_space c) u" "u \<noteq> []" for u
  proof -
    have "u \<noteq> []" using that(2) .
    then obtain c u' where u: "u = c # u'" by (cases u) auto
    then have "\<not> is_space c" "\<forall>x\<in>set u'. \<not> is_space x" using that(1) by (simp_all add: list_all_iff)
    then have "takeWhile (\<lambda>x. \<not> is_space x) u' = u'" "dropWhile (\<lambda>x. \<not> is_space x) u' = []" by simp_all
    with \<open>\<not> is_space c\<close> u show ?thesis
      by (subst strings_Fields.simps)
        (simp add: strings_Fields.simps [of "[]"] del: takeWhile_eq_all_conv dropWhile_eq_Nil_conv)
  qed
  have "strings_Fields (CHR '' '' # v) = strings_Fields v"
    unfolding strings_Fields.simps [of v] by (subst strings_Fields.simps) (simp add: space)
  with last [OF assms(3,4)] have skip: "strings_Fields (CHR '' '' # v) = [v]" by simp
  obtain c w' where w: "w = c # w'" using assms(2) by (cases w) auto
  with assms(1) have c: "\<not> is_space c" "\<forall>x\<in>set w'. \<not> is_space x" by (simp_all add: list_all_iff)
  have "takeWhile (\<lambda>x. \<not> is_space x) (w' @ CHR '' '' # v) = w'"
    "dropWhile (\<lambda>x. \<not> is_space x) (w' @ CHR '' '' # v) = CHR '' '' # v"
    using c(2) space by (simp_all add: takeWhile_append2 dropWhile_append2)
  with c(1) w skip show ?thesis by (subst strings_Fields.simps) simp
qed

lemma readCPUUsage_number:
  assumes "fs (scope_file cid ''cpu.stat'') = Inr (''usage_usec '' @ dec_digits n @ CHR 0x0A # rest)" "n < 2 ^ 63"
  shows "readCPUUsage fs cid = Inr (int n)"
proof -
  let ?l = "''usage_usec'' @ CHR '' '' # dec_digits n"
  have digits: "\<forall>c\<in>set (dec_digits n). is_digit c"
    using dec_digits_digits [of n] by (simp add: list_all_iff)
  then have "CHR 0x0A \<notin> set ?l" by (auto simp: is_digit_def)
  then have "split_lines (?l @ CHR 0x0A # rest) = ?l # split_lines rest" by (rule split_lines_first)
  moreover have "strings_Fields ?l = [''usage_usec'', dec_digits n]"
    using digits by (intro Fields_two) (auto simp: list_all_iff is_space_def is_digit_def)
  moreover have "strings_HasPrefix ?l ''usage_usec''" by (simp add: strings_HasPrefix_def)
  ultimately show ?thesis
    using assms by (simp add: readCPUUsage_def ParseInt64_dec_digits)
qed

lemma int64_small: "- (2 ^ 63) \<le> x \<Longrightarrow> x < 2 ^ 63 \<Longrightarrow> int64 x = x"
  by (simp add: int64_def signed_of_int signed_take_bit_int_eq_self)

lemma quotient_size:
  fixes u d k :: rat
  assumes "1 \<le> u" "u \<le> 2 ^ 53" "1 \<le> d" "d \<le> 2 ^ 63" "1 \<le> k" "k \<le> 10 ^ 9"
  shows "u * k / d = 0 \<or> 2 powi (-1000) \<le> u * k / d" "u * k / d \<le> 2 ^ 900"
proof -
  have "1 \<le> u * k" using mult_mono [OF assms(1,5)] assms(1) by simp
  then have "1 * 2 ^ 100 \<le> u * k * 2 ^ 100" by (rule mult_right_mono) simp
  then have "2 ^ 63 \<le> u * k * 2 ^ 100" by (rule order_trans [rotated]) simp
  with assms(4) have "d \<le> u * k * 2 ^ 100" by linarith
  then have "1 / 2 ^ 100 \<le> u * k / d" using assms(3) by (simp add: divide_simps)
  then have "2 powi (-1000) \<le> u * k / d"
    by (rule order_trans [rotated]) (simp add: power_int_def field_simps)
  then show "u * k / d = 0 \<or> 2 powi (-1000) \<le> u * k / d" ..
  have "u * k \<le> 2 ^ 53 * 10 ^ 9" using assms by (intro mult_mono) auto
  moreover have "2 ^ 53 * 10 ^ 9 \<le> (2 ^ 100 :: rat)" "2 ^ 100 \<le> 2 ^ 100 * d" using assms(3) by simp_all
  ultimately have "u * k \<le> 2 ^ 100 * d" by linarith
  then have "u * k / d \<le> 2 ^ 100" using assms(3) by (simp add: divide_simps)
  then show "u * k / d \<le> 2 ^ 900" by (rule order_trans) simp
qed

text \<open>Five roundings from the exact utilisation.\<close>

lemma cpu_utilization_approx:
  assumes "0 \<le> u" "u \<le> 2 ^ 53" "0 < d" "d < 2 ^ 63"
  obtains v where "cpu_utilization u d = Finite v" "approx 5 v (of_int u * 10 ^ 5 / of_int d)"
proof (cases "u = 0")
  case True
  obtain w where w: "Seconds d = Finite w" "approx 2 w (of_int d / 10 ^ 9)"
    using Seconds_approx [OF assms(3,4)] .
  have "0 < w" using approx_range(1) [OF w(2)] assms(3) by (simp add: less_le_trans)
  then have "cpu_utilization u d = Finite 0"
    using True w(1) by (simp add: cpu_utilization_def float64_of_small_int round64_finite)
  moreover have "approx 5 0 0" by (rule approx_weaken [OF approx_refl]) simp_all
  ultimately show ?thesis using True by (intro that) simp_all
next
  case False
  let ?d = "of_int d :: rat" and ?u = "of_int u :: rat"
  have u: "1 \<le> ?u" using assms(1) False by (metis int_one_le_iff_zero_less le_less of_int_1_le_iff)
  have d: "1 \<le> ?d" "?d \<le> 2 ^ 63" using assms(3,4)
    by (simp, metis less_imp_le of_int_le_iff of_int_numeral of_int_power)
  have u53: "?u \<le> 2 ^ 53" using assms(2) by (metis of_int_le_iff of_int_numeral of_int_power)
  obtain w where w: "Seconds d = Finite w" "approx 2 w (?d / 10 ^ 9)"
    using Seconds_approx [OF assms(3,4)] .
  have w0: "0 < w" using approx_range(1) [OF w(2)] assms(3) by (simp add: less_le_trans)
  note size = quotient_size [OF u u53 d]
  have "approx (0 + 2) (?u / w) (?u / (?d / 10 ^ 9))"
    using u w(2) w0 d(1) by (intro approx_divide approx_refl) auto
  then have "approx 2 (?u / w) (?u * 10 ^ 9 / ?d)" by (simp add: numeral_2_eq_2)
  from approx_step [OF this _ size]
  obtain a where a: "round64 (?u / w) = Finite a" "approx (Suc 2) a (?u * 10 ^ 9 / ?d)" by auto
  have "approx (3 + 0) (a / 10 ^ 6) (?u * 10 ^ 9 / ?d / 10 ^ 6)"
    using a(2) by (intro approx_divide approx_refl) (simp_all add: numeral_3_eq_3)
  then have "approx 3 (a / 10 ^ 6) (?u * 10 ^ 3 / ?d)" by (simp add: mult.commute)
  from approx_step [OF this _ size]
  obtain b where b: "round64 (a / 10 ^ 6) = Finite b" "approx (Suc 3) b (?u * 10 ^ 3 / ?d)" by auto
  have "approx (4 + 0) (b * 100) (?u * 10 ^ 3 / ?d * 100)"
    using b(2) by (intro approx_mult approx_refl) simp_all
  then have "approx 4 (b * 100) (?u * 10 ^ 5 / ?d)" by (simp add: mult.commute)
  from approx_step [OF this _ size]
  obtain v where v: "round64 (b * 100) = Finite v" "approx (Suc 4) v (?u * 10 ^ 5 / ?d)" by auto
  have "cpu_utilization u d = Finite v"
    using a(1) b(1) v(1) w w0 assms(1,2)
    by (simp add: cpu_utilization_def float64_of_small_int)
  with v(2) show ?thesis by (intro that) simp_all
qed

lemma approx_relative:
  assumes "approx 5 v u"
  shows "\<bar>v - u\<bar> \<le> u / 2 ^ 50"
proof -
  let ?r = "(1 - 1 / 2 ^ 53 :: rat) ^ 5"
  have v: "0 \<le> u" "0 \<le> v" "u * ?r \<le> v" "v * ?r \<le> u" using assms by (simp_all add: approx_def)
  have r: "1 - 1 / 2 ^ 50 \<le> ?r" "1 \<le> (1 + 1 / 2 ^ 50) * ?r" by (simp_all add: power_divide)
  have "u * (1 - 1 / 2 ^ 50) \<le> u * ?r" using r(1) v(1) by (rule mult_left_mono)
  with v(3) have lo: "u * (1 - 1 / 2 ^ 50) \<le> v" by linarith
  have "v \<le> v * ((1 + 1 / 2 ^ 50) * ?r)" using mult_left_mono [OF r(2) v(2)] by simp
  also have "\<dots> = v * ?r * (1 + 1 / 2 ^ 50)" by simp
  also have "\<dots> \<le> u * (1 + 1 / 2 ^ 50)" using v(4) by (rule mult_right_mono) simp
  finally have "v \<le> u * (1 + 1 / 2 ^ 50)" .
  with lo show ?thesis unfolding abs_le_iff by (simp add: right_diff_distrib distrib_left)
qed

lemma determineScalingDirection_int:
  assumes "\<bar>n\<bar> < 2 ^ 53"
  shows "determineScalingDirection (float64_of_int n) (float64_of_int lo) (float64_of_int hi) =
    (if hi < n then ''over'' else if n < lo then ''under'' else [])"
  using fless_int [OF assms] by (simp add: determineScalingDirection_def)

lemma megabytes_small: "n < 2 ^ 63 \<Longrightarrow> \<bar>int (n div (1024 * 1024))\<bar> < 2 ^ 53"
  by simp

lemma memory_tick_number:
  fixes s :: "('m, 'd) manager"
  assumes "fs (scope_file cid ''memory.current'') = Inr (dec_digits n @ [CHR 0x0A])" "n < 2 ^ 63"
  defines "mb \<equiv> int (n div (1024 * 1024))"
  defines "s' \<equiv> AddContainerLog cid (float64_of_int mb) s"
  shows "memory_tick D net info mem fs cid s =
    (if MemUpperLimit mem < mb then scale_action D net info cid ''over'' s'
     else if mb < MemLowerLimit mem then scale_action D net info cid ''under'' s'
     else (Returns True, s))"
  unfolding mb_def s'_def memory_tick_def readMemoryUsage_number [of fs cid n, OF assms(1,2)] sum.case
    determineScalingDirection_int [OF megabytes_small [OF assms(2)]] by (simp add: Let_def)

text \<open>A tick on a reading of the kernel's, with the exact utilisation up to the rounding errors.\<close>

lemma cpu_tick_number:
  assumes "fs (scope_file cid ''cpu.stat'') = Inr (''usage_usec '' @ dec_digits n @ CHR 0x0A # rest)" "n < 2 ^ 63"
    and "m \<le> n" "n - m \<le> 2 ^ 53" "0 < d" "d < 2 ^ 63"
    and "LowerUtil cpu = Finite lo" "UpperUtil cpu = Finite hi"
  shows "\<exists>v. \<bar>v - of_nat (n - m) * 10 ^ 5 / of_int d\<bar> \<le> of_nat (n - m) * 10 ^ 5 / of_int d / 2 ^ 50 \<and>
    cpu_tick D net info cpu fs cid d (int m) s = keep_reading (int n)
      (if hi < v then scale_action D net info cid ''over'' (AddContainerLog cid (Finite v) s)
       else if v < lo then scale_action D net info cid ''under'' (AddContainerLog cid (Finite v) s)
       else (Returns True, s))"
proof -
  have diff: "int64 (int n - int m) = int (n - m)"
    using assms(2,3) by (subst int64_small) (simp_all add: of_nat_diff)
  have "int (n - m) \<le> 2 ^ 53" using assms(4) by (metis of_nat_le_iff of_nat_numeral of_nat_power)
  then obtain v where v: "cpu_utilization (int (n - m)) d = Finite v"
    and a: "approx 5 v (of_int (int (n - m)) * 10 ^ 5 / of_int d)"
    using cpu_utilization_approx [OF _ _ assms(5,6)] by (metis of_nat_0_le_iff)
  have "cpu_tick D net info cpu fs cid d (int m) s = keep_reading (int n)
      (if hi < v then scale_action D net info cid ''over'' (AddContainerLog cid (Finite v) s)
       else if v < lo then scale_action D net info cid ''under'' (AddContainerLog cid (Finite v) s)
       else (Returns True, s))"
    using readCPUUsage_number [of fs cid n rest, OF assms(1,2)] diff v assms(7,8)
    by (simp add: cpu_tick_def determineScalingDirection_def)
  moreover have "\<bar>v - of_nat (n - m) * 10 ^ 5 / of_int d\<bar> \<le> of_nat (n - m) * 10 ^ 5 / of_int d / 2 ^ 50"
    using approx_relative [OF a] by (simp only: of_int_of_nat_eq)
  ultimately show ?thesis by blast
qed

section \<open>Properties\<close>

text \<open>
  When the kernel reports a number of bytes, a tick of the memory
  monitor asks for more replicas exactly when the whole megabytes are above the upper limit, for
  fewer when they are below the lower limit, and otherwise does nothing: the comparison is made
  in float64, whose rounding of large limits never changes it.
\<close>

theorem memory_tick_follows_usage:
  fixes s :: "('m, 'd) manager"
  assumes "fs (scope_file cid ''memory.current'') = Inr (dec_digits n @ [CHR 0x0A])" "n < 2 ^ 63"
  defines "mb \<equiv> int (n div (1024 * 1024))"
  defines "s' \<equiv> AddContainerLog cid (float64_of_int mb) s"
  shows "memory_tick D net info mem fs cid s =
    (if MemUpperLimit mem < mb then scale_action D net info cid ''over'' s'
     else if mb < MemLowerLimit mem then scale_action D net info cid ''under'' s'
     else (Returns True, s))"
  unfolding mb_def s'_def by (rule memory_tick_number [of fs cid n, OF assms(1,2)])

theorem memory_tick_follows_usage_witness:
  "memory_tick daemon_ops ex_net ex_info \<lparr>MemLowerLimit = 100, MemUpperLimit = 800\<rparr>
     (\<lambda>_. Inr (dec_digits 943718400 @ [CHR 0x0A])) ''c1'' (ex_manager 3 [80] Map.empty Map.empty) =
   scale_action daemon_ops ex_net ex_info ''c1'' ''over''
     (AddContainerLog ''c1'' (Finite 900) (ex_manager 3 [80] Map.empty Map.empty))"
  by (subst memory_tick_follows_usage [where n = 943718400]) (simp_all add: float64_of_small_int)

text \<open>
  C37 (cpu_tick_follows_utilization). A tick of the CPU monitor compares with its thresholds a value
  that is the exact utilisation, microseconds used per nanosecond of the period as a percentage,
  up to a relative error of 2^-50, and scales up above the upper threshold, down below the lower
  one, and otherwise does nothing; the reading becomes the base of the next tick.
\<close>

theorem cpu_tick_follows_utilization:
  assumes "fs (scope_file cid ''cpu.stat'') = Inr (''usage_usec '' @ dec_digits n @ CHR 0x0A # rest)" "n < 2 ^ 63"
    and "m \<le> n" "n - m \<le> 2 ^ 53" "0 < d" "d < 2 ^ 63"
    and "LowerUtil cpu = Finite lo" "UpperUtil cpu = Finite hi"
  shows "\<exists>v. \<bar>v - of_nat (n - m) * 10 ^ 5 / of_int d\<bar> \<le> of_nat (n - m) * 10 ^ 5 / of_int d / 2 ^ 50 \<and>
    cpu_tick D net info cpu fs cid d (int m) s = keep_reading (int n)
      (if hi < v then scale_action D net info cid ''over'' (AddContainerLog cid (Finite v) s)
       else if v < lo then scale_action D net info cid ''under'' (AddContainerLog cid (Finite v) s)
       else (Returns True, s))"
  using assms by (rule cpu_tick_number)

text \<open>Three quarters of a CPU over five seconds, with thresholds at 10 and 50 percent.\<close>

theorem cpu_tick_follows_utilization_witness:
  "\<exists>v. 74 < v \<and> cpu_tick daemon_ops ex_net ex_info \<lparr>LowerUtil = Finite 10, UpperUtil = Finite 50\<rparr>
     (\<lambda>_. Inr (''usage_usec '' @ dec_digits 13750000 @ [CHR 0x0A])) ''c1'' (5 * 10 ^ 9) 10000000
     (ex_manager 3 [80] Map.empty Map.empty) =
   keep_reading 13750000 (scale_action daemon_ops ex_net ex_info ''c1'' ''over''
     (AddContainerLog ''c1'' (Finite v) (ex_manager 3 [80] Map.empty Map.empty)))"
proof -
  let ?s = "ex_manager 3 [80] Map.empty Map.empty"
  from cpu_tick_follows_utilization [of "\<lambda>_. Inr (''usage_usec '' @ dec_digits 13750000 @ [CHR 0x0A])" "''c1''" 13750000 "[]"
      10000000 "5 * 10 ^ 9" "\<lparr>LowerUtil = Finite 10, UpperUtil = Finite 50\<rparr>" 10 50 daemon_ops ex_net ex_info ?s]
  obtain v where "\<bar>v - 75\<bar> \<le> 75 / 2 ^ 50"
    and t: "cpu_tick daemon_ops ex_net ex_info \<lparr>LowerUtil = Finite 10, UpperUtil = Finite 50\<rparr>
      (\<lambda>_. Inr (''usage_usec '' @ dec_digits 13750000 @ [CHR 0x0A])) ''c1'' (5 * 10 ^ 9) 10000000 ?s =
      keep_reading 13750000
      (if 50 < v then scale_action daemon_ops ex_net ex_info ''c1'' ''over'' (AddContainerLog ''c1'' (Finite v) ?s)
       else if v < 10 then scale_action daemon_ops ex_net ex_info ''c1'' ''under'' (AddContainerLog ''c1'' (Finite v) ?s)
       else (Returns True, ?s))"
    by auto
  moreover have "75 / 2 ^ 50 < (1 :: rat)" by simp
  ultimately have "74 < v" by linarith
  with t show ?thesis by auto
qed

end
