(* ===== verification/Monitor_Loops.thy ===== *)
theory Monitor_Loops imports Cgroup_Monitor begin

text \<open>
  The loops of the CPU and the memory monitor
  (\<^verbatim>\<open>Monitor\<close> in
  \<^verbatim>\<open>src/autoscaler/cgroup_monitoring/cgroup_monitoring.go\<close>): the first reading,
  the ticker, and the select between the context and a tick. A run is given by what the select
  yields, one after the other; between two ticks the files change and the rest of the process
  runs. A ticker that drops ticks while the loop is busy is a run with fewer of them.
\<close>

section \<open>The loops\<close>

text \<open>
  What the select yields: the cancelled context, or a tick with the files as they are then and
  what the other goroutines have done since.
\<close>

datatype ('m, 'd) wake = ContextDone | Tick file_system "('m, 'd) manager \<Rightarrow> ('m, 'd) manager"

text \<open>
  The result is the last reading while the loop waits at its select, \<open>None\<close> when the monitor has
  returned.
\<close>

fun cpu_loop ::
  "'d docker_ops \<Rightarrow> network \<Rightarrow> SwarmNodeInfo \<Rightarrow> CPUResource \<Rightarrow> string \<Rightarrow> int \<Rightarrow> ('m, 'd) wake list \<Rightarrow> int \<Rightarrow>
   ('m, 'd) manager \<Rightarrow> int option outcome \<times> ('m, 'd) manager"
where
  "cpu_loop D net info cpu cid period [] lastUsageUsec s = (Returns (Some lastUsageUsec), s)"
| "cpu_loop D net info cpu cid period (ContextDone # _) lastUsageUsec s = (Returns None, s)"
| "cpu_loop D net info cpu cid period (Tick fs others # wakes) lastUsageUsec s =
     (case cpu_tick D net info cpu fs cid period lastUsageUsec (others s) of
        (Returns (Some usageUsec), s1) \<Rightarrow> cpu_loop D net info cpu cid period wakes usageUsec s1
      | r \<Rightarrow> r)"

definition cpu_monitor ::
  "'d docker_ops \<Rightarrow> network \<Rightarrow> SwarmNodeInfo \<Rightarrow> CPUResource \<Rightarrow> string \<Rightarrow> int \<Rightarrow> file_system \<Rightarrow>
   ('m, 'd) wake list \<Rightarrow> ('m, 'd) manager \<Rightarrow> int option outcome \<times> ('m, 'd) manager"
where
  "cpu_monitor D net info cpu cid period fs wakes s =
     (case cpu_start fs cid period of
        Returns (Some lastUsageUsec) \<Rightarrow> cpu_loop D net info cpu cid period wakes lastUsageUsec s
      | r \<Rightarrow> (r, s))"

fun memory_loop ::
  "'d docker_ops \<Rightarrow> network \<Rightarrow> SwarmNodeInfo \<Rightarrow> MemoryResource \<Rightarrow> string \<Rightarrow> ('m, 'd) wake list \<Rightarrow>
   ('m, 'd) manager \<Rightarrow> bool outcome \<times> ('m, 'd) manager"
where
  "memory_loop D net info mem cid [] s = (Returns True, s)"
| "memory_loop D net info mem cid (ContextDone # _) s = (Returns False, s)"
| "memory_loop D net info mem cid (Tick fs others # wakes) s =
     (case memory_tick D net info mem fs cid (others s) of
        (Returns True, s1) \<Rightarrow> memory_loop D net info mem cid wakes s1
      | r \<Rightarrow> r)"

definition memory_monitor ::
  "'d docker_ops \<Rightarrow> network \<Rightarrow> SwarmNodeInfo \<Rightarrow> MemoryResource \<Rightarrow> string \<Rightarrow> int \<Rightarrow> ('m, 'd) wake list \<Rightarrow>
   ('m, 'd) manager \<Rightarrow> bool outcome \<times> ('m, 'd) manager"
where
  "memory_monitor D net info mem cid period wakes s =
     (if period \<le> 0 then (Panics, s) else memory_loop D net info mem cid wakes s)"

section \<open>Lemmas\<close>

text \<open>The content of \<^verbatim>\<open>cpu.stat\<close> after \<open>n\<close> microseconds.\<close>

definition cpu_stat :: "string \<Rightarrow> nat \<Rightarrow> file_system \<Rightarrow> bool" where
  "cpu_stat cid n fs \<longleftrightarrow>
     (\<exists>rest. fs (scope_file cid ''cpu.stat'') = Inr (''usage_usec '' @ dec_digits n @ CHR 0x0A # rest))"

definition unreadable :: "string \<Rightarrow> file_system \<Rightarrow> bool" where
  "unreadable cid fs \<longleftrightarrow> (\<exists>e. readCPUUsage fs cid = Inl e)"

lemma cpu_loop_one:
  "cpu_loop D net info cpu cid period [Tick fs f] m s = cpu_tick D net info cpu fs cid period m (f s)"
  by (auto split: prod.split outcome.split option.split)

text \<open>A reading that fails leaves the old one in its place.\<close>

lemma cpu_loop_unreadable:
  assumes "\<forall>(fs, _) \<in> set fails. unreadable cid fs"
  shows "cpu_loop D net info cpu cid period (map (\<lambda>(fs, f). Tick fs f) fails @ wakes) m s =
    cpu_loop D net info cpu cid period wakes m (fold snd fails s)"
  using assms
  by (induction fails arbitrary: s) (auto simp: unreadable_def cpu_tick_def)

text \<open>The exact utilisation of \<open>n\<close> microseconds in \<open>d\<close> nanoseconds, in percent.\<close>

definition utilisation :: "nat \<Rightarrow> int \<Rightarrow> rat" where
  "utilisation n d = of_nat n * 10 ^ 5 / of_int d"

definition tolerance :: rat where
  "tolerance = 1 / 2 ^ 50"

lemma cpu_tick_reading:
  assumes "cpu_stat cid n fs" "n < 2 ^ 63" "m \<le> n" "n - m \<le> 2 ^ 53" "0 < d" "d < 2 ^ 63"
    and "LowerUtil cpu = Finite lo" "UpperUtil cpu = Finite hi"
  obtains v where "\<bar>v - utilisation (n - m) d\<bar> \<le> utilisation (n - m) d * tolerance"
    "cpu_tick D net info cpu fs cid d (int m) s = keep_reading (int n)
      (if hi < v then scale_action D net info cid ''over'' (AddContainerLog cid (Finite v) s)
       else if v < lo then scale_action D net info cid ''under'' (AddContainerLog cid (Finite v) s)
       else (Returns True, s))"
proof -
  obtain rest where fs: "fs (scope_file cid ''cpu.stat'') = Inr (''usage_usec '' @ dec_digits n @ CHR 0x0A # rest)"
    using assms(1) by (auto simp: cpu_stat_def)
  from cpu_tick_number [of fs cid n rest m d cpu lo hi D net info s, OF fs assms(2-8)]
  show thesis by (elim exE conjE, intro that) (simp_all only: utilisation_def tolerance_def times_divide_eq_right mult_1_right)
qed

text \<open>Readings whose utilisation stays between the thresholds, by more than the rounding error.\<close>

fun steady :: "rat \<Rightarrow> rat \<Rightarrow> int \<Rightarrow> nat \<Rightarrow> nat list \<Rightarrow> bool" where
  "steady lo hi d m [] \<longleftrightarrow> True"
| "steady lo hi d m (n # ns) \<longleftrightarrow>
     m \<le> n \<and> n < 2 ^ 63 \<and> n - m \<le> 2 ^ 53 \<and> lo \<le> utilisation (n - m) d * (1 - tolerance) \<and>
     utilisation (n - m) d * (1 + tolerance) \<le> hi \<and> steady lo hi d n ns"

lemma cpu_loop_steady:
  assumes "steady lo hi d m ns" "list_all2 (cpu_stat cid) ns fss" "0 < d" "d < 2 ^ 63"
    and cpu: "LowerUtil cpu = Finite lo" "UpperUtil cpu = Finite hi"
  shows "cpu_loop D net info cpu cid d (map (\<lambda>fs. Tick fs id) fss @ wakes) (int m) s =
    cpu_loop D net info cpu cid d wakes (int (last (m # ns))) s"
  using assms(2,1)
proof (induction ns fss arbitrary: m rule: list_all2_induct)
  case (Cons n ns fs fss)
  then have st: "m \<le> n" "n < 2 ^ 63" "n - m \<le> 2 ^ 53" "steady lo hi d n ns"
    and u: "lo \<le> utilisation (n - m) d * (1 - tolerance)" "utilisation (n - m) d * (1 + tolerance) \<le> hi"
    by simp_all
  obtain v where v: "\<bar>v - utilisation (n - m) d\<bar> \<le> utilisation (n - m) d * tolerance"
    and t: "cpu_tick D net info cpu fs cid d (int m) s = keep_reading (int n)
      (if hi < v then scale_action D net info cid ''over'' (AddContainerLog cid (Finite v) s)
       else if v < lo then scale_action D net info cid ''under'' (AddContainerLog cid (Finite v) s)
       else (Returns True, s))"
    by (rule cpu_tick_reading [OF Cons.hyps(1) st(2,1,3) assms(3,4) cpu])
  have "lo \<le> v" "v \<le> hi" using u v by (simp_all add: abs_le_iff distrib_left right_diff_distrib)
  then have "cpu_tick D net info cpu fs cid d (int m) s = (Returns (Some (int n)), s)"
    using t by (simp add: keep_reading_def)
  then show ?case using Cons.IH [OF st(4)] by simp
qed simp

section \<open>Properties\<close>

text \<open>
  C38 (steady_load_never_scales). As long as every reading succeeds and the exact utilisation over each
  period stays between the thresholds, by a margin that the rounding error fits in, a CPU monitor
  changes nothing, however long it runs, and goes on with the last reading as its base.
\<close>

theorem steady_load_never_scales:
  assumes "steady lo hi d m ns" "list_all2 (cpu_stat cid) ns fss" "0 < d" "d < 2 ^ 63"
    and "LowerUtil cpu = Finite lo" "UpperUtil cpu = Finite hi" "cpu_stat cid m fs" "m < 2 ^ 63"
  shows "cpu_monitor D net info cpu cid d fs (map (\<lambda>fs. Tick fs id) fss) s =
    (Returns (Some (int (last (m # ns)))), s)"
proof -
  obtain rest where fs: "fs (scope_file cid ''cpu.stat'') = Inr (''usage_usec '' @ dec_digits m @ CHR 0x0A # rest)"
    using assms(7) by (auto simp: cpu_stat_def)
  then have "cpu_start fs cid d = Returns (Some (int m))"
    using readCPUUsage_number [of fs cid m rest, OF fs assms(8)] assms(3) by (simp add: cpu_start_def)
  then show ?thesis
    using cpu_loop_steady [OF assms(1-6), of D net info "[]" s] by (simp add: cpu_monitor_def)
qed

definition ex_stat :: "nat \<Rightarrow> file_system" where
  "ex_stat n = (\<lambda>_. Inr (''usage_usec '' @ dec_digits n @ [CHR 0x0A]))"

lemma ex_stat [simp]: "cpu_stat cid n (ex_stat n)"
  by (auto simp: cpu_stat_def ex_stat_def)

definition ex_cpu :: CPUResource where
  "ex_cpu = \<lparr>LowerUtil = Finite 10, UpperUtil = Finite 50\<rparr>"

lemma ex_cpu_simps [simp]: "LowerUtil ex_cpu = Finite 10" "UpperUtil ex_cpu = Finite 50"
  by (simp_all add: ex_cpu_def)

text \<open>Thirty percent in each of two periods of five seconds.\<close>

theorem steady_load_never_scales_witness:
  "cpu_monitor daemon_ops ex_net ex_info ex_cpu ''c1'' (5 * 10 ^ 9) (ex_stat 10000000)
     [Tick (ex_stat 11500000) id, Tick (ex_stat 13000000) id] (ex_manager 3 [80] Map.empty Map.empty) =
   (Returns (Some 13000000), ex_manager 3 [80] Map.empty Map.empty)"
  using steady_load_never_scales [of 10 50 "5 * 10 ^ 9" 10000000 "[11500000, 13000000]" "''c1''"
      "[ex_stat 11500000, ex_stat 13000000]" ex_cpu "ex_stat 10000000" daemon_ops ex_net ex_info]
  by (simp add: utilisation_def tolerance_def)

text \<open>
  C39 (failed_readings_multiply_utilization). The usage is divided by one period whatever time has
  passed: after failed readings, the next one counts the usage of all the periods since the last
  success as that of one. With k of them the value compared with the thresholds is k + 1 times the
  utilisation, up to the rounding error.
\<close>

theorem failed_readings_multiply_utilization:
  fixes fails :: "(file_system \<times> (('m, 'd) manager \<Rightarrow> ('m, 'd) manager)) list" and s :: "('m, 'd) manager"
  assumes "\<forall>(fs, _) \<in> set fails. unreadable cid fs"
    and "cpu_stat cid n fs" "n < 2 ^ 63" "m \<le> n" "n - m \<le> 2 ^ 53" "0 < d" "d < 2 ^ 63"
    and "LowerUtil cpu = Finite lo" "UpperUtil cpu = Finite hi"
  defines "k \<equiv> length fails"
  defines "u \<equiv> utilisation (n - m) (int (Suc k) * d)" and "s' \<equiv> fold snd fails s"
  shows "\<exists>v. \<bar>v - of_nat (Suc k) * u\<bar> \<le> of_nat (Suc k) * u * tolerance \<and>
    cpu_loop D net info cpu cid d (map (\<lambda>(fs, f). Tick fs f) fails @ [Tick fs id]) (int m) s = keep_reading (int n)
      (if hi < v then scale_action D net info cid ''over'' (AddContainerLog cid (Finite v) s')
       else if v < lo then scale_action D net info cid ''under'' (AddContainerLog cid (Finite v) s')
       else (Returns True, s'))"
proof -
  have "of_nat (Suc k) * u = utilisation (n - m) d" using assms(6) by (simp add: u_def utilisation_def)
  moreover obtain v where v: "\<bar>v - utilisation (n - m) d\<bar> \<le> utilisation (n - m) d * tolerance"
    "cpu_tick D net info cpu fs cid d (int m) s' = keep_reading (int n)
      (if hi < v then scale_action D net info cid ''over'' (AddContainerLog cid (Finite v) s')
       else if v < lo then scale_action D net info cid ''under'' (AddContainerLog cid (Finite v) s')
       else (Returns True, s'))"
    by (rule cpu_tick_reading [OF assms(2-9)])
  moreover have "cpu_loop D net info cpu cid d (map (\<lambda>(fs, f). Tick fs f) fails @ [Tick fs id]) (int m) s =
      cpu_tick D net info cpu fs cid d (int m) s'"
    using cpu_loop_unreadable [OF assms(1), of D net info cpu d "[Tick fs id]" "int m" s]
    by (simp add: s'_def cpu_loop_one del: cpu_loop.simps)
  ultimately show ?thesis by auto
qed

text \<open>Thirty percent in each of two periods: after one failed reading the service is scaled up.\<close>

theorem failed_readings_multiply_utilization_witness:
  "\<exists>v. 59 < v \<and> cpu_loop daemon_ops ex_net ex_info ex_cpu ''c1'' (5 * 10 ^ 9)
     [Tick (\<lambda>_. Inl ''i/o timeout'') id, Tick (ex_stat 13000000) id] 10000000 (ex_manager 3 [80] Map.empty Map.empty) =
   keep_reading 13000000 (scale_action daemon_ops ex_net ex_info ''c1'' ''over''
     (AddContainerLog ''c1'' (Finite v) (ex_manager 3 [80] Map.empty Map.empty)))"
proof -
  let ?s = "ex_manager 3 [80] Map.empty Map.empty"
  have u: "unreadable ''c1'' (\<lambda>_. Inl ''i/o timeout'')" by (simp add: unreadable_def readCPUUsage_def)
  from failed_readings_multiply_utilization [of "[(\<lambda>_. Inl ''i/o timeout'', id)]" "''c1''" 13000000 "ex_stat 13000000" 10000000
      "5 * 10 ^ 9" ex_cpu 10 50 daemon_ops ex_net ex_info ?s] u
  obtain v where v: "\<bar>v - 60\<bar> \<le> 60 / 2 ^ 50"
    and t: "cpu_loop daemon_ops ex_net ex_info ex_cpu ''c1'' (5 * 10 ^ 9)
      [Tick (\<lambda>_. Inl ''i/o timeout'') id, Tick (ex_stat 13000000) id] 10000000 ?s = keep_reading 13000000
      (if 50 < v then scale_action daemon_ops ex_net ex_info ''c1'' ''over'' (AddContainerLog ''c1'' (Finite v) ?s)
       else if v < 10 then scale_action daemon_ops ex_net ex_info ''c1'' ''under'' (AddContainerLog ''c1'' (Finite v) ?s)
       else (Returns True, ?s))"
    by (auto simp: utilisation_def tolerance_def)
  have "60 / 2 ^ 50 < (1 :: rat)" by simp
  then have "59 < v" using v by linarith
  with t show ?thesis by auto
qed

end
