(* ===== verification/Log_Tables.thy ===== *)
theory Log_Tables imports Scale_Manager begin

text \<open>
  The log tables (\<^verbatim>\<open>src/autoscaler/logging/logging.go\<close>): the events, and the
  files that show the tables of containers, services and ports, which the scaler's state holds.
  The functions that add to the tables and remove from them are in \<open>Scale_Manager\<close> and
  \<open>Port_Listener\<close>. Parameters are what the operating system answers, the text
  \<^verbatim>\<open>tablewriter\<close> makes of a header and rows (a library outside the repository), the
  printed time, and the order in which Go walks over a map, which is any.
\<close>

section \<open>State\<close>

record ('m, 'd) logs = "('m, 'd) manager" +
  eventLogs :: "string list"
  stdout :: "string list"
  log_files :: "string \<Rightarrow> string"

text \<open>
  What opening a file answers, and how much of a text a write takes with the error it reports.
\<close>

record os_answers =
  os_OpenFile :: "string \<Rightarrow> go_error option"
  os_WriteString :: "string \<Rightarrow> nat \<times> go_error option"

type_synonym table_writer = "string list \<Rightarrow> string list list \<Rightarrow> string"

section \<open>Events and the scaling log\<close>

definition AddEventLog :: "string \<Rightarrow> ('m, 'd) logs \<Rightarrow> ('m, 'd) logs" where
  "AddEventLog event s = s\<lparr>stdout := stdout s @ [event], eventLogs := eventLogs s @ [event]\<rparr>"

definition AddScalingLog :: "os_answers \<Rightarrow> string \<Rightarrow> string \<Rightarrow> ('m, 'd) logs \<Rightarrow> ('m, 'd) logs" where
  "AddScalingLog sys now direction s =
     (let path = ''logging/scaling.log'' in
      case os_OpenFile sys path of
        Some err \<Rightarrow> s\<lparr>stdout := stdout s @ [''Error opening log file: '' @ err]\<rparr>
      | None \<Rightarrow>
         (let line = now @ '' '' @ direction @ [CHR 0x0A];
              (written, err) = os_WriteString sys line;
              s1 = s\<lparr>log_files := (log_files s)(path := log_files s path @ take written line)\<rparr>
          in case err of
               None \<Rightarrow> s1
             | Some err \<Rightarrow> s1\<lparr>stdout := stdout s1 @ [''Error writing to log file: '' @ err]\<rparr>))"

section \<open>Utilisations as text\<close>

text \<open>
  \<^verbatim>\<open>strconv.FormatFloat(util, 'f', 2, 64)\<close>: the exact value rounded to hundredths, a tie to
  the even one.
\<close>

definition hundredths :: "rat \<Rightarrow> nat" where
  "hundredths x = nat (round_even (\<bar>x\<bar> * 100))"

definition fixed2 :: "nat \<Rightarrow> string" where
  "fixed2 h = dec_digits (h div 100) @ ''.'' @ dec_digits (h div 10 mod 10) @ dec_digits (h mod 10)"

fun FormatFloat2 :: "float64 \<Rightarrow> string" where
  "FormatFloat2 (Finite x) = (if x < 0 then ''-'' else []) @ fixed2 (hundredths x)"
| "FormatFloat2 PosInf = ''+Inf''"
| "FormatFloat2 NegInf = ''-Inf''"
| "FormatFloat2 NaN = ''NaN''"

section \<open>The tables\<close>

text \<open>An order of the entries of a map.\<close>

definition walks :: "('k \<times> 'v) list \<Rightarrow> ('k \<Rightarrow> 'v option) \<Rightarrow> bool" where
  "walks xs m \<longleftrightarrow> distinct (map fst xs) \<and> map_of xs = m"

definition container_rows :: "(string \<times> float64) list \<Rightarrow> string list list" where
  "container_rows = map (\<lambda>(containerId, util). [containerId, FormatFloat2 util])"

definition service_rows :: "(string \<times> u32) list \<Rightarrow> string list list" where
  "service_rows = map (\<lambda>(serviceId, replicas). [serviceId, dec_digits (unat replicas)])"

definition port_rows :: "(u32 \<times> string) list \<Rightarrow> string list list" where
  "port_rows = map (\<lambda>(port, serviceId). [serviceId, dec_digits (unat port)])"

text \<open>Opening a log file for writing empties it; without it there is a panic.\<close>

definition truncate_log :: "os_answers \<Rightarrow> ('m, 'd) logs \<Rightarrow> unit outcome \<times> ('m, 'd) logs" where
  "truncate_log sys s =
     (case os_OpenFile sys ''logging/autoscaler.log'' of
        Some _ \<Rightarrow> (Panics, s)
      | None \<Rightarrow> (Returns (), s\<lparr>log_files := (log_files s)(''logging/autoscaler.log'' := [])\<rparr>))"

definition WriteScaleLogs :: "os_answers \<Rightarrow> ('m, 'd) logs \<Rightarrow> unit outcome \<times> ('m, 'd) logs" where
  "WriteScaleLogs sys s = truncate_log sys s"

definition render_table :: "table_writer \<Rightarrow> string list \<Rightarrow> string list list \<Rightarrow> ('m, 'd) logs \<Rightarrow> ('m, 'd) logs" where
  "render_table render header rows s =
     (let path = ''logging/autoscaler.log'' in
      s\<lparr>log_files := (log_files s)(path := log_files s path @ render header rows)\<rparr>)"

definition WriteLogs ::
  "os_answers \<Rightarrow> table_writer \<Rightarrow> (string \<times> float64) list \<Rightarrow> (string \<times> u32) list \<Rightarrow> (u32 \<times> string) list \<Rightarrow>
   bool \<Rightarrow> ('m, 'd) logs \<Rightarrow> unit outcome \<times> ('m, 'd) logs"
where
  "WriteLogs sys render cs ss ps events s =
     (case truncate_log sys s of
        (Returns _, s1) \<Rightarrow>
          (let s2 = render_table render [''Container ID'', ''Utilization''] (container_rows cs) s1;
               s3 = render_table render [''Service ID'', ''Replicas''] (service_rows ss) s2;
               s4 = render_table render [''Service ID'', ''Port''] (port_rows ps) s3
           in (Returns (), if events
               then render_table render [''Event''] (map (\<lambda>event. [event]) (eventLogs s4)) s4 else s4))
      | r \<Rightarrow> r)"

section \<open>Lemmas\<close>

text \<open>What is read back: the digits without the point, as hundredths.\<close>

definition fixed2_value :: "string \<Rightarrow> nat" where
  "fixed2_value s = decimal_value (filter (\<lambda>c. c \<noteq> CHR ''.'') s)"

lemma digits_no_point: "filter (\<lambda>c. c \<noteq> CHR ''.'') (dec_digits n) = dec_digits n"
  using dec_digits_digits [of n] by (auto simp: filter_id_conv list_all_iff is_digit_def)

lemma dec_digit: "n < 10 \<Longrightarrow> dec_digits n = [char_of (48 + n)]"
  by (subst dec_digits.simps) simp

lemma fixed2_value_fixed2: "fixed2_value (fixed2 h) = h"
proof -
  have "fixed2_value (fixed2 h) =
      decimal_value (dec_digits (h div 100) @ dec_digits (h div 10 mod 10) @ dec_digits (h mod 10))"
    by (simp add: fixed2_value_def fixed2_def digits_no_point)
  also have "\<dots> = decimal_value
      ((dec_digits (h div 100) @ [char_of (48 + h div 10 mod 10)]) @ [char_of (48 + h mod 10)])"
    by (simp add: dec_digit)
  also have "\<dots> = 10 * (10 * (h div 100) + h div 10 mod 10) + h mod 10"
    unfolding decimal_value_append decimal_value_dec_digits by simp
  also have "h div 100 = h div 10 div 10" by (simp add: div_mult2_eq [symmetric])
  also have "10 * (10 * (h div 10 div 10) + h div 10 mod 10) + h mod 10 = h" by (simp only: mult_div_mod_eq)
  finally show ?thesis .
qed

lemma hundredths_error: "\<bar>of_nat (hundredths x) / 100 - \<bar>x\<bar>\<bar> \<le> 1 / 200"
proof -
  let ?r = "of_int (round_even (\<bar>x\<bar> * 100)) :: rat"
  have "0 \<le> round_even (\<bar>x\<bar> * 100)" by (auto simp: round_even_def Let_def)
  then have "of_nat (hundredths x) = ?r" by (simp add: hundredths_def)
  moreover have "?r / 100 - \<bar>x\<bar> = (?r - \<bar>x\<bar> * 100) / 100" by (simp add: diff_divide_distrib)
  ultimately have "\<bar>of_nat (hundredths x) / 100 - \<bar>x\<bar>\<bar> = \<bar>?r - \<bar>x\<bar> * 100\<bar> / 100"
    by (simp only: abs_divide) simp
  also have "\<dots> \<le> 1 / 2 / 100" by (rule divide_right_mono [OF round_even_error]) simp
  finally show ?thesis by simp
qed

lemma walks_entry: "walks xs m \<Longrightarrow> (k, v) \<in> set xs \<longleftrightarrow> m k = Some v"
  by (auto simp: walks_def)

lemma set_rows:
  assumes "walks xs m"
  shows "set (map (\<lambda>(k, v). row k v) xs) = {row k v | k v. m k = Some v}"
  using walks_entry [OF assms] by force

lemma distinct_service_rows: "walks ss m \<Longrightarrow> distinct (map hd (service_rows ss))"
  by (simp add: walks_def service_rows_def comp_def split_beta)

section \<open>Properties\<close>

text \<open>
  (utilization_to_a_hundredth) A utilisation is shown with a sign and two decimals, and what is
  shown is within half a hundredth of it.
\<close>

theorem utilization_to_a_hundredth:
  obtains h where "FormatFloat2 (Finite x) = (if x < 0 then ''-'' else []) @ fixed2 h" "fixed2_value (fixed2 h) = h"
    "\<bar>of_nat h / 100 - \<bar>x\<bar>\<bar> \<le> 1 / 200"
  using hundredths_error [of x] by (intro that) (simp_all add: fixed2_value_fixed2)

text \<open>
  (written_logs_show_the_tables) In whatever order Go walks over the maps, the file has nothing of its
  old content, and one row for each container, service and port in the tables and no other, then
  the events in the order they came.
\<close>

theorem written_logs_show_the_tables:
  fixes s :: "('m, 'd) logs"
  assumes "os_OpenFile sys ''logging/autoscaler.log'' = None"
    and "walks cs (containerLogs s)" "walks ss (serviceLogs s)" "walks ps (bpfListenerLogs s)"
  shows "\<exists>rc rs rp. WriteLogs sys render cs ss ps events s = (Returns (), s\<lparr>log_files := (log_files s)
      (''logging/autoscaler.log'' := render [''Container ID'', ''Utilization''] rc @
         render [''Service ID'', ''Replicas''] rs @ render [''Service ID'', ''Port''] rp @
         (if events then render [''Event''] (map (\<lambda>event. [event]) (eventLogs s)) else []))\<rparr>) \<and>
    set rc = {[c, FormatFloat2 u] | c u. containerLogs s c = Some u} \<and>
    set rs = {[sid, dec_digits (unat n)] | sid n. serviceLogs s sid = Some n} \<and> distinct (map hd rs) \<and>
    set rp = {[sid, dec_digits (unat p)] | p sid. bpfListenerLogs s p = Some sid}"
proof (intro exI conjI)
  show "WriteLogs sys render cs ss ps events s = (Returns (), s\<lparr>log_files := (log_files s)
      (''logging/autoscaler.log'' := render [''Container ID'', ''Utilization''] (container_rows cs) @
         render [''Service ID'', ''Replicas''] (service_rows ss) @ render [''Service ID'', ''Port''] (port_rows ps) @
         (if events then render [''Event''] (map (\<lambda>event. [event]) (eventLogs s)) else []))\<rparr>)"
    using assms(1) by (simp add: WriteLogs_def truncate_log_def render_table_def Let_def)
  show "set (container_rows cs) = {[c, FormatFloat2 u] | c u. containerLogs s c = Some u}"
    unfolding container_rows_def by (rule set_rows [OF assms(2)])
  show "set (service_rows ss) = {[sid, dec_digits (unat n)] | sid n. serviceLogs s sid = Some n}"
    unfolding service_rows_def by (rule set_rows [OF assms(3)])
  show "distinct (map hd (service_rows ss))" by (rule distinct_service_rows [OF assms(3)])
  show "set (port_rows ps) = {[sid, dec_digits (unat p)] | p sid. bpfListenerLogs s p = Some sid}"
    unfolding port_rows_def by (rule set_rows [OF assms(4)])
qed

text \<open>A tie goes to the even hundredth.\<close>

lemma ex_FormatFloat2: "FormatFloat2 (Finite (749 / 100)) = ''7.49''" "FormatFloat2 (Finite (- 1 / 8)) = ''-0.12''"
proof -
  have "\<lfloor>25 / 2 :: rat\<rfloor> = 12" by (simp add: floor_eq_iff)
  then have "hundredths (749 / 100) = 749" "hundredths (- 1 / 8) = 12" by (simp_all add: hundredths_def round_even_def Let_def)
  then show "FormatFloat2 (Finite (749 / 100)) = ''7.49''" "FormatFloat2 (Finite (- 1 / 8)) = ''-0.12''"
    by (simp_all add: fixed2_def dec_digit char_of_def bit_0)
qed

end
