(* ===== verification/Container_Events.thy ===== *)
theory Container_Events imports Keep_Alive begin

text \<open>
  From Docker's events to the monitors of containers
  (\<^verbatim>\<open>src/autoscaler/scale/scale.go\<close>, \<open>ListenForEvents\<close>, and the
  main goroutine of \<^verbatim>\<open>src/autoscaler/autoscaler/autoscaler.go\<close>). The event loop
  checks the ownership of the container and passes it on over one of two buffered channels; the
  main goroutine takes from either channel and starts or cancels a monitor. One step is one
  goroutine's progress over one channel operation. Which channel a select takes from when both
  are ready is left open, as it is in Go.
\<close>

section \<open>Monitors of containers\<close>

text \<open>
  \<open>monitoringCtxMap\<close> maps a container to its cancel function, here the number of its monitor;
  a monitor runs until it is cancelled or ends by itself.
\<close>

record monitors =
  monitoringCtxMap :: "string \<Rightarrow> nat option"
  running :: "(nat \<times> string) list"
  next_monitor :: nat

definition startMonitoring :: "string \<Rightarrow> monitors \<Rightarrow> monitors" where
  "startMonitoring containerID s =
     (case monitoringCtxMap s containerID of
        Some _ \<Rightarrow> s
      | None \<Rightarrow>
          s\<lparr>monitoringCtxMap := (monitoringCtxMap s)(containerID \<mapsto> next_monitor s),
            running := (next_monitor s, containerID) # running s,
            next_monitor := Suc (next_monitor s)\<rparr>)"

definition stop_monitoring :: "string \<Rightarrow> monitors \<Rightarrow> monitors" where
  "stop_monitoring containerID s =
     (case monitoringCtxMap s containerID of
        None \<Rightarrow> s
      | Some m \<Rightarrow>
          s\<lparr>monitoringCtxMap := (monitoringCtxMap s)(containerID := None),
            running := filter (\<lambda>(m', _). m' \<noteq> m) (running s)\<rparr>)"

text \<open>An event of a container, or the end of a monitor by itself.\<close>

datatype process_event = Container container_event | MonitorEnded nat

fun container_step :: "process_event \<Rightarrow> monitors \<Rightarrow> monitors" where
  "container_step (Container (Started c)) s = startMonitoring c s"
| "container_step (Container (Stopped c)) s = stop_monitoring c s"
| "container_step (MonitorEnded m) s = s\<lparr>running := filter (\<lambda>(m', _). m' \<noteq> m) (running s)\<rparr>"

definition no_monitors :: monitors where
  "no_monitors = \<lparr>monitoringCtxMap = Map.empty, running = [], next_monitor = 0\<rparr>"

section \<open>Invariant of the monitors\<close>

definition monitors_inv :: "monitors \<Rightarrow> bool" where
  "monitors_inv s \<longleftrightarrow>
     (\<forall>m c. (m, c) \<in> set (running s) \<longrightarrow> monitoringCtxMap s c = Some m) \<and>
     (\<forall>c m. monitoringCtxMap s c = Some m \<longrightarrow> m < next_monitor s) \<and>
     (\<forall>c c' m. monitoringCtxMap s c = Some m \<longrightarrow> monitoringCtxMap s c' = Some m \<longrightarrow> c = c') \<and>
     distinct (map fst (running s))"

lemma monitors_invD:
  assumes "monitors_inv s"
  shows "(m, c) \<in> set (running s) \<Longrightarrow> monitoringCtxMap s c = Some m"
    and "monitoringCtxMap s c = Some m \<Longrightarrow> m < next_monitor s"
    and "monitoringCtxMap s c = Some m \<Longrightarrow> monitoringCtxMap s c' = Some m \<Longrightarrow> c = c'"
    and "distinct (map fst (filter P (running s)))"
  using assms by (auto simp: monitors_inv_def distinct_map_filter)

lemma monitors_inv_start:
  assumes "monitors_inv s"
  shows "monitors_inv (startMonitoring c s)"
proof (cases "monitoringCtxMap s c")
  case None
  note D = monitors_invD [OF assms]
  have "next_monitor s \<notin> fst ` set (running s)" using D(1,2) by fastforce
  moreover have "distinct (map fst (running s))" using D(4) [of "\<lambda>_. True"] by simp
  moreover have "(m, d) \<in> set (running s) \<Longrightarrow> d \<noteq> c" for m d using D(1) None by fastforce
  moreover have "monitoringCtxMap s d \<noteq> Some (next_monitor s)" for d using D(2) by fastforce
  ultimately show ?thesis
    using None D(1,3) unfolding monitors_inv_def startMonitoring_def
    by (simp add: less_Suc_eq) (metis D(2))
next
  case (Some m)
  then show ?thesis using assms by (simp add: startMonitoring_def)
qed

lemma stop_monitoring_fields:
  "monitoringCtxMap (stop_monitoring c s) = (monitoringCtxMap s)(c := None)"
  "running (stop_monitoring c s) = filter (\<lambda>(m, _). monitoringCtxMap s c \<noteq> Some m) (running s)"
  "next_monitor (stop_monitoring c s) = next_monitor s"
  by (auto simp: stop_monitoring_def intro!: filter_cong split: option.split)

lemma monitors_inv_stop:
  assumes "monitors_inv s"
  shows "monitors_inv (stop_monitoring c s)"
  unfolding monitors_inv_def stop_monitoring_fields
  using monitors_invD [OF assms] by auto

lemma monitors_inv_step:
  assumes "monitors_inv s"
  shows "monitors_inv (container_step e s)"
proof (cases "(e, s)" rule: container_step.cases)
  case (3 m)
  then show ?thesis using monitors_invD [OF assms] unfolding monitors_inv_def by auto
qed (simp_all add: assms monitors_inv_start monitors_inv_stop)

text \<open>A stop leaves the container without monitor and entry, and the others alone.\<close>

lemma stop_removes:
  assumes "monitors_inv s"
  shows "c \<notin> snd ` set (running (stop_monitoring c s))" "monitoringCtxMap (stop_monitoring c s) c = None"
    and "c' \<noteq> c \<Longrightarrow> c' \<in> snd ` set (running (stop_monitoring c s)) \<longleftrightarrow> c' \<in> snd ` set (running s)"
proof -
  note D = monitors_invD [OF assms]
  show "c \<notin> snd ` set (running (stop_monitoring c s))" "monitoringCtxMap (stop_monitoring c s) c = None"
    using D(1) by (auto simp: stop_monitoring_fields)
  have "(m, c') \<in> set (running s) \<Longrightarrow> c' \<noteq> c \<Longrightarrow> monitoringCtxMap s c \<noteq> Some m" for m
    using D(1,3) by blast
  then show "c' \<noteq> c \<Longrightarrow> c' \<in> snd ` set (running (stop_monitoring c s)) \<longleftrightarrow> c' \<in> snd ` set (running s)"
    by (force simp: stop_monitoring_fields image_iff)
qed

section \<open>The event loop and its channels\<close>

text \<open>
  The loop waits for Docker or is about to send what it has checked, or has returned. Both
  channels hold up to ten containers.
\<close>

datatype notifier_phase = Listening | Notifying container_event | Returned

record ('m, 'd) node =
  scaler_state :: "('m, 'd) manager"
  notifier :: notifier_phase
  StartChan :: "string list"
  StopChan :: "string list"
  node_monitors :: monitors

definition channel_capacity :: nat where
  "channel_capacity = 10"

definition NewEventNotifier :: "('m, 'd) manager \<Rightarrow> ('m, 'd) node" where
  "NewEventNotifier s = \<lparr>scaler_state = s, notifier = Listening, StartChan = [], StopChan = [],
     node_monitors = no_monitors\<rparr>"

text \<open>What the environment sees of a step: an event of Docker, or nothing.\<close>

datatype node_label = DockerEvent string string | Internal

inductive node_step ::
  "'d docker_ops \<Rightarrow> go_error + string \<Rightarrow> node_label \<Rightarrow> ('m, 'd) node \<Rightarrow> ('m, 'd) node \<Rightarrow> bool"
  for D hostname
where
  event: "notifier n = Listening \<Longrightarrow> docker_event D hostname action c (scaler_state n) = (ev, s) \<Longrightarrow>
    node_step D hostname (DockerEvent action c) n
      (n\<lparr>scaler_state := s, notifier := (case ev of None \<Rightarrow> Listening | Some e \<Rightarrow> Notifying e)\<rparr>)"
| send_start: "notifier n = Notifying (Started c) \<Longrightarrow> length (StartChan n) < channel_capacity \<Longrightarrow>
    node_step D hostname Internal n (n\<lparr>StartChan := StartChan n @ [c], notifier := Listening\<rparr>)"
| send_stop: "notifier n = Notifying (Stopped c) \<Longrightarrow> length (StopChan n) < channel_capacity \<Longrightarrow>
    node_step D hostname Internal n (n\<lparr>StopChan := StopChan n @ [c], notifier := Listening\<rparr>)"
| receive_start: "StartChan n = c # cs \<Longrightarrow>
    node_step D hostname Internal n
      (n\<lparr>StartChan := cs, node_monitors := container_step (Container (Started c)) (node_monitors n)\<rparr>)"
| receive_stop: "StopChan n = c # cs \<Longrightarrow>
    node_step D hostname Internal n
      (n\<lparr>StopChan := cs, node_monitors := container_step (Container (Stopped c)) (node_monitors n)\<rparr>)"
| monitor_ends: "node_step D hostname Internal n
    (n\<lparr>node_monitors := container_step (MonitorEnded m) (node_monitors n)\<rparr>)"
| give_up: "notifier n = Listening \<Longrightarrow> node_step D hostname Internal n (n\<lparr>notifier := Returned\<rparr>)"
| daemon_changes: "node_step D hostname Internal n (n\<lparr>scaler_state := (scaler_state n)\<lparr>docker := d\<rparr>\<rparr>)"

inductive_cases node_stepE: "node_step D hostname l n n'"

inductive node_run ::
  "'d docker_ops \<Rightarrow> go_error + string \<Rightarrow> node_label list \<Rightarrow> ('m, 'd) node \<Rightarrow> ('m, 'd) node \<Rightarrow> bool"
  for D hostname
where
  node_done: "node_run D hostname [] n n"
| node_more: "node_step D hostname l n n' \<Longrightarrow> node_run D hostname ls n' n'' \<Longrightarrow>
    node_run D hostname (l # ls) n n''"

text \<open>Nothing is under way.\<close>

definition quiescent :: "('m, 'd) node \<Rightarrow> bool" where
  "quiescent n \<longleftrightarrow> notifier n = Listening \<and> StartChan n = [] \<and> StopChan n = []"

definition monitored :: "('m, 'd) node \<Rightarrow> string \<Rightarrow> bool" where
  "monitored n c \<longleftrightarrow> c \<in> snd ` set (running (node_monitors n))"

section \<open>Invariant of the node\<close>

definition node_inv :: "('m, 'd) node \<Rightarrow> bool" where
  "node_inv n \<longleftrightarrow> length (StartChan n) \<le> channel_capacity \<and> length (StopChan n) \<le> channel_capacity \<and>
     monitors_inv (node_monitors n)"

lemma node_inv_step: "node_step D hostname l n n' \<Longrightarrow> node_inv n \<Longrightarrow> node_inv n'"
  by (induction rule: node_step.induct) (auto simp: node_inv_def monitors_inv_step simp del: container_step.simps)

lemma node_inv_run: "node_run D hostname ls n n' \<Longrightarrow> node_inv n \<Longrightarrow> node_inv n'"
  by (induction rule: node_run.induct) (simp_all add: node_inv_step)

lemma node_inv_new: "node_inv (NewEventNotifier s)"
  by (simp add: node_inv_def NewEventNotifier_def monitors_inv_def no_monitors_def)

section \<open>Ownership and events\<close>

lemma docker_event_owned:
  assumes "CheckOwnedContainer D hostname c (docker s) = Inr True"
  shows "docker_event D hostname ''start'' c s = (Some (Started c), AddContainerLog c (Finite 0) s)"
    and "docker_event D hostname ''die'' c s = (Some (Stopped c), RemoveContainerLog c s)"
  using assms by (simp_all add: docker_event_def)

lemma docker_event_not_owned:
  assumes "CheckOwnedContainer D hostname c (docker s) \<noteq> Inr True"
  shows "docker_event D hostname action c s = (None, s)"
  using assms by (auto simp: docker_event_def split: sum.split)

text \<open>The name of a swarm task: service, slot and task identifier, separated by dots.\<close>

definition task_name :: "string \<Rightarrow> nat \<Rightarrow> string \<Rightarrow> string" where
  "task_name svc slot tid = svc @ ''.'' @ dec_digits slot @ ''.'' @ tid"

lemma first_dot:
  assumes "CHR ''.'' \<notin> set a" "CHR ''.'' \<notin> set a'" "a @ CHR ''.'' # b = a' @ CHR ''.'' # b'"
  shows "a = a' \<and> b = b'"
  using assms
proof (induction a arbitrary: a')
  case Nil
  then show ?case by (cases a') auto
next
  case (Cons c a)
  then show ?case by (cases a') auto
qed

lemma dec_digits_no_dot: "CHR ''.'' \<notin> set (dec_digits n)"
  using dec_digits_digits [of n] by (auto simp: list_all_iff is_digit_def)

lemma task_name_contains:
  assumes "CHR ''.'' \<notin> set svc" "CHR ''.'' \<notin> set tid"
  shows "strings_Contains (task_name svc slot tid) ''.1.'' \<longleftrightarrow> slot = 1"
proof
  assume "slot = 1"
  then have "task_name svc slot tid = svc @ ''.1.'' @ tid"
    by (simp add: task_name_def dec_digits.simps char_of_def bit_iff_odd)
  then show "strings_Contains (task_name svc slot tid) ''.1.''"
    by (auto simp: strings_Contains_iff sublist_def)
next
  assume "strings_Contains (task_name svc slot tid) ''.1.''"
  then obtain xs ys where t: "task_name svc slot tid = xs @ ''.1.'' @ ys"
    by (auto simp: strings_Contains_iff sublist_def)
  have "count_list (task_name svc slot tid) CHR ''.'' = 2"
    using assms dec_digits_no_dot [of slot] by (simp add: task_name_def count_notin)
  then have xs: "CHR ''.'' \<notin> set xs" by (simp add: t count_list_0_iff)
  have "svc @ CHR ''.'' # (dec_digits slot @ CHR ''.'' # tid) = xs @ CHR ''.'' # (''1'' @ CHR ''.'' # ys)"
    using t by (simp add: task_name_def)
  from first_dot [OF assms(1) xs this] have "dec_digits slot @ CHR ''.'' # tid = ''1'' @ CHR ''.'' # ys" by simp
  from first_dot [OF dec_digits_no_dot _ this] have "dec_digits slot = ''1''" by simp
  then have "decimal_value (dec_digits slot) = 1" by (simp add: decimal_value_def digit_value_def)
  then show "slot = 1" by (simp add: decimal_value_dec_digits)
qed

lemma log_docker [simp]:
  "docker (AddContainerLog c v s) = docker s" "docker (RemoveContainerLog c s) = docker s"
  by (simp_all add: AddContainerLog_def RemoveContainerLog_def split: option.split)

section \<open>Properties\<close>



text \<open>
  A container of a swarm task without the label that names its
  handler is taken by the node it runs on exactly when its task is the first of the service: of
  all the tasks of a service, wherever they run, one is monitored.
\<close>

theorem implicit_owner_is_first_task:
  assumes "container_inspect D d cid = Inr ct"
    and "ContainerLabels ct ''autoscaler.handlerNode'' = None"
    and "ContainerLabels ct ''com.docker.swarm.task.name'' = Some (task_name svc slot tid)"
    and "CHR ''.'' \<notin> set svc" "CHR ''.'' \<notin> set tid"
  shows "CheckOwnedContainer D (Inr host) cid d = Inr (slot = 1)"
  using assms by (simp add: CheckOwnedContainer_def task_name_contains)

theorem implicit_owner_is_first_task_witness:
  "CheckOwnedContainer daemon_ops (Inr ''host'') ''c1'' \<lparr>services = [], containers = [(''c1'', \<lparr>ContainerLabels =
      [''com.docker.swarm.task.name'' \<mapsto> task_name ''web'' 11 ''x7''], Pid = 4711\<rparr>)]\<rparr> = Inr False"
proof -
  let ?ct = "\<lparr>ContainerLabels = [''com.docker.swarm.task.name'' \<mapsto> task_name ''web'' 11 ''x7''], Pid = 4711\<rparr>"
  have "container_inspect daemon_ops \<lparr>services = [], containers = [(''c1'', ?ct)]\<rparr> ''c1'' = Inr ?ct"
    by (simp add: daemon_ops_def)
  from implicit_owner_is_first_task [OF this, of "''web''" 11 "''x7''" "''host''"] show ?thesis by simp
qed

text \<open>
  C34 (overtaken_stop_leaves_monitor). The two channels do not keep the order of the events. A container
  of this node that starts and dies while the main goroutine is busy is in both channels; when
  the select takes the stop first, it finds nothing to cancel, and the start that follows
  leaves a monitor running for a container that is gone, with nothing under way that would end it.
\<close>

theorem overtaken_stop_leaves_monitor:
  assumes "quiescent n" "monitoringCtxMap (node_monitors n) c = None"
    and "CheckOwnedContainer D hostname c (docker (scaler_state n)) = Inr True"
  shows "\<exists>n'. node_run D hostname
      [DockerEvent ''start'' c, Internal, DockerEvent ''die'' c, Internal, Internal, Internal] n n' \<and>
    quiescent n' \<and> monitored n' c \<and> monitoringCtxMap (node_monitors n') c \<noteq> None"
proof -
  let ?s1 = "AddContainerLog c (Finite 0) (scaler_state n)"
  let ?n1 = "n\<lparr>scaler_state := ?s1, notifier := Notifying (Started c)\<rparr>"
  let ?n2 = "?n1\<lparr>StartChan := [c], notifier := Listening\<rparr>"
  let ?n3 = "?n2\<lparr>scaler_state := RemoveContainerLog c ?s1, notifier := Notifying (Stopped c)\<rparr>"
  let ?n4 = "?n3\<lparr>StopChan := [c], notifier := Listening\<rparr>"
  let ?n5 = "?n4\<lparr>StopChan := [], node_monitors := container_step (Container (Stopped c)) (node_monitors n)\<rparr>"
  let ?n6 = "?n5\<lparr>StartChan := [], node_monitors := container_step (Container (Started c)) (node_monitors ?n5)\<rparr>"
  note q = assms(1) [unfolded quiescent_def]
  have "node_step D hostname (DockerEvent ''start'' c) n ?n1"
    using node_step.event [of n D hostname "''start''" c "Some (Started c)" ?s1] q docker_event_owned(1) [OF assms(3)] by simp
  moreover have "node_step D hostname Internal ?n1 ?n2"
    using node_step.send_start [of ?n1 c] q by (simp add: channel_capacity_def)
  moreover have "node_step D hostname (DockerEvent ''die'' c) ?n2 ?n3"
    using node_step.event [of ?n2 D hostname "''die''" c "Some (Stopped c)" "RemoveContainerLog c ?s1"]
      docker_event_owned(2) [of D hostname c ?s1] assms(3) by simp
  moreover have "node_step D hostname Internal ?n3 ?n4"
    using node_step.send_stop [of ?n3 c] q by (simp add: channel_capacity_def)
  moreover have "node_step D hostname Internal ?n4 ?n5"
    using node_step.receive_stop [of ?n4 c "[]"] by simp
  moreover have "node_step D hostname Internal ?n5 ?n6"
    using node_step.receive_start [of ?n5 c "[]"] by simp
  ultimately have "node_run D hostname
      [DockerEvent ''start'' c, Internal, DockerEvent ''die'' c, Internal, Internal, Internal] n ?n6"
    by (meson node_run.intros)
  moreover have "quiescent ?n6" "monitored ?n6 c" "monitoringCtxMap (node_monitors ?n6) c \<noteq> None"
    using assms(2) by (simp_all add: quiescent_def monitored_def stop_monitoring_def startMonitoring_def)
  ultimately show ?thesis by blast
qed

definition ex_node :: "(hmap, daemon) node" where
  "ex_node = NewEventNotifier ((ex_manager 1 [80] Map.empty Map.empty)
     \<lparr>docker := \<lparr>services = [], containers = [(''c1'', \<lparr>ContainerLabels =
        [''com.docker.swarm.task.name'' \<mapsto> ''web.1.x7''], Pid = 4711\<rparr>)]\<rparr>\<rparr>)"

lemma ex_node_owned:
  "CheckOwnedContainer daemon_ops (Inr ''host'') ''c1'' (docker (scaler_state ex_node)) = Inr True"
  by (simp add: CheckOwnedContainer_def ex_node_def NewEventNotifier_def daemon_ops_def)

theorem overtaken_stop_leaves_monitor_witness:
  "\<exists>n'. node_run daemon_ops (Inr ''host'')
      [DockerEvent ''start'' ''c1'', Internal, DockerEvent ''die'' ''c1'', Internal, Internal, Internal] ex_node n' \<and>
    quiescent n' \<and> monitored n' ''c1''"
  using overtaken_stop_leaves_monitor [OF _ _ ex_node_owned]
  by (fastforce simp: quiescent_def ex_node_def NewEventNotifier_def no_monitors_def)



text \<open>
  A container that the daemon has already removed when its end is reported is not stopped: the
  ownership check fails and the event is dropped.
\<close>

lemma die_of_removed_container_dropped:
  "container_inspect D (docker s) cid = Inl err \<Longrightarrow> docker_event D hostname ''die'' cid s = (None, s)"
  by (simp add: docker_event_def CheckOwnedContainer_def split: sum.split)

end
