(* ===== verification/Autoscaler_Setup.thy ===== *)
theory Autoscaler_Setup imports Conc_Req_Listener Cgroup_Monitor Container_Events begin

text \<open>
  The start of a process (\<^verbatim>\<open>src/autoscaler/autoscaler/autoscaler.go\<close>): the
  configuration with its defaults, the choice of the one resource that is monitored, the list
  of the other nodes, and \<open>main\<close> up to the point where everything runs. Reading the YAML file
  is left to its library, a parameter; Go's iteration order over a map is the order of an
  association list.
\<close>

section \<open>Configuration\<close>

record Config =
  LowerCPU :: float64
  UpperCPU :: float64
  LowerMB :: int
  UpperMB :: int
  LowerGB :: int
  UpperGB :: int
  LowerConcReq :: int
  UpperConcReq :: int
  ReqBufferLength :: int
  CollectionPeriod :: string
  KeepAlivePeriod :: string
  Iface :: string
  Managers :: "(string \<times> string) list"
  Workers :: "(string \<times> string) list"
  Logging :: "(string \<times> bool) list"

text \<open>What \<^verbatim>\<open>loadConfig\<close> sets before it reads the file.\<close>

definition default_config :: Config where
  "default_config = \<lparr>LowerCPU = Finite (- 1), UpperCPU = Finite (- 1), LowerMB = -1, UpperMB = -1, LowerGB = -1,
     UpperGB = -1, LowerConcReq = -1, UpperConcReq = -1, ReqBufferLength = 5,
     CollectionPeriod = ''10s'', KeepAlivePeriod = ''5s'', Iface = ''eth0'',
     Managers = [], Workers = [], Logging = []\<rparr>"

text \<open>The file is read, then unmarshalled over the defaults.\<close>

definition loadConfig ::
  "(string \<Rightarrow> go_error + string) \<Rightarrow> (string \<Rightarrow> Config \<Rightarrow> go_error + Config) \<Rightarrow> string \<Rightarrow> go_error + Config"
where
  "loadConfig ReadFile Unmarshal path =
     (case ReadFile path of
        Inl err \<Rightarrow> Inl err
      | Inr file \<Rightarrow> Unmarshal file default_config)"

datatype resource =
    CPU CPUResource
  | Memory MemoryResource
  | ConcReq ConcReqResource

text \<open>
  The choice of the resource: \<open>None\<close> when the process exits because more than one kind is
  configured, \<open>Some None\<close> when none is.
\<close>

definition choose_resource :: "Config \<Rightarrow> resource option option" where
  "choose_resource config =
     (let memoryMonitoringEnabled = (LowerMB config \<ge> 0 \<or> UpperMB config \<ge> 0 \<or> LowerGB config \<ge> 0 \<or> UpperGB config \<ge> 0);
          cpuMonitoringEnabled = (fle (Finite 0) (LowerCPU config) \<or> fle (Finite 0) (UpperCPU config));
          concReqMonitoringEnabled = (LowerConcReq config \<ge> 0 \<or> UpperConcReq config \<ge> 0)
      in if (cpuMonitoringEnabled \<and> memoryMonitoringEnabled) \<or> (memoryMonitoringEnabled \<and> concReqMonitoringEnabled) \<or>
            (cpuMonitoringEnabled \<and> concReqMonitoringEnabled) then None
         else if cpuMonitoringEnabled then Some (Some (CPU \<lparr>LowerUtil = LowerCPU config, UpperUtil = UpperCPU config\<rparr>))
         else if memoryMonitoringEnabled then
           Some (Some (Memory \<lparr>
             MemLowerLimit = (if LowerGB config > 0 then int64 (LowerGB config * 1024) else LowerMB config),
             MemUpperLimit = (if UpperGB config > 0 then int64 (UpperGB config * 1024) else UpperMB config)\<rparr>))
         else if concReqMonitoringEnabled then
           Some (Some (ConcReq \<lparr>LowerLimit = LowerConcReq config, UpperLimit = UpperConcReq config,
             BufferLength = ReqBufferLength config\<rparr>))
         else Some None)"

section \<open>Nodes\<close>

text \<open>The host name is an argument; a period that does not parse ends the process.\<close>

definition createswarmNodeInfo ::
  "go_error + string \<Rightarrow> Config \<Rightarrow> (go_error + SwarmNodeInfo) outcome"
where
  "createswarmNodeInfo hostname config =
     (case hostname of
        Inl err \<Rightarrow> Returns (Inl err)
      | Inr host \<Rightarrow>
         (case ParseDuration (KeepAlivePeriod config) of
            None \<Rightarrow> Exits
          | Some keepAlive \<Rightarrow>
              Returns (Inr \<lparr>AutoscalerManager = (host \<in> fst ` set (Managers config)),
                OtherNodes =
                  map (\<lambda>(name, ip). \<lparr>Hostname = name, IP = ip, Manager = True\<rparr>)
                    (filter (\<lambda>(name, ip). name \<noteq> host) (Managers config)) @
                  map (\<lambda>(name, ip). \<lparr>Hostname = name, IP = ip, Manager = False\<rparr>) (Workers config),
                KeepAlive = keepAlive\<rparr>)))"

section \<open>The start of the process\<close>

text \<open>
  What the rest of the system gives to \<open>main\<close>: the file system and the YAML library, the host
  name, the calls that load programs, the daemon.
\<close>

record 'd environment =
  ReadFile :: "string \<Rightarrow> go_error + string"
  Unmarshal :: "string \<Rightarrow> Config \<Rightarrow> go_error + Config"
  host_name :: "go_error + string"
  bpf :: bpf_calls
  client_error :: "go_error option"
  docker_client :: "'d docker_ops"
  daemon_state :: 'd

text \<open>
  A process that runs: its monitors, what it monitors and how often, the node information given
  to the scaler and the port listener, the scaler, the handle of the listener, the probe's maps
  when connections are monitored, and the ports of its HTTP servers.
\<close>

record 'm process =
  resource :: "resource option"
  collectionPeriod :: int
  nodeInfo :: SwarmNodeInfo
  scaler_instance :: ScaleManager
  portListener :: port_handle
  probe_maps_set :: "'m probe_maps option"
  process_monitors :: monitors
  http_ports :: "nat set"

text \<open>
  The probe is set up only for connections. \<open>None\<close> when the process exits.
\<close>

definition setup_probe ::
  "'m map_ops \<Rightarrow> bpf_calls \<Rightarrow> 'm probe_maps \<Rightarrow> resource option \<Rightarrow> 'm probe_maps option outcome"
where
  "setup_probe ops calls maps res =
     (case res of
        Some (ConcReq r) \<Rightarrow>
          (case InitBPFListener ops calls r maps of
             Returns (Inl _) \<Rightarrow> Exits
           | Returns (Inr (maps', _)) \<Rightarrow> Returns (Some maps')
           | Panics \<Rightarrow> Panics
           | Exits \<Rightarrow> Exits
           | Blocks \<Rightarrow> Blocks)
      | _ \<Rightarrow> Returns None)"

text \<open>
  From the resource on: the probe, the scaler and the port listener, which get to know each other
  and the node information, and a monitor for every running container of this node. The
  \<open>Monitor\<close> of a nil resource panics, which ends the process.
\<close>

definition start_monitors ::
  "'m map_ops \<Rightarrow> 'd environment \<Rightarrow> 'm probe_maps \<Rightarrow> Config \<Rightarrow> int \<Rightarrow> SwarmNodeInfo \<Rightarrow>
   resource option \<Rightarrow> 'm process outcome"
where
  "start_monitors ops env maps config period info res =
     (case setup_probe ops (bpf env) maps res of
        Returns maps' \<Rightarrow>
         (case fst (GetScaler (client_error env) (False, None)) of
            Returns (Some manager) \<Rightarrow>
         (case GetBPFListener (bpf env) (Iface config) (False, None) of
            ((Some listener, None), _) \<Rightarrow>
             (case GetRunningContainers (docker_client env) (host_name env) (daemon_state env) of
                Inl _ \<Rightarrow> Exits
              | Inr runningContainers \<Rightarrow>
                  if res = None \<and> runningContainers \<noteq> [] then Panics
                  else Returns \<lparr>resource = res, collectionPeriod = period, nodeInfo = info,
                    scaler_instance = SetNodeInfo_scaler info (SetPortListener manager),
                    portListener = SetNodeInfo info (SetScaler listener), probe_maps_set = maps',
                    process_monitors = fold startMonitoring runningContainers no_monitors,
                    http_ports = (if AutoscalerManager info then {4567, 4568} else {4568})\<rparr>)
          | _ \<Rightarrow> Exits)
          | _ \<Rightarrow> Panics)
      | Panics \<Rightarrow> Panics
      | Exits \<Rightarrow> Exits
      | Blocks \<Rightarrow> Blocks)"

definition main ::
  "'m map_ops \<Rightarrow> 'd environment \<Rightarrow> 'm probe_maps \<Rightarrow> string \<Rightarrow> 'm process outcome"
where
  "main ops env maps configPath =
     (case loadConfig (ReadFile env) (Unmarshal env) configPath of
        Inl _ \<Rightarrow> Exits
      | Inr config \<Rightarrow>
         (case ParseDuration (CollectionPeriod config) of
            None \<Rightarrow> Exits
          | Some period \<Rightarrow>
             (case createswarmNodeInfo (host_name env) config of
                Returns (Inr info) \<Rightarrow>
                 (case choose_resource config of
                    None \<Rightarrow> Exits
                  | Some res \<Rightarrow> start_monitors ops env maps config period info res)
              | _ \<Rightarrow> Exits)))"

section \<open>Lemmas\<close>

lemma monitors_inv_fold: "monitors_inv s \<Longrightarrow> monitors_inv (fold startMonitoring cs s)"
  by (induction cs arbitrary: s) (simp_all add: monitors_inv_start)

lemma no_monitors_simps [simp]:
  "monitors_inv no_monitors" "monitoringCtxMap no_monitors = Map.empty" "running no_monitors = []"
  by (simp_all add: monitors_inv_def no_monitors_def)

text \<open>After the start every container has an entry and a monitor, and no other has.\<close>

lemma fold_startMonitoring:
  "monitors_inv s \<Longrightarrow> dom (monitoringCtxMap s) = snd ` set (running s) \<Longrightarrow>
   dom (monitoringCtxMap (fold startMonitoring cs s)) = dom (monitoringCtxMap s) \<union> set cs \<and>
   snd ` set (running (fold startMonitoring cs s)) = dom (monitoringCtxMap s) \<union> set cs"
proof (induction cs arbitrary: s)
  case (Cons c cs)
  have "dom (monitoringCtxMap (startMonitoring c s)) = insert c (dom (monitoringCtxMap s))"
    "snd ` set (running (startMonitoring c s)) = insert c (snd ` set (running s))"
    using Cons.prems(2) by (auto simp: startMonitoring_def split: option.split)
  with Cons.IH [OF monitors_inv_start [OF Cons.prems(1)], of c] Cons.prems(2) show ?case by simp
qed simp

lemma createswarmNodeInfo_KeepAlive:
  "createswarmNodeInfo host config = Returns (Inr info) \<Longrightarrow>
   ParseDuration (KeepAlivePeriod config) = Some (KeepAlive info)"
  by (auto simp: createswarmNodeInfo_def split: sum.splits option.splits)

lemma main_returns:
  assumes "main ops env maps path = Returns p"
  obtains config period info res listener ids where
    "loadConfig (ReadFile env) (Unmarshal env) path = Inr config"
    "ParseDuration (CollectionPeriod config) = Some period"
    "createswarmNodeInfo (host_name env) config = Returns (Inr info)"
    "choose_resource config = Some res"
    "initBPFPortListener (bpf env) (Iface config) = Inr listener"
    "GetRunningContainers (docker_client env) (host_name env) (daemon_state env) = Inr ids"
    "res = None \<longrightarrow> ids = []"
    "client_error env = None"
    "resource p = res" "collectionPeriod p = period" "nodeInfo p = info"
    "portListener p = SetNodeInfo info (SetScaler listener)"
    "scaler_instance p = \<lparr>has_client = True, has_port_listener = True, scaler_nodeInfo = info, has_operations = True\<rparr>"
    "setup_probe ops (bpf env) maps res = Returns (probe_maps_set p)"
    "process_monitors p = fold startMonitoring ids no_monitors"
    "http_ports p = (if AutoscalerManager info then {4567, 4568} else {4568})"
proof -
  from assms obtain config period info res where c: "loadConfig (ReadFile env) (Unmarshal env) path = Inr config"
    "ParseDuration (CollectionPeriod config) = Some period"
    "createswarmNodeInfo (host_name env) config = Returns (Inr info)" "choose_resource config = Some res"
    and s: "start_monitors ops env maps config period info res = Returns p"
    by (auto simp: main_def split: sum.splits option.splits outcome.splits)
  from s obtain listener ids where l: "initBPFPortListener (bpf env) (Iface config) = Inr listener"
    and i: "GetRunningContainers (docker_client env) (host_name env) (daemon_state env) = Inr ids"
    and n: "res = None \<longrightarrow> ids = []" "client_error env = None"
    and q: "setup_probe ops (bpf env) maps res = Returns (probe_maps_set p)"
      "p = \<lparr>resource = res, collectionPeriod = period, nodeInfo = info,
        scaler_instance = \<lparr>has_client = True, has_port_listener = True, scaler_nodeInfo = info, has_operations = True\<rparr>,
        portListener = SetNodeInfo info (SetScaler listener), probe_maps_set = probe_maps_set p, process_monitors = fold startMonitoring ids no_monitors,
        http_ports = (if AutoscalerManager info then {4567, 4568} else {4568})\<rparr>"
    by (auto simp: start_monitors_def GetBPFListener_def GetScaler_first SetNodeInfo_scaler_def SetPortListener_def
        split: outcome.splits sum.splits if_splits prod.splits option.splits)
  then have "resource p = res" "collectionPeriod p = period" "nodeInfo p = info" "portListener p = SetNodeInfo info (SetScaler listener)"
    "scaler_instance p = \<lparr>has_client = True, has_port_listener = True, scaler_nodeInfo = info, has_operations = True\<rparr>"
    "process_monitors p = fold startMonitoring ids no_monitors"
    "http_ports p = (if AutoscalerManager info then {4567, 4568} else {4568})"
    using arg_cong [OF q(2), of resource] arg_cong [OF q(2), of collectionPeriod] arg_cong [OF q(2), of nodeInfo]
      arg_cong [OF q(2), of portListener] arg_cong [OF q(2), of scaler_instance] arg_cong [OF q(2), of process_monitors] arg_cong [OF q(2), of http_ports]
    by simp_all
  with q(1) show thesis by (intro that [OF c l i n])
qed

section \<open>Properties\<close>

text \<open>
  C31 (main_monitors_owned_containers). A process that starts monitors exactly the containers that run
  on this node and that it owns, each once and under an entry that a stop event finds; it has a
  resource to monitor unless there is nothing to monitor, its scaler and its port listener know each
  other and the same node information, and only a manager serves scale requests.
\<close>

theorem main_monitors_owned_containers:
  assumes "main ops env maps path = Returns p"
    and "container_list (docker_client env) (daemon_state env) = Inr ids"
  defines "owned \<equiv> {c \<in> set ids. CheckOwnedContainer (docker_client env) (host_name env) c (daemon_state env) = Inr True}"
  shows "snd ` set (running (process_monitors p)) = owned \<and>
    dom (monitoringCtxMap (process_monitors p)) = owned \<and> monitors_inv (process_monitors p) \<and>
    (owned \<noteq> {} \<longrightarrow> resource p \<noteq> None) \<and>
    port_scaler (portListener p) \<and> port_nodeInfo (portListener p) = nodeInfo p \<and>
    has_port_listener (scaler_instance p) \<and> scaler_nodeInfo (scaler_instance p) = nodeInfo p \<and>
    (4567 \<in> http_ports p \<longleftrightarrow> AutoscalerManager (nodeInfo p))"
proof (rule main_returns [OF assms(1)])
  fix config period info res listener ids'
  assume ids': "GetRunningContainers (docker_client env) (host_name env) (daemon_state env) = Inr ids'"
    and res: "res = None \<longrightarrow> ids' = []" "resource p = res" "nodeInfo p = info"
    and mon: "process_monitors p = fold startMonitoring ids' no_monitors"
    and set: "portListener p = SetNodeInfo info (SetScaler listener)"
      "scaler_instance p = \<lparr>has_client = True, has_port_listener = True, scaler_nodeInfo = info, has_operations = True\<rparr>"
    and http: "http_ports p = (if AutoscalerManager info then {4567, 4568} else {4568})"
  from ids' assms(2) have "set ids' = owned" by (auto simp: GetRunningContainers_def owned_def)
  moreover have "dom (monitoringCtxMap (process_monitors p)) = set ids' \<and>
      snd ` set (running (process_monitors p)) = set ids'"
    using fold_startMonitoring [of no_monitors ids'] by (simp add: mon)
  moreover have "monitors_inv (process_monitors p)" by (simp add: mon monitors_inv_fold)
  ultimately show ?thesis using res http set by (auto simp: SetNodeInfo_def SetScaler_def)
qed

definition ex_env :: "Config \<Rightarrow> daemon environment" where
  "ex_env config = \<lparr>ReadFile = (\<lambda>_. Inr []), Unmarshal = (\<lambda>_ _. Inr config), host_name = Inr ''host'',
     bpf = ex_calls, client_error = None, docker_client = daemon_ops,
     daemon_state = \<lparr>services = [], containers = [(''c1'', \<lparr>ContainerLabels =
       [''com.docker.swarm.task.name'' \<mapsto> ''web.1.x7''], Pid = 4711\<rparr>),
       (''c2'', \<lparr>ContainerLabels = Map.empty, Pid = 4712\<rparr>)]\<rparr>\<rparr>"

definition ex_config :: Config where
  "ex_config = default_config\<lparr>LowerMB := 100, Managers := [(''host'', ''10.0.0.1'')]\<rparr>"

lemma ex_main_parts:
  "loadConfig (ReadFile (ex_env config)) (Unmarshal (ex_env config)) path = Inr config"
  "container_list (docker_client (ex_env config)) (daemon_state (ex_env config)) = Inr [''c1'', ''c2'']"
  "host_name (ex_env config) = Inr ''host''"
  "GetRunningContainers (docker_client (ex_env config)) (Inr ''host'') (daemon_state (ex_env config)) = Inr [''c1'']"
  "initBPFPortListener (bpf (ex_env config)) i = Inr (new_port_handle 2)"
  "client_error (ex_env config) = None"
  by (simp_all add: loadConfig_def ex_env_def GetRunningContainers_def CheckOwnedContainer_def daemon_ops_def
      initBPFPortListener_def ex_calls_def)

lemma ex_main_returns: "\<exists>p. main hmap_ops (ex_env ex_config) (ex_maps 1 9 0 0) path = Returns p"
proof -
  have "choose_resource ex_config = Some (Some (Memory \<lparr>MemLowerLimit = 100, MemUpperLimit = -1\<rparr>))"
    by (simp add: choose_resource_def ex_config_def default_config_def fle_def)
  moreover have "CollectionPeriod ex_config = ''10s''" "KeepAlivePeriod ex_config = ''5s''"
    by (simp_all add: ex_config_def default_config_def)
  ultimately show ?thesis
    by (simp add: main_def ex_main_parts ParseDuration_defaults createswarmNodeInfo_def start_monitors_def
        setup_probe_def GetBPFListener_def GetScaler_def initScaler_def)
qed

theorem main_monitors_owned_containers_witness:
  "\<exists>p. main hmap_ops (ex_env ex_config) (ex_maps 1 9 0 0) [] = Returns p \<and>
     snd ` set (running (process_monitors p)) = {''c1''}"
proof -
  obtain p where p: "main hmap_ops (ex_env ex_config) (ex_maps 1 9 0 0) [] = Returns p"
    using ex_main_returns by blast
  have "{c \<in> set [''c1'', ''c2'']. CheckOwnedContainer (docker_client (ex_env ex_config)) (host_name (ex_env ex_config)) c
      (daemon_state (ex_env ex_config)) = Inr True} = {''c1''}"
    by (auto simp: ex_env_def CheckOwnedContainer_def daemon_ops_def)
  with main_monitors_owned_containers [OF p ex_main_parts(2)] p show ?thesis by auto
qed

text \<open>
  The periods of the configuration, written as a whole number of seconds,
  are what the process polls and waits with, in nanoseconds, as long as they fit 63 bits.
\<close>

theorem periods_are_read_back:
  assumes "main ops env maps path = Returns p"
    and "loadConfig (ReadFile env) (Unmarshal env) path = Inr config"
    and "CollectionPeriod config = dec_digits n @ ''s''" "n * 10 ^ 9 < 2 ^ 63"
    and "KeepAlivePeriod config = dec_digits k @ ''s''" "k * 10 ^ 9 < 2 ^ 63"
  shows "collectionPeriod p = int n * 10 ^ 9 \<and> KeepAlive (nodeInfo p) = int k * 10 ^ 9"
proof (rule main_returns [OF assms(1)])
  fix config' period info res listener ids
  assume "loadConfig (ReadFile env) (Unmarshal env) path = Inr config'"
    and p: "ParseDuration (CollectionPeriod config') = Some period"
      "createswarmNodeInfo (host_name env) config' = Returns (Inr info)"
      "collectionPeriod p = period" "nodeInfo p = info"
  with assms(2) have [simp]: "config' = config" by simp
  have "ParseDuration (CollectionPeriod config) = Some (int (n * 10 ^ 9))"
    "ParseDuration (KeepAlivePeriod config) = Some (int (k * 10 ^ 9))"
    unfolding assms(3,5) by (rule ParseDuration_whole [OF unit_seconds]; use assms(4,6) in simp)+
  with p createswarmNodeInfo_KeepAlive [of "host_name env" config info] show ?thesis by simp
qed

theorem periods_are_read_back_witness:
  "\<exists>p. main hmap_ops (ex_env ex_config) (ex_maps 1 9 0 0) [] = Returns p \<and>
     collectionPeriod p = 10 * 10 ^ 9 \<and> KeepAlive (nodeInfo p) = 5 * 10 ^ 9"
proof -
  obtain p where p: "main hmap_ops (ex_env ex_config) (ex_maps 1 9 0 0) [] = Returns p"
    using ex_main_returns by blast
  have "CollectionPeriod ex_config = dec_digits 10 @ ''s''" "KeepAlivePeriod ex_config = dec_digits 5 @ ''s''"
    by (simp_all add: ex_config_def default_config_def dec_digits.simps char_of_def bit_iff_odd)
  from periods_are_read_back [OF p ex_main_parts(1) this(1) _ this(2)] p show ?thesis by auto
qed

text \<open>
  A configuration without limits is accepted, but as soon as a container
  of this node runs the process ends in a nil dereference.
\<close>

theorem nothing_to_monitor_panics:
  assumes "loadConfig (ReadFile env) (Unmarshal env) path = Inr config"
    and "ParseDuration (CollectionPeriod config) \<noteq> None" "ParseDuration (KeepAlivePeriod config) \<noteq> None"
    and "host_name env = Inr host" "choose_resource config = Some None" "client_error env = None"
    and "initBPFPortListener (bpf env) (Iface config) = Inr listener"
    and "container_list (docker_client env) (daemon_state env) = Inr ids" "c \<in> set ids"
    and "CheckOwnedContainer (docker_client env) (Inr host) c (daemon_state env) = Inr True"
  shows "main ops env maps path = Panics"
proof -
  have "GetRunningContainers (docker_client env) (Inr host) (daemon_state env) =
      Inr (filter (\<lambda>c. CheckOwnedContainer (docker_client env) (Inr host) c (daemon_state env) = Inr True) ids)"
    using assms(8) by (simp add: GetRunningContainers_def)
  moreover have "filter (\<lambda>c. CheckOwnedContainer (docker_client env) (Inr host) c (daemon_state env) = Inr True) ids \<noteq> []"
    using assms(9,10) by (auto simp: filter_empty_conv)
  ultimately show ?thesis
    using assms(1-7)
    by (auto simp: main_def createswarmNodeInfo_def start_monitors_def setup_probe_def GetBPFListener_def GetScaler_def initScaler_def)
qed

theorem nothing_to_monitor_panics_witness:
  "main hmap_ops (ex_env default_config) (ex_maps 1 9 0 0) [] = Panics"
proof -
  have "choose_resource default_config = Some None"
    by (simp add: choose_resource_def default_config_def fle_def)
  moreover have "ParseDuration (CollectionPeriod default_config) \<noteq> None"
    "ParseDuration (KeepAlivePeriod default_config) \<noteq> None"
    by (simp_all add: default_config_def ParseDuration_defaults)
  moreover have "CheckOwnedContainer (docker_client (ex_env default_config)) (Inr ''host'') ''c1''
      (daemon_state (ex_env default_config)) = Inr True"
    by (simp add: ex_env_def CheckOwnedContainer_def daemon_ops_def)
  ultimately show ?thesis
    using ex_main_parts nothing_to_monitor_panics [where c = "''c1''"] by (metis list.set_intros(1))
qed

text \<open>
  With only a lower memory limit configured the upper
  limit keeps its default of -1, and every reading of the usage is above it: each tick of the
  monitor asks for more replicas, whatever the usage.
\<close>

theorem upper_memory_limit_disabled_always_over:
  assumes "choose_resource config = Some (Some (Memory mem))"
    and "UpperMB config = -1" "UpperGB config = -1"
    and "fs (scope_file cid ''memory.current'') = Inr (dec_digits n @ [CHR 0x0A])" "n < 2 ^ 63"
  shows "memory_tick D net info mem fs cid s =
    scale_action D net info cid ''over'' (AddContainerLog cid (float64_of_int (int (n div (1024 * 1024)))) s)"
proof -
  have "MemUpperLimit mem = -1"
    using assms(1-3) by (auto simp: choose_resource_def Let_def split: if_splits)
  then show ?thesis by (subst memory_tick_number [of fs cid n, OF assms(4,5)]) simp
qed

theorem upper_memory_limit_disabled_always_over_witness:
  "memory_tick daemon_ops ex_net ex_info \<lparr>MemLowerLimit = 100, MemUpperLimit = -1\<rparr>
     (\<lambda>_. Inr (dec_digits 943718400 @ [CHR 0x0A])) ''c1'' (ex_manager 3 [80] Map.empty Map.empty) =
   scale_action daemon_ops ex_net ex_info ''c1'' ''over''
     (AddContainerLog ''c1'' (Finite 900) (ex_manager 3 [80] Map.empty Map.empty))"
proof -
  have "choose_resource (default_config\<lparr>LowerMB := 100\<rparr>) =
      Some (Some (Memory \<lparr>MemLowerLimit = 100, MemUpperLimit = -1\<rparr>))"
    by (simp add: choose_resource_def default_config_def fle_def)
  from upper_memory_limit_disabled_always_over [OF this, of "\<lambda>_. Inr (dec_digits 943718400 @ [CHR 0x0A])" "''c1''" 943718400]
  show ?thesis by (simp add: default_config_def float64_of_small_int)
qed

text \<open>
  Two nodes started from the same configuration, each under its own host name: whoever is listed
  as a manager acts as one, appears as a manager in the list of the other, and is what a worker's
  lookup of a manager finds when it is the only one listed.
\<close>

lemma nodes_know_each_other:
  assumes "Managers config = [(name, ip)]" "host \<noteq> name" "ParseDuration (KeepAlivePeriod config) = Some ka"
  shows "\<exists>manager other. createswarmNodeInfo (Inr name) config = Returns (Inr manager) \<and>
    createswarmNodeInfo (Inr host) config = Returns (Inr other) \<and>
    AutoscalerManager manager \<and> \<not> AutoscalerManager other \<and>
    GetManagerNode (OtherNodes other) = (\<lparr>Hostname = name, IP = ip, Manager = True\<rparr>, None) \<and>
    map (\<lambda>n. (Hostname n, IP n)) (OtherNodes manager) = Workers config"
  using assms by (simp add: createswarmNodeInfo_def case_prod_beta comp_def)

end
