(* ===== verification/Cgroup_Ingress.thy ===== *)
theory Cgroup_Ingress imports BPF_Maps begin

text \<open>
  The two archived predecessors of the port classifier, attached to the ingress of one
  container's cgroup: \<^verbatim>\<open>src/archive/cgroup_net_listen/bpf/cgroup-ingress-perf.c\<close>
  sends a perf event for every packet, \<^verbatim>\<open>cgroup-ingress.c\<close> beside it sets the only
  cell of an array map. Both return \<open>BPF_OK\<close>, which is 0; for a program of this kind the
  kernel documents 1 as pass and 0 as drop.
\<close>

definition BPF_OK :: int where "BPF_OK = 0"

text \<open>The returned verdict and the values sent to \<^verbatim>\<open>perf_event_map\<close>.\<close>

definition detect_first_packet_perf :: "int \<times> u64 list" where
  "detect_first_packet_perf = (BPF_OK, [1])"

text \<open>The returned verdict and \<^verbatim>\<open>signal_map\<close> afterwards.\<close>

definition detect_first_packet :: "'m map_ops \<Rightarrow> 'm \<Rightarrow> int \<times> 'm" where
  "detect_first_packet ops signal_map = (BPF_OK, update_ignore ops signal_map 0 1 BPF_ANY)"

text \<open>Once a packet has been seen the signal is set, and further packets leave it set.\<close>

context bpf_hash
begin

lemma detect_first_packet_signals:
  assumes "map_lookup ops m 0 = Some v"
  shows "map_lookup ops (snd (detect_first_packet ops m)) 0 = Some 1"
  using assms by (simp add: detect_first_packet_def lookup_update_any has_room_present)

end

end
