(* ===== verification/Spec2Isabelle.thy ===== *)
theory Spec2Isabelle
  imports Signal_Delivery Scale_Down_Steps Racing_Requests Swarm Map_Capacity Kprobe_CPUs Removal_Steps
    Monitor_Loops Log_Tables Autoscaler_Setup Cgroup_Ingress
begin

text \<open>
  A verification library for the Docker Swarm autoscaler in \<^verbatim>\<open>src/autoscaler\<close>.

  \<^bold>\<open>The program.\<close> Every node of a swarm runs one autoscaler process. A kprobe on
  \<^verbatim>\<open>tcp_recvmsg\<close> counts the connections of each tracked network namespace and sends a
  perf event when the count has been outside its limits for long enough; the Go process turns
  the event into a request to scale the container's service, which only the manager node
  carries out through the Docker API. A service at one replica that is idle gets a keep-alive
  goroutine; when its timer expires, every node listens on the service's published port and
  the service goes to zero. An ingress classifier in the kernel then waits for a packet to that
  port and wakes the service up.

  \<^bold>\<open>The theories\<close>, in the order in which they build on one another:

  \<^item> \<open>Prelude\<close>: machine types, little-endian encodings, alignment; the fact collections
    \<open>layout\<close>, \<open>offsets\<close> and \<open>bytes\<close>.
  \<^item> \<open>C_Layout\<close>: C types with sizes, alignments, bit fields and member offsets. It shows
    that a member lies inside its aggregate and is aligned.
  \<^item> \<open>Kernel_Types_Task\<close>, \<open>Kernel_Types_Net\<close>, \<open>Kernel_Types_Sock\<close>,
    \<open>Kernel_Types_Packet\<close>, \<open>Kernel_Types_BPF\<close>: the types of
    \<^verbatim>\<open>conc_req_monitoring/bpf/vmlinux.h\<close> that the two kernel programs walk through,
    member by member, each with its computed size and alignment.
  \<^item> \<open>Kernel_Memory\<close>: reads of kernel memory, and objects in it.
  \<^item> \<open>BPF_Maps\<close>: the eBPF hash maps as an interface (locale \<open>bpf_hash\<close>) with a map of
    bounded capacity that provides it.
  \<^item> \<open>Conc_Req_Kprobe\<close>: \<^verbatim>\<open>conc_req_monitoring/bpf/conc_req_monitoring.c\<close>, the whole
    handler, its abstract step \<open>probe_step\<close> and the refinement between them.
  \<^item> \<open>Probe_Debounce\<close>: runs of the handler over interleaved events, and when they signal.
  \<^item> \<open>Interleaving\<close>: threads that take turns, and the interfaces
    \<open>ending_statements\<close> and \<open>unhindered_statements\<close> for whatever is executed
    statement by statement: the handler of the probe, the removal of a namespace, the keep-alive
    goroutine and the replica changes provide them.
  \<^item> \<open>Kprobe_CPUs\<close>: the handler statement by statement, on several CPUs that take turns.
  \<^item> \<open>Port_Classifier\<close>: \<^verbatim>\<open>bpf_port_listen/bpf/tc-port-monitor.c\<close> on arbitrary
    packets.
  \<^item> \<open>Go_Prelude\<close>: errors, the ways a Go call ends, strings and numbers.
  \<^item> \<open>Go_Float\<close>: the float64 of Go, rounded to nearest even, with infinities and NaN, and a
    calculus of relative errors.
  \<^item> \<open>Go_Duration\<close>: \<^verbatim>\<open>time.ParseDuration\<close> and \<open>Seconds\<close>, which the
    configuration and the CPU monitor use.
  \<^item> \<open>Swarm_Server\<close>: \<^verbatim>\<open>server/server.go\<close>, the requests between nodes and their
    handlers.
  \<^item> \<open>Port_Listener\<close>: \<^verbatim>\<open>bpf_port_listen/listener.go\<close>; the interface \<open>scaler\<close>
    is what it needs of the service scaler.
  \<^item> \<open>Docker_API\<close>: the daemon as an interface (locale \<open>docker_api\<close>) with a daemon
    that provides it.
  \<^item> \<open>Scale_Manager\<close>: \<^verbatim>\<open>scale/scale.go\<close>, replica changes, keep-alive and
    ownership.
  \<^item> \<open>Keep_Alive\<close>: the scaler as a state machine, its invariant, the specification
    \<open>replica_spec\<close> and what becomes of keep-alive operations.
  \<^item> \<open>Wake_Up\<close>: classifier, listener and scaler together, from a scale-down to the packet
    that undoes it.
  \<^item> \<open>Scale_Down_Steps\<close>: the keep-alive goroutine statement by statement, interleaved with
    everything else in the process.
  \<^item> \<open>Replica_Change_Steps\<close>: a replica change statement by statement, any number of them at
    once, and the bounds they keep the replicas in.
  \<^item> \<open>Racing_Requests\<close>: two replica changes that come at once: what they lose, strand or
    block.
  \<^item> \<open>Swarm\<close>: several nodes, the servers that \<open>main\<close> starts on each, and the delivery of
    requests between them.
  \<^item> \<open>Conc_Req_Listener\<close>: \<^verbatim>\<open>conc_req_monitoring/conc_req_monitoring.go\<close>, from the
    limits and the samples of the probe to the scaling request.
  \<^item> \<open>Signal_Delivery\<close>: the event loop and the monitors of that file as goroutines that
    meet on unbuffered channels.
  \<^item> \<open>Map_Capacity\<close>: the declarations of the eight maps, and the probe with its Go process
    as a step relation: how full the maps get and what removals leave behind.
  \<^item> \<open>Removal_Steps\<close>: the removal of a namespace statement by statement, with events of the
    probe in between.
  \<^item> \<open>Cgroup_Monitor\<close>: \<^verbatim>\<open>cgroup_monitoring/cgroup_monitoring.go\<close>, the memory
    and the CPU monitor.
  \<^item> \<open>Monitor_Loops\<close>: the loops of the two monitors over what their select yields.
  \<^item> \<open>Log_Tables\<close>: \<^verbatim>\<open>logging/logging.go\<close>, the events and the files that
    show the tables.
  \<^item> \<open>Container_Events\<close>: Docker's events, the two channels they are passed on over
    (\<^verbatim>\<open>ListenForEvents\<close>) and the monitors of containers.
  \<^item> \<open>Autoscaler_Setup\<close>: \<^verbatim>\<open>autoscaler/autoscaler.go\<close>, from the configuration
    to the running process: the choice of the resource, the node list, the start of the monitors
    and the servers (\<open>main\<close>), with every exit.
  \<^item> \<open>Cgroup_Ingress\<close>: the two archived programs of
    \<^verbatim>\<open>src/archive/cgroup_net_listen/bpf\<close>.
  \<^item> this theory: from a signal of the kernel probe to the replicas of the service, on the
    manager and from a worker, and the life of an idle service from the signal to the packet that
    wakes it.

  \<^bold>\<open>Correspondence.\<close> Definitions bear the names of the functions they model. C structures
  are laid out, not abstracted: the kprobe reads bytes at computed offsets. Integers keep their
  width. A Go function is a function of the state it changes, with an error option or an
  outcome (returns, panics, exits, blocks) as its result. Code outside the repository is a
  parameter with its documented behaviour as a locale: kernel memory and maps, the Docker
  daemon, the network. Each locale is interpreted, and the witnesses run on the instance.

  \<^bold>\<open>What is shown.\<close> For the kprobe: the namespace walk returns the inode number, the handler
  refines the abstract step, namespaces do not interfere, and over any interleaving a signal is
  sent exactly when the streak of breaching counts reaches the buffer length, once until
  re-armed. On several CPUs, whose statements alone are that handler, a namespace gets at most one
  signal for each CPU, whatever else happens to the maps, and two CPUs do signal twice or lose a
  connection. As long as no event interrupts a removal, the maps stay within their
  declarations and the probe always has room for a tracked namespace; a removal that an event
  interrupts leaves entries behind. For the classifier: it never reads outside a packet, never drops one and reports
  exactly the monitored ports, save with IP options. For the nodes: requests reach the
  operations they are meant for, and a packet on any node brings a service back from zero, by
  the same change whichever node sees it. For the scaler: the replica specification, one
  keep-alive goroutine for a service, no scale-down before every node listens, and the
  consistency of the port tables in every reachable state; the goroutine is the sequence of its
  statements and ends after six of them. Replica changes are served without a lock: any number of
  them at once keep the replicas between one and one more for each request to scale up, and each ends after at most nine statements or waits at its send, but two
  may add a single replica, leave a keep-alive goroutine that no request ends, or wait for ever. For the CPU and memory monitors: which usages scale,
  with the error of the float64 arithmetic bounded, and that a load between the thresholds never
  does, unless a reading fails. For a process: it monitors the containers it
  owns, each once, with the periods of its configuration. A signal of the probe changes its
  service's replicas as specified, on the manager and over the network from a worker, and an idle
  service goes to sleep and wakes up again. Other theorems state what the code does where it is not what
  it means to do: stranded keep-alive operations, the wake-up lost to a concurrent scale-down,
  stops that overtake starts, disabled limits, lost first connections, unfinished removals and
  the maps they exhaust, the stopped event loop.

  \<^bold>\<open>Bounds.\<close> No definition takes fuel: loops are over lists, and the recursions that are not
  structural (\<open>strings_Fields\<close>, \<open>duration_parts\<close>, \<open>run_scale_down\<close>) end because
  a measure shrinks. The listener's loop over all reads to come (\<open>listen_loop\<close>) is partial;
  \<open>listen_loop_prefix\<close> shows that it ends with the result of \<open>listenForEvents\<close> once the
  listener is closed. Map capacities are the parameter \<open>has_room\<close> of the theorems that need
  room; \<open>Map_Capacity\<close> derives it from the declared sizes.

  \<^bold>\<open>Not modelled.\<close> What deletions by the Go process and the kernel's reuse of freed map elements
  between two statements of the handler do to the counts (the bound on the signals holds under
  all of it), and what the C compiler may merge or reorder in the handler; accesses that overlap in time to the
  unsynchronised Go maps of the scaler and the log tables; the
  text of trace and event messages and the calls that record them; the cleaning of request paths by the HTTP library; what the libraries do when a program is loaded and attached (their errors
  are parameters); YAML decoding and flags; the file systems \<^verbatim>\<open>/proc\<close> and
  \<^verbatim>\<open>/sys/fs/cgroup\<close> (parameters); generated bindings, archived Python and Go
  prototypes, measurement scripts and infrastructure files.
\<close>

section \<open>Requests that succeed\<close>

lemma updateServiceConstraints_accepted:
  assumes "docker_api D" "accepts_updates D" "service_inspect D (docker s) sid = Inr svc"
    and "Labels (Spec svc) ''autoscaler.handlerNode'' = None \<or> Placement (Spec svc) \<noteq> None"
  shows "fst (updateServiceConstraints D svc add s) = Returns None"
proof -
  have "service_inspect D (docker s) (ID svc) = Inr svc"
    by (rule docker_api.inspect_by_id [OF assms(1,3)])
  then have "fst (service_update D (docker s) (ID svc) (Version svc) sp) = None" for sp
    using assms(2) by (auto simp: accepts_updates_def)
  then show ?thesis
    using assms(4) by (auto simp: updateServiceConstraints_def Let_def split_beta split: option.split)
qed

lemma scaleTo_after_constraints:
  assumes D: "docker_api D" "accepts_updates D" and svc: "service_inspect D (docker s) sid = Inr svc"
    and "Replicated (Spec svc) \<noteq> None"
    and "Labels (Spec svc) ''autoscaler.handlerNode'' = None \<or> Placement (Spec svc) \<noteq> None"
  defines "r \<equiv> (\<lambda>b add. if b then updateServiceConstraints D svc add s else (Returns None, s))"
  shows "fst (r b add) = Returns None \<and> fst (scaleTo D sid n (snd (r b add))) = Returns None"
proof (cases b)
  case True
  have ok: "updateServiceConstraints D svc add s = (Returns None, snd (updateServiceConstraints D svc add s))"
    using updateServiceConstraints_accepted [OF D svc assms(5)] by (simp add: prod_eq_iff)
  from docker_api.updateServiceConstraints_inspect [OF D(1) ok svc] obtain v where
    "service_inspect D (docker (snd (updateServiceConstraints D svc add s))) sid =
       Inr (svc\<lparr>Version := v, Spec := pinned add (Spec svc)\<rparr>)" by blast
  from scaleTo_accepted [OF D(2) this] updateServiceConstraints_accepted [OF D svc assms(5)] True assms(4)
  show ?thesis by (simp add: r_def)
next
  case False
  then show ?thesis using scaleTo_accepted [OF D(2) svc assms(4)] by (simp add: r_def)
qed

text \<open>A replica change succeeds when the daemon takes it and no keep-alive operation is pending.\<close>

lemma change_succeeds:
  assumes D: "docker_api D" "accepts_updates D" and svc: "service_inspect D (docker s) sid = Inr svc"
    and n: "Replicated (Spec svc) = Some (Some n)"
    and pl: "Labels (Spec svc) ''autoscaler.handlerNode'' = None \<or> Placement (Spec svc) \<noteq> None"
    and "AutoscalerManager info" "keepAliveOps s sid = None"
  shows "fst (ChangeServiceReplicas D info sid (signal_direction sg) s) = Returns None"
proof -
  have rep: "Replicated (Spec svc) \<noteq> None" using n by simp
  let ?u = "\<lambda>b add. if b then updateServiceConstraints D svc add s else (Returns None, s)"
  note ok = scaleTo_after_constraints [OF D svc rep pl]
  have chk: "fst (check (?u b add) m (\<lambda>s1. scaleTo D sid k s1)) = Returns None" for b add m k
    using ok [of b add k] by (cases "?u b add") (simp add: check_def)
  have keep: "keepAliveOps (snd (?u b add)) sid = None" for b add using assms(7) by (cases b) simp_all
  have chk2: "fst (check (?u b add) m (\<lambda>s1. check (cancel_keep_alive sid s1) [] (\<lambda>s2. scaleTo D sid k s2))) = Returns None"
    for b add m k
    using ok [of b add k] keep [of b add] by (cases "?u b add") (simp add: check_def cancel_keep_alive_def)
  show ?thesis
  proof (cases sg)
    case Upper
    then show ?thesis
      using chk2 [of "n = 1" False] svc n assms(6) by (simp add: ChangeServiceReplicas_def signal_direction_def)
  next
    case Lower
    then show ?thesis
      using chk [of "n - 1 = 1" True] svc n assms(6,7)
      by (cases "1 < n") (simp_all add: ChangeServiceReplicas_def signal_direction_def)
  qed
qed

section \<open>From a signal to the replicas\<close>

lemma dispatch_signal:
  "namespaceToContext c k = Some nsctx \<Longrightarrow> \<not> Done nsctx \<Longrightarrow>
   dispatch_sample (c\<lparr>probe := p\<rparr>) (data_bytes (signal_event k sg) @ pad) =
     Some (Signal nsctx, bytes_string (message (signal_event k sg)))"
  by (simp add: dispatch_sample_def decode_data_bytes)

text \<open>
  C4 (signal_scales_service). The whole way from the kernel to the daemon on a manager node: a
  sample of the probe for a monitored container, padded or not, is dispatched to the container's
  monitor, which changes the replicas of the container's service as the specification says for
  the signal's direction, and re-arms the probe for the namespace.
\<close>

theorem signal_scales_service:
  fixes c :: "'m conc_req" and s :: "('m, 'd) manager"
  assumes "bpf_hash ops" and D: "docker_api D" "accepts_updates D" and mgr: "AutoscalerManager info"
    and probe: "kprobe_tcp_recvmsg ops rd task ctx (probe c) = (p', [signal_event k sg])"
    and ctx: "namespaceToContext c k = Some nsctx" "\<not> Done nsctx"
    and svc: "FindServiceIDFromContainer D cid s = Inr sid" "service_inspect D (docker s) sid = Inr svc"
      "Replicated (Spec svc) = Some (Some n)" "keepAliveOps s sid = None"
      "Labels (Spec svc) ''autoscaler.handlerNode'' = None \<or> Placement (Spec svc) \<noteq> None"
  shows "\<exists>msg. dispatch_sample (c\<lparr>probe := p'\<rparr>) (data_bytes (signal_event k sg) @ pad) = Some (Signal nsctx, msg) \<and>
    (let (r, c', s') = monitor_signal ops D net info cid sid k msg (c\<lparr>probe := p'\<rparr>, s) in
       r = Returns True \<and> \<not> suppressed (view ops (probe c') k) \<and>
       (\<exists>v. service_inspect D (docker s') sid =
          Inr (svc\<lparr>Version := v, Spec := replica_spec (signal_direction sg) n (Spec svc)\<rparr>)))"
proof -
  let ?msg = "bytes_string (message (signal_event k sg))" and ?c = "c\<lparr>probe := p'\<rparr>"
  let ?r = "ChangeServiceReplicas D info sid (signal_direction sg) s"
  have "dispatch_sample ?c (data_bytes (signal_event k sg) @ pad) = Some (Signal nsctx, ?msg)"
    using ctx by (rule dispatch_signal)
  moreover have ok: "?r = (Returns None, snd ?r)"
    using change_succeeds [OF D svc(2,3,5) mgr svc(4), of sg] by (simp add: prod_eq_iff)
  have "ScaleService D info cid (signal_direction sg) s = (Returns None, snd ?r)"
    by (simp add: ScaleService_def svc(1)) (subst ok, simp add: check_def)
  then have "monitor_signal ops D net info cid sid k ?msg (?c, s) =
      (Returns True, addNamespaceToScalingMap ops k ?c, snd ?r)"
    using mgr by (simp add: monitor_signal_def threshold_direction_signal)
  moreover have "\<not> suppressed (view ops (probe (addNamespaceToScalingMap ops k ?c)) k)"
    by (simp add: bpf_hash.rearm_view [OF assms(1)])
  moreover have "\<exists>v. service_inspect D (docker (snd ?r)) sid =
      Inr (svc\<lparr>Version := v, Spec := replica_spec (signal_direction sg) n (Spec svc)\<rparr>)"
    by (rule docker_api.ChangeServiceReplicas_spec [OF D(1) svc(2,3) ok])
  ultimately show ?thesis by (intro exI [of _ ?msg]) simp
qed

lemma ex_upper_signal:
  "kprobe_tcp_recvmsg hmap_ops (ex_memory 77 1) 0x10000 0x40000 (probe (ex_conc 0)) =
     (fst (kprobe_tcp_recvmsg hmap_ops (ex_memory 77 1) 0x10000 0x40000 (probe (ex_conc 0))), [signal_event 77 Upper])"
  by (simp add: prod_eq_iff kprobe_tcp_recvmsg_def count_event_def scale_event_def buffer_event_def
      load_cell_def tcp_state_defs signal_data_event)

theorem signal_scales_service_witness:
  "let s = (ex_manager 3 [80] Map.empty Map.empty)
         \<lparr>docker := \<lparr>services = [ex_service 3 [80]], containers = [(''c1'', ex_container)]\<rparr>\<rparr>;
       p' = fst (kprobe_tcp_recvmsg hmap_ops (ex_memory 77 1) 0x10000 0x40000 (ex_maps 1 9 0 0))
   in \<exists>msg v. service_inspect daemon_ops (docker (snd (snd (monitor_signal hmap_ops daemon_ops ex_net ex_info
          ''c1'' ''web'' 77 msg ((ex_conc 0)\<lparr>probe := p'\<rparr>, s))))) ''web'' =
        Inr ((ex_service 3 [80])\<lparr>Version := v, Spec := (Spec (ex_service 3 [80]))\<lparr>Replicated := Some (Some 4)\<rparr>\<rparr>)"
proof -
  let ?s = "(ex_manager 3 [80] Map.empty Map.empty)
      \<lparr>docker := \<lparr>services = [ex_service 3 [80]], containers = [(''c1'', ex_container)]\<rparr>\<rparr>"
  have s: "FindServiceIDFromContainer daemon_ops ''c1'' ?s = Inr ''web''"
    "service_inspect daemon_ops (docker ?s) ''web'' = Inr (ex_service 3 [80])"
    by (simp_all add: FindServiceIDFromContainer_def daemon_ops_def daemon_inspect_def ex_container_def)
  have "keepAliveOps ?s ''web'' = None" "namespaceToContext (ex_conc 0) 77 = Some ex_context" by simp_all
  from signal_scales_service [where net = ex_net and info = ex_info and pad = "[]",
      OF hmap.bpf_hash_axioms daemon.docker_api_axioms daemon_accepts_updates _ ex_upper_signal this(2) _ s _ this(1)]
  show ?thesis by (auto simp: signal_direction_def split_beta replica_spec_def Let_def)
qed

text \<open>
  C5 (worker_signal_scales_service). On a worker the same signal takes the way over the network: the
  monitor posts a request to the manager and re-arms the probe, and the manager that receives the
  request changes the replicas of the service as the specification says.
\<close>

theorem worker_signal_scales_service:
  fixes c :: "'m conc_req" and s :: "('m, 'd) manager" and w :: "('m, 'd) swarm"
  assumes "bpf_hash ops" and D: "docker_api D" "accepts_updates D"
    and probe: "kprobe_tcp_recvmsg ops rd task ctx (probe c) = (p', [signal_event k sg])"
    and ctx: "namespaceToContext c k = Some nsctx" "\<not> Done nsctx"
    and worker: "\<not> AutoscalerManager info" "GetManagerNode (OtherNodes info) = (m, None)"
    and manager: "w (IP m) = Some sm" "AutoscalerManager (infos (IP m))"
    and svc: "service_inspect D (docker sm) sid = Inr svc" "Replicated (Spec svc) = Some (Some n)"
      "keepAliveOps sm sid = None" "Labels (Spec svc) ''autoscaler.handlerNode'' = None \<or> Placement (Spec svc) \<noteq> None"
  shows "\<exists>msg. dispatch_sample (c\<lparr>probe := p'\<rparr>) (data_bytes (signal_event k sg) @ pad) = Some (Signal nsctx, msg) \<and>
    (let (r, c', s') = monitor_signal ops D net info cid sid k msg (c\<lparr>probe := p'\<rparr>, s) in
       r = Returns True \<and> \<not> suppressed (view ops (probe c') k) \<and>
       (\<exists>sm' v. deliver ops D infos (last (sent s')) w (IP m) = Some sm' \<and>
          service_inspect D (docker sm') sid =
            Inr (svc\<lparr>Version := v, Spec := replica_spec (signal_direction sg) n (Spec svc)\<rparr>)))"
proof -
  let ?msg = "bytes_string (message (signal_event k sg))" and ?c = "c\<lparr>probe := p'\<rparr>"
  let ?r = "ChangeServiceReplicas D (infos (IP m)) sid (signal_direction sg) sm"
  have "dispatch_sample ?c (data_bytes (signal_event k sg) @ pad) = Some (Signal nsctx, ?msg)"
    using ctx by (rule dispatch_signal)
  moreover have "monitor_signal ops D net info cid sid k ?msg (?c, s) = (Returns True, addNamespaceToScalingMap ops k ?c,
      s\<lparr>sent := sent s @ [scale_post sid (signal_direction sg) (IP m)]\<rparr>)"
    using worker by (simp add: monitor_signal_def threshold_direction_signal)
  moreover have "\<not> suppressed (view ops (probe (addNamespaceToScalingMap ops k ?c)) k)"
    by (simp add: bpf_hash.rearm_view [OF assms(1)])
  moreover have "deliver ops D infos (scale_post sid (signal_direction sg) (IP m)) w (IP m) = Some (snd ?r)"
    using deliver_scale [of w "IP m" sm infos ops D sid "signal_direction sg"] manager by simp
  moreover have "?r = (Returns None, snd ?r)"
    using change_succeeds [OF D svc(1,2,4) manager(2) svc(3), of sg] by (simp add: prod_eq_iff)
  from docker_api.ChangeServiceReplicas_spec [OF D(1) svc(1,2) this]
  have "\<exists>v. service_inspect D (docker (snd ?r)) sid =
      Inr (svc\<lparr>Version := v, Spec := replica_spec (signal_direction sg) n (Spec svc)\<rparr>)" .
  ultimately show ?thesis by (intro exI [of _ ?msg]) simp
qed

theorem worker_signal_scales_service_witness:
  "let infos = (\<lambda>ip. if ip = ''10.0.0.1'' then ex_info else ex_worker_info);
       w = [''10.0.0.1'' \<mapsto> ex_manager 3 [80] Map.empty Map.empty];
       p' = fst (kprobe_tcp_recvmsg hmap_ops (ex_memory 77 1) 0x10000 0x40000 (probe (ex_conc 0)))
   in \<exists>msg sm' v. deliver hmap_ops daemon_ops infos (last (sent (snd (snd (monitor_signal hmap_ops daemon_ops ex_net
          ex_worker_info ''c1'' ''web'' 77 msg ((ex_conc 0)\<lparr>probe := p'\<rparr>, ex_manager 0 [80] Map.empty Map.empty))))))
          w ''10.0.0.1'' = Some sm' \<and>
        service_inspect daemon_ops (docker sm') ''web'' =
          Inr ((ex_service 3 [80])\<lparr>Version := v, Spec := (Spec (ex_service 3 [80]))\<lparr>Replicated := Some (Some 4)\<rparr>\<rparr>)"
proof -
  let ?infos = "\<lambda>ip. if ip = ''10.0.0.1'' then ex_info else ex_worker_info"
  let ?w = "[''10.0.0.1'' \<mapsto> ex_manager 3 [80] Map.empty Map.empty] :: (hmap, daemon) swarm"
  have w: "?w (IP \<lparr>Hostname = ''m1'', IP = ''10.0.0.1'', Manager = True\<rparr>) = Some (ex_manager 3 [80] Map.empty Map.empty)"
    "AutoscalerManager (?infos (IP \<lparr>Hostname = ''m1'', IP = ''10.0.0.1'', Manager = True\<rparr>))"
    "namespaceToContext (ex_conc 0) 77 = Some ex_context" "\<not> Done ex_context"
    "keepAliveOps (ex_manager 3 [80] Map.empty Map.empty) ''web'' = None"
    "Labels (Spec (ex_service 3 [80])) ''autoscaler.handlerNode'' = None \<or> Placement (Spec (ex_service 3 [80])) \<noteq> None"
    by simp_all
  from worker_signal_scales_service [where infos = ?infos and w = ?w and net = ex_net and pad = "[]" and cid = "''c1''"
      and s = "ex_manager 0 [80] Map.empty Map.empty",
      OF hmap.bpf_hash_axioms daemon.docker_api_axioms daemon_accepts_updates ex_upper_signal w(3,4) ex_worker_info_simps
        w(1,2) ex_inspect _ w(5,6)]
  show ?thesis by (auto simp: signal_direction_def split_beta replica_spec_def Let_def)
qed

section \<open>An idle service sleeps and wakes up\<close>

text \<open>
  C2 (idle_service_sleeps_and_wakes). The life of an idle service on the manager, from the kernel and
  back: a Lower signal of the probe for the one replica of a service is dispatched to its monitor,
  which starts a keep-alive goroutine, changes nothing yet and re-arms the probe; when the timer of
  the goroutine expires, the service goes to zero; the first packet for its port then passes, makes
  the classifier emit an event, and the sample of that event brings the service back to one.
\<close>

theorem idle_service_sleeps_and_wakes:
  fixes c :: "'m conc_req" and s :: "('m, 'd) manager" and p :: u16
  assumes ops: "bpf_hash ops" and D: "docker_api D" "accepts_updates D" and mgr: "AutoscalerManager info"
    and probe: "kprobe_tcp_recvmsg ops rd task ctx (probe c) = (p', [signal_event k Lower])"
    and ctx: "namespaceToContext c k = Some nsctx" "\<not> Done nsctx"
    and svc: "FindServiceIDFromContainer D cid s = Inr sid" "service_inspect D (docker s) sid = Inr svc"
      "Replicated (Spec svc) = Some (Some 1)" "PublishedPorts svc = ucast p # ports" "keepAliveOps s sid = None"
    and ports: "ports_consistent ops s" "has_room ops (PortsMap s) (ucast p)"
    and net: "SendListenRequestToAllNodes net info (ucast p) sid (sent s) = (None, tr)"
    and pkt: "length macs = 12" "length iph = 9" "length ipt = 10" "length src = 2" "16 \<le> length rest"
  shows "\<exists>msg c' s1 ch s2.
    dispatch_sample (c\<lparr>probe := p'\<rparr>) (data_bytes (signal_event k Lower) @ pad) = Some (Signal nsctx, msg) \<and>
    monitor_signal ops D net info cid sid k msg (c\<lparr>probe := p'\<rparr>, s) = (Returns True, c', s1) \<and>
    \<not> suppressed (view ops (probe c') k) \<and> docker s1 = docker s \<and>
    keepAliveOps s1 sid = Some ch \<and> goroutines s1 ch = Some (sid, Waiting) \<and>
    keepAliveAndScaleDown ops D net info sid TimerExpired (s1\<lparr>goroutines := (goroutines s1)(ch \<mapsto> (sid, Expired))\<rparr>) =
      (Returns (), s2) \<and>
    keepAliveOps s2 sid = None \<and>
    (\<exists>svc0. service_inspect D (docker s2) sid = Inr svc0 \<and> Replicated (Spec svc0) = Some (Some 0)) \<and>
    port_classifier ops (PortsMap s2) \<lparr>data = a, linear = packet_bytes macs ETH_P_IP iph 6 ipt src p rest\<rparr> =
      Some (TC_ACT_OK, [ucast p]) \<and>
    (\<exists>s3 svc1. handle_sample ops net info (scaleTo D) (u64_bytes (ucast p) @ pad')
        (s2\<lparr>goroutines := (goroutines s2)(ch := None)\<rparr>) = (Returns (), s3) \<and>
      service_inspect D (docker s3) sid = Inr svc1 \<and> Replicated (Spec svc1) = Some (Some 1) \<and>
      portToServiceID s3 (ucast p) = None)"
proof -
  let ?msg = "bytes_string (message (signal_event k Lower))" and ?c = "c\<lparr>probe := p'\<rparr>"
  let ?s = "start_keep_alive sid s" and ?ch = "next_chan s"
  let ?t = "?s\<lparr>goroutines := (goroutines ?s)(?ch \<mapsto> (sid, Expired))\<rparr>"
  have "dispatch_sample ?c (data_bytes (signal_event k Lower) @ pad) = Some (Signal nsctx, ?msg)"
    using ctx by (rule dispatch_signal)
  moreover have "ScaleService D info cid (signal_direction Lower) s = (Returns None, ?s)"
    using svc mgr by (simp add: ScaleService_def ChangeServiceReplicas_def signal_direction_def check_def)
  then have "monitor_signal ops D net info cid sid k ?msg (?c, s) =
      (Returns True, addNamespaceToScalingMap ops k ?c, ?s)"
    using mgr by (simp add: monitor_signal_def threshold_direction_signal)
  moreover have "\<not> suppressed (view ops (probe (addNamespaceToScalingMap ops k ?c)) k)"
    by (simp add: bpf_hash.rearm_view [OF ops])
  moreover have started: "keepAliveOps ?s sid = Some ?ch" "goroutines ?s ?ch = Some (sid, Waiting)" "docker ?s = docker s"
    by (simp_all add: start_keep_alive_def)
  moreover have t: "service_inspect D (docker ?t) sid = Inr svc" "keepAliveOps ?t sid \<noteq> None"
      "has_room ops (PortsMap ?t) (ucast p)" "SendListenRequestToAllNodes net info (ucast p) sid (sent ?t) = (None, tr)"
    and cons: "ports_consistent ops ?t"
    using svc(2) ports net by (simp_all add: start_keep_alive_def ports_consistent_def)
  then obtain s2 where run: "keepAliveAndScaleDown ops D net info sid TimerExpired ?t = (Returns (), s2)"
    and gone: "keepAliveOps s2 sid = None"
    using scale_down_succeeds [OF D(2) ops t(1) svc(4) _ t(2-4)] svc(3) by auto
  from scale_down_completes [OF D(1) ops t(1) run t(2) gone] svc(4) obtain svc0 where
    listening: "portToServiceID s2 (ucast p) = Some sid" "map_lookup ops (PortsMap s2) (ucast p) = Some 1"
    and zero: "service_inspect D (docker s2) sid = Inr svc0" "Replicated (Spec svc0) = Some (Some 0)" by auto
  let ?u = "s2\<lparr>goroutines := (goroutines s2)(?ch := None)\<rparr>"
  have "ports_consistent ops ?u"
    using bpf_hash.keepAliveAndScaleDown_consistent [OF ops run cons] by (simp add: ports_consistent_def)
  from packet_wakes [OF D ops this mgr _ _ _ _ pkt, where a = a and net = net and pad = pad' and sid = sid] listening zero
  have "port_classifier ops (PortsMap s2) \<lparr>data = a, linear = packet_bytes macs ETH_P_IP iph 6 ipt src p rest\<rparr> =
      Some (TC_ACT_OK, [ucast p])"
    and "\<exists>s3 svc1. handle_sample ops net info (scaleTo D) (u64_bytes (ucast p) @ pad') ?u = (Returns (), s3) \<and>
      service_inspect D (docker s3) sid = Inr svc1 \<and> Replicated (Spec svc1) = Some (Some 1) \<and>
      portToServiceID s3 (ucast p) = None"
    by (auto simp: split_beta prod_eq_iff Let_def)
  ultimately show ?thesis using run gone zero by blast
qed

definition ex_idle_service :: "(hmap, daemon) manager" where
  "ex_idle_service = (ex_manager 1 [80] Map.empty Map.empty)
     \<lparr>docker := \<lparr>services = [ex_service 1 [80]], containers = [(''c1'', ex_container)]\<rparr>\<rparr>"

lemma ex_idle_service:
  "FindServiceIDFromContainer daemon_ops ''c1'' ex_idle_service = Inr ''web''"
  "service_inspect daemon_ops (docker ex_idle_service) ''web'' = Inr (ex_service 1 [80])"
  "keepAliveOps ex_idle_service ''web'' = None" "ports_consistent hmap_ops ex_idle_service"
  "has_room hmap_ops (PortsMap ex_idle_service) 80"
  "fst (SendListenRequestToAllNodes ex_net ex_info 80 ''web'' (sent ex_idle_service)) = None"
  by (simp_all add: SendListenRequestToAllNodes_def SendListenRequest_def http_Post_def Keep_Alive.ex_net_def
      ex_info_def ex_idle_service_def FindServiceIDFromContainer_def daemon_ops_def daemon_inspect_def ex_container_def
      ports_consistent_def ex_manager_def hmap_defs has_room_def)

theorem idle_service_sleeps_and_wakes_witness:
  "let c = (ex_conc 0)\<lparr>probe := ex_maps 1 1 0 0\<rparr>;
       p' = fst (kprobe_tcp_recvmsg hmap_ops (ex_memory 77 1) 0x10000 0x40000 (probe c))
   in \<exists>msg c' s1 ch s2 svc0 s3 svc1.
     monitor_signal hmap_ops daemon_ops ex_net ex_info ''c1'' ''web'' 77 msg (c\<lparr>probe := p'\<rparr>, ex_idle_service) =
       (Returns True, c', s1) \<and>
     service_inspect daemon_ops (docker s2) ''web'' = Inr svc0 \<and> Replicated (Spec svc0) = Some (Some 0) \<and>
     handle_sample hmap_ops ex_net ex_info (scaleTo daemon_ops) (u64_bytes (ucast (80 :: u16)) @ [])
       (s2\<lparr>goroutines := (goroutines s2)(ch := None)\<rparr>) = (Returns (), s3) \<and>
     service_inspect daemon_ops (docker s3) ''web'' = Inr svc1 \<and> Replicated (Spec svc1) = Some (Some 1)"
proof -
  let ?c = "(ex_conc 0)\<lparr>probe := ex_maps 1 1 0 0\<rparr>"
  let ?run = "kprobe_tcp_recvmsg hmap_ops (ex_memory 77 1) 0x10000 0x40000 (probe ?c)"
  have "snd ?run = [signal_event 77 Lower]"
    by (simp add: kprobe_tcp_recvmsg_def count_event_def scale_event_def buffer_event_def
        load_cell_def tcp_state_defs signal_data_event)
  then have run: "?run = (fst ?run, [signal_event 77 Lower])" by (simp add: prod_eq_iff)
  obtain tr where net: "SendListenRequestToAllNodes ex_net ex_info (ucast (80 :: u16)) ''web'' (sent ex_idle_service) = (None, tr)"
    using ex_idle_service(6) by (cases "SendListenRequestToAllNodes ex_net ex_info 80 ''web'' (sent ex_idle_service)") simp
  have "AutoscalerManager ex_info" "namespaceToContext ?c 77 = Some ex_context" "\<not> Done ex_context"
    "Replicated (Spec (ex_service 1 [80])) = Some (Some 1)" "PublishedPorts (ex_service 1 [80]) = ucast (80 :: u16) # []"
    "has_room hmap_ops (PortsMap ex_idle_service) (ucast (80 :: u16))"
    using ex_idle_service(5) by simp_all
  from idle_service_sleeps_and_wakes [OF hmap.bpf_hash_axioms daemon.docker_api_axioms daemon_accepts_updates this(1) run
      this(2,3) ex_idle_service(1,2) this(4,5) ex_idle_service(3,4) this(6) net,
      where macs = "replicate 12 0" and iph = "replicate 9 0" and ipt = "replicate 10 0" and src = "replicate 2 0"
        and rest = "replicate 16 0" and pad = "[]" and pad' = "[]" and a = 0]
  show ?thesis unfolding Let_def by (simp only: length_replicate simp_thms le_refl) blast
qed

end
